(* ===== verification/Pb_Prelude.thy ===== *)
theory Pb_Prelude
  imports Main "HOL-Library.AList" "HOL-Library.Char_ord" "HOL-Library.List_Lexorder"
    "HOL-Library.Product_Lexorder" "HOL-Library.Multiset"
begin

text \<open>
  Shared vocabulary of the development: results of Python code that may raise,
  sequences of checks that stop at the first exception, Python dictionaries as
  association lists in insertion order, and facts on sorting by a key.
  Every other theory of the development imports this one, directly or not.
\<close>

named_theorems res_simps \<open>equations and inversions for results\<close>
named_theorems dict_simps \<open>lookup after update and deletion in dictionaries\<close>

section \<open>Exceptions and results\<close>

text \<open>
  The exceptions the modelled code raises or lets escape. A result is the
  exception (\<open>Inl\<close>) or the returned value (\<open>Inr\<close>).
\<close>

datatype pyexc =
    ClusterStateError string
  | ClusterCredentialError string
  | ClusterCheckpointError string
  | CmcLeaseError string
  | KeyError string
  | TypeError
  | ValueError string
  | AttributeError
  | FileNotFoundError
  | IntegrityError
  | UnicodeDecodeError

type_synonym 'a res = "pyexc + 'a"

definition res_bind :: "'a res \<Rightarrow> ('a \<Rightarrow> 'b res) \<Rightarrow> 'b res" where
  "res_bind m f = (case m of Inl e \<Rightarrow> Inl e | Inr x \<Rightarrow> f x)"

lemma res_bind_Inr [simp, res_simps]: "res_bind (Inr x) f = f x"
  by (simp add: res_bind_def)

lemma res_bind_Inl [simp, res_simps]: "res_bind (Inl e) f = Inl e"
  by (simp add: res_bind_def)

lemma res_bind_eq_Inr [res_simps]:
  "res_bind m f = Inr y \<longleftrightarrow> (\<exists>x. m = Inr x \<and> f x = Inr y)"
  by (cases m) simp_all

lemma res_bind_unit_eq_Inr:
  fixes m :: "unit res"
  shows "res_bind m f = Inr y \<longleftrightarrow> m = Inr () \<and> f () = Inr y"
  by (cases m) auto

lemma res_bind_eq_Inl [res_simps]:
  "res_bind m f = Inl e \<longleftrightarrow> m = Inl e \<or> (\<exists>x. m = Inr x \<and> f x = Inl e)"
  by (cases m) simp_all

lemma res_bind_cong [fundef_cong]:
  "m = m' \<Longrightarrow> (\<And>x. m' = Inr x \<Longrightarrow> f x = g x) \<Longrightarrow> res_bind m f = res_bind m' g"
  by (cases m') simp_all

definition is_ok :: "'a res \<Rightarrow> bool" where
  "is_ok m \<longleftrightarrow> (case m of Inl _ \<Rightarrow> False | Inr _ \<Rightarrow> True)"

lemma is_ok_simps [simp, res_simps]: "is_ok (Inr x)" "\<not> is_ok (Inl e)"
  by (simp_all add: is_ok_def)

lemma is_ok_iff [res_simps]: "is_ok m \<longleftrightarrow> (\<exists>x. m = Inr x)"
  by (cases m) simp_all

text \<open>\<open>raise_if c e\<close> is Python's \<open>if c: raise e\<close>.\<close>

definition raise_if :: "bool \<Rightarrow> pyexc \<Rightarrow> unit res" where
  "raise_if c e = (if c then Inl e else Inr ())"

lemma raise_if_Inr [simp, res_simps]: "raise_if c e = Inr () \<longleftrightarrow> \<not> c"
  by (simp add: raise_if_def)

lemma raise_if_Inr' [simp]: "raise_if c e = Inr u \<longleftrightarrow> \<not> c"
  by (cases u) simp

lemma raise_if_simps [simp]: "raise_if True e = Inl e" "raise_if False e = Inr ()"
  by (simp_all add: raise_if_def)

text \<open>\<open>when_ok c m\<close> is \<open>if c: m\<close>: a check made only on one branch.\<close>

definition when_ok :: "bool \<Rightarrow> unit res \<Rightarrow> unit res" where
  "when_ok c m = (if c then m else Inr ())"

lemma when_ok_Inr [simp, res_simps]: "when_ok c m = Inr () \<longleftrightarrow> (c \<longrightarrow> m = Inr ())"
  by (simp add: when_ok_def)

lemma when_ok_simps [simp]: "when_ok True m = m" "when_ok False m = Inr ()"
  by (simp_all add: when_ok_def)

text \<open>Forgetting a returned value, and running a list of checks in order.\<close>

definition void :: "'a res \<Rightarrow> unit res" where
  "void m = res_bind m (\<lambda>_. Inr ())"

lemma void_Inr [simp, res_simps]: "void m = Inr () \<longleftrightarrow> is_ok m"
  by (cases m) (simp_all add: void_def)

fun all_ok :: "unit res list \<Rightarrow> unit res" where
  "all_ok [] = Inr ()"
| "all_ok (m # ms) = (case m of Inl e \<Rightarrow> Inl e | Inr _ \<Rightarrow> all_ok ms)"

declare all_ok.simps(2) [simp del]

lemma all_ok_Cons_Inr [simp, res_simps]:
  "all_ok (m # ms) = Inr () \<longleftrightarrow> m = Inr () \<and> all_ok ms = Inr ()"
  by (cases m) (simp_all add: all_ok.simps)

lemma all_ok_Cons [simp]:
  "all_ok (Inr u # ms) = all_ok ms" "all_ok (Inl e # ms) = Inl e"
  by (simp_all add: all_ok.simps)

lemma all_ok_iff: "all_ok ms = Inr () \<longleftrightarrow> (\<forall>m \<in> set ms. m = Inr ())"
  by (induction ms) simp_all

lemma all_ok_append [simp]:
  "all_ok (ms @ ns) = (case all_ok ms of Inl e \<Rightarrow> Inl e | Inr _ \<Rightarrow> all_ok ns)"
  by (induction ms) (auto simp: all_ok.simps split: sum.splits)

text \<open>The error of a sequence of checks is the error of its first failing check.\<close>

lemma all_ok_first_error:
  "all_ok ms = Inr () \<Longrightarrow> all_ok (ms @ Inl e # ns) = Inl e"
  by (simp add: all_ok.simps)

text \<open>A comprehension whose element expression may raise.\<close>

fun res_map :: "('a \<Rightarrow> 'b res) \<Rightarrow> 'a list \<Rightarrow> 'b list res" where
  "res_map f [] = Inr []"
| "res_map f (x # xs) =
     res_bind (f x) (\<lambda>y. res_bind (res_map f xs) (\<lambda>ys. Inr (y # ys)))"

lemma res_map_cong [fundef_cong]:
  "xs = ys \<Longrightarrow> (\<And>x. x \<in> set ys \<Longrightarrow> f x = g x) \<Longrightarrow> res_map f xs = res_map g ys"
  by (induction ys arbitrary: xs) auto

lemma res_map_Inr_length: "res_map f xs = Inr ys \<Longrightarrow> length ys = length xs"
  by (induction xs arbitrary: ys) (auto simp: res_bind_eq_Inr)

lemma res_map_total: "(\<And>x. x \<in> set xs \<Longrightarrow> f x = Inr (g x)) \<Longrightarrow> res_map f xs = Inr (map g xs)"
  by (induction xs) simp_all

lemma res_map_Inr_map:
  "res_map f xs = Inr ys \<Longrightarrow> list_all2 (\<lambda>x y. f x = Inr y) xs ys"
  by (induction xs arbitrary: ys) (auto simp: res_bind_eq_Inr)

fun res_fold :: "('a \<Rightarrow> 's \<Rightarrow> 's res) \<Rightarrow> 'a list \<Rightarrow> 's \<Rightarrow> 's res" where
  "res_fold f [] s = Inr s"
| "res_fold f (x # xs) s = res_bind (f x s) (res_fold f xs)"

text \<open>An invariant of the loop body is an invariant of the loop.\<close>

lemma res_fold_invariant:
  assumes "res_fold f xs s = Inr t" and "P s"
    and "\<And>x u v. x \<in> set xs \<Longrightarrow> P u \<Longrightarrow> f x u = Inr v \<Longrightarrow> P v"
  shows "P t"
  using assms
proof (induction xs arbitrary: s)
  case Nil
  then show ?case by simp
next
  case (Cons x xs)
  from Cons.prems(1) obtain u where u: "f x s = Inr u" "res_fold f xs u = Inr t"
    by (auto simp: res_bind_eq_Inr)
  have "P u" using Cons.prems(2,3) u(1) by auto
  with u(2) show ?case by (rule Cons.IH) (use Cons.prems(3) in auto)
qed

lemma res_fold_append:
  "res_fold f (xs @ ys) s = res_bind (res_fold f xs s) (res_fold f ys)"
proof (induction xs arbitrary: s)
  case Nil
  then show ?case by simp
next
  case (Cons x xs)
  then show ?case by (cases "f x s") simp_all
qed

section \<open>Dictionaries\<close>

text \<open>
  A Python dictionary is an association list in insertion order. Assigning an
  existing key keeps its position, a new key goes to the end: this is
  \<open>AList.update\<close>. \<open>pop(k, None)\<close> is \<open>AList.delete\<close>.
\<close>

type_synonym ('k, 'v) dict = "('k \<times> 'v) list"

abbreviation dict_set :: "'k \<Rightarrow> 'v \<Rightarrow> ('k, 'v) dict \<Rightarrow> ('k, 'v) dict" where
  "dict_set \<equiv> AList.update"

abbreviation dict_pop :: "'k \<Rightarrow> ('k, 'v) dict \<Rightarrow> ('k, 'v) dict" where
  "dict_pop \<equiv> AList.delete"

definition dict_keys :: "('k, 'v) dict \<Rightarrow> 'k list" where
  "dict_keys d = map fst d"

definition dict_has :: "('k, 'v) dict \<Rightarrow> 'k \<Rightarrow> bool" where
  "dict_has d k \<longleftrightarrow> k \<in> fst ` set d"

lemma dict_has_iff [dict_simps]: "dict_has d k \<longleftrightarrow> map_of d k \<noteq> None"
  by (simp add: dict_has_def map_of_eq_None_iff)

lemma dict_has_set [simp, dict_simps]: "dict_has (dict_set k v d) k' \<longleftrightarrow> k' = k \<or> dict_has d k'"
  by (simp add: dict_has_iff update_conv')

lemma dict_has_pop [simp, dict_simps]: "dict_has (dict_pop k d) k' \<longleftrightarrow> k' \<noteq> k \<and> dict_has d k'"
  by (simp add: dict_has_iff delete_conv')

lemma map_of_dict_set [simp, dict_simps]:
  "map_of (dict_set k v d) k' = (if k' = k then Some v else map_of d k')"
  by (simp add: update_conv')

lemma map_of_dict_pop [simp, dict_simps]:
  "map_of (dict_pop k d) k' = (if k' = k then None else map_of d k')"
  by (simp add: delete_conv')

lemma set_dict_set: "set (dict_set k v d) \<subseteq> insert (k, v) (set d)"
  by (induction d) auto

text \<open>\<open>d.setdefault(k, v)\<close> and the grouping idiom \<open>d.setdefault(k, []).append(x)\<close>.\<close>

definition dict_setdefault :: "'k \<Rightarrow> 'v \<Rightarrow> ('k, 'v) dict \<Rightarrow> ('k, 'v) dict" where
  "dict_setdefault k v d = (if dict_has d k then d else d @ [(k, v)])"

lemma map_of_setdefault [simp, dict_simps]:
  "map_of (dict_setdefault k v d) k' =
     (case map_of d k' of None \<Rightarrow> if k' = k then Some v else None | Some w \<Rightarrow> Some w)"
  by (auto simp: dict_setdefault_def dict_has_iff map_add_def split: option.splits)

definition group_append :: "'k \<Rightarrow> 'v \<Rightarrow> ('k, 'v list) dict \<Rightarrow> ('k, 'v list) dict" where
  "group_append k x d =
     dict_set k ((case map_of d k of None \<Rightarrow> [] | Some xs \<Rightarrow> xs) @ [x]) d"

lemma map_of_group_append [simp, dict_simps]:
  "map_of (group_append k x d) k' =
     (if k' = k then Some ((case map_of d k of None \<Rightarrow> [] | Some xs \<Rightarrow> xs) @ [x])
      else map_of d k')"
  by (simp add: group_append_def)

text \<open>\<open>d.update(e)\<close>.\<close>

definition dict_update :: "('k, 'v) dict \<Rightarrow> ('k, 'v) dict \<Rightarrow> ('k, 'v) dict" where
  "dict_update d e = fold (\<lambda>(k, v). dict_set k v) e d"

lemma map_of_dict_update:
  "distinct (map fst e) \<Longrightarrow> map_of (dict_update d e) = map_of d ++ map_of e"
proof (induction e arbitrary: d)
  case Nil
  then show ?case by (simp add: dict_update_def)
next
  case (Cons p e)
  obtain k v where p: "p = (k, v)" by (cases p)
  have step: "dict_update d (p # e) = dict_update (dict_set k v d) e"
    by (simp add: dict_update_def p)
  have fresh: "map_of e k = None"
    using Cons.prems by (simp add: p map_of_eq_None_iff)
  have "map_of (dict_update d (p # e)) = map_of (dict_set k v d) ++ map_of e"
    using Cons by (simp add: step)
  also have "\<dots> = map_of d ++ map_of (p # e)"
    using fresh by (auto simp: p map_add_def fun_eq_iff split: option.splits)
  finally show ?case .
qed

text \<open>The dictionary of the same entries with its keys sorted, as the code writes it.\<close>

definition dict_sorted :: "('k :: linorder, 'v) dict \<Rightarrow> ('k, 'v) dict" where
  "dict_sorted d = sort_key fst d"

lemma set_dict_sorted [simp]: "set (dict_sorted d) = set d"
  by (simp add: dict_sorted_def)

lemma map_of_dict_sorted [simp]:
  "distinct (map fst d) \<Longrightarrow> map_of (dict_sorted d) = map_of d"
  by (rule map_of_inject_set [THEN iffD2]) (simp_all add: dict_sorted_def distinct_map inj_on_def)

lemma distinct_keys_set [simp]:
  "distinct (map fst (dict_set k v d)) \<longleftrightarrow> distinct (map fst d)"
proof -
  have "distinct (map fst d) \<Longrightarrow> distinct (map fst (dict_set k v d))"
    by (rule distinct_update)
  moreover have "distinct (map fst (dict_set k v d)) \<Longrightarrow> distinct (map fst d)"
    by (auto simp: update_keys split: if_splits)
  ultimately show ?thesis by blast
qed

lemma distinct_keys_pop [simp]:
  "distinct (map fst d) \<Longrightarrow> distinct (map fst (dict_pop k d))"
  by (simp add: distinct_delete)

section \<open>Sorting by a key\<close>

text \<open>
  Python's \<open>sorted(xs, key=f)\<close> is stable, as \<open>sort_key\<close> is. When the key is
  injective on the elements, the result depends on their multiset only.
\<close>

lemma sort_key_perm:
  assumes "mset xs = mset ys" and "inj_on f (set xs)"
  shows "sort_key f xs = sort_key f ys"
proof (rule properties_for_sort_key [symmetric])
  show "mset (sort_key f xs) = mset ys" using assms(1) by simp
  fix k
  assume "k \<in> set (sort_key f xs)"
  then have k: "k \<in> set xs" by simp
  have same: "\<And>zs. mset zs = mset xs \<Longrightarrow>
      filter (\<lambda>x. f k = f x) zs = replicate (count (mset xs) k) k"
  proof -
    fix zs
    assume zs: "mset zs = mset xs"
    have "filter (\<lambda>x. f k = f x) zs = filter (\<lambda>x. k = x) zs"
    proof (rule filter_cong [OF refl])
      fix x
      assume "x \<in> set zs"
      then have "x \<in> set xs" using zs mset_eq_setD by blast
      then show "(f k = f x) = (k = x)" using assms(2) k by (auto simp: inj_on_def)
    qed
    also have "\<dots> = replicate (length (filter (\<lambda>x. k = x) zs)) k"
      by (rule replicate_length_filter [symmetric])
    also have "\<dots> = replicate (count (mset zs) k) k"
      by (simp add: count_mset count_list_eq_length_filter)
    finally show "filter (\<lambda>x. f k = f x) zs = replicate (count (mset xs) k) k"
      using zs by simp
  qed
  show "filter (\<lambda>x. f k = f x) (sort_key f xs) = filter (\<lambda>x. f k = f x) ys"
    using same [of "sort_key f xs"] same [of ys] assms(1) by simp
next
  show "sorted (map f (sort_key f xs))" by simp
qed

text \<open>The last element of a sorted list is a greatest one.\<close>

lemma last_sort_key_greatest:
  assumes "x \<in> set xs"
  shows "f x \<le> f (last (sort_key f xs))"
proof -
  let ?ys = "sort_key f xs"
  have x: "x \<in> set ?ys" using assms by simp
  then obtain zs z where ys: "?ys = zs @ [z]" by (cases ?ys rule: rev_cases) auto
  have "sorted (map f (zs @ [z]))" unfolding ys [symmetric] by simp
  then have "\<forall>y \<in> set zs. f y \<le> f z" by (simp add: sorted_append)
  then show ?thesis using x unfolding ys by auto
qed

lemma last_sort_key_in: "xs \<noteq> [] \<Longrightarrow> last (sort_key f xs) \<in> set xs"
  by (metis last_in_set set_sort set_empty)

lemma res_map_map: "res_map f (map g xs) = res_map (f \<circ> g) xs"
  by (induction xs) simp_all

lemma res_bind_assoc: "res_bind (res_bind m f) g = res_bind m (\<lambda>x. res_bind (f x) g)"
  by (cases m) simp_all

lemma res_map_nil_filter:
  fixes f :: "'a \<Rightarrow> 'b list res" and g :: "'b list \<Rightarrow> 'c res"
  assumes "\<forall>x \<in> set xs. \<not> P x \<longrightarrow> f x = Inr []"
  shows "res_bind (res_map f (filter P xs)) (\<lambda>ys. g (concat ys)) = res_bind (res_map f xs) (\<lambda>ys. g (concat ys))"
  using assms
proof (induction xs arbitrary: g)
  case (Cons x xs)
  then have IH: "res_bind (res_map f (filter P xs)) (\<lambda>ys. h (concat ys)) = res_bind (res_map f xs) (\<lambda>ys. h (concat ys))" for h :: "'b list \<Rightarrow> 'c res" by simp
  show ?case
  proof (cases "P x")
    case True
    show ?thesis
    proof (cases "f x")
      case (Inr y)
      then show ?thesis using True IH [of "\<lambda>zs. g (y @ zs)"] by (simp add: res_bind_assoc)
    qed (simp add: True)
  next
    case False
    then show ?thesis using Cons.prems IH [of g] by (simp add: res_bind_assoc)
  qed
qed simp

end
