(* ===== verification/Py_Text.thy ===== *)
theory Py_Text
  imports Pb_Prelude
begin

text \<open>
  The string operations of Python that the modelled code uses. A \<open>string\<close> is a
  list of code points below 256, on which every definition here is exact:
  whitespace, case, \<open>int(text, base)\<close>, \<open>str(int)\<close>, zero padding, the
  acceptance of \<open>uuid.UUID(text)\<close> and the length in UTF-8.
\<close>

section \<open>Characters\<close>

definition char_ord :: "char \<Rightarrow> nat" where
  "char_ord c = of_char c"

definition is_space :: "char \<Rightarrow> bool" where
  "is_space c \<longleftrightarrow> (let n = char_ord c in
     9 \<le> n \<and> n \<le> 13 \<or> 28 \<le> n \<and> n \<le> 32 \<or> n = 133 \<or> n = 160)"

definition char_lower :: "char \<Rightarrow> char" where
  "char_lower c = (let n = char_ord c in
     if 65 \<le> n \<and> n \<le> 90 \<or> 192 \<le> n \<and> n \<le> 222 \<and> n \<noteq> 215 then char_of (n + 32) else c)"

definition digit_value :: "char \<Rightarrow> nat option" where
  "digit_value c = (let n = char_ord c in
     if 48 \<le> n \<and> n \<le> 57 then Some (n - 48)
     else if 97 \<le> n \<and> n \<le> 122 then Some (n - 87)
     else if 65 \<le> n \<and> n \<le> 90 then Some (n - 55)
     else None)"

definition digit_char :: "nat \<Rightarrow> char" where
  "digit_char d = char_of (48 + d)"

lemma digit_value_char [simp]: "d < 10 \<Longrightarrow> digit_value (digit_char d) = Some d"
  by (simp add: digit_value_def digit_char_def char_ord_def Let_def)

lemma digit_char_not [simp]:
  "d < 10 \<Longrightarrow> digit_char d \<noteq> CHR ''_''"
  "d < 10 \<Longrightarrow> digit_char d \<noteq> CHR '':''"
  "d < 10 \<Longrightarrow> digit_char d \<noteq> CHR ''-''"
  "d < 10 \<Longrightarrow> digit_char d \<noteq> CHR ''+''"
  "d < 10 \<Longrightarrow> \<not> is_space (digit_char d)"
proof -
  assume d: "d < 10"
  have ord: "char_ord (digit_char d) = 48 + d"
    using d by (simp add: char_ord_def digit_char_def)
  have ne: "\<And>c. char_ord c < 48 \<or> 57 < char_ord c \<Longrightarrow> digit_char d \<noteq> c"
    using ord d by auto
  show "digit_char d \<noteq> CHR ''_''" "digit_char d \<noteq> CHR '':''"
    "digit_char d \<noteq> CHR ''-''" "digit_char d \<noteq> CHR ''+''"
    by (rule ne, simp add: char_ord_def)+
  show "\<not> is_space (digit_char d)"
    using ord d by (simp add: is_space_def Let_def)
qed

lemmas digit_char_not' [simp] = digit_char_not(1-4) [THEN not_sym]

section \<open>Stripping, prefixes and removal of substrings\<close>

definition strip_by :: "(char \<Rightarrow> bool) \<Rightarrow> string \<Rightarrow> string" where
  "strip_by p s = rev (dropWhile p (rev (dropWhile p s)))"

definition str_strip :: "string \<Rightarrow> string" where
  "str_strip = strip_by is_space"

definition str_lower :: "string \<Rightarrow> string" where
  "str_lower s = map char_lower s"

definition startswith :: "string \<Rightarrow> string \<Rightarrow> bool" where
  "startswith s p \<longleftrightarrow> take (length p) s = p"

lemma startswith_append: "startswith s p \<longleftrightarrow> (\<exists>t. s = p @ t)"
  by (metis append_eq_conv_conj append_take_drop_id startswith_def)

text \<open>\<open>s.replace(p, "")\<close> for a non-empty \<open>p\<close>: occurrences from the left.\<close>

function remove_sub :: "string \<Rightarrow> string \<Rightarrow> string" where
  "remove_sub p [] = []"
| "remove_sub p (c # cs) =
     (if p \<noteq> [] \<and> startswith (c # cs) p then remove_sub p (drop (length p - 1) cs)
      else c # remove_sub p cs)"
  by pat_completeness auto
termination
  by (relation "measure (\<lambda>(p, s). length s)") auto

lemma strip_by_keeps:
  "x \<in> set s \<Longrightarrow> \<not> p x \<Longrightarrow> x \<in> set (strip_by p s)"
proof -
  have keep: "\<And>t. x \<in> set t \<Longrightarrow> \<not> p x \<Longrightarrow> x \<in> set (dropWhile p t)"
    by (metis Un_iff set_append set_takeWhileD takeWhile_dropWhile_id)
  show "x \<in> set s \<Longrightarrow> \<not> p x \<Longrightarrow> x \<in> set (strip_by p s)"
    by (simp add: strip_by_def keep)
qed

lemma remove_sub_keeps:
  "x \<in> set s \<Longrightarrow> x \<notin> set p \<Longrightarrow> x \<in> set (remove_sub p s)"
proof (induction p s rule: remove_sub.induct)
  case (1 p)
  then show ?case by simp
next
  case (2 p c cs)
  show ?case
  proof (cases "p \<noteq> [] \<and> startswith (c # cs) p")
    case True
    then have split: "c # cs = p @ drop (length p) (c # cs)"
      by (metis append_take_drop_id startswith_def)
    have "drop (length p) (c # cs) = drop (length p - 1) cs"
      using True by (cases p) simp_all
    with split have "x \<in> set p \<or> x \<in> set (drop (length p - 1) cs)"
      using "2.prems"(1) by (metis Un_iff set_append)
    with "2.prems"(2) have "x \<in> set (drop (length p - 1) cs)" by blast
    with True "2.IH"(1) "2.prems"(2) show ?thesis by simp
  next
    case False
    with "2.IH"(2) "2.prems" show ?thesis by auto
  qed
qed

section \<open>Numbers\<close>

text \<open>
  The digit loop of \<open>int(text, base)\<close>: a single underscore is accepted between two
  digits, \<open>ok\<close> says that the text may end here.
\<close>

fun parse_digits :: "nat \<Rightarrow> bool \<Rightarrow> nat \<Rightarrow> string \<Rightarrow> nat option" where
  "parse_digits b ok acc [] = (if ok then Some acc else None)"
| "parse_digits b ok acc (c # cs) =
     (if c = CHR ''_'' then (if ok then parse_digits b False acc cs else None)
      else case digit_value c of
        None \<Rightarrow> None
      | Some d \<Rightarrow> if d < b then parse_digits b True (acc * b + d) cs else None)"

definition skip_base_prefix :: "nat \<Rightarrow> string \<Rightarrow> string" where
  "skip_base_prefix b s =
     (if b = 16 \<and> (startswith s ''0x'' \<or> startswith s ''0X'')
      then (case drop 2 s of [] \<Rightarrow> [] | c # cs \<Rightarrow> if c = CHR ''_'' then cs else c # cs)
      else s)"

definition int_of_string :: "nat \<Rightarrow> string \<Rightarrow> int option" where
  "int_of_string b text =
     (let s = str_strip text;
          neg = startswith s ''-'';
          u = (if neg \<or> startswith s ''+'' then drop 1 s else s);
          ds = skip_base_prefix b u
      in if b = 10 \<and> length (filter (\<lambda>c. c \<noteq> CHR ''_'') ds) > 4300 then None
         else map_option (\<lambda>n. if neg then - int n else int n) (parse_digits b False 0 ds))"

fun nat_str :: "nat \<Rightarrow> string" where
  "nat_str n = (if n < 10 then [digit_char n] else nat_str (n div 10) @ [digit_char (n mod 10)])"

declare nat_str.simps [simp del]

definition int_str :: "int \<Rightarrow> string" where
  "int_str i = (if i < 0 then CHR ''-'' # nat_str (nat (- i)) else nat_str (nat i))"

definition pad_zero :: "nat \<Rightarrow> string \<Rightarrow> string" where
  "pad_zero w s = replicate (w - length s) (digit_char 0) @ s"

text \<open>\<open>f"{n:08d}"\<close>\<close>

definition int_str08 :: "int \<Rightarrow> string" where
  "int_str08 i = (if i < 0 then CHR ''-'' # pad_zero 7 (nat_str (nat (- i)))
                  else pad_zero 8 (nat_str (nat i)))"

text \<open>Printed digits parse back to the number they were printed from.\<close>

lemma parse_digits_append_digits:
  "\<forall>c \<in> set ds. \<exists>d < 10. c = digit_char d \<Longrightarrow> ds \<noteq> [] \<Longrightarrow>
   parse_digits 10 ok acc (ds @ es) =
     parse_digits 10 True (foldl (\<lambda>a c. a * 10 + the (digit_value c)) acc ds) es"
proof (induction ds arbitrary: ok acc)
  case Nil
  then show ?case by simp
next
  case (Cons c ds)
  then obtain d where d: "d < 10" "c = digit_char d" by auto
  show ?case
  proof (cases "ds = []")
    case True
    with d show ?thesis by simp
  next
    case False
    with Cons d show ?thesis by simp
  qed
qed

lemma nat_str_digits: "\<forall>c \<in> set (nat_str n). \<exists>d < 10. c = digit_char d"
proof (induction n rule: nat_str.induct)
  case (1 n)
  show ?case
  proof (cases "n < 10")
    case True
    then show ?thesis by (subst nat_str.simps) auto
  next
    case False
    with 1 have "\<forall>c \<in> set (nat_str (n div 10)). \<exists>d < 10. c = digit_char d" by simp
    moreover have "\<exists>d < 10. digit_char (n mod 10) = digit_char d"
      by (rule exI [of _ "n mod 10"]) simp
    ultimately show ?thesis using False by (subst nat_str.simps) auto
  qed
qed

lemma nat_str_nonempty [simp]: "nat_str n \<noteq> []"
  by (subst nat_str.simps) simp

lemma foldl_nat_str:
  "foldl (\<lambda>a c. a * 10 + the (digit_value c)) 0 (nat_str n) = n"
proof (induction n rule: nat_str.induct)
  case (1 n)
  show ?case
  proof (cases "n < 10")
    case True
    then show ?thesis by (subst nat_str.simps) simp
  next
    case False
    with 1 show ?thesis by (subst nat_str.simps) simp
  qed
qed

lemma foldl_zeros:
  "foldl (\<lambda>a c. a * 10 + the (digit_value c)) 0 (replicate k (digit_char 0)) = 0"
  by (induction k) simp_all

lemma pad_zero_digits: "\<forall>c \<in> set (pad_zero w (nat_str n)). \<exists>d < 10. c = digit_char d"
  using nat_str_digits [of n] by (auto simp: pad_zero_def intro: exI [of _ 0])

lemma parse_pad_zero: "parse_digits 10 False 0 (pad_zero w (nat_str n)) = Some n"
  using parse_digits_append_digits [OF pad_zero_digits, of w n False 0 "[]"]
  by (simp add: pad_zero_def foldl_zeros foldl_nat_str)

lemma pad_zero_inject: "pad_zero w (nat_str m) = pad_zero w (nat_str n) \<Longrightarrow> m = n"
  by (metis option.inject parse_pad_zero)

lemma int_str08_inject: "1 \<le> i \<Longrightarrow> 1 \<le> j \<Longrightarrow> int_str08 i = int_str08 j \<Longrightarrow> i = j"
  by (auto simp: int_str08_def dest!: pad_zero_inject)

lemma int_str08_no_colon: "1 \<le> i \<Longrightarrow> CHR '':'' \<notin> set (int_str08 i)"
  by (auto simp: int_str08_def dest!: bspec [OF pad_zero_digits])

text \<open>A padded decimal number reads back as itself, up to Python's limit of 4300 digits.\<close>

lemma int_of_padded:
  assumes "length (pad_zero w (nat_str n)) \<le> 4300"
  shows "int_of_string 10 (pad_zero w (nat_str n)) = Some (int n)"
proof -
  let ?s = "pad_zero w (nat_str n)"
  have digits: "\<forall>c \<in> set ?s. \<exists>d < 10. c = digit_char d" by (rule pad_zero_digits)
  then have ns: "\<forall>c \<in> set ?s. \<not> is_space c" by auto
  have strip: "str_strip ?s = ?s"
  proof -
    have drop: "dropWhile is_space t = t" if "\<forall>c \<in> set t. \<not> is_space c" for t
      using that by (cases t) simp_all
    have "dropWhile is_space (rev ?s) = rev ?s" by (rule drop) (use ns in simp)
    then show ?thesis using drop [OF ns] by (simp add: str_strip_def strip_by_def)
  qed
  obtain c cs where cs: "?s = c # cs" by (cases ?s) (simp_all add: pad_zero_def)
  with digits have "c \<noteq> CHR ''-''" "c \<noteq> CHR ''+''" by auto
  then have sign: "\<not> startswith ?s ''-''" "\<not> startswith ?s ''+''"
    by (simp_all add: cs startswith_def)
  have "filter (\<lambda>c. c \<noteq> CHR ''_'') ?s = ?s" using digits by (auto simp: filter_id_conv)
  then show ?thesis using assms parse_pad_zero [of w n]
    by (simp add: int_of_string_def Let_def strip sign skip_base_prefix_def)
qed

section \<open>UUID texts and UTF-8 length\<close>

text \<open>
  \<open>uuid.UUID(text)\<close> drops \<open>urn:\<close>, \<open>uuid:\<close>, surrounding braces and every hyphen and
  then wants 32 characters that \<open>int(_, 16)\<close> accepts.
\<close>

definition uuid_hex :: "string \<Rightarrow> string" where
  "uuid_hex s = filter (\<lambda>c. c \<noteq> CHR ''-'')
     (strip_by (\<lambda>c. c \<in> set ''{}'') (remove_sub ''uuid:'' (remove_sub ''urn:'' s)))"

definition uuid_accepts :: "string \<Rightarrow> bool" where
  "uuid_accepts s \<longleftrightarrow> (let h = uuid_hex s in
     length h = 32 \<and>
     (case int_of_string 16 h of None \<Rightarrow> False | Some n \<Rightarrow> 0 \<le> n \<and> n < 2 ^ 128))"

definition utf8_length :: "string \<Rightarrow> nat" where
  "utf8_length s = sum_list (map (\<lambda>c. if char_ord c < 128 then 1 else 2) s)"

definition has_control :: "string \<Rightarrow> bool" where
  "has_control s \<longleftrightarrow> (\<exists>c \<in> set s. char_ord c < 32 \<or> char_ord c = 127)"

text \<open>
  A character that is no digit, letter, sign, underscore or whitespace never
  survives in a text that \<open>int\<close> accepts.
\<close>

lemma parse_digits_chars:
  "parse_digits b ok acc s = Some n \<Longrightarrow> x \<in> set s \<Longrightarrow> x = CHR ''_'' \<or> digit_value x \<noteq> None"
  by (induction b ok acc s rule: parse_digits.induct) (auto split: if_splits option.splits)

lemma set_skip_base_prefix:
  "x \<in> set u \<Longrightarrow> x \<notin> set ''0xX_'' \<Longrightarrow> x \<in> set (skip_base_prefix b u)"
proof -
  assume x: "x \<in> set u" "x \<notin> set ''0xX_''"
  show ?thesis
  proof (cases "startswith u ''0x'' \<or> startswith u ''0X''")
    case True
    with x have d: "x \<in> set (drop 2 u)" by (auto simp: startswith_append)
    show ?thesis
    proof (cases "drop 2 u")
      case Nil
      with d show ?thesis by simp
    next
      case (Cons c cs)
      with d x(2) True show ?thesis by (auto simp: skip_base_prefix_def x(1))
    qed
  next
    case False
    with x show ?thesis by (simp add: skip_base_prefix_def)
  qed
qed

lemma int_of_string_chars:
  assumes "int_of_string b s = Some n" and "x \<in> set s"
    and "\<not> is_space x" and "x \<notin> set ''+-_0xX''" and "digit_value x = None"
  shows False
proof -
  define t where "t = str_strip s"
  define neg where "neg = startswith t ''-''"
  define u where "u = (if neg \<or> startswith t ''+'' then drop 1 t else t)"
  have "x \<in> set t" unfolding t_def str_strip_def
    using assms(2,3) by (rule strip_by_keeps)
  then have "x \<in> set u"
    using assms(4) by (auto simp: u_def neg_def startswith_append)
  then have x: "x \<in> set (skip_base_prefix b u)"
    by (rule set_skip_base_prefix) (use assms(4) in auto)
  obtain k where "parse_digits b False 0 (skip_base_prefix b u) = Some k"
    using assms(1) unfolding int_of_string_def Let_def t_def u_def neg_def
    by (auto split: if_splits)
  from parse_digits_chars [OF this x] assms(4,5) show False by auto
qed

lemma uuid_accepts_chars:
  assumes "uuid_accepts s" and "x \<in> set s"
    and "x \<in> set ''/.'' \<or> char_ord x = 0 \<or> char_ord x = 92"
  shows False
proof -
  have x: "\<not> is_space x" "digit_value x = None"
    using assms(3) by (auto simp: is_space_def digit_value_def char_ord_def Let_def)
  have ne: "x \<notin> set ''+-_0xX''" "x \<notin> set ''urn:''" "x \<notin> set ''uuid:''" "x \<notin> set ''{}''"
    "x \<noteq> CHR ''-''"
    using assms(3) by (auto simp: char_ord_def)
  have "x \<in> set (remove_sub ''uuid:'' (remove_sub ''urn:'' s))"
    using assms(2) ne(2,3) by (intro remove_sub_keeps) auto
  then have "x \<in> set (strip_by (\<lambda>c. c \<in> set ''{}'') (remove_sub ''uuid:'' (remove_sub ''urn:'' s)))"
    by (rule strip_by_keeps) (rule ne(4))
  then have "x \<in> set (uuid_hex s)"
    using ne(5) by (simp add: uuid_hex_def)
  moreover obtain n where "int_of_string 16 (uuid_hex s) = Some n"
    using assms(1) by (auto simp: uuid_accepts_def Let_def split: option.splits)
  ultimately show False using int_of_string_chars x ne(1) by blast
qed

end
