(* ===== verification/Py_Value.thy ===== *)
theory Py_Value
  imports Py_Text
begin

text \<open>
  The values of the JSON documents that the code keeps as \<open>dict[str, Any]\<close>, and
  the Python operations it applies to them: \<open>get\<close>, indexing, truth value,
  \<open>x or y\<close>, \<open>str\<close>, \<open>int\<close>, \<open>list\<close>, \<open>dict\<close> and \<open>==\<close>.
  Floating-point numbers are left out: signed operations reject them
  (\<open>_canonical_json\<close> of cluster_credentials.py) and no writer produces them.
\<close>

datatype pyval =
    PNone
  | PBool bool
  | PInt int
  | PStr string
  | PList "pyval list"
  | PDict "(string \<times> pyval) list"

type_synonym pydict = "(string, pyval) dict"

text \<open>
  A file that holds the JSON value of its text, one that cannot be read or parsed (\<open>OSError\<close> or \<open>JSONDecodeError\<close>),
  or one whose text is not UTF-8: reading it raises \<open>UnicodeDecodeError\<close>, which most readers do not catch.
\<close>

datatype json_file = Unreadable | Undecodable | Json pyval

section \<open>Access and truth values\<close>

definition py_get :: "pydict \<Rightarrow> string \<Rightarrow> pyval" where
  "py_get d k = (case map_of d k of None \<Rightarrow> PNone | Some v \<Rightarrow> v)"

definition py_get_or :: "pydict \<Rightarrow> string \<Rightarrow> pyval \<Rightarrow> pyval" where
  "py_get_or d k w = (case map_of d k of None \<Rightarrow> w | Some v \<Rightarrow> v)"

definition py_item :: "pydict \<Rightarrow> string \<Rightarrow> pyval res" where
  "py_item d k = (case map_of d k of None \<Rightarrow> Inl (KeyError k) | Some v \<Rightarrow> Inr v)"

fun truthy :: "pyval \<Rightarrow> bool" where
  "truthy PNone = False"
| "truthy (PBool b) = b"
| "truthy (PInt i) = (i \<noteq> 0)"
| "truthy (PStr s) = (s \<noteq> [])"
| "truthy (PList xs) = (xs \<noteq> [])"
| "truthy (PDict d) = (d \<noteq> [])"

definition py_or :: "pyval \<Rightarrow> pyval \<Rightarrow> pyval" where
  "py_or v w = (if truthy v then v else w)"

text \<open>\<open>v is True\<close> and \<open>v is False\<close> compare identities, so \<open>1 is True\<close> fails.\<close>

definition is_True :: "pyval \<Rightarrow> bool" where
  "is_True v \<longleftrightarrow> v = PBool True"

definition is_False :: "pyval \<Rightarrow> bool" where
  "is_False v \<longleftrightarrow> v = PBool False"

fun is_dict :: "pyval \<Rightarrow> bool" where
  "is_dict (PDict _) = True"
| "is_dict _ = False"

fun is_list :: "pyval \<Rightarrow> bool" where
  "is_list (PList _) = True"
| "is_list _ = False"

fun is_str :: "pyval \<Rightarrow> bool" where
  "is_str (PStr _) = True"
| "is_str _ = False"

text \<open>The entries of a dictionary, none for any other value (\<open>x if isinstance(x, dict) else {}\<close>).\<close>

fun dict_of :: "pyval \<Rightarrow> pydict" where
  "dict_of (PDict d) = d"
| "dict_of _ = []"

fun list_of :: "pyval \<Rightarrow> pyval list" where
  "list_of (PList xs) = xs"
| "list_of _ = []"

section \<open>\<open>str\<close> and \<open>repr\<close>\<close>

definition hex_char :: "nat \<Rightarrow> char" where
  "hex_char d = (if d < 10 then char_of (48 + d) else char_of (87 + d))"

definition repr_char :: "bool \<Rightarrow> char \<Rightarrow> string" where
  "repr_char dq c = (let n = char_ord c in
     if n = 92 then [c, c]
     else if n = 39 \<and> \<not> dq then [char_of (92 :: nat), c]
     else if n = 9 then [char_of (92 :: nat), CHR ''t'']
     else if n = 10 then [char_of (92 :: nat), CHR ''n'']
     else if n = 13 then [char_of (92 :: nat), CHR ''r'']
     else if n < 32 \<or> 127 \<le> n \<and> n \<le> 160 \<or> n = 173
     then [char_of (92 :: nat), CHR ''x'', hex_char (n div 16), hex_char (n mod 16)]
     else [c])"

definition str_repr :: "string \<Rightarrow> string" where
  "str_repr s =
     (let dq = (char_of (39 :: nat) \<in> set s \<and> char_of (34 :: nat) \<notin> set s);
          q = (if dq then char_of (34 :: nat) else char_of (39 :: nat))
      in [q] @ concat (map (repr_char dq) s) @ [q])"

fun join_with :: "string \<Rightarrow> string list \<Rightarrow> string" where
  "join_with sep [] = []"
| "join_with sep [s] = s"
| "join_with sep (s # t # ts) = s @ sep @ join_with sep (t # ts)"

fun py_repr :: "pyval \<Rightarrow> string" where
  "py_repr PNone = ''None''"
| "py_repr (PBool b) = (if b then ''True'' else ''False'')"
| "py_repr (PInt i) = int_str i"
| "py_repr (PStr s) = str_repr s"
| "py_repr (PList xs) = ''['' @ join_with '', '' (map py_repr xs) @ '']''"
| "py_repr (PDict d) =
     ''{'' @ join_with '', '' (map (\<lambda>(k, v). str_repr k @ '': '' @ py_repr v) d) @ ''}''"

fun py_str :: "pyval \<Rightarrow> string" where
  "py_str (PStr s) = s"
| "py_str v = py_repr v"

text \<open>The idiom \<open>str(d.get(k) or "")\<close>.\<close>

definition get_str :: "pydict \<Rightarrow> string \<Rightarrow> string" where
  "get_str d k = py_str (py_or (py_get d k) (PStr []))"

definition item_str :: "pydict \<Rightarrow> string \<Rightarrow> string res" where
  "item_str d k = res_bind (py_item d k) (\<lambda>v. Inr (py_str v))"

section \<open>\<open>int\<close>, \<open>list\<close> and \<open>dict\<close>\<close>

fun py_int :: "pyval \<Rightarrow> int res" where
  "py_int (PInt i) = Inr i"
| "py_int (PBool b) = Inr (if b then 1 else 0)"
| "py_int (PStr s) = (case int_of_string 10 s of
      None \<Rightarrow> Inl (ValueError ''invalid literal for int()'') | Some i \<Rightarrow> Inr i)"
| "py_int _ = Inl TypeError"

text \<open>The idioms \<open>int(d.get(k) or n)\<close> and \<open>int(d[k])\<close>.\<close>

definition get_int :: "pydict \<Rightarrow> string \<Rightarrow> int \<Rightarrow> int res" where
  "get_int d k n = py_int (py_or (py_get d k) (PInt n))"

definition item_int :: "pydict \<Rightarrow> string \<Rightarrow> int res" where
  "item_int d k = res_bind (py_item d k) py_int"

fun py_list :: "pyval \<Rightarrow> pyval list res" where
  "py_list (PList xs) = Inr xs"
| "py_list (PStr s) = Inr (map (\<lambda>c. PStr [c]) s)"
| "py_list (PDict d) = Inr (map (PStr \<circ> fst) d)"
| "py_list _ = Inl TypeError"

text \<open>
  \<open>dict(v)\<close>: a copy of a dictionary. Any other truthy value is an error here; Python
  also accepts a sequence of pairs, which no field of the modelled code holds.
\<close>

fun py_dict :: "pyval \<Rightarrow> pydict res" where
  "py_dict (PDict d) = Inr d"
| "py_dict _ = Inl TypeError"

text \<open>The idioms \<open>list(d.get(k) or [])\<close> and \<open>dict(d.get(k) or {})\<close>.\<close>

definition get_list :: "pydict \<Rightarrow> string \<Rightarrow> pyval list res" where
  "get_list d k = py_list (py_or (py_get d k) (PList []))"

definition get_dict :: "pydict \<Rightarrow> string \<Rightarrow> pydict res" where
  "get_dict d k = py_dict (py_or (py_get d k) (PDict []))"

section \<open>Equality\<close>

text \<open>
  Python compares dictionaries without regard to the order of their entries, and
  \<open>True == 1\<close>. The normal form sorts entries by key and turns booleans into
  integers; equality of values is equality of normal forms. \<open>py_sorted\<close> only sorts
  entries: two values have the same \<open>json.dumps(v, sort_keys=True)\<close> exactly when
  their \<open>py_sorted\<close> forms agree.
\<close>

fun py_normal :: "pyval \<Rightarrow> pyval" where
  "py_normal (PBool b) = PInt (if b then 1 else 0)"
| "py_normal (PList xs) = PList (map py_normal xs)"
| "py_normal (PDict d) = PDict (sort_key fst (map (\<lambda>(k, v). (k, py_normal v)) d))"
| "py_normal v = v"

fun py_sorted :: "pyval \<Rightarrow> pyval" where
  "py_sorted (PList xs) = PList (map py_sorted xs)"
| "py_sorted (PDict d) = PDict (sort_key fst (map (\<lambda>(k, v). (k, py_sorted v)) d))"
| "py_sorted v = v"

definition py_eq :: "pyval \<Rightarrow> pyval \<Rightarrow> bool" where
  "py_eq v w \<longleftrightarrow> py_normal v = py_normal w"

lemma py_eq_refl [simp]: "py_eq v v"
  by (simp add: py_eq_def)

lemma py_eq_sym: "py_eq v w \<Longrightarrow> py_eq w v"
  by (simp add: py_eq_def)

lemma py_eq_trans: "py_eq u v \<Longrightarrow> py_eq v w \<Longrightarrow> py_eq u w"
  by (simp add: py_eq_def)

lemma py_normal_eq_PStr [simp]: "py_normal v = PStr s \<longleftrightarrow> v = PStr s"
  by (cases v) simp_all

lemma py_eq_PStr [simp]: "py_eq v (PStr s) \<longleftrightarrow> v = PStr s"
  by (simp add: py_eq_def)

text \<open>Values usable in a set or as a dictionary key.\<close>

fun hashable :: "pyval \<Rightarrow> bool" where
  "hashable (PList _) = False"
| "hashable (PDict _) = False"
| "hashable _ = True"

section \<open>Facts on lookups\<close>

lemma py_get_set [simp, dict_simps]:
  "py_get (dict_set k v d) k' = (if k' = k then v else py_get d k')"
  by (simp add: py_get_def)

lemma py_get_or_set [simp, dict_simps]:
  "py_get_or (dict_set k v d) k' w = (if k' = k then v else py_get_or d k' w)"
  by (simp add: py_get_or_def)

lemma py_get_pop [simp, dict_simps]:
  "py_get (dict_pop k d) k' = (if k' = k then PNone else py_get d k')"
  by (simp add: py_get_def)

lemma py_get_or_pop [simp, dict_simps]:
  "py_get_or (dict_pop k d) k' w = (if k' = k then w else py_get_or d k' w)"
  by (simp add: py_get_or_def)

lemma py_get_setdefault_other [simp, dict_simps]:
  "k' \<noteq> k \<Longrightarrow> py_get (dict_setdefault k v d) k' = py_get d k'"
  by (simp add: py_get_def split: option.splits)

lemma py_item_Inr [res_simps]: "py_item d k = Inr v \<longleftrightarrow> map_of d k = Some v"
  by (auto simp: py_item_def split: option.splits)

lemma py_item_get: "py_item d k = Inr v \<Longrightarrow> py_get d k = v"
  by (simp add: py_item_Inr py_get_def)

lemma item_str_Inr [res_simps]:
  "item_str d k = Inr s \<longleftrightarrow> (\<exists>v. map_of d k = Some v \<and> s = py_str v)"
  by (auto simp: item_str_def res_bind_eq_Inr py_item_Inr)

lemma item_int_Inr [res_simps]:
  "item_int d k = Inr i \<longleftrightarrow> (\<exists>v. map_of d k = Some v \<and> py_int v = Inr i)"
  by (auto simp: item_int_def res_bind_eq_Inr py_item_Inr)

lemma get_str_PStr [simp]: "py_get d k = PStr s \<Longrightarrow> get_str d k = s"
  by (simp add: get_str_def py_or_def)

lemma item_str_PStr [simp]: "py_get d k = PStr s \<Longrightarrow> item_str d k = Inr s"
  by (auto simp: item_str_Inr py_get_def split: option.splits)

lemma truthy_py_or [simp]: "truthy v \<Longrightarrow> py_or v w = v" "\<not> truthy v \<Longrightarrow> py_or v w = w"
  by (simp_all add: py_or_def)

lemma is_True_simps [simp]: "is_True (PBool b) = b" "\<not> is_True PNone"
  by (simp_all add: is_True_def)

lemma is_False_simps [simp]: "is_False (PBool b) = (\<not> b)" "\<not> is_False PNone"
  by (simp_all add: is_False_def)

lemma py_int_str: "0 \<le> i \<Longrightarrow> length (nat_str (nat i)) \<le> 4300 \<Longrightarrow> py_int (PStr (int_str i)) = Inr i"
  using int_of_padded [of 0 "nat i"] by (simp add: pad_zero_def int_str_def)

end
