(* ===== verification/Cluster_Crypto.thy ===== *)
theory Cluster_Crypto
  imports Py_Value
begin

text \<open>
  Operation signatures (cluster_credentials.py): canonical base64, the canonical
  JSON subset, \<open>sign_operation\<close> and \<open>verify_operation\<close>. SHA-256 and Ed25519 come from
  hashlib and the cryptography package: they are the fields of \<open>crypto\<close>, a parameter
  of every definition that needs them. Byte strings are lists of characters; the
  message passed to Ed25519 is the text whose UTF-8 encoding the code signs.
\<close>

record crypto =
  sha256_hex :: "string \<Rightarrow> string"
  ed25519_public :: "string \<Rightarrow> string"
  ed25519_sign :: "string \<Rightarrow> string \<Rightarrow> string"
  ed25519_valid :: "string \<Rightarrow> string \<Rightarrow> string \<Rightarrow> bool"

section \<open>Base64\<close>

definition b64_char :: "nat \<Rightarrow> char" where
  "b64_char n =
     (if n < 26 then char_of (n + 65)
      else if n < 52 then char_of (n + 71)
      else if n < 62 then char_of (n - 4)
      else if n = 62 then CHR ''+'' else CHR ''/'')"

definition b64_value :: "char \<Rightarrow> nat option" where
  "b64_value c = (let n = char_ord c in
     if 65 \<le> n \<and> n \<le> 90 then Some (n - 65)
     else if 97 \<le> n \<and> n \<le> 122 then Some (n - 71)
     else if 48 \<le> n \<and> n \<le> 57 then Some (n + 4)
     else if n = 43 then Some 62
     else if n = 47 then Some 63
     else None)"

fun b64_encode :: "string \<Rightarrow> string" where
  "b64_encode [] = []"
| "b64_encode [a] = (let x = char_ord a in
     [b64_char (x div 4), b64_char (x mod 4 * 16), CHR ''='', CHR ''=''])"
| "b64_encode [a, b] = (let x = char_ord a; y = char_ord b in
     [b64_char (x div 4), b64_char (x mod 4 * 16 + y div 16), b64_char (y mod 16 * 4), CHR ''=''])"
| "b64_encode (a # b # c # rest) = (let x = char_ord a; y = char_ord b; z = char_ord c in
     [b64_char (x div 4), b64_char (x mod 4 * 16 + y div 16),
      b64_char (y mod 16 * 4 + z div 64), b64_char (z mod 64)] @ b64_encode rest)"

fun b64_decode :: "string \<Rightarrow> string option" where
  "b64_decode [] = Some []"
| "b64_decode (p # q # r # s # rest) =
     (case (b64_value p, b64_value q) of
        (Some x, Some y) \<Rightarrow>
          (if r = CHR ''='' \<and> s = CHR ''='' \<and> rest = []
           then Some [char_of (x * 4 + y div 16)]
           else case b64_value r of
             None \<Rightarrow> None
           | Some z \<Rightarrow>
               if s = CHR ''='' \<and> rest = []
               then Some [char_of (x * 4 + y div 16), char_of (y mod 16 * 16 + z div 4)]
               else case (b64_value s, b64_decode rest) of
                 (Some w, Some bytes) \<Rightarrow>
                   Some ([char_of (x * 4 + y div 16), char_of (y mod 16 * 16 + z div 4),
                          char_of (z mod 4 * 64 + w)] @ bytes)
               | _ \<Rightarrow> None)
      | _ \<Rightarrow> None)"
| "b64_decode _ = None"

text \<open>\<open>_b64decode\<close>: a canonical base64 string of the expected length.\<close>

definition b64decode :: "pyval \<Rightarrow> string \<Rightarrow> nat \<Rightarrow> string res" where
  "b64decode v field n = (case v of
     PStr s \<Rightarrow> (case b64_decode s of
         None \<Rightarrow> Inl (ClusterCredentialError (field @ '' is not valid base64''))
       | Some raw \<Rightarrow>
           if b64_encode raw \<noteq> s
           then Inl (ClusterCredentialError (field @ '' is not canonical base64''))
           else if length raw \<noteq> n
           then Inl (ClusterCredentialError (field @ '' must decode to the expected bytes''))
           else Inr raw)
   | _ \<Rightarrow> Inl (ClusterCredentialError (field @ '' must be a base64 string'')))"

section \<open>Canonical JSON\<close>

definition max_safe_integer :: int where
  "max_safe_integer = 2 ^ 53 - 1"

definition json_char :: "char \<Rightarrow> string" where
  "json_char c = (let n = char_ord c; bs = char_of (92 :: nat) in
     if n = 34 \<or> n = 92 then [bs, c]
     else if n = 8 then [bs, CHR ''b'']
     else if n = 9 then [bs, CHR ''t'']
     else if n = 10 then [bs, CHR ''n'']
     else if n = 12 then [bs, CHR ''f'']
     else if n = 13 then [bs, CHR ''r'']
     else if n < 32 then [bs] @ ''u00'' @ [hex_char (n div 16), hex_char (n mod 16)]
     else [c])"

definition json_string :: "string \<Rightarrow> string" where
  "json_string s = [char_of (34 :: nat)] @ concat (map json_char s) @ [char_of (34 :: nat)]"

fun canonical_json :: "pyval \<Rightarrow> string res" where
  "canonical_json PNone = Inr ''null''"
| "canonical_json (PBool b) = Inr (if b then ''true'' else ''false'')"
| "canonical_json (PInt i) =
     (if - max_safe_integer \<le> i \<and> i \<le> max_safe_integer then Inr (int_str i)
      else Inl (ClusterCredentialError ''integer is outside the interoperable JSON range''))"
| "canonical_json (PStr s) = Inr (json_string s)"
| "canonical_json (PList xs) =
     res_bind (res_map canonical_json xs) (\<lambda>ss. Inr (''['' @ join_with '','' ss @ '']''))"
| "canonical_json (PDict d) =
     res_bind (res_map (\<lambda>(k, v). res_bind (canonical_json v) (\<lambda>s. Inr (k, json_string k @ '':'' @ s))) d)
       (\<lambda>es. Inr (''{'' @ join_with '','' (map snd (sort_key fst es)) @ ''}''))"

definition canonical_operation_bytes :: "pydict \<Rightarrow> string res" where
  "canonical_operation_bytes op = canonical_json (PDict (dict_pop ''signature'' op))"

section \<open>Signing and verification\<close>

definition key_id :: "crypto \<Rightarrow> string \<Rightarrow> string \<Rightarrow> string" where
  "key_id cr algorithm raw = algorithm @ '':'' @ sha256_hex cr raw"

definition validated_text :: "pyval \<Rightarrow> string \<Rightarrow> string res" where
  "validated_text v field = (case v of
     PStr s \<Rightarrow>
       if s = [] \<or> 255 < utf8_length s
       then Inl (ClusterCredentialError (field @ '' must be non-empty text up to 255 bytes''))
       else if has_control s
       then Inl (ClusterCredentialError (field @ '' contains a control character''))
       else Inr s
   | _ \<Rightarrow> Inl (ClusterCredentialError (field @ '' must be non-empty text up to 255 bytes'')))"

definition validate_signature_metadata :: "crypto \<Rightarrow> pydict \<Rightarrow> string \<Rightarrow> unit res" where
  "validate_signature_metadata cr doc raw = all_ok [
     raise_if (\<not> py_eq (py_get doc ''signature_version'') (PInt 1))
       (ClusterCredentialError ''unsupported signature version''),
     raise_if (py_get doc ''signature_algorithm'' \<noteq> PStr ''Ed25519'')
       (ClusterCredentialError ''unsupported signature algorithm''),
     raise_if (py_get_or doc ''signer_key_id'' (py_get doc ''signing_key_id'')
         \<noteq> PStr (key_id cr ''ed25519'' raw))
       (ClusterCredentialError ''signing key identifier does not match public key''),
     void (validated_text (py_get doc ''signer_id'') ''signer_id'')]"

definition sign_operation :: "crypto \<Rightarrow> pydict \<Rightarrow> string \<Rightarrow> string \<Rightarrow> pydict res" where
  "sign_operation cr op private signer =
     (let raw = ed25519_public cr private;
          signed = dict_pop ''signature'' op;
          key_id_field = (if dict_has signed ''signing_key_id'' then ''signer_key_id'' else ''signing_key_id'')
      in res_bind (validated_text (PStr signer) ''signer_id'') (\<lambda>signer_id.
         let signed = dict_update signed [
               (''signer_id'', PStr signer_id),
               (key_id_field, PStr (key_id cr ''ed25519'' raw)),
               (''signature_version'', PInt 1),
               (''signature_algorithm'', PStr ''Ed25519'')]
         in res_bind (canonical_operation_bytes signed) (\<lambda>m.
            Inr (dict_set ''signature'' (PStr (b64_encode (ed25519_sign cr private m))) signed))))"

definition verify_operation :: "crypto \<Rightarrow> pydict \<Rightarrow> string \<Rightarrow> unit res" where
  "verify_operation cr op public_key =
     res_bind (b64decode (PStr public_key) ''signing_public_key'' 32) (\<lambda>raw.
     res_bind (validate_signature_metadata cr op raw) (\<lambda>_.
     res_bind (b64decode (py_get op ''signature'') ''signature'' 64) (\<lambda>signature.
     res_bind (canonical_operation_bytes op) (\<lambda>m.
     raise_if (\<not> ed25519_valid cr raw signature m)
       (ClusterCredentialError ''operation signature is invalid'')))))"

section \<open>Base64 round trip\<close>

lemma b64_value_char: "n < 64 \<Longrightarrow> b64_value (b64_char n) = Some n"
proof -
  assume "n < 64"
  then consider "n < 26" | "26 \<le> n" "n < 52" | "52 \<le> n" "n < 62" | "n = 62" | "n = 63"
    by linarith
  then show ?thesis
    by cases (auto simp: b64_char_def b64_value_def char_ord_def Let_def)
qed

lemma b64_char_not_pad: "n < 64 \<Longrightarrow> b64_char n \<noteq> CHR ''=''"
  using b64_value_char [of n] by (auto simp: b64_value_def char_ord_def)

lemma char_ord_less [simp]: "char_ord c < 256"
  by (simp add: char_ord_def)

lemma char_of_ord: "n = char_ord c \<Longrightarrow> char_of n = c"
  by (simp add: char_ord_def)

text \<open>The six-bit groups of three bytes, and the bytes read back from them.\<close>

lemma b64_group_bounds:
  fixes x y z :: nat
  assumes "x < 256" "y < 256" "z < 256"
  shows "x div 4 < 64" "x mod 4 * 16 < 64" "x mod 4 * 16 + y div 16 < 64"
    "y mod 16 * 4 < 64" "y mod 16 * 4 + z div 64 < 64" "z mod 64 < 64"
proof -
  have m: "x mod 4 < 4" "y mod 16 < 16" "y div 16 < 16" "z div 64 < 4"
    using assms by (auto simp: less_mult_imp_div_less)
  show "x div 4 < 64" using assms by (simp add: less_mult_imp_div_less)
  show "x mod 4 * 16 < 64" "x mod 4 * 16 + y div 16 < 64"
    "y mod 16 * 4 < 64" "y mod 16 * 4 + z div 64 < 64" "z mod 64 < 64"
    using m by (auto simp del: mod_less_divisor)
qed

lemma b64_group_bytes:
  fixes x y z :: nat
  assumes "x < 256" "y < 256" "z < 256"
  shows "x div 4 * 4 + x mod 4 * 16 div 16 = x"
    "x div 4 * 4 + (x mod 4 * 16 + y div 16) div 16 = x"
    "(x mod 4 * 16 + y div 16) mod 16 * 16 + y mod 16 * 4 div 4 = y"
    "(x mod 4 * 16 + y div 16) mod 16 * 16 + (y mod 16 * 4 + z div 64) div 4 = y"
    "(y mod 16 * 4 + z div 64) mod 4 * 64 + z mod 64 = z"
proof -
  have m: "y div 16 < 16" "z div 64 < 4"
    using assms by (auto simp: less_mult_imp_div_less)
  have yd: "(x mod 4 * 16 + y div 16) div 16 = x mod 4"
    "(x mod 4 * 16 + y div 16) mod 16 = y div 16"
    using m(1) by simp_all
  have zd: "(y mod 16 * 4 + z div 64) div 4 = y mod 16"
    "(y mod 16 * 4 + z div 64) mod 4 = z div 64"
    using m(2) by simp_all
  show "x div 4 * 4 + x mod 4 * 16 div 16 = x" by simp
  show "x div 4 * 4 + (x mod 4 * 16 + y div 16) div 16 = x" by (simp only: yd) simp
  show "(x mod 4 * 16 + y div 16) mod 16 * 16 + y mod 16 * 4 div 4 = y" by (simp only: yd) simp
  show "(x mod 4 * 16 + y div 16) mod 16 * 16 + (y mod 16 * 4 + z div 64) div 4 = y"
    by (simp only: yd zd) simp
  show "(y mod 16 * 4 + z div 64) mod 4 * 64 + z mod 64 = z" by (simp only: zd) simp
qed

lemma b64_decode_encode: "b64_decode (b64_encode s) = Some s"
proof (induction s rule: b64_encode.induct)
  case 1
  show ?case by simp
next
  case (2 a)
  note b = b64_group_bounds [of "char_ord a" "char_ord a" "char_ord a", OF char_ord_less char_ord_less char_ord_less]
  note e = b64_group_bytes [of "char_ord a" "char_ord a" "char_ord a", OF char_ord_less char_ord_less char_ord_less]
  show ?case
    by (simp only: b64_encode.simps Let_def b64_decode.simps b64_value_char [OF b(1)]
      b64_value_char [OF b(2)] option.case prod.case refl simp_thms if_True e(1))
      (simp add: char_of_ord)
next
  case (3 a b)
  note b = b64_group_bounds [of "char_ord a" "char_ord b" "char_ord a", OF char_ord_less char_ord_less char_ord_less]
  note e = b64_group_bytes [of "char_ord a" "char_ord b" "char_ord a", OF char_ord_less char_ord_less char_ord_less]
  show ?case
    by (simp only: b64_encode.simps Let_def b64_decode.simps b64_value_char [OF b(1)]
      b64_value_char [OF b(3)] b64_value_char [OF b(4)] b64_char_not_pad [OF b(4)]
      option.case prod.case refl simp_thms if_True if_False e(2,3))
      (simp add: char_of_ord)
next
  case (4 a b c rest)
  note b = b64_group_bounds [of "char_ord a" "char_ord b" "char_ord c", OF char_ord_less char_ord_less char_ord_less]
  note e = b64_group_bytes [of "char_ord a" "char_ord b" "char_ord c", OF char_ord_less char_ord_less char_ord_less]
  from 4 have IH: "b64_decode (b64_encode rest) = Some rest" by blast
  show ?case
    by (simp only: b64_encode.simps Let_def append_Cons append_Nil b64_decode.simps
      b64_value_char [OF b(1)] b64_value_char [OF b(3)] b64_value_char [OF b(5)]
      b64_value_char [OF b(6)] b64_char_not_pad [OF b(5)] b64_char_not_pad [OF b(6)] IH
      option.case prod.case refl simp_thms if_True if_False e(2,4,5))
      (simp add: char_of_ord)
qed

lemma b64decode_encode: "length raw = n \<Longrightarrow> b64decode (PStr (b64_encode raw)) field n = Inr raw"
  by (simp add: b64decode_def b64_decode_encode)

lemma b64decode_Inr:
  "b64decode v field n = Inr raw \<longleftrightarrow> v = PStr (b64_encode raw) \<and> length raw = n"
proof
  assume ok: "b64decode v field n = Inr raw"
  then obtain s where v: "v = PStr s" by (cases v) (simp_all add: b64decode_def)
  with ok obtain r where "b64_decode s = Some r" by (cases "b64_decode s") (simp_all add: b64decode_def)
  with ok v show "v = PStr (b64_encode raw) \<and> length raw = n"
    by (simp add: b64decode_def split: if_splits)
next
  assume "v = PStr (b64_encode raw) \<and> length raw = n"
  then show "b64decode v field n = Inr raw" by (simp add: b64decode_encode)
qed

text \<open>The signed bytes do not depend on the signature field.\<close>

lemma canonical_operation_bytes_signature [simp]:
  "canonical_operation_bytes (dict_set ''signature'' v op) = canonical_operation_bytes op"
proof -
  have "dict_pop ''signature'' (dict_set ''signature'' v op) = dict_pop ''signature'' op"
    by (rule delete_update_same)
  then show ?thesis by (simp add: canonical_operation_bytes_def)
qed

lemma verify_operation_Inr:
  "verify_operation cr op pk = Inr () \<longleftrightarrow>
     (\<exists>raw sig m. pk = b64_encode raw \<and> length raw = 32 \<and>
        validate_signature_metadata cr op raw = Inr () \<and>
        py_get op ''signature'' = PStr (b64_encode sig) \<and> length sig = 64 \<and>
        canonical_operation_bytes op = Inr m \<and> ed25519_valid cr raw sig m)"
  by (auto simp: verify_operation_def res_bind_eq_Inr b64decode_Inr)

end
