(* ===== verification/Cluster_Validate.thy ===== *)
theory Cluster_Validate
  imports Cluster_Crypto
begin

text \<open>
  Operation names and payload validation (master/cluster_state.py): the operation
  sets, the leaf validators (\<open>_validate_node_id\<close>, \<open>_validate_hash\<close>, ...) and one
  validator per group of operations. A validator returns \<open>Inr ()\<close> or the exception
  the code raises; checks are listed in the order of the code.
\<close>

named_theorems valid_simps \<open>what an accepted value satisfies\<close>

section \<open>Operation names\<close>

definition membership_ops :: "string set" where
  "membership_ops = {''ADD_NODE'', ''UPDATE_NODE'', ''UPDATE_NODE_ADDRESS'', ''UPDATE_NODE_SSH'',
     ''UPDATE_NODE_KEY'', ''DISABLE_NODE'', ''REMOVE_NODE''}"

definition v7_ops :: "string set" where
  "v7_ops = {''UPSERT_CONFIG'', ''MOVE_INSTANCE'', ''START_INSTANCE'', ''STOP_INSTANCE'',
     ''DELETE_INSTANCE'', ''TOMBSTONE_INSTANCE''}"

definition pb8_ops :: "string set" where
  "pb8_ops = {''UPSERT_PB8_CONFIG'', ''MOVE_PB8_INSTANCE'', ''START_PB8_INSTANCE'',
     ''STOP_PB8_INSTANCE'', ''DELETE_PB8_INSTANCE'', ''TOMBSTONE_PB8_INSTANCE''}"

definition api_key_ops :: "string set" where
  "api_key_ops = {''UPSERT_API_KEYS''}"

definition v2_credential_ops :: "string set" where
  "v2_credential_ops = {''UPSERT_SECRET'', ''UPDATE_SECRET_RECIPIENTS'', ''TOMBSTONE_SECRET'',
     ''UPSERT_CMC_POOL_ENTRY'', ''SET_CMC_KEY_STATE'', ''SET_CMC_AUTHORITY'',
     ''SET_TRADFI_ACTIVE_PROFILE'', ''WRITER_FREEZE'', ''WRITER_FREEZE_ACK'',
     ''CREDENTIAL_INVENTORY_ACK'', ''CREDENTIAL_MATERIALIZATION_ACK'', ''CREDENTIAL_CUTOFF'',
     ''CREDENTIAL_CUTOFF_ACK'', ''MIGRATION_SECRET_CANDIDATE'', ''MIGRATION_SECRET_ACCEPTANCE'',
     ''MIGRATION_SECRET_CONFLICT'', ''MIGRATION_SECRET_CONFLICT_RESOLUTION'',
     ''TRADFI_PROJECTION_ACK'', ''CREDENTIAL_SCAN_ACK''}"

definition cluster_policy_ops :: "string set" where
  "cluster_policy_ops = {''SET_RETENTION_POLICY''}"

definition signed_state_ops :: "string set" where
  "signed_state_ops = v2_credential_ops \<union> cluster_policy_ops"

definition supported_ops :: "string set" where
  "supported_ops = membership_ops \<union> v7_ops \<union> pb8_ops \<union> api_key_ops \<union> signed_state_ops"

definition master_admin_membership_ops :: "string set" where
  "master_admin_membership_ops = {''UPDATE_NODE_ADDRESS'', ''UPDATE_NODE_SSH'', ''DISABLE_NODE'',
     ''REMOVE_NODE''}"

definition vps_self_credential_ops :: "string set" where
  "vps_self_credential_ops = {''WRITER_FREEZE_ACK'', ''CREDENTIAL_INVENTORY_ACK'',
     ''CREDENTIAL_MATERIALIZATION_ACK'', ''CREDENTIAL_CUTOFF_ACK'', ''MIGRATION_SECRET_CANDIDATE'',
     ''CREDENTIAL_SCAN_ACK''}"

definition master_only_signed_state_ops :: "string set" where
  "master_only_signed_state_ops =
     (v2_credential_ops - vps_self_credential_ops) \<union> cluster_policy_ops"

definition sync_modes :: "string set" where
  "sync_modes = {''disabled'', ''outbound_only'', ''reachable''}"

definition cmc_key_states :: "string set" where
  "cmc_key_states = {''pending'', ''active'', ''draining'', ''disabled'', ''invalid'',
     ''provider_disabled'', ''minute_limited'', ''day_exhausted'', ''month_exhausted'',
     ''conflicted'', ''tombstoned''}"

definition retention_modes :: "string set" where
  "retention_modes = {''report_only'', ''oplog'', ''oplog_and_blobs''}"

text \<open>The crypto fields of a membership record, sorted as \<open>sorted\<close> gives them.\<close>

definition crypto_public_fields :: "string list" where
  "crypto_public_fields = [''encryption_key_id'', ''encryption_public_key'', ''signing_key_id'',
     ''signing_public_key'']"

definition membership_signature_fields :: "string list" where
  "membership_signature_fields = [''signer_id'', ''signer_key_id'', ''signature'',
     ''signature_version'', ''signature_algorithm'']"

definition node_roles :: "string set" where
  "node_roles = {''master'', ''vps''}"

abbreviation reject :: "bool \<Rightarrow> string \<Rightarrow> unit res" where
  "reject c msg \<equiv> raise_if c (ClusterStateError msg)"

definition supports_cluster_operation :: "string \<Rightarrow> pyval list option \<Rightarrow> bool" where
  "supports_cluster_operation operation_name capabilities =
     (if operation_name \<notin> pb8_ops then True
      else ''pb8_instances_v1'' \<in>
        py_str ` set (case capabilities of None \<Rightarrow> [] | Some cs \<Rightarrow> cs))"

section \<open>Leaf validators\<close>

definition cluster_id_prefix :: string where
  "cluster_id_prefix = ''pbgui-cluster-''"

definition node_id_prefix :: string where
  "node_id_prefix = ''pbgui-node-''"

definition validate_uuid_suffix :: "string \<Rightarrow> string \<Rightarrow> string \<Rightarrow> unit res" where
  "validate_uuid_suffix v prefix label =
     reject (\<not> uuid_accepts (drop (length prefix) v)) (''invalid '' @ label)"

definition validate_cluster_id :: "string \<Rightarrow> unit res" where
  "validate_cluster_id v = all_ok [
     reject (\<not> startswith v cluster_id_prefix) ''invalid cluster_id prefix'',
     validate_uuid_suffix v cluster_id_prefix ''cluster_id'']"

definition validate_node_id :: "string \<Rightarrow> unit res" where
  "validate_node_id v = all_ok [
     reject (\<not> startswith v node_id_prefix) ''invalid node_id prefix'',
     validate_uuid_suffix v node_id_prefix ''node_id'']"

definition validate_hash :: "string \<Rightarrow> string \<Rightarrow> unit res" where
  "validate_hash v field = all_ok [
     reject (\<not> startswith v ''sha256:'' \<or> length v \<noteq> length ''sha256:'' + 64) (''invalid '' @ field),
     reject (int_of_string 16 (drop (length ''sha256:'') v) = None) (''invalid '' @ field)]"

definition validate_relative_name :: "string \<Rightarrow> string \<Rightarrow> unit res" where
  "validate_relative_name v field =
     reject (v = [] \<or> v \<in> {''.'', ''..''} \<or> CHR ''/'' \<in> set v \<or> char_of (92 :: nat) \<in> set v
         \<or> char_of (0 :: nat) \<in> set v)
       (''invalid '' @ field)"

definition as_int :: "pyval \<Rightarrow> string \<Rightarrow> int res" where
  "as_int v field = (case py_int v of
     Inl _ \<Rightarrow> Inl (ClusterStateError (field @ '' must be an integer'')) | Inr i \<Rightarrow> Inr i)"

definition as_positive_int :: "pyval \<Rightarrow> string \<Rightarrow> int res" where
  "as_positive_int v field = res_bind (as_int v field) (\<lambda>i.
     if i < 1 then Inl (ClusterStateError (field @ '' must be positive'')) else Inr i)"

definition as_nonnegative_int :: "pyval \<Rightarrow> string \<Rightarrow> int res" where
  "as_nonnegative_int v field = res_bind (as_int v field) (\<lambda>i.
     if i < 0 then Inl (ClusterStateError (field @ '' must be nonnegative'')) else Inr i)"

definition validate_bounded_text :: "pyval \<Rightarrow> string \<Rightarrow> nat \<Rightarrow> string res" where
  "validate_bounded_text v field maximum = (case v of
     PStr s \<Rightarrow>
       if s = [] \<or> maximum < utf8_length s then Inl (ClusterStateError (''invalid '' @ field))
       else if has_control s then Inl (ClusterStateError (''invalid '' @ field))
       else Inr s
   | _ \<Rightarrow> Inl (ClusterStateError (''invalid '' @ field)))"

definition validate_credential_id :: "pyval \<Rightarrow> string \<Rightarrow> string res" where
  "validate_credential_id v field =
     res_bind (validate_bounded_text v field 255) (\<lambda>text.
     res_bind (validate_relative_name text field) (\<lambda>_. Inr text))"

text \<open>\<open>v in {...}\<close> hashes \<open>v\<close>, so a list or a dictionary raises \<open>TypeError\<close>.\<close>

definition py_in :: "pyval \<Rightarrow> string set \<Rightarrow> bool res" where
  "py_in v S = (if hashable v then Inr (\<exists>s \<in> S. v = PStr s) else Inl TypeError)"

definition reject_unless_in :: "pyval \<Rightarrow> string set \<Rightarrow> string \<Rightarrow> unit res" where
  "reject_unless_in v S msg = res_bind (py_in v S) (\<lambda>ok. reject (\<not> ok) msg)"

text \<open>A list that equals \<open>sorted(set(str(item) for item in xs))\<close>.\<close>

definition sorted_unique_strs :: "pyval list \<Rightarrow> bool" where
  "sorted_unique_strs xs \<longleftrightarrow> xs = map PStr (sort (remdups (map py_str xs)))"

definition check_node_id_matches :: "pydict \<Rightarrow> string \<Rightarrow> string \<Rightarrow> unit res" where
  "check_node_id_matches op actor msg =
     reject (py_str (py_or (py_get op ''node_id'') (PStr actor)) \<noteq> actor) msg"

section \<open>Membership, instance, API-key and policy payloads\<close>

definition validate_key_bundle_part :: "crypto \<Rightarrow> pydict \<Rightarrow> string \<Rightarrow> string \<Rightarrow> string \<Rightarrow> unit res" where
  "validate_key_bundle_part cr op algorithm public_field key_id_field =
     res_bind (py_item op public_field) (\<lambda>v.
     case b64_decode (py_str v) of
       None \<Rightarrow> Inl (ClusterStateError (''invalid '' @ public_field))
     | Some raw \<Rightarrow> all_ok [
         reject (length raw \<noteq> 32 \<or> PStr (b64_encode raw) \<noteq> v) (''invalid '' @ public_field),
         res_bind (py_item op key_id_field) (\<lambda>k.
           reject (k \<noteq> PStr (key_id cr algorithm raw)) (''invalid '' @ key_id_field))])"

definition validate_public_key_bundle :: "crypto \<Rightarrow> pydict \<Rightarrow> unit res" where
  "validate_public_key_bundle cr op = all_ok [
     validate_key_bundle_part cr op ''ed25519'' ''signing_public_key'' ''signing_key_id'',
     validate_key_bundle_part cr op ''x25519'' ''encryption_public_key'' ''encryption_key_id'']"

definition validate_membership_payload :: "crypto \<Rightarrow> pydict \<Rightarrow> unit res" where
  "validate_membership_payload cr op = all_ok [
     reject (\<not> dict_has op ''node_id'') ''membership operation missing node_id'',
     validate_node_id (py_str (py_get op ''node_id'')),
     reject (dict_has op ''role'' \<and> py_str (py_get op ''role'') \<notin> node_roles)
       ''node role must be master or vps'',
     reject (dict_has op ''sync_mode'' \<and>
         str_lower (str_strip (get_str op ''sync_mode'')) \<notin> sync_modes)
       ''node sync_mode must be disabled, outbound_only or reachable'',
     when_ok (dict_has op ''sync_peers'') (all_ok [
       reject (\<not> is_list (py_get op ''sync_peers'')) ''node sync_peers must be a list'',
       all_ok (map (\<lambda>p. validate_node_id (py_str p)) (list_of (py_get op ''sync_peers'')))]),
     when_ok (\<exists>f \<in> set crypto_public_fields. dict_has op f \<and> f \<noteq> ''signing_key_id'') (all_ok [
       (let missing = filter (\<lambda>f. \<not> dict_has op f) crypto_public_fields in
        reject (missing \<noteq> [])
          (''membership crypto bundle missing field(s): '' @ join_with '', '' missing)),
       validate_public_key_bundle cr op])]"

definition validate_v7_payload :: "pydict \<Rightarrow> unit res" where
  "validate_v7_payload op = (let name = py_str (py_get op ''op'') in all_ok [
     reject (\<not> dict_has op ''instance'') ''V7 operation missing instance'',
     validate_relative_name (py_str (py_get op ''instance'')) ''instance'',
     reject (name \<in> {''UPSERT_CONFIG'', ''MOVE_INSTANCE'', ''DELETE_INSTANCE'', ''TOMBSTONE_INSTANCE''}
         \<and> \<not> dict_has op ''version'')
       (name @ '' missing version''),
     when_ok (name = ''UPSERT_CONFIG'') (all_ok [
       reject (\<not> dict_has op ''assigned_host'') ''UPSERT_CONFIG missing assigned_host'',
       reject (\<not> dict_has op ''config_manifest_hash'') ''UPSERT_CONFIG missing config_manifest_hash'',
       validate_node_id (py_str (py_get op ''assigned_host'')),
       validate_hash (py_str (py_get op ''config_manifest_hash'')) ''config_manifest_hash'']),
     when_ok (name = ''MOVE_INSTANCE'') (all_ok [
       reject (\<not> dict_has op ''from'') ''MOVE_INSTANCE missing from'',
       validate_node_id (py_str (py_get op ''from'')),
       reject (\<not> dict_has op ''to'') ''MOVE_INSTANCE missing to'',
       validate_node_id (py_str (py_get op ''to'')),
       when_ok (dict_has op ''config_manifest_hash'')
         (validate_hash (py_str (py_get op ''config_manifest_hash'')) ''config_manifest_hash'')])])"

definition validate_pb8_payload :: "pydict \<Rightarrow> unit res" where
  "validate_pb8_payload op = (let name = py_str (py_get op ''op'') in all_ok [
     reject (\<not> dict_has op ''instance'') ''PB8 operation missing instance'',
     validate_relative_name (py_str (py_get op ''instance'')) ''instance'',
     reject (name \<in> {''UPSERT_PB8_CONFIG'', ''MOVE_PB8_INSTANCE'', ''DELETE_PB8_INSTANCE'',
           ''TOMBSTONE_PB8_INSTANCE''} \<and> \<not> dict_has op ''version'')
       (name @ '' missing version''),
     when_ok (name = ''UPSERT_PB8_CONFIG'') (all_ok [
       reject (\<not> dict_has op ''assigned_host'') ''UPSERT_PB8_CONFIG missing assigned_host'',
       reject (\<not> dict_has op ''config_manifest_hash'')
         ''UPSERT_PB8_CONFIG missing config_manifest_hash'',
       validate_node_id (py_str (py_get op ''assigned_host'')),
       validate_hash (py_str (py_get op ''config_manifest_hash'')) ''config_manifest_hash'']),
     when_ok (name = ''MOVE_PB8_INSTANCE'') (all_ok [
       reject (\<not> dict_has op ''from'') ''MOVE_PB8_INSTANCE missing from'',
       validate_node_id (py_str (py_get op ''from'')),
       reject (\<not> dict_has op ''to'') ''MOVE_PB8_INSTANCE missing to'',
       validate_node_id (py_str (py_get op ''to'')),
       when_ok (dict_has op ''config_manifest_hash'')
         (validate_hash (py_str (py_get op ''config_manifest_hash'')) ''config_manifest_hash'')])])"

definition validate_api_key_payload :: "pydict \<Rightarrow> unit res" where
  "validate_api_key_payload op = all_ok [
     void (as_positive_int (py_get op ''api_serial'') ''api_serial''),
     reject (\<not> dict_has op ''payload_hash'') ''UPSERT_API_KEYS missing payload_hash'',
     validate_hash (py_str (py_get op ''payload_hash'')) ''payload_hash'',
     reject (\<not> dict_has op ''secret_blob_hash'') ''UPSERT_API_KEYS missing secret_blob_hash'',
     validate_hash (py_str (py_get op ''secret_blob_hash'')) ''secret_blob_hash'',
     reject (dict_has op ''sanitized'' \<and> \<not> is_True (py_get op ''sanitized''))
       ''post-cutoff API-key operation must be explicitly sanitized'',
     when_ok (dict_has op ''credential_protocol_version'')
       (res_bind (as_positive_int (py_get op ''credential_protocol_version'')
            ''credential_protocol_version'')
          (\<lambda>v. reject (v < 2) ''post-cutoff API-key operation requires credential protocol v2''))]"

definition validate_cluster_policy_payload :: "pydict \<Rightarrow> unit res" where
  "validate_cluster_policy_payload op = all_ok [
     reject (get_str op ''op'' \<noteq> ''SET_RETENTION_POLICY'') ''unsupported cluster policy operation'',
     reject (get_str op ''mode'' \<notin> retention_modes) ''invalid retention mode'',
     res_bind (as_positive_int (py_get op ''history_days'') ''history_days'')
       (\<lambda>d. reject (3650 < d) ''history_days must not exceed 3650''),
     void (as_positive_int (py_get op ''generation'') ''generation''),
     void (as_nonnegative_int (py_get op ''parent_generation'') ''parent_generation'')]"

end
