(* ===== verification/Cluster_Payloads.thy ===== *)
theory Cluster_Payloads
  imports Cluster_Validate
begin

text \<open>
  Payload validation of the signed credential operations
  (\<open>_validate_v2_credential_payload\<close> of master/cluster_state.py and the validators it
  calls), one definition per branch of the code and the dispatcher over them.
\<close>

section \<open>Shared parts\<close>

definition validate_state_vector :: "pyval \<Rightarrow> unit res" where
  "validate_state_vector v = (case v of
     PDict d \<Rightarrow> all_ok (map (\<lambda>(actor, s). all_ok [
        validate_node_id actor,
        void (as_nonnegative_int s ''state vector sequence'')]) d)
   | _ \<Rightarrow> Inl (ClusterStateError ''state_vector must be an object''))"

definition validate_recipient_key_id :: "pyval \<Rightarrow> unit res" where
  "validate_recipient_key_id key =
     res_bind (validate_bounded_text key ''recipient key ID'' 255) (\<lambda>text. all_ok [
       reject (\<not> startswith text ''x25519:'' \<or> length text \<noteq> length ''x25519:'' + 64)
         ''invalid recipient key ID'',
       reject (int_of_string 16 (drop (length ''x25519:'') text) = None)
         ''invalid recipient key ID''])"

definition validate_recipient_registration :: "pydict \<Rightarrow> unit res" where
  "validate_recipient_registration op =
     (let ids = list_of (py_get op ''recipient_ids''); names = map py_str ids;
          keys = py_get op ''recipient_key_ids''
      in all_ok [
        reject (ids = []) ''recipient_ids must be a non-empty list'',
        all_ok (map validate_node_id names),
        reject (names \<noteq> sort (remdups names)) ''recipient_ids must be unique and sorted'',
        reject (\<not> is_dict keys \<or> set (dict_keys (dict_of keys)) \<noteq> set names)
          ''recipient_key_ids must exactly match recipient_ids'',
        all_ok (map (\<lambda>(n, k). all_ok [validate_node_id n, validate_recipient_key_id k])
          (dict_of keys))])"

definition validate_sha256_hex :: "string \<Rightarrow> string \<Rightarrow> unit res" where
  "validate_sha256_hex text msg = all_ok [
     reject (length text \<noteq> 64) msg,
     reject (int_of_string 16 text = None) msg]"

definition validate_source_fingerprints :: "pyval \<Rightarrow> unit res" where
  "validate_source_fingerprints v = (case v of
     PDict d \<Rightarrow> all_ok (map (\<lambda>(source, f). all_ok [
        void (validate_bounded_text (PStr source) ''source fingerprint name'' 255),
        validate_sha256_hex (py_str f) ''source fingerprint must be SHA-256 hex'']) d)
   | _ \<Rightarrow> Inl (ClusterStateError ''source_fingerprints must be an object''))"

definition validate_source_generations :: "pyval \<Rightarrow> unit res" where
  "validate_source_generations v = (case v of
     PDict d \<Rightarrow> all_ok (map (\<lambda>(source, g). all_ok [
        void (validate_bounded_text (PStr source) ''source generation name'' 255),
        void (as_nonnegative_int g ''source generation'')]) d)
   | _ \<Rightarrow> Inl (ClusterStateError ''source_generations must be an object''))"

definition validate_migration_source_metadata :: "pydict \<Rightarrow> unit res" where
  "validate_migration_source_metadata op = all_ok [
     when_ok (dict_has op ''migration_operation_id'')
       (void (validate_bounded_text (py_get op ''migration_operation_id'')
          ''migration_operation_id'' 255)),
     when_ok (dict_has op ''source_fingerprints'')
       (validate_source_fingerprints (py_get op ''source_fingerprints'')),
     when_ok (dict_has op ''source_generations'')
       (validate_source_generations (py_get op ''source_generations''))]"

text \<open>
  \<open>_validate_process_readiness\<close>. No caller in the repository uses it: see
  \<open>accepted_payloads_stop_materialization\<close> in Credential_Laws.
\<close>

definition validate_readiness_item :: "pyval \<Rightarrow> string res" where
  "validate_readiness_item item =
     (let d = dict_of item in
      res_bind (reject (\<not> is_dict item \<or> set (dict_keys d) \<noteq>
          {''service'', ''credential_protocol_version'', ''code_serial'', ''capability_generation''})
        ''process_readiness contains invalid fields'') (\<lambda>_.
      res_bind (validate_bounded_text (py_get d ''service'') ''process readiness service'' 96) (\<lambda>service.
      res_bind (as_positive_int (py_get d ''credential_protocol_version'') ''credential_protocol_version'') (\<lambda>v.
      res_bind (reject (v \<noteq> 2) ''process readiness requires credential protocol v2'') (\<lambda>_.
      res_bind (as_positive_int (py_get d ''capability_generation'') ''capability_generation'') (\<lambda>_.
      let serial = get_str d ''code_serial'' in
      res_bind (reject (32 < length serial \<or> (\<exists>c \<in> set serial. c \<notin> set ''0123456789''))
        ''process readiness code serial is invalid'') (\<lambda>_. Inr service)))))))"

definition validate_process_readiness :: "pyval \<Rightarrow> unit res" where
  "validate_process_readiness v =
     res_bind (reject (\<not> is_list v \<or> 32 < length (list_of v)) ''process_readiness must be a bounded list'') (\<lambda>_.
     res_bind (res_map validate_readiness_item (list_of v)) (\<lambda>services.
     reject (services \<noteq> sort services \<or> \<not> distinct services)
       ''process_readiness services must be sorted and unique''))"

section \<open>Secrets and their recipients\<close>

definition validate_recipient_update :: "pydict \<Rightarrow> unit res" where
  "validate_recipient_update op = all_ok [
     void (as_positive_int (py_get op ''provider_generation'') ''provider_generation''),
     res_bind (as_positive_int (py_get op ''recipient_generation'') ''recipient_generation'') (\<lambda>g.
     res_bind (as_nonnegative_int (py_get op ''parent_recipient_generation'')
        ''parent_recipient_generation'') (\<lambda>p.
       reject (g \<noteq> p + 1) ''recipient_generation must advance its parent by one'')),
     void (as_nonnegative_int (py_get op ''membership_generation'') ''membership_generation''),
     validate_hash (get_str op ''sealed_blob_hash'') ''sealed_blob_hash'',
     validate_recipient_registration op]"

definition validate_initial_recipients :: "pydict \<Rightarrow> unit res" where
  "validate_initial_recipients op = all_ok [
     res_bind (as_positive_int (py_get op ''recipient_generation'') ''recipient_generation'')
       (\<lambda>g. reject (g \<noteq> 1) ''initial recipient_generation must be one''),
     res_bind (as_nonnegative_int (py_get op ''parent_recipient_generation'')
        ''parent_recipient_generation'')
       (\<lambda>p. reject (p \<noteq> 0) ''initial parent_recipient_generation must be zero''),
     void (as_nonnegative_int (py_get op ''membership_generation'') ''membership_generation''),
     validate_recipient_registration op]"

definition validate_secret_upsert :: "pydict \<Rightarrow> unit res" where
  "validate_secret_upsert op =
     (let kind = py_get_or op ''secret_kind'' (py_get op ''kind''); audience = py_get op ''audience''
      in all_ok [
        void (validate_bounded_text kind ''secret_kind'' 255),
        reject_unless_in audience {''cluster'', ''masters''}
          ''secret audience must be cluster or masters'',
        reject (kind = PStr ''cmc_api_key'' \<and> audience \<noteq> PStr ''cluster'')
          ''CMC secrets require cluster audience'',
        reject (kind = PStr ''tradfi_profile'' \<and> audience \<noteq> PStr ''masters'')
          ''TradFi secrets require masters audience'',
        validate_hash (get_str op ''sealed_blob_hash'') ''sealed_blob_hash'',
        when_ok (dict_has op ''recipient_generation'') (validate_initial_recipients op)])"

definition validate_secret_payload :: "string \<Rightarrow> pydict \<Rightarrow> unit res" where
  "validate_secret_payload name op = all_ok [
     void (validate_credential_id (py_get op ''secret_id'') ''secret_id''),
     (if name = ''UPDATE_SECRET_RECIPIENTS'' then validate_recipient_update op
      else all_ok [
        void (as_positive_int (py_get op ''generation'') ''generation''),
        void (as_nonnegative_int (py_get op ''parent_generation'') ''parent_generation''),
        when_ok (dict_has op ''secret_kind'' \<or> dict_has op ''kind'')
          (void (validate_bounded_text (py_get_or op ''secret_kind'' (py_get op ''kind''))
             ''secret_kind'' 255)),
        when_ok (name = ''UPSERT_SECRET'') (validate_secret_upsert op)])]"

section \<open>CMC pool, authorities and TradFi profiles\<close>

definition validate_pool_entry :: "pydict \<Rightarrow> unit res" where
  "validate_pool_entry op = all_ok [
     void (validate_credential_id (py_get op ''key_id'') ''key_id''),
     void (validate_credential_id (py_get op ''secret_id'') ''secret_id''),
     void (as_positive_int (py_get_or op ''catalog_generation'' (py_get op ''generation''))
       ''catalog_generation''),
     void (as_nonnegative_int (py_get op ''parent_generation'') ''parent_generation'')]"

definition validate_key_state :: "pydict \<Rightarrow> unit res" where
  "validate_key_state op = all_ok [
     void (validate_credential_id (py_get op ''key_id'') ''key_id''),
     reject (get_str op ''state'' \<notin> cmc_key_states) ''invalid CMC key state'',
     void (as_positive_int (py_get_or op ''state_generation'' (py_get op ''generation''))
       ''state_generation''),
     void (as_nonnegative_int (py_get op ''parent_generation'') ''parent_generation'')]"

definition validate_authority :: "pydict \<Rightarrow> unit res" where
  "validate_authority op = all_ok [
     void (validate_bounded_text (py_get op ''quota_domain_id'') ''quota_domain_id'' 255),
     validate_node_id (get_str op ''authority_node_id''),
     void (as_positive_int (py_get op ''authority_epoch'') ''authority_epoch''),
     void (as_nonnegative_int (py_get op ''parent_epoch'') ''parent_epoch'')]"

definition validate_tradfi_profile :: "pydict \<Rightarrow> unit res" where
  "validate_tradfi_profile op = (let profile = py_get op ''profile_id'' in all_ok [
     void (validate_bounded_text (py_get op ''provider'') ''provider'' 255),
     when_ok (profile \<noteq> PNone) (all_ok [
       void (validate_credential_id profile ''profile_id''),
       reject (\<not> startswith (py_str profile) ''tradfi_'')
         ''active TradFi profile ID must be a TradFi credential'']),
     void (as_positive_int (py_get op ''activation_generation'') ''activation_generation''),
     void (as_nonnegative_int (py_get op ''parent_generation'') ''parent_generation'')])"

section \<open>Writer freeze, cutoff and acknowledgements\<close>

definition validate_freeze :: "pydict \<Rightarrow> unit res" where
  "validate_freeze op = all_ok [
     void (as_positive_int (py_get op ''freeze_generation'') ''freeze_generation''),
     reject (dict_has op ''frozen'' \<and> py_get op ''frozen'' \<notin> {PBool True, PBool False})
       ''frozen must be a boolean'',
     validate_migration_source_metadata op]"

definition validate_freeze_ack :: "string \<Rightarrow> pydict \<Rightarrow> unit res" where
  "validate_freeze_ack actor op = all_ok [
     void (as_positive_int (py_get op ''freeze_generation'') ''freeze_generation''),
     reject (\<not> is_True (py_get op ''frozen''))
       ''WRITER_FREEZE_ACK must explicitly acknowledge frozen state'',
     when_ok (dict_has op ''node_id'') (all_ok [
       validate_node_id (py_str (py_get op ''node_id'')),
       reject (py_str (py_get op ''node_id'') \<noteq> actor) ''WRITER_FREEZE_ACK node_id must match actor'']),
     reject (dict_has op ''source_fingerprints'' \<or> dict_has op ''source_generations'')
       ''WRITER_FREEZE_ACK must not contain inventory metadata'']"

definition validate_inventory_ack :: "string \<Rightarrow> pydict \<Rightarrow> unit res" where
  "validate_inventory_ack actor op = all_ok [
     void (as_positive_int (py_get op ''freeze_generation'') ''freeze_generation''),
     check_node_id_matches op actor ''CREDENTIAL_INVENTORY_ACK node_id must match actor'',
     validate_source_fingerprints (py_get op ''source_fingerprints''),
     validate_source_generations (py_get op ''source_generations'')]"

definition validate_generation_map :: "pyval \<Rightarrow> string \<Rightarrow> string \<Rightarrow> string \<Rightarrow> unit res" where
  "validate_generation_map v msg id_field gen_field = (case v of
     PDict d \<Rightarrow> all_ok (map (\<lambda>(cid, g). all_ok [
        void (validate_credential_id (PStr cid) id_field),
        void (as_positive_int g gen_field)]) d)
   | _ \<Rightarrow> Inl (ClusterStateError msg))"

definition validate_materialization_ack :: "string \<Rightarrow> pydict \<Rightarrow> unit res" where
  "validate_materialization_ack actor op = all_ok [
     when_ok (dict_has op ''node_id'') (all_ok [
       validate_node_id (py_str (py_get op ''node_id'')),
       reject (py_str (py_get op ''node_id'') \<noteq> actor)
         ''CREDENTIAL_MATERIALIZATION_ACK node_id must match actor'']),
     validate_generation_map (py_get op ''credential_generations'')
       ''credential_generations must be an object'' ''credential generation ID''
       ''credential generation'',
     (if dict_has op ''recipient_generations'' then all_ok [
        validate_generation_map (py_get op ''recipient_generations'')
          ''recipient_generations must be an object'' ''recipient generation ID''
          ''recipient generation'',
        void (as_nonnegative_int (py_get op ''membership_generation'') ''membership_generation'')]
      else reject (\<not> dict_has op ''freeze_generation'')
        ''materialization ACK requires recipient_generations or freeze_generation''),
     when_ok (dict_has op ''freeze_generation'')
       (void (as_positive_int (py_get op ''freeze_generation'') ''freeze_generation'')),
     when_ok (dict_has op ''source_fingerprints'')
       (validate_source_fingerprints (py_get op ''source_fingerprints''))]"

definition validate_hash_list :: "pyval \<Rightarrow> string \<Rightarrow> string \<Rightarrow> unit res" where
  "validate_hash_list v msg field = all_ok [
     reject (\<not> is_list v \<or> \<not> sorted_unique_strs (list_of v)) msg,
     all_ok (map (\<lambda>h. validate_hash (py_str h) field) (list_of v))]"

definition validate_cutoff :: "pydict \<Rightarrow> unit res" where
  "validate_cutoff op = all_ok [
     void (as_positive_int (py_get op ''cutoff_generation'') ''cutoff_generation''),
     void (as_nonnegative_int (py_get op ''parent_generation'') ''parent_generation''),
     res_bind (as_positive_int (py_get op ''min_protocol'') ''min_protocol'')
       (\<lambda>p. reject (p \<noteq> 2) ''credential cutoff min_protocol must be 2''),
     validate_state_vector (py_get op ''state_vector''),
     validate_hash_list (py_get op ''obsolete_secret_blob_hashes'')
       ''obsolete_secret_blob_hashes must be a sorted unique list'' ''obsolete secret blob hash'']"

definition validate_cutoff_ack :: "string \<Rightarrow> pydict \<Rightarrow> unit res" where
  "validate_cutoff_ack actor op = all_ok [
     void (as_positive_int (py_get op ''cutoff_generation'') ''cutoff_generation''),
     check_node_id_matches op actor ''CREDENTIAL_CUTOFF_ACK node_id must match actor'',
     validate_state_vector (py_get op ''state_vector''),
     validate_hash_list (py_get_or op ''removed_secret_blob_hashes'' (PList []))
       ''removed_secret_blob_hashes must be a sorted unique list'' ''removed secret blob hash'']"

section \<open>Migration candidates, conflicts and scans\<close>

definition validate_candidate :: "pydict \<Rightarrow> unit res" where
  "validate_candidate op = all_ok [
     void (validate_bounded_text (py_get op ''candidate_id'') ''candidate_id'' 255),
     reject_unless_in (py_get op ''candidate_kind'') {''cmc_api_key'', ''tradfi_profile''}
       ''invalid migration candidate kind'',
     void (as_positive_int (py_get op ''freeze_generation'') ''freeze_generation''),
     validate_hash (get_str op ''sealed_blob_hash'') ''sealed_blob_hash'',
     validate_sha256_hex (get_str op ''source_fingerprint'') ''source_fingerprint must be SHA-256 hex'',
     void (as_nonnegative_int (py_get op ''source_generation'') ''source_generation''),
     void (as_nonnegative_int (py_get op ''membership_generation'') ''membership_generation''),
     reject (py_get op ''audience'' \<noteq> PStr ''masters'') ''migration candidates require masters audience'',
     validate_recipient_registration op]"

definition validate_acceptance :: "pydict \<Rightarrow> unit res" where
  "validate_acceptance op = all_ok [
     void (validate_bounded_text (py_get op ''candidate_id'') ''candidate_id'' 255),
     void (validate_credential_id (py_get op ''credential_id'') ''credential_id''),
     void (as_positive_int (py_get op ''credential_generation'') ''credential_generation''),
     void (as_positive_int (py_get op ''freeze_generation'') ''freeze_generation''),
     reject (get_str op ''status'' \<noteq> ''accepted'') ''migration acceptance status must be accepted'']"

definition validate_conflict :: "pydict \<Rightarrow> unit res" where
  "validate_conflict op = all_ok [
     void (validate_bounded_text (py_get op ''conflict_id'') ''conflict_id'' 255),
     void (validate_bounded_text (py_get op ''candidate_id'') ''candidate_id'' 255),
     void (validate_credential_id (py_get op ''existing_credential_id'') ''existing_credential_id''),
     void (validate_bounded_text (py_get op ''provider'') ''provider'' 255),
     void (as_positive_int (py_get op ''freeze_generation'') ''freeze_generation''),
     reject (get_str op ''status'' \<noteq> ''unresolved'') ''migration conflict status must be unresolved'']"

definition validate_resolution :: "pydict \<Rightarrow> unit res" where
  "validate_resolution op = all_ok [
     void (validate_bounded_text (py_get op ''conflict_id'') ''conflict_id'' 255),
     reject (get_str op ''choice'' \<notin> {''candidate'', ''existing''})
       ''migration conflict choice is invalid'',
     void (validate_bounded_text (py_get op ''resolution_id'') ''resolution_id'' 255)]"

definition validate_projection_ack :: "string \<Rightarrow> pydict \<Rightarrow> unit res" where
  "validate_projection_ack actor op = all_ok [
     check_node_id_matches op actor ''TRADFI_PROJECTION_ACK node_id must match actor'',
     void (as_nonnegative_int (py_get op ''membership_generation'') ''membership_generation''),
     (case py_get op ''active_profile_generations'' of
        PDict d \<Rightarrow> all_ok (map (\<lambda>(p, g). all_ok [
          void (validate_bounded_text (PStr p) ''TradFi provider'' 255),
          void (as_positive_int g ''active profile generation'')]) d)
      | _ \<Rightarrow> Inl (ClusterStateError ''active_profile_generations must be an object'')),
     void (as_positive_int (py_get op ''projection_applied_generation'')
       ''projection_applied_generation''),
     reject (get_str op ''projection_status'' \<notin> {''current'', ''removed''})
       ''invalid TradFi projection status'']"

definition validate_scan_ack :: "string \<Rightarrow> pydict \<Rightarrow> unit res" where
  "validate_scan_ack actor op =
     (let status = get_str op ''status''; findings = py_get op ''findings'' in all_ok [
       check_node_id_matches op actor ''CREDENTIAL_SCAN_ACK node_id must match actor'',
       void (as_positive_int (py_get op ''freeze_generation'') ''freeze_generation''),
       void (as_nonnegative_int (py_get op ''cutoff_generation'') ''cutoff_generation''),
       reject (status \<notin> {''clean'', ''blocked''}) ''invalid credential scan status'',
       reject (py_get op ''clean'' \<noteq> PBool (status = ''clean''))
         ''credential scan clean flag does not match status'',
       reject (\<not> is_list findings \<or> 256 < length (list_of findings))
         ''credential scan findings must be a bounded list'',
       all_ok (map (\<lambda>f. all_ok [
         reject (\<not> is_dict f \<or> set (dict_keys (dict_of f)) \<noteq> {''path_category''})
           ''credential scan findings must contain only path_category'',
         void (validate_bounded_text (py_get (dict_of f) ''path_category'')
           ''scan path category'' 255)]) (list_of findings))])"

section \<open>The dispatcher\<close>

definition validate_v2_credential_payload :: "pydict \<Rightarrow> unit res" where
  "validate_v2_credential_payload op =
     res_bind (item_str op ''op'') (\<lambda>name.
     let actor = py_str (py_get op ''actor'') in
     if name \<in> {''UPSERT_SECRET'', ''TOMBSTONE_SECRET'', ''UPDATE_SECRET_RECIPIENTS''}
     then validate_secret_payload name op
     else if name = ''UPSERT_CMC_POOL_ENTRY'' then validate_pool_entry op
     else if name = ''SET_CMC_KEY_STATE'' then validate_key_state op
     else if name = ''SET_CMC_AUTHORITY'' then validate_authority op
     else if name = ''SET_TRADFI_ACTIVE_PROFILE'' then validate_tradfi_profile op
     else if name = ''WRITER_FREEZE'' then validate_freeze op
     else if name = ''WRITER_FREEZE_ACK'' then validate_freeze_ack actor op
     else if name = ''CREDENTIAL_INVENTORY_ACK'' then validate_inventory_ack actor op
     else if name = ''CREDENTIAL_MATERIALIZATION_ACK'' then validate_materialization_ack actor op
     else if name = ''CREDENTIAL_CUTOFF'' then validate_cutoff op
     else if name = ''CREDENTIAL_CUTOFF_ACK'' then validate_cutoff_ack actor op
     else if name = ''MIGRATION_SECRET_CANDIDATE'' then validate_candidate op
     else if name = ''MIGRATION_SECRET_ACCEPTANCE'' then validate_acceptance op
     else if name = ''MIGRATION_SECRET_CONFLICT'' then validate_conflict op
     else if name = ''MIGRATION_SECRET_CONFLICT_RESOLUTION'' then validate_resolution op
     else if name = ''TRADFI_PROJECTION_ACK'' then validate_projection_ack actor op
     else if name = ''CREDENTIAL_SCAN_ACK'' then validate_scan_ack actor op
     else Inr ())"

end
