(* ===== verification/Cluster_Trust.thy ===== *)
theory Cluster_Trust
  imports Cluster_Payloads
begin

text \<open>
  Authenticated cluster membership (master/cluster_state.py): the node records, the
  removed node IDs, the sequence-bounded signing keys and the role history of
  \<open>MembershipTrust\<close>, and \<open>_accept_membership_operation\<close>, which authenticates and
  applies one membership operation.
\<close>

section \<open>State\<close>

text \<open>
  \<open>key_span\<close> and \<open>role_event\<close> are the dictionaries the code stores in
  \<open>signing_keys\<close> and \<open>role_history\<close>; a role event built by \<open>_trust_from_nodes\<close> has no
  epoch and no operation ID.
\<close>

record key_span =
  start_seq :: int
  end_seq :: "int option"
  span_key_id :: string
  span_public_key :: string

record role_event =
  role_epoch :: "int option"
  event_role :: string
  membership_op_id :: "string option"

record membership_trust =
  nodes :: "(string, pydict) dict"
  removed_node_ids :: "string set"
  signing_keys :: "(string, key_span list) dict"
  role_history :: "(string, role_event list) dict"
  validated_op_ids :: "string set"

definition empty_trust :: membership_trust where
  "empty_trust = \<lparr>nodes = [], removed_node_ids = {}, signing_keys = [], role_history = [],
     validated_op_ids = {}\<rparr>"

definition keys_of :: "membership_trust \<Rightarrow> string \<Rightarrow> key_span list" where
  "keys_of t n = (case map_of (signing_keys t) n of None \<Rightarrow> [] | Some ks \<Rightarrow> ks)"

definition roles_of :: "membership_trust \<Rightarrow> string \<Rightarrow> role_event list" where
  "roles_of t n = (case map_of (role_history t) n of None \<Rightarrow> [] | Some es \<Rightarrow> es)"

text \<open>The tests the code makes on node records.\<close>

definition node_disabled :: "pydict \<Rightarrow> bool" where
  "node_disabled n \<longleftrightarrow> is_False (py_get_or n ''enabled'' (PBool True))"

definition not_replica :: "pydict \<Rightarrow> bool" where
  "not_replica n \<longleftrightarrow> is_False (py_get_or n ''state_replica'' (PBool True))"

definition node_role :: "membership_trust \<Rightarrow> string \<Rightarrow> string" where
  "node_role t n = (case map_of (nodes t) n of None \<Rightarrow> [] | Some d \<Rightarrow> get_str d ''role'')"

section \<open>Applying an operation to the node records\<close>

definition normalize_node_sync_mode :: "pydict \<Rightarrow> string" where
  "normalize_node_sync_mode node =
     (let raw = str_lower (str_strip (get_str node ''sync_mode'')) in
      if raw \<in> sync_modes then raw
      else if is_False (py_get_or node ''sync_enabled'' (PBool True)) then ''disabled''
      else if str_strip (get_str node ''ssh_host'') \<noteq> [] then ''reachable''
      else ''outbound_only'')"

definition normalize_node_sync_fields :: "pydict \<Rightarrow> pydict" where
  "normalize_node_sync_fields node =
     (let mode = normalize_node_sync_mode node in
      dict_set ''sync_enabled'' (PBool (mode \<noteq> ''disabled''))
        (dict_set ''sync_mode'' (PStr mode) node))"

definition membership_envelope_fields :: "string set" where
  "membership_envelope_fields = {''schema_version'', ''cluster_id'', ''op_id'', ''actor'', ''seq'',
     ''op'', ''created_at'', ''signer_id'', ''signer_key_id'', ''signature'', ''signature_version'',
     ''signature_algorithm'', ''membership_authorization''}"

definition merge_membership_fields :: "pydict \<Rightarrow> pydict \<Rightarrow> pydict" where
  "merge_membership_fields op current =
     fold (\<lambda>(k, v) cur.
       if k \<in> membership_envelope_fields then cur
       else if k = ''signing_key_id'' \<and> \<not> truthy (py_get op ''signing_public_key'') then cur
       else dict_set k v cur) op current"

definition apply_membership ::
  "pydict \<Rightarrow> (string, pydict) dict \<times> string set \<Rightarrow> ((string, pydict) dict \<times> string set) res" where
  "apply_membership op = (\<lambda>(ns, removed).
     res_bind (item_str op ''op'') (\<lambda>name.
     res_bind (item_str op ''node_id'') (\<lambda>node_id.
     let current = (case map_of ns node_id of
           None \<Rightarrow> [(''node_id'', PStr node_id)] | Some d \<Rightarrow> d) in
     if node_id \<in> removed then Inr (ns, removed)
     else if name = ''DISABLE_NODE'' then
       res_bind (item_int op ''created_at'') (\<lambda>at.
       Inr (dict_set node_id
              (dict_set ''updated_at'' (PInt at)
              (dict_set ''sync_enabled'' (PBool False)
              (dict_set ''sync_mode'' (PStr ''disabled'')
              (dict_set ''enabled'' (PBool False) current)))) ns, removed))
     else if name = ''REMOVE_NODE'' then Inr (dict_pop node_id ns, insert node_id removed)
     else
       (let cur0 = (if dict_has op ''sync_enabled'' \<and> \<not> dict_has op ''sync_mode''
                    then dict_pop ''sync_mode'' current else current);
            cur1 = dict_setdefault ''enabled'' (PBool True) (merge_membership_fields op cur0);
            cur2 = normalize_node_sync_fields cur1
        in res_bind (item_int op ''created_at'') (\<lambda>at.
           Inr (dict_set node_id (dict_set ''updated_at'' (PInt at) cur2) ns, removed))))))"

definition apply_to_trust :: "pydict \<Rightarrow> membership_trust \<Rightarrow> membership_trust res" where
  "apply_to_trust op t =
     res_bind (apply_membership op (nodes t, removed_node_ids t)) (\<lambda>(ns, removed).
       Inr (t\<lparr>nodes := ns, removed_node_ids := removed\<rparr>))"

section \<open>Key and role history\<close>

definition close_last_span :: "int \<Rightarrow> key_span list \<Rightarrow> key_span list" where
  "close_last_span s history =
     (if history = [] \<or> end_seq (last history) \<noteq> None then history
      else butlast history @ [last history\<lparr>end_seq := Some (max (start_seq (last history)) (s - 1))\<rparr>])"

definition record_membership_key ::
  "string \<Rightarrow> pydict \<Rightarrow> int \<Rightarrow> membership_trust \<Rightarrow> membership_trust" where
  "record_membership_key node_id op s t =
     (let public_key = get_str op ''signing_public_key''; kid = get_str op ''signing_key_id'';
          history = keys_of t node_id
      in if public_key = [] \<or> kid = [] then t
         else if history \<noteq> [] \<and> span_key_id (last history) = kid
             \<and> span_public_key (last history) = public_key then t
         else t\<lparr>signing_keys := dict_set node_id
                (close_last_span s history @
                  [\<lparr>start_seq = s, end_seq = None, span_key_id = kid, span_public_key = public_key\<rparr>])
                (signing_keys t)\<rparr>)"

definition event_epoch :: "role_event \<Rightarrow> int" where
  "event_epoch e = (case role_epoch e of None \<Rightarrow> 0 | Some n \<Rightarrow> n)"

definition record_membership_role :: "string \<Rightarrow> pydict \<Rightarrow> membership_trust \<Rightarrow> membership_trust" where
  "record_membership_role node_id op t =
     (let role = node_role t node_id; history = roles_of t node_id
      in if role = [] then t
         else if history \<noteq> [] \<and> event_role (last history) = role then t
         else t\<lparr>role_history := dict_set node_id
                (history @ [\<lparr>role_epoch = Some (if history = [] then 1 else event_epoch (last history) + 1),
                   event_role = role, membership_op_id = Some (get_str op ''op_id'')\<rparr>])
                (role_history t)\<rparr>)"

definition mark_validated :: "string \<Rightarrow> membership_trust \<Rightarrow> membership_trust" where
  "mark_validated op_id t = t\<lparr>validated_op_ids := insert op_id (validated_op_ids t)\<rparr>"

section \<open>Resolving keys and roles\<close>

definition membership_signature_key_id :: "pydict \<Rightarrow> string" where
  "membership_signature_key_id op =
     py_str (py_or (py_get_or op ''signer_key_id'' (py_get op ''signing_key_id'')) (PStr []))"

definition span_covers :: "int \<Rightarrow> string \<Rightarrow> key_span \<Rightarrow> bool" where
  "span_covers seq kid k \<longleftrightarrow> start_seq k \<le> seq \<and>
     (case end_seq k of None \<Rightarrow> True | Some e \<Rightarrow> seq \<le> e) \<and> span_key_id k = kid"

definition membership_key_for_operation :: "membership_trust \<Rightarrow> pydict \<Rightarrow> string res" where
  "membership_key_for_operation t op =
     res_bind (get_int op ''seq'' 0) (\<lambda>seq.
     case filter (span_covers seq (membership_signature_key_id op)) (keys_of t (get_str op ''actor'')) of
       [k] \<Rightarrow> Inr (span_public_key k)
     | _ \<Rightarrow> Inl (ClusterStateError ''operation signer has no authenticated key for this sequence''))"

definition membership_role_for_operation :: "membership_trust \<Rightarrow> pydict \<Rightarrow> bool \<Rightarrow> string res" where
  "membership_role_for_operation t op current =
     (let actor = get_str op ''actor''; history = roles_of t actor in
      case py_get op ''actor_role_epoch'' of
        PInt epoch \<Rightarrow>
          if epoch < 1 then Inl (ClusterStateError ''actor_role_epoch must be a positive integer'')
          else (case py_get op ''actor_membership_op_id'' of
            PStr opid \<Rightarrow>
              if opid = [] then Inl (ClusterStateError ''actor_membership_op_id must be non-empty text'')
              else (case filter (\<lambda>(i, e). event_epoch e = epoch \<and>
                        (case membership_op_id e of None \<Rightarrow> [] | Some o' \<Rightarrow> o') = opid)
                      (enumerate 0 history) of
                [(i, e)] \<Rightarrow>
                  if current \<and> (Suc i \<noteq> length history \<or> node_role t actor \<noteq> event_role e)
                  then Inl (ClusterStateError ''credential operation membership epoch is not current'')
                  else Inr (event_role e)
              | _ \<Rightarrow> Inl (ClusterStateError ''credential operation membership epoch is not authenticated''))
          | _ \<Rightarrow> Inl (ClusterStateError ''actor_membership_op_id must be non-empty text''))
      | _ \<Rightarrow> Inl (ClusterStateError ''actor_role_epoch must be a positive integer''))"

definition trust_from_nodes :: "(string, pydict) dict \<Rightarrow> membership_trust" where
  "trust_from_nodes ns = empty_trust\<lparr>
     nodes := ns,
     signing_keys := map (\<lambda>(n, d). (n, [\<lparr>start_seq = 1, end_seq = None,
         span_key_id = get_str d ''signing_key_id'', span_public_key = get_str d ''signing_public_key''\<rparr>]))
       (filter (\<lambda>(n, d). get_str d ''signing_public_key'' \<noteq> [] \<and> get_str d ''signing_key_id'' \<noteq> []) ns),
     role_history := map (\<lambda>(n, d). (n, [\<lparr>role_epoch = None, event_role = get_str d ''role'',
         membership_op_id = None\<rparr>]))
       (filter (\<lambda>(n, d). get_str d ''role'' \<noteq> []) ns)\<rparr>"

text \<open>\<open>except ClusterCredentialError as exc: raise ClusterStateError(str(exc))\<close>\<close>

fun as_state_error :: "'a res \<Rightarrow> 'a res" where
  "as_state_error (Inl (ClusterCredentialError m)) = Inl (ClusterStateError m)"
| "as_state_error r = r"

section \<open>Authenticating a membership operation\<close>

definition active_master :: "membership_trust \<Rightarrow> string \<Rightarrow> bool" where
  "active_master t n \<longleftrightarrow> (case map_of (nodes t) n of
     None \<Rightarrow> False
   | Some d \<Rightarrow> \<not> node_disabled d \<and> \<not> not_replica d \<and> get_str d ''role'' = ''master'')"

definition validate_join_authorization ::
  "crypto \<Rightarrow> membership_trust \<Rightarrow> pydict \<Rightarrow> unit res" where
  "validate_join_authorization cr t op =
     (let auth = dict_of (py_get op ''membership_authorization'') in
      res_bind (reject (\<not> is_dict (py_get op ''membership_authorization'') \<or>
          py_get auth ''kind'' \<noteq> PStr ''join'') ''ADD_NODE requires approved join authorization'') (\<lambda>_.
      res_bind (item_str op ''actor'') (\<lambda>actor.
      res_bind (item_str op ''cluster_id'') (\<lambda>cluster.
      res_bind (reject (get_str auth ''cluster_id'' \<noteq> cluster \<or> get_str auth ''node_id'' \<noteq> actor
          \<or> get_str auth ''role'' \<noteq> get_str op ''role'')
        ''join authorization does not match ADD_NODE'') (\<lambda>_.
      let authorizer = get_str auth ''signer_id'' in
      res_bind (reject (\<not> active_master t authorizer)
        ''join authorization signer is not an active master'') (\<lambda>_.
      case filter (\<lambda>k. span_key_id k = membership_signature_key_id auth) (keys_of t authorizer) of
        [k] \<Rightarrow> as_state_error (verify_operation cr auth (span_public_key k))
      | _ \<Rightarrow> Inl (ClusterStateError ''join authorization signer key is not authenticated'')))))))"

definition accept_unsigned :: "pydict \<Rightarrow> string \<Rightarrow> membership_trust \<Rightarrow> membership_trust res" where
  "accept_unsigned op op_id t =
     res_bind (apply_to_trust op t) (\<lambda>t1.
     res_bind (item_str op ''node_id'') (\<lambda>node_id.
     Inr (mark_validated op_id (record_membership_role node_id op
            (record_membership_key node_id op 1 t1)))))"

text \<open>
  The checks of the three signed branches, in the order of the code. The state is
  changed only after all of them have passed.
\<close>

definition add_node_checks ::
  "crypto \<Rightarrow> pydict \<Rightarrow> string \<Rightarrow> string \<Rightarrow> membership_trust \<Rightarrow> unit res" where
  "add_node_checks cr op actor target t =
     (let existing = map_of (nodes t) target; auth = py_get op ''membership_authorization''
      in all_ok [
        reject (target \<noteq> actor) ''ADD_NODE must be signed by the node being added'',
        reject (case existing of None \<Rightarrow> False | Some d \<Rightarrow> \<not> not_replica d)
          ''ADD_NODE target already exists'',
        reject (\<not> truthy (py_get op ''signing_public_key'')) ''ADD_NODE requires the node signing key'',
        (if is_dict auth \<and> py_get (dict_of auth) ''kind'' = PStr ''bootstrap'' then all_ok [
           reject (\<exists>(n, d) \<in> set (nodes t). \<not> not_replica d)
             ''bootstrap ADD_NODE is only valid for an empty cluster'',
           reject (get_str op ''role'' \<noteq> ''master'') ''cluster bootstrap node must be a master'']
         else validate_join_authorization cr t op),
        as_state_error (verify_operation cr op (py_str (py_get op ''signing_public_key'')))])"

definition accept_add_node ::
  "crypto \<Rightarrow> pydict \<Rightarrow> string \<Rightarrow> string \<Rightarrow> string \<Rightarrow> membership_trust \<Rightarrow> membership_trust res" where
  "accept_add_node cr op op_id actor target t =
     (let provisional = ((case map_of (nodes t) target of None \<Rightarrow> False | Some d \<Rightarrow> not_replica d)
            \<and> keys_of t target = [])
      in res_bind (add_node_checks cr op actor target t) (\<lambda>_.
      res_bind (apply_to_trust op t) (\<lambda>t1.
      res_bind (item_int op ''seq'') (\<lambda>seq.
      let t2 = record_membership_key target op seq t1;
          t3 = (if provisional
                then t2\<lparr>role_history := dict_set target [\<lparr>role_epoch = Some 1,
                       event_role = get_str op ''role'', membership_op_id = Some op_id\<rparr>]
                       (role_history t2)\<rparr>
                else record_membership_role target op t2)
      in Inr (mark_validated op_id t3)))))"

definition key_claim_checks :: "crypto \<Rightarrow> pydict \<Rightarrow> pydict \<Rightarrow> bool \<Rightarrow> unit res" where
  "key_claim_checks cr op actor_node allow_legacy_key_claim = all_ok [
     reject (\<not> allow_legacy_key_claim)
       ''legacy key claim requires direct authenticated node transport'',
     reject (membership_signature_key_id op \<noteq> get_str op ''signing_key_id'')
       ''legacy key claim must be self-signed by the claimed key'',
     reject (dict_has op ''role'' \<and> py_str (py_get op ''role'') \<noteq> get_str actor_node ''role'')
       ''a node cannot change its own authenticated role'',
     res_bind (py_item op ''signing_public_key'')
       (\<lambda>pk. as_state_error (verify_operation cr op (py_str pk)))]"

definition accept_key_claim ::
  "crypto \<Rightarrow> pydict \<Rightarrow> string \<Rightarrow> string \<Rightarrow> pydict \<Rightarrow> bool \<Rightarrow> membership_trust \<Rightarrow> membership_trust res" where
  "accept_key_claim cr op op_id target actor_node allow_legacy_key_claim t =
     res_bind (key_claim_checks cr op actor_node allow_legacy_key_claim) (\<lambda>_.
     res_bind (apply_to_trust op t) (\<lambda>t1.
     res_bind (item_int op ''seq'') (\<lambda>seq.
     Inr (mark_validated op_id (record_membership_role target op
            (record_membership_key target op seq t1))))))"

definition is_self_update :: "string \<Rightarrow> string \<Rightarrow> string \<Rightarrow> bool" where
  "is_self_update name actor target \<longleftrightarrow>
     actor = target \<and> name \<in> {''UPDATE_NODE'', ''UPDATE_NODE_KEY''}"

definition signed_change_checks ::
  "crypto \<Rightarrow> pydict \<Rightarrow> string \<Rightarrow> string \<Rightarrow> string \<Rightarrow> pydict \<Rightarrow> membership_trust \<Rightarrow> unit res" where
  "signed_change_checks cr op name actor target actor_node t = all_ok [
     res_bind (membership_key_for_operation t op) (\<lambda>pk. as_state_error (verify_operation cr op pk)),
     reject (is_self_update name actor target \<and> dict_has op ''role''
         \<and> py_str (py_get op ''role'') \<noteq> get_str actor_node ''role'')
       ''a node cannot change its own authenticated role'',
     when_ok (\<not> is_self_update name actor target) (all_ok [
       reject (get_str actor_node ''role'' \<noteq> ''master'')
         ''membership administration requires an active master'',
       reject (dict_has op ''signing_public_key'' \<or> dict_has op ''encryption_public_key''
           \<or> dict_has op ''encryption_key_id'')
         ''only a node may rotate its own membership key'']),
     reject (name \<in> master_admin_membership_ops \<and> actor = target)
       (name @ '' requires a different master actor'')]"

definition accept_signed_change ::
  "crypto \<Rightarrow> pydict \<Rightarrow> string \<Rightarrow> string \<Rightarrow> string \<Rightarrow> string \<Rightarrow> pydict \<Rightarrow> membership_trust
     \<Rightarrow> membership_trust res" where
  "accept_signed_change cr op op_id name actor target actor_node t =
     res_bind (signed_change_checks cr op name actor target actor_node t) (\<lambda>_.
     res_bind (apply_to_trust op t) (\<lambda>t1.
     let t2 = record_membership_role target op t1 in
     if is_self_update name actor target \<and> truthy (py_get op ''signing_public_key'')
     then res_bind (item_int op ''seq'') (\<lambda>seq.
       Inr (mark_validated op_id (record_membership_key target op (seq + 1) t2)))
     else Inr (mark_validated op_id t2)))"

definition accept_change ::
  "crypto \<Rightarrow> pydict \<Rightarrow> string \<Rightarrow> string \<Rightarrow> string \<Rightarrow> string \<Rightarrow> bool \<Rightarrow> membership_trust
     \<Rightarrow> membership_trust res" where
  "accept_change cr op op_id name actor target allow_legacy_key_claim t =
     (case map_of (nodes t) actor of
        None \<Rightarrow> Inl (ClusterStateError ''membership actor is not registered'')
      | Some actor_node \<Rightarrow>
          if node_disabled actor_node \<or> not_replica actor_node
          then Inl (ClusterStateError ''membership actor is not an active state replica'')
          else if name = ''UPDATE_NODE_KEY'' \<and> actor = target \<and> keys_of t actor = []
              \<and> \<not> (\<exists>f \<in> set crypto_public_fields. truthy (py_get actor_node f))
          then accept_key_claim cr op op_id target actor_node allow_legacy_key_claim t
          else accept_signed_change cr op op_id name actor target actor_node t)"

definition op_signed :: "pydict \<Rightarrow> bool" where
  "op_signed op \<longleftrightarrow> (\<exists>f \<in> set membership_signature_fields. dict_has op f)"

definition accept_membership_operation ::
  "crypto \<Rightarrow> pydict \<Rightarrow> bool \<Rightarrow> bool \<Rightarrow> membership_trust \<Rightarrow> membership_trust res" where
  "accept_membership_operation cr op allow_unsigned allow_legacy_key_claim t =
     res_bind (reject (\<not> op_signed op \<and> \<not> allow_unsigned)
       ''unsigned membership operations are historical replay only'') (\<lambda>_.
     res_bind (item_str op ''op_id'') (\<lambda>op_id.
     if op_id \<in> validated_op_ids t then Inr t
     else if \<not> op_signed op then accept_unsigned op op_id t
     else
       res_bind (item_str op ''actor'') (\<lambda>actor.
       res_bind (item_str op ''node_id'') (\<lambda>target.
       res_bind (item_str op ''op'') (\<lambda>name.
       res_bind (all_ok [
         reject (get_str op ''signer_id'' \<noteq> actor) ''membership signer_id must match actor'',
         reject (target \<in> removed_node_ids t) ''removed nodes cannot be changed'']) (\<lambda>_.
       if name = ''ADD_NODE'' then accept_add_node cr op op_id actor target t
       else accept_change cr op op_id name actor target allow_legacy_key_claim t))))))"

section \<open>Facts on the history updates\<close>

lemma keys_of_simps [simp]:
  "keys_of (t\<lparr>nodes := a\<rparr>) n = keys_of t n"
  "keys_of (t\<lparr>removed_node_ids := b\<rparr>) n = keys_of t n"
  "keys_of (t\<lparr>role_history := c\<rparr>) n = keys_of t n"
  "keys_of (t\<lparr>validated_op_ids := d\<rparr>) n = keys_of t n"
  "keys_of (t\<lparr>signing_keys := dict_set m ks (signing_keys t)\<rparr>) n = (if n = m then ks else keys_of t n)"
  by (simp_all add: keys_of_def)

lemma roles_of_simps [simp]:
  "roles_of (t\<lparr>nodes := a\<rparr>) n = roles_of t n"
  "roles_of (t\<lparr>removed_node_ids := b\<rparr>) n = roles_of t n"
  "roles_of (t\<lparr>signing_keys := c\<rparr>) n = roles_of t n"
  "roles_of (t\<lparr>validated_op_ids := d\<rparr>) n = roles_of t n"
  "roles_of (t\<lparr>role_history := dict_set m es (role_history t)\<rparr>) n = (if n = m then es else roles_of t n)"
  by (simp_all add: roles_of_def)

lemma roles_of_set_other [simp]:
  "n \<noteq> m \<Longrightarrow> roles_of (t\<lparr>role_history := dict_set m es (role_history u)\<rparr>) n = roles_of u n"
  by (simp add: roles_of_def)

lemma node_role_simps [simp]:
  "node_role (t\<lparr>signing_keys := c\<rparr>) n = node_role t n"
  "node_role (t\<lparr>role_history := b\<rparr>) n = node_role t n"
  "node_role (t\<lparr>validated_op_ids := d\<rparr>) n = node_role t n"
  by (simp_all add: node_role_def)

lemma mark_validated_simps [simp]:
  "nodes (mark_validated i t) = nodes t"
  "removed_node_ids (mark_validated i t) = removed_node_ids t"
  "signing_keys (mark_validated i t) = signing_keys t"
  "role_history (mark_validated i t) = role_history t"
  "validated_op_ids (mark_validated i t) = insert i (validated_op_ids t)"
  "keys_of (mark_validated i t) n = keys_of t n"
  "roles_of (mark_validated i t) n = roles_of t n"
  "node_role (mark_validated i t) n = node_role t n"
  by (simp_all add: mark_validated_def)

lemma record_membership_key_simps [simp]:
  "nodes (record_membership_key m op s t) = nodes t"
  "removed_node_ids (record_membership_key m op s t) = removed_node_ids t"
  "role_history (record_membership_key m op s t) = role_history t"
  "validated_op_ids (record_membership_key m op s t) = validated_op_ids t"
  "roles_of (record_membership_key m op s t) n = roles_of t n"
  "node_role (record_membership_key m op s t) n = node_role t n"
  by (simp_all add: record_membership_key_def Let_def)

lemma record_membership_role_simps [simp]:
  "nodes (record_membership_role m op t) = nodes t"
  "removed_node_ids (record_membership_role m op t) = removed_node_ids t"
  "signing_keys (record_membership_role m op t) = signing_keys t"
  "validated_op_ids (record_membership_role m op t) = validated_op_ids t"
  "keys_of (record_membership_role m op t) n = keys_of t n"
  "node_role (record_membership_role m op t) n = node_role t n"
  by (simp_all add: record_membership_role_def Let_def)

lemma record_membership_key_other:
  "n \<noteq> m \<Longrightarrow> keys_of (record_membership_key m op s t) n = keys_of t n"
  by (simp add: record_membership_key_def Let_def)

lemma keys_of_set_same [simp]: "keys_of (t\<lparr>signing_keys := dict_set m ks h\<rparr>) m = ks"
  by (simp add: keys_of_def)

lemma record_membership_key_same:
  "keys_of (record_membership_key m op s t) m =
     (if get_str op ''signing_public_key'' = [] \<or> get_str op ''signing_key_id'' = [] then keys_of t m
      else if keys_of t m \<noteq> [] \<and> span_key_id (last (keys_of t m)) = get_str op ''signing_key_id''
        \<and> span_public_key (last (keys_of t m)) = get_str op ''signing_public_key'' then keys_of t m
      else close_last_span s (keys_of t m) @ [\<lparr>start_seq = s, end_seq = None,
        span_key_id = get_str op ''signing_key_id'',
        span_public_key = get_str op ''signing_public_key''\<rparr>])"
  by (simp add: record_membership_key_def Let_def)

lemma record_membership_role_other:
  "n \<noteq> m \<Longrightarrow> roles_of (record_membership_role m op t) n = roles_of t n"
  by (simp add: record_membership_role_def Let_def)

text \<open>\<open>_apply_membership\<close> changes the record of its target only, and only adds removed node IDs.\<close>

lemma apply_membership_cases:
  assumes "apply_membership op (ns, rm) = Inr (ns', rm')"
  obtains (ignored) n where "item_str op ''node_id'' = Inr n" "n \<in> rm" "ns' = ns" "rm' = rm"
  | (removed) n where "item_str op ''node_id'' = Inr n" "n \<notin> rm"
      "item_str op ''op'' = Inr ''REMOVE_NODE''" "ns' = dict_pop n ns" "rm' = insert n rm"
  | (updated) n d where "item_str op ''node_id'' = Inr n" "n \<notin> rm" "ns' = dict_set n d ns" "rm' = rm"
proof -
  from assms obtain name n where n: "item_str op ''op'' = Inr name" "item_str op ''node_id'' = Inr n"
    unfolding apply_membership_def prod.case res_bind_eq_Inr by blast
  consider "n \<in> rm" | "n \<notin> rm" "name = ''REMOVE_NODE''" | "n \<notin> rm" "name \<noteq> ''REMOVE_NODE''" by blast
  then show ?thesis
  proof cases
    case 1
    with assms n show ?thesis by (intro ignored) (simp_all add: apply_membership_def)
  next
    case 2
    with assms n show ?thesis by (intro removed) (auto simp: apply_membership_def)
  next
    case 3
    with assms n obtain d where "ns' = dict_set n d ns" "rm' = rm"
      by (cases "item_int op ''created_at''"; cases "name = ''DISABLE_NODE''")
        (auto simp: apply_membership_def Let_def)
    with 3 n show ?thesis by (intro updated)
  qed
qed

lemma apply_to_trust_Inr:
  "apply_to_trust op t = Inr t1 \<longleftrightarrow> (\<exists>ns rm. apply_membership op (nodes t, removed_node_ids t) = Inr (ns, rm)
     \<and> t1 = t\<lparr>nodes := ns, removed_node_ids := rm\<rparr>)"
  by (auto simp: apply_to_trust_def res_bind_eq_Inr)

lemma apply_to_trust_frame:
  assumes "apply_to_trust op t = Inr t1"
  shows "signing_keys t1 = signing_keys t" "role_history t1 = role_history t"
    "validated_op_ids t1 = validated_op_ids t"
    "\<And>n. item_str op ''node_id'' \<noteq> Inr n \<Longrightarrow> map_of (nodes t1) n = map_of (nodes t) n"
    "removed_node_ids t \<subseteq> removed_node_ids t1"
proof -
  from assms obtain ns rm where a: "apply_membership op (nodes t, removed_node_ids t) = Inr (ns, rm)"
    and t1: "t1 = t\<lparr>nodes := ns, removed_node_ids := rm\<rparr>"
    unfolding apply_to_trust_Inr by blast
  show "signing_keys t1 = signing_keys t" "role_history t1 = role_history t"
    "validated_op_ids t1 = validated_op_ids t" by (simp_all add: t1)
  show "\<And>n. item_str op ''node_id'' \<noteq> Inr n \<Longrightarrow> map_of (nodes t1) n = map_of (nodes t) n"
    "removed_node_ids t \<subseteq> removed_node_ids t1"
    using a by (cases rule: apply_membership_cases; auto simp: t1)+
qed

lemma apply_to_trust_keys [simp]:
  assumes "apply_to_trust op t = Inr t1"
  shows "keys_of t1 n = keys_of t n" "roles_of t1 n = roles_of t n"
  using apply_to_trust_frame(1,2) [OF assms] by (simp_all add: keys_of_def roles_of_def)

lemma as_state_error_Inr [simp, res_simps]: "as_state_error m = Inr x \<longleftrightarrow> m = Inr x"
  by (cases m rule: as_state_error.cases) simp_all

lemma signed_change_checks_Inr:
  "signed_change_checks cr op name actor target d t = Inr () \<longleftrightarrow>
     (\<exists>pk. membership_key_for_operation t op = Inr pk \<and> verify_operation cr op pk = Inr ()) \<and>
     (is_self_update name actor target \<and> dict_has op ''role'' \<longrightarrow>
        py_str (py_get op ''role'') = get_str d ''role'') \<and>
     (\<not> is_self_update name actor target \<longrightarrow> get_str d ''role'' = ''master'' \<and>
        \<not> dict_has op ''signing_public_key'' \<and> \<not> dict_has op ''encryption_public_key'' \<and>
        \<not> dict_has op ''encryption_key_id'') \<and>
     (name \<in> master_admin_membership_ops \<longrightarrow> actor \<noteq> target)"
  by (auto simp: signed_change_checks_def res_bind_eq_Inr)

text \<open>
  Every accepting branch applies the operation to the node records and then
  records at most the target's key and role.
\<close>

definition target_only :: "pydict \<Rightarrow> string \<Rightarrow> string \<Rightarrow> membership_trust \<Rightarrow> membership_trust \<Rightarrow> bool" where
  "target_only op target op_id t t' \<longleftrightarrow> (\<exists>t1. apply_to_trust op t = Inr t1 \<and>
     nodes t' = nodes t1 \<and> removed_node_ids t' = removed_node_ids t1 \<and>
     validated_op_ids t' = insert op_id (validated_op_ids t) \<and>
     (\<forall>n. n \<noteq> target \<longrightarrow> keys_of t' n = keys_of t n \<and> roles_of t' n = roles_of t n))"

lemma target_onlyI:
  assumes "apply_to_trust op t = Inr t1" and "nodes t' = nodes t1"
    and "removed_node_ids t' = removed_node_ids t1"
    and "validated_op_ids t' = insert op_id (validated_op_ids t1)"
    and "\<And>n. n \<noteq> target \<Longrightarrow> keys_of t' n = keys_of t1 n"
    and "\<And>n. n \<noteq> target \<Longrightarrow> roles_of t' n = roles_of t1 n"
  shows "target_only op target op_id t t'"
  unfolding target_only_def
  using assms apply_to_trust_frame(3) [OF assms(1)] by (intro exI [of _ t1]) simp

lemmas trust_update_other = record_membership_key_other record_membership_role_other

lemma accept_unsigned_target:
  assumes "accept_unsigned op op_id t = Inr t'"
  shows "\<exists>target. item_str op ''node_id'' = Inr target \<and> target_only op target op_id t t'"
  using assms unfolding accept_unsigned_def
  by (auto simp: res_bind_eq_Inr trust_update_other intro!: target_onlyI)

lemma accept_add_node_target:
  assumes "accept_add_node cr op op_id actor target t = Inr t'"
  shows "target_only op target op_id t t'"
proof -
  from assms obtain t1 seq where t1: "apply_to_trust op t = Inr t1"
    and t': "t' = mark_validated op_id (let t2 = record_membership_key target op seq t1 in
      if (case map_of (nodes t) target of None \<Rightarrow> False | Some d \<Rightarrow> not_replica d) \<and> keys_of t target = []
      then t2\<lparr>role_history := dict_set target [\<lparr>role_epoch = Some 1,
             event_role = get_str op ''role'', membership_op_id = Some op_id\<rparr>] (role_history t2)\<rparr>
      else record_membership_role target op t2)"
    unfolding accept_add_node_def Let_def res_bind_eq_Inr by blast
  show ?thesis
    by (rule target_onlyI [OF t1]) (simp_all add: t' Let_def trust_update_other)
qed

lemma accept_change_cases:
  assumes "accept_change cr op op_id name actor target al t = Inr t'"
  obtains (claim) actor_node where "map_of (nodes t) actor = Some actor_node"
      "\<not> node_disabled actor_node" "\<not> not_replica actor_node"
      "name = ''UPDATE_NODE_KEY''" "actor = target" "keys_of t actor = []"
      "accept_key_claim cr op op_id target actor_node al t = Inr t'"
  | (signed) actor_node where "map_of (nodes t) actor = Some actor_node"
      "\<not> node_disabled actor_node" "\<not> not_replica actor_node"
      "accept_signed_change cr op op_id name actor target actor_node t = Inr t'"
proof -
  from assms obtain d where d: "map_of (nodes t) actor = Some d"
    by (cases "map_of (nodes t) actor") (simp_all add: accept_change_def)
  define c where "c \<longleftrightarrow> name = ''UPDATE_NODE_KEY'' \<and> actor = target \<and> keys_of t actor = []
    \<and> \<not> (\<exists>f \<in> set crypto_public_fields. truthy (py_get d f))"
  from assms d have ok: "\<not> node_disabled d" "\<not> not_replica d"
    by (auto simp: accept_change_def split: if_splits)
  with assms d have "(if c then accept_key_claim cr op op_id target d al t
      else accept_signed_change cr op op_id name actor target d t) = Inr t'"
    by (simp add: accept_change_def c_def)
  moreover have "c \<Longrightarrow> name = ''UPDATE_NODE_KEY'' \<and> actor = target \<and> keys_of t actor = []"
    unfolding c_def by blast
  ultimately show ?thesis using claim [OF d ok] signed [OF d ok] by (cases c) auto
qed

lemma accept_key_claim_Inr:
  "accept_key_claim cr op op_id target d al t = Inr t' \<longleftrightarrow>
     key_claim_checks cr op d al = Inr () \<and>
     (\<exists>t1 seq. apply_to_trust op t = Inr t1 \<and> item_int op ''seq'' = Inr seq \<and>
        t' = mark_validated op_id (record_membership_role target op
               (record_membership_key target op seq t1)))"
  unfolding accept_key_claim_def res_bind_eq_Inr by auto

lemma accept_signed_change_Inr:
  "accept_signed_change cr op op_id name actor target d t = Inr t' \<longleftrightarrow>
     signed_change_checks cr op name actor target d t = Inr () \<and>
     (\<exists>t1. apply_to_trust op t = Inr t1 \<and>
       (if is_self_update name actor target \<and> truthy (py_get op ''signing_public_key'')
        then \<exists>seq. item_int op ''seq'' = Inr seq \<and>
          t' = mark_validated op_id (record_membership_key target op (seq + 1)
                 (record_membership_role target op t1))
        else t' = mark_validated op_id (record_membership_role target op t1)))"
  unfolding accept_signed_change_def res_bind_eq_Inr Let_def
  by (auto simp: res_bind_eq_Inr split: if_splits)

lemma accept_change_target:
  assumes "accept_change cr op op_id name actor target al t = Inr t'"
  shows "target_only op target op_id t t'"
  using assms
proof (cases rule: accept_change_cases)
  case (claim d)
  from claim(7) obtain t1 seq where t1: "apply_to_trust op t = Inr t1"
    and t': "t' = mark_validated op_id (record_membership_role target op
               (record_membership_key target op seq t1))"
    unfolding accept_key_claim_Inr by blast
  show ?thesis by (rule target_onlyI [OF t1]) (simp_all add: t' trust_update_other)
next
  case (signed d)
  from signed(4) obtain t1 s where t1: "apply_to_trust op t = Inr t1"
    and t': "t' = mark_validated op_id (record_membership_key target op s
                 (record_membership_role target op t1))
        \<or> t' = mark_validated op_id (record_membership_role target op t1)"
    unfolding accept_signed_change_Inr by (auto split: if_splits)
  from t' show ?thesis
    by (elim disjE) (rule target_onlyI [OF t1], simp_all add: trust_update_other)+
qed

lemma accept_membership_cases:
  assumes "accept_membership_operation cr op au al t = Inr t'"
  obtains (seen) op_id where "item_str op ''op_id'' = Inr op_id" "op_id \<in> validated_op_ids t" "t' = t"
      "op_signed op \<or> au"
  | (unsigned) op_id where "item_str op ''op_id'' = Inr op_id" "op_id \<notin> validated_op_ids t"
      "\<not> op_signed op" "au" "accept_unsigned op op_id t = Inr t'"
  | (add) op_id actor target where "item_str op ''op_id'' = Inr op_id" "op_id \<notin> validated_op_ids t"
      "op_signed op" "item_str op ''actor'' = Inr actor" "item_str op ''node_id'' = Inr target"
      "item_str op ''op'' = Inr ''ADD_NODE''" "get_str op ''signer_id'' = actor"
      "target \<notin> removed_node_ids t" "accept_add_node cr op op_id actor target t = Inr t'"
  | (change) op_id actor target name where "item_str op ''op_id'' = Inr op_id"
      "op_id \<notin> validated_op_ids t" "op_signed op" "item_str op ''actor'' = Inr actor"
      "item_str op ''node_id'' = Inr target" "item_str op ''op'' = Inr name" "name \<noteq> ''ADD_NODE''"
      "get_str op ''signer_id'' = actor" "target \<notin> removed_node_ids t"
      "accept_change cr op op_id name actor target al t = Inr t'"
proof -
  from assms have s: "op_signed op \<or> au"
    and rest: "res_bind (item_str op ''op_id'') (\<lambda>op_id.
       if op_id \<in> validated_op_ids t then Inr t
       else if \<not> op_signed op then accept_unsigned op op_id t
       else res_bind (item_str op ''actor'') (\<lambda>actor.
         res_bind (item_str op ''node_id'') (\<lambda>target.
         res_bind (item_str op ''op'') (\<lambda>name.
         res_bind (all_ok [
           reject (get_str op ''signer_id'' \<noteq> actor) ''membership signer_id must match actor'',
           reject (target \<in> removed_node_ids t) ''removed nodes cannot be changed'']) (\<lambda>_.
         if name = ''ADD_NODE'' then accept_add_node cr op op_id actor target t
         else accept_change cr op op_id name actor target al t))))) = Inr t'"
    unfolding accept_membership_operation_def res_bind_eq_Inr by auto
  from rest obtain op_id where op_id: "item_str op ''op_id'' = Inr op_id"
    unfolding res_bind_eq_Inr by blast
  consider "op_id \<in> validated_op_ids t" | "op_id \<notin> validated_op_ids t" "\<not> op_signed op"
    | "op_id \<notin> validated_op_ids t" "op_signed op" by blast
  then show ?thesis
  proof cases
    case 1
    with rest op_id s show ?thesis by (intro seen) auto
  next
    case 2
    with rest op_id s show ?thesis by (intro unsigned) auto
  next
    case 3
    with rest op_id obtain actor target name where n: "item_str op ''actor'' = Inr actor"
      "item_str op ''node_id'' = Inr target" "item_str op ''op'' = Inr name"
      "get_str op ''signer_id'' = actor" "target \<notin> removed_node_ids t"
      "(if name = ''ADD_NODE'' then accept_add_node cr op op_id actor target t
        else accept_change cr op op_id name actor target al t) = Inr t'"
      by (auto simp: res_bind_eq_Inr simp del: if_split)
    show ?thesis
      by (cases "name = ''ADD_NODE''") (use 3 op_id n add change in auto)
  qed
qed

lemma accept_membership_target:
  assumes "accept_membership_operation cr op au al t = Inr t'"
  obtains (seen) op_id where "item_str op ''op_id'' = Inr op_id" "op_id \<in> validated_op_ids t" "t' = t"
  | (applied) op_id target where "item_str op ''op_id'' = Inr op_id" "op_id \<notin> validated_op_ids t"
      "item_str op ''node_id'' = Inr target" "target_only op target op_id t t'"
  using assms
proof (cases rule: accept_membership_cases)
  case (seen op_id)
  then show ?thesis by (intro that(1))
next
  case (unsigned op_id)
  with accept_unsigned_target that(2) show ?thesis by blast
next
  case (add op_id actor target)
  with accept_add_node_target that(2) show ?thesis by blast
next
  case (change op_id actor target name)
  with accept_change_target that(2) show ?thesis by blast
qed

section \<open>Well-formed trust states\<close>

text \<open>
  Role epochs count from one and consecutive events differ; every signing key span
  but the last is closed; a removed node has no record.
\<close>

definition roles_wf :: "role_event list \<Rightarrow> bool" where
  "roles_wf es \<longleftrightarrow> map role_epoch es = map (\<lambda>i. Some (int i)) [1..<Suc (length es)]
     \<and> successively (\<noteq>) (map event_role es)"

definition keys_wf :: "key_span list \<Rightarrow> bool" where
  "keys_wf ks \<longleftrightarrow> ks = [] \<or> end_seq (last ks) = None \<and>
     (\<forall>k \<in> set (butlast ks). \<exists>e. end_seq k = Some e \<and> start_seq k \<le> e)"

definition trust_wf :: "membership_trust \<Rightarrow> bool" where
  "trust_wf t \<longleftrightarrow> distinct (map fst (nodes t)) \<and> (\<forall>n \<in> removed_node_ids t. map_of (nodes t) n = None)
     \<and> (\<forall>n. roles_wf (roles_of t n)) \<and> (\<forall>n. keys_wf (keys_of t n))"

lemma roles_wf_single: "roles_wf [\<lparr>role_epoch = Some 1, event_role = r, membership_op_id = i\<rparr>]"
  by (simp add: roles_wf_def)

lemma roles_wf_snoc:
  assumes "roles_wf es" and "es = [] \<or> event_role (last es) \<noteq> r"
  shows "roles_wf (es @ [\<lparr>role_epoch = Some (if es = [] then 1 else event_epoch (last es) + 1),
                          event_role = r, membership_op_id = i\<rparr>])"
proof (cases es rule: rev_cases)
  case Nil
  then show ?thesis by (simp add: roles_wf_single)
next
  case (snoc fs e)
  have "role_epoch e = Some (int (Suc (length fs)))"
    using assms(1) by (simp add: roles_wf_def snoc)
  then have "event_epoch (last es) + 1 = int (Suc (length es))"
    by (simp add: event_epoch_def snoc)
  with assms show ?thesis
    by (simp add: roles_wf_def snoc successively_append_iff)
qed

lemma keys_wf_record:
  assumes "keys_wf (keys_of t n)"
  shows "keys_wf (keys_of (record_membership_key m op s t) n)"
proof -
  let ?ks = "keys_of t m"
  have "keys_wf (close_last_span s ?ks @ [k])" if k: "end_seq k = None" and wf: "keys_wf ?ks" for k
  proof (cases ?ks rule: rev_cases)
    case Nil
    then show ?thesis using k by (simp add: keys_wf_def close_last_span_def)
  next
    case (snoc ys y)
    with wf have y: "end_seq y = None" "\<forall>k \<in> set ys. \<exists>e. end_seq k = Some e \<and> start_seq k \<le> e"
      by (simp_all add: keys_wf_def)
    then have "close_last_span s ?ks @ [k] = (ys @ [y\<lparr>end_seq := Some (max (start_seq y) (s - 1))\<rparr>]) @ [k]"
      by (simp add: snoc close_last_span_def)
    then show ?thesis unfolding keys_wf_def using k y(2) by (auto simp del: append_assoc)
  qed
  with assms show ?thesis
    by (cases "n = m") (simp_all add: record_membership_key_def Let_def record_membership_key_other)
qed

lemma roles_wf_record:
  "roles_wf (roles_of t n) \<Longrightarrow> roles_wf (roles_of (record_membership_role m op t) n)"
  by (cases "n = m") (simp_all add: record_membership_role_def Let_def roles_wf_snoc)

lemma apply_to_trust_wf:
  assumes "apply_to_trust op t = Inr t1" and "trust_wf t"
  shows "trust_wf t1"
proof -
  from assms(1) obtain ns rm where a: "apply_membership op (nodes t, removed_node_ids t) = Inr (ns, rm)"
    and t1: "t1 = t\<lparr>nodes := ns, removed_node_ids := rm\<rparr>"
    unfolding apply_to_trust_Inr by blast
  have "distinct (map fst ns) \<and> (\<forall>n \<in> rm. map_of ns n = None)"
    using a by (cases rule: apply_membership_cases) (use assms(2) in \<open>auto simp: trust_wf_def\<close>)
  with assms show ?thesis by (simp add: trust_wf_def t1)
qed

lemma trust_wf_mark [simp]: "trust_wf (mark_validated i t) = trust_wf t"
  by (simp add: trust_wf_def)

lemma trust_wf_record_key: "trust_wf t \<Longrightarrow> trust_wf (record_membership_key m op s t)"
  by (simp add: trust_wf_def keys_wf_record)

lemma trust_wf_record_role: "trust_wf t \<Longrightarrow> trust_wf (record_membership_role m op t)"
  by (simp add: trust_wf_def roles_wf_record)

lemma trust_wf_set_roles:
  "trust_wf t \<Longrightarrow> roles_wf es \<Longrightarrow> trust_wf (t\<lparr>role_history := dict_set m es (role_history t)\<rparr>)"
  by (simp add: trust_wf_def)

lemmas trust_wf_intros = trust_wf_record_key trust_wf_record_role
  trust_wf_set_roles roles_wf_single

lemma accept_add_node_wf:
  assumes "accept_add_node cr op op_id actor target t = Inr t'" and "trust_wf t"
  shows "trust_wf t'"
proof -
  from assms(1) obtain t1 seq where t1: "apply_to_trust op t = Inr t1"
    and t': "t' = mark_validated op_id (let t2 = record_membership_key target op seq t1 in
      if (case map_of (nodes t) target of None \<Rightarrow> False | Some d \<Rightarrow> not_replica d) \<and> keys_of t target = []
      then t2\<lparr>role_history := dict_set target [\<lparr>role_epoch = Some 1,
             event_role = get_str op ''role'', membership_op_id = Some op_id\<rparr>] (role_history t2)\<rparr>
      else record_membership_role target op t2)"
    unfolding accept_add_node_def Let_def res_bind_eq_Inr by blast
  have "trust_wf (record_membership_key target op seq t1)"
    by (rule trust_wf_record_key) (rule apply_to_trust_wf [OF t1 assms(2)])
  then show ?thesis
    unfolding t' Let_def trust_wf_mark
    by (simp only: trust_wf_intros if_split) (blast intro: trust_wf_intros)
qed

lemma accept_change_wf:
  assumes "accept_change cr op op_id name actor target al t = Inr t'" and "trust_wf t"
  shows "trust_wf t'"
  using assms(1)
proof (cases rule: accept_change_cases)
  case (claim d)
  then obtain t1 seq where t1: "apply_to_trust op t = Inr t1" and "t' = mark_validated op_id
      (record_membership_role target op (record_membership_key target op seq t1))"
    unfolding accept_key_claim_Inr by blast
  with apply_to_trust_wf [OF t1 assms(2)] show ?thesis by (simp add: trust_wf_intros)
next
  case (signed d)
  then obtain t1 s where t1: "apply_to_trust op t = Inr t1"
    and t': "t' = mark_validated op_id (record_membership_key target op s
                 (record_membership_role target op t1))
        \<or> t' = mark_validated op_id (record_membership_role target op t1)"
    unfolding accept_signed_change_Inr by (auto split: if_splits)
  with apply_to_trust_wf [OF t1 assms(2)] show ?thesis by (auto simp: trust_wf_intros)
qed

lemma accept_unsigned_wf:
  assumes "accept_unsigned op op_id t = Inr t'" and "trust_wf t"
  shows "trust_wf t'"
proof -
  from assms(1) obtain t1 n where t1: "apply_to_trust op t = Inr t1"
    and "t' = mark_validated op_id (record_membership_role n op (record_membership_key n op 1 t1))"
    unfolding accept_unsigned_def res_bind_eq_Inr by blast
  with apply_to_trust_wf [OF t1 assms(2)] show ?thesis by (simp add: trust_wf_intros)
qed

lemma accept_membership_wf:
  assumes "accept_membership_operation cr op au al t = Inr t'" and "trust_wf t"
  shows "trust_wf t'"
  using assms(1)
proof (cases rule: accept_membership_cases)
  case (seen op_id)
  with assms(2) show ?thesis by simp
next
  case (unsigned op_id)
  with assms(2) show ?thesis by (blast intro: accept_unsigned_wf)
next
  case (add op_id actor target)
  with assms(2) show ?thesis by (blast intro: accept_add_node_wf)
next
  case (change op_id actor target name)
  with assms(2) show ?thesis by (blast intro: accept_change_wf)
qed

text \<open>The trust states the code reaches: operations accepted one after the other.\<close>

inductive trust_reachable :: "crypto \<Rightarrow> membership_trust \<Rightarrow> bool" for cr where
  empty_trust_reachable: "trust_reachable cr empty_trust"
| accepted_reachable: "trust_reachable cr t \<Longrightarrow> accept_membership_operation cr op au al t = Inr t'
     \<Longrightarrow> trust_reachable cr t'"

lemma trust_wf_empty: "trust_wf empty_trust"
  by (simp add: trust_wf_def empty_trust_def roles_of_def keys_of_def roles_wf_def keys_wf_def)

lemma trust_reachable_wf: "trust_reachable cr t \<Longrightarrow> trust_wf t"
  by (induction rule: trust_reachable.induct) (blast intro: trust_wf_empty accept_membership_wf)+

end
