(* ===== verification/Replay_Log.thy ===== *)
theory Replay_Log
  imports Pb_Prelude
begin

text \<open>
  The contract between a history and the state rebuilt from it: an operation that is
  accepted marks its identifier, and an operation whose identifier is marked changes
  nothing. The history code relies on it twice: \<open>load_operations\<close> validates operations
  a second time against the trust state that already contains them, and a node
  receives the same operation from several peers. \<open>ordered_replay\<close> adds the global
  order in which histories are sorted before they are replayed.
\<close>

locale replay_log =
  fixes accept :: "'op \<Rightarrow> 's \<Rightarrow> 's res"
    and ident :: "'op \<Rightarrow> 'k option"
    and seen :: "'s \<Rightarrow> 'k set"
  assumes accepted_marks: "accept x s = Inr s' \<Longrightarrow> \<exists>k. ident x = Some k \<and> seen s' = insert k (seen s)"
    and seen_skips: "ident x = Some k \<Longrightarrow> k \<in> seen s \<Longrightarrow> accept x s = Inr s"
begin

lemma accept_again:
  assumes "accept x s = Inr s'"
  shows "accept x s' = Inr s'"
proof -
  from accepted_marks [OF assms] obtain k where "ident x = Some k" "k \<in> seen s'" by blast
  then show ?thesis by (rule seen_skips)
qed

lemma replay_seen:
  "res_fold accept xs s = Inr s' \<Longrightarrow> Some ` seen s' = Some ` seen s \<union> ident ` set xs"
proof (induction xs arbitrary: s)
  case Nil
  then show ?case by simp
next
  case (Cons x xs)
  then obtain u where u: "accept x s = Inr u" "res_fold accept xs u = Inr s'"
    by (auto simp: res_bind_eq_Inr)
  from accepted_marks [OF u(1)] obtain k where "ident x = Some k" "seen u = insert k (seen s)"
    by blast
  with Cons.IH [OF u(2)] show ?case by auto
qed

lemma replay_seen_mono: "res_fold accept xs s = Inr s' \<Longrightarrow> seen s \<subseteq> seen s'"
  using replay_seen [of xs s s'] by blast

lemma replay_known:
  assumes "\<forall>x \<in> set xs. \<exists>k \<in> seen s. ident x = Some k"
  shows "res_fold accept xs s = Inr s"
  using assms by (induction xs) (auto simp: seen_skips)

text \<open>Replaying any part of a history on the state it produced changes nothing.\<close>

lemma replay_again:
  assumes "res_fold accept xs s = Inr s'" and "set ys \<subseteq> set xs"
  shows "res_fold accept ys s' = Inr s'"
proof (rule replay_known, intro ballI)
  fix y
  assume "y \<in> set ys"
  then have "ident y \<in> Some ` seen s'" using replay_seen [OF assms(1)] assms(2) by auto
  then show "\<exists>k \<in> seen s'. ident y = Some k" by auto
qed

text \<open>A repeated delivery may be dropped from a history.\<close>

lemma replay_duplicate:
  assumes "x \<in> set xs"
  shows "res_fold accept (xs @ x # ys) s = res_fold accept (xs @ ys) s"
proof (cases "res_fold accept xs s")
  case (Inl e)
  then show ?thesis by (simp add: res_fold_append)
next
  case (Inr u)
  from assms have "res_fold accept [x] u = Inr u" by (intro replay_again [OF Inr]) simp
  then have "accept x u = Inr u" by (auto simp: res_bind_eq_Inr)
  then show ?thesis by (simp add: res_fold_append Inr)
qed

end

locale ordered_replay = replay_log accept ident seen
  for accept :: "'op \<Rightarrow> 's \<Rightarrow> 's res"
    and ident :: "'op \<Rightarrow> 'k option"
    and seen :: "'s \<Rightarrow> 'k set" +
  fixes order_key :: "'op \<Rightarrow> 'o :: linorder"
    and valid :: "'op \<Rightarrow> bool"
  assumes order_ident: "valid x \<Longrightarrow> valid y \<Longrightarrow> order_key x = order_key y \<Longrightarrow> ident x = ident y"
begin

text \<open>
  Two nodes holding the same operations rebuild the same state, whatever the order in
  which the operations reached them, provided an identifier names one operation.
\<close>

lemma replay_converges:
  assumes "mset xs = mset ys" and "inj_on ident (set xs)" and "\<forall>x \<in> set xs. valid x"
  shows "res_fold accept (sort_key order_key xs) s = res_fold accept (sort_key order_key ys) s"
proof -
  have "inj_on order_key (set xs)"
    using assms(2,3) order_ident by (meson inj_on_def)
  then show ?thesis using sort_key_perm [OF assms(1)] by metis
qed

end

end
