(* ===== verification/Demo_Cluster.thy ===== *)
theory Demo_Cluster
  imports Cluster_Trust
begin

text \<open>
  Concrete operations and states on which the theorems are applied: a signature scheme
  that accepts every well-formed signature, two nodes and a trust state in which the
  first is a master and the second a worker.
\<close>

definition demo_crypto :: crypto where
  "demo_crypto = \<lparr>sha256_hex = (\<lambda>s. take 1 s), ed25519_public = (\<lambda>k. k),
     ed25519_sign = (\<lambda>k m. replicate 64 CHR ''s''), ed25519_valid = (\<lambda>k s m. True)\<rparr>"

definition demo_pk :: "char \<Rightarrow> string" where
  "demo_pk c = b64_encode (replicate 32 c)"

definition demo_sig :: string where
  "demo_sig = b64_encode (replicate 64 CHR ''s'')"

definition node_a :: string where
  "node_a = ''pbgui-node-00000000-0000-0000-0000-00000000000a''"

definition node_b :: string where
  "node_b = ''pbgui-node-00000000-0000-0000-0000-00000000000b''"

lemma demo_nodes [simp]: "node_a \<noteq> node_b" "node_b \<noteq> node_a" "node_a \<noteq> []" "node_b \<noteq> []"
  by (simp_all add: node_a_def node_b_def)

text \<open>A signed operation of \<open>actor\<close> under the key \<open>c\<close>.\<close>

definition demo_op :: "string \<Rightarrow> char \<Rightarrow> int \<Rightarrow> int \<Rightarrow> string \<Rightarrow> pydict \<Rightarrow> pydict" where
  "demo_op actor c seq at name fs = [(''cluster_id'', PStr ''c''), (''op_id'', PStr (''op'' @ [c] @ int_str seq)),
     (''actor'', PStr actor), (''seq'', PInt seq), (''op'', PStr name), (''created_at'', PInt at),
     (''signer_id'', PStr actor), (''signer_key_id'', PStr (''ed25519:'' @ [c])),
     (''signature_version'', PInt 1), (''signature_algorithm'', PStr ''Ed25519''),
     (''signature'', PStr demo_sig)] @ fs"

text \<open>Values whose integers are in the interoperable range have a canonical form.\<close>

fun json_safe :: "pyval \<Rightarrow> bool" where
  "json_safe (PInt i) = (- max_safe_integer \<le> i \<and> i \<le> max_safe_integer)"
| "json_safe (PList xs) = list_all json_safe xs"
| "json_safe (PDict d) = list_all (\<lambda>(k, v). json_safe v) d"
| "json_safe v = True"

lemma res_bind_ok: "is_ok m \<Longrightarrow> (\<And>x. m = Inr x \<Longrightarrow> is_ok (f x)) \<Longrightarrow> is_ok (res_bind m f)"
  by (auto simp: is_ok_iff)

lemma res_map_ok: "(\<And>x. x \<in> set xs \<Longrightarrow> is_ok (f x)) \<Longrightarrow> is_ok (res_map f xs)"
  by (induction xs) (auto intro!: res_bind_ok)

lemma canonical_json_ok: "json_safe v \<Longrightarrow> is_ok (canonical_json v)"
proof (induction v rule: canonical_json.induct)
  case (5 xs)
  then show ?case by (auto intro!: res_bind_ok res_map_ok simp: list_all_iff)
next
  case (6 d)
  then show ?case by (fastforce intro!: res_bind_ok res_map_ok simp: list_all_iff split: prod.splits)
qed simp_all

lemma demo_verify:
  assumes "py_get op ''signature'' = PStr demo_sig" "py_get op ''signature_version'' = PInt 1"
    "py_get op ''signature_algorithm'' = PStr ''Ed25519''"
    "py_get_or op ''signer_key_id'' (py_get op ''signing_key_id'') = PStr (''ed25519:'' @ [c])"
    "is_ok (validated_text (py_get op ''signer_id'') ''signer_id'')"
    "json_safe (PDict (dict_pop ''signature'' op))"
  shows "verify_operation demo_crypto op (demo_pk c) = Inr ()"
proof -
  from canonical_json_ok [OF assms(6)] obtain m where m: "canonical_operation_bytes op = Inr m"
    by (auto simp: is_ok_iff canonical_operation_bytes_def)
  have "length (replicate 32 c) = 32" "length (replicate 64 CHR ''s'') = 64" by simp_all
  moreover have "validate_signature_metadata demo_crypto op (replicate 32 c) = Inr ()"
    using assms by (simp add: validate_signature_metadata_def key_id_def demo_crypto_def py_eq_def numeral_eq_Suc)
  moreover have "ed25519_valid demo_crypto (replicate 32 c) (replicate 64 CHR ''s'') m"
    by (simp add: demo_crypto_def)
  ultimately show ?thesis
    unfolding verify_operation_Inr demo_pk_def using assms(1) m demo_sig_def by metis
qed

definition demo_node :: "string \<Rightarrow> string \<Rightarrow> char \<Rightarrow> pydict" where
  "demo_node n role c = [(''node_id'', PStr n), (''role'', PStr role), (''state_replica'', PBool True),
     (''enabled'', PBool True), (''signing_key_id'', PStr (''ed25519:'' @ [c])),
     (''signing_public_key'', PStr (demo_pk c))]"

definition demo_trust :: membership_trust where
  "demo_trust = \<lparr>nodes = [(node_a, demo_node node_a ''master'' CHR ''K''), (node_b, demo_node node_b ''vps'' CHR ''L'')],
     removed_node_ids = {},
     signing_keys = [(node_a, [\<lparr>start_seq = 1, end_seq = None, span_key_id = ''ed25519:K'', span_public_key = demo_pk CHR ''K''\<rparr>]),
        (node_b, [\<lparr>start_seq = 1, end_seq = None, span_key_id = ''ed25519:L'', span_public_key = demo_pk CHR ''L''\<rparr>])],
     role_history = [(node_a, [\<lparr>role_epoch = Some 1, event_role = ''master'', membership_op_id = Some ''x''\<rparr>]),
        (node_b, [\<lparr>role_epoch = Some 1, event_role = ''vps'', membership_op_id = Some ''y''\<rparr>])],
     validated_op_ids = {''x'', ''y''}\<rparr>"

lemma demo_signer [simp]:
  "is_ok (validated_text (PStr node_a) ''signer_id'')" "is_ok (validated_text (PStr node_b) ''signer_id'')"
  "validate_node_id node_a = Inr ()" "validate_node_id node_b = Inr ()"
  by code_simp+

lemmas demo_simps = demo_op_def py_get_def py_get_or_def dict_has_def get_str_def py_or_def item_str_def
  item_int_def py_item_def get_int_def

lemma demo_int_str [simp]: "int_str 5 = ''5''" "int_str 7 = ''7''"
  by code_simp+

text \<open>An administrative change and a rotation that are accepted on \<open>demo_trust\<close>.\<close>

definition demo_promote :: pydict where
  "demo_promote = demo_op node_a CHR ''K'' 5 200 ''UPDATE_NODE''
     [(''node_id'', PStr node_b), (''role'', PStr ''master'')]"

definition demo_rotate :: pydict where
  "demo_rotate = demo_op node_b CHR ''L'' 7 210 ''UPDATE_NODE_KEY''
     [(''node_id'', PStr node_b), (''signing_key_id'', PStr ''ed25519:M''),
      (''signing_public_key'', PStr (demo_pk CHR ''M''))]"

lemma demo_promote_verifies: "verify_operation demo_crypto demo_promote (demo_pk CHR ''K'') = Inr ()"
  by (rule demo_verify) (simp_all add: demo_promote_def demo_simps max_safe_integer_def)

lemma demo_rotate_verifies: "verify_operation demo_crypto demo_rotate (demo_pk CHR ''L'') = Inr ()"
  by (rule demo_verify) (simp_all add: demo_rotate_def demo_simps max_safe_integer_def)

lemma accept_signed_changeI:
  assumes "op_signed op" "item_str op ''op_id'' = Inr i" "i \<notin> validated_op_ids t"
    "item_str op ''actor'' = Inr actor" "item_str op ''node_id'' = Inr target"
    "item_str op ''op'' = Inr name" "name \<noteq> ''ADD_NODE''" "get_str op ''signer_id'' = actor"
    "target \<notin> removed_node_ids t" "map_of (nodes t) actor = Some d" "\<not> node_disabled d" "\<not> not_replica d"
    "keys_of t actor \<noteq> []" "accept_signed_change cr op i name actor target d t = Inr t'"
  shows "accept_membership_operation cr op au al t = Inr t'"
  using assms by (simp add: accept_membership_operation_def accept_change_def)

lemma demo_trust_simps [simp]:
  "map_of (nodes demo_trust) node_a = Some (demo_node node_a ''master'' CHR ''K'')"
  "map_of (nodes demo_trust) node_b = Some (demo_node node_b ''vps'' CHR ''L'')"
  "removed_node_ids demo_trust = {}" "validated_op_ids demo_trust = {''x'', ''y''}"
  "keys_of demo_trust node_a = [\<lparr>start_seq = 1, end_seq = None, span_key_id = ''ed25519:K'', span_public_key = demo_pk CHR ''K''\<rparr>]"
  "keys_of demo_trust node_b = [\<lparr>start_seq = 1, end_seq = None, span_key_id = ''ed25519:L'', span_public_key = demo_pk CHR ''L''\<rparr>]"
  by (simp_all add: demo_trust_def keys_of_def)

lemma demo_node_simps [simp]:
  "\<not> node_disabled (demo_node n r c)" "\<not> not_replica (demo_node n r c)"
  "py_get (demo_node n r c) ''role'' = PStr r"
  by (simp_all add: demo_node_def node_disabled_def not_replica_def py_get_or_def py_get_def)

lemma demo_role_b: "node_role demo_trust node_b = ''vps''"
  by (simp add: node_role_def)

lemma demo_promote_simps [simp]:
  "op_signed demo_promote" "item_str demo_promote ''op_id'' = Inr ''opK5''"
  "item_str demo_promote ''actor'' = Inr node_a" "item_str demo_promote ''node_id'' = Inr node_b"
  "item_str demo_promote ''op'' = Inr ''UPDATE_NODE''" "get_str demo_promote ''signer_id'' = node_a"
  "item_int demo_promote ''created_at'' = Inr 200" "item_int demo_promote ''seq'' = Inr 5"
  "\<not> dict_has demo_promote ''sync_enabled''"
  by (simp_all add: demo_promote_def demo_simps op_signed_def membership_signature_fields_def)

lemma demo_rotate_simps [simp]:
  "op_signed demo_rotate" "item_str demo_rotate ''op_id'' = Inr ''opL7''"
  "item_str demo_rotate ''actor'' = Inr node_b" "item_str demo_rotate ''node_id'' = Inr node_b"
  "item_str demo_rotate ''op'' = Inr ''UPDATE_NODE_KEY''" "get_str demo_rotate ''signer_id'' = node_b"
  "item_int demo_rotate ''created_at'' = Inr 210" "item_int demo_rotate ''seq'' = Inr 7"
  "\<not> dict_has demo_rotate ''sync_enabled''" "\<not> dict_has demo_rotate ''role''"
  "get_str demo_rotate ''signing_key_id'' = ''ed25519:M''"
  by (simp_all add: demo_rotate_def demo_simps op_signed_def membership_signature_fields_def)

lemma demo_promote_role:
  "py_get (merge_membership_fields demo_promote d) ''role'' = PStr ''master''"
  by (simp add: merge_membership_fields_def demo_promote_def demo_op_def membership_envelope_fields_def)

lemmas demo_accept = accept_membership_operation_def accept_change_def accept_signed_change_def
  apply_to_trust_def apply_membership_def Let_def is_self_update_def

lemma demo_promote_accepted:
  "\<exists>t'. accept_membership_operation demo_crypto demo_promote au al demo_trust = Inr t' \<and> node_role t' node_b = ''master''"
proof -
  have k: "membership_key_for_operation demo_trust demo_promote = Inr (demo_pk CHR ''K'')"
    by (simp add: membership_key_for_operation_def demo_promote_def demo_simps keys_of_def demo_trust_def
       span_covers_def membership_signature_key_id_def)
  have c: "signed_change_checks demo_crypto demo_promote ''UPDATE_NODE'' node_a node_b
     (demo_node node_a ''master'' CHR ''K'') demo_trust = Inr ()"
    by (simp add: signed_change_checks_Inr k demo_promote_verifies is_self_update_def master_admin_membership_ops_def)
       (simp add: demo_promote_def demo_simps demo_node_def)
  show ?thesis
    by (simp add: demo_accept c node_role_def demo_promote_role normalize_node_sync_fields_def)
qed

lemma demo_rotate_accepted:
  "\<exists>t'. accept_membership_operation demo_crypto demo_rotate au al demo_trust = Inr t'"
proof -
  have k: "membership_key_for_operation demo_trust demo_rotate = Inr (demo_pk CHR ''L'')"
    by (simp add: membership_key_for_operation_def demo_rotate_def demo_simps keys_of_def demo_trust_def
       span_covers_def membership_signature_key_id_def)
  have c: "signed_change_checks demo_crypto demo_rotate ''UPDATE_NODE_KEY'' node_b node_b
     (demo_node node_b ''vps'' CHR ''L'') demo_trust = Inr ()"
    by (simp add: signed_change_checks_Inr k demo_rotate_verifies is_self_update_def master_admin_membership_ops_def)
  show ?thesis by (simp add: demo_accept c)
qed

lemma b64_encode_nonempty: "s \<noteq> [] \<Longrightarrow> b64_encode s \<noteq> []"
  by (cases s rule: b64_encode.cases) (simp_all add: Let_def)

lemma demo_pk_nonempty [simp]: "demo_pk c \<noteq> []"
  by (simp add: demo_pk_def b64_encode_nonempty)

lemma demo_rotate_key [simp]: "get_str demo_rotate ''signing_public_key'' = demo_pk CHR ''M''"
  by (simp add: demo_rotate_def demo_simps)

lemma demo_promote_valid: "validate_membership_payload demo_crypto demo_promote = Inr ()"
  by (simp add: validate_membership_payload_def demo_promote_def demo_simps node_roles_def crypto_public_fields_def)

text \<open>A removal taken from a history that predates signatures.\<close>

definition demo_removal :: pydict where
  "demo_removal = [(''op_id'', PStr ''r1''), (''op'', PStr ''REMOVE_NODE''), (''node_id'', PStr ''old'')]"

definition demo_removed :: membership_trust where
  "demo_removed = empty_trust\<lparr>removed_node_ids := {''old''}, validated_op_ids := {''r1''}\<rparr>"

lemma demo_removal_accepted:
  "accept_membership_operation cr demo_removal True al empty_trust = Inr demo_removed"
  by (simp add: demo_removal_def demo_removed_def accept_membership_operation_def accept_unsigned_def
    demo_simps op_signed_def membership_signature_fields_def empty_trust_def apply_to_trust_def
    apply_membership_def record_membership_key_def record_membership_role_def mark_validated_def
    node_role_def keys_of_def)

lemma demo_removed_reachable: "trust_reachable cr demo_removed"
  by (rule accepted_reachable [OF empty_trust_reachable demo_removal_accepted])

end
