(* ===== verification/Trust_Laws.thy ===== *)
theory Trust_Laws
  imports Cluster_Trust Replay_Log Demo_Cluster
begin

text \<open>
  What authenticated membership guarantees: who may change which record, that removal
  and key rotation are final, and that replaying a history is deterministic and
  idempotent.
\<close>

section \<open>Replay\<close>

definition membership_ident :: "pydict \<Rightarrow> string option" where
  "membership_ident op = (case item_str op ''op_id'' of Inl _ \<Rightarrow> None | Inr i \<Rightarrow> Some i)"

text \<open>\<open>_operation_order_key\<close> on validated operations, whose integer fields are integers.\<close>

definition operation_order_key :: "pydict \<Rightarrow> int \<times> string \<times> int \<times> string" where
  "operation_order_key op =
     (case get_int op ''created_at'' 0 of Inl _ \<Rightarrow> 0 | Inr i \<Rightarrow> i,
      get_str op ''actor'',
      case get_int op ''seq'' 0 of Inl _ \<Rightarrow> 0 | Inr i \<Rightarrow> i,
      get_str op ''op_id'')"

definition has_op_id :: "pydict \<Rightarrow> bool" where
  "has_op_id op \<longleftrightarrow> is_str (py_get op ''op_id'')"

lemma is_str_iff: "is_str v \<longleftrightarrow> (\<exists>s. v = PStr s)"
  by (cases v) simp_all

interpretation membership: ordered_replay
  "\<lambda>op. accept_membership_operation cr op True al" membership_ident validated_op_ids
  operation_order_key has_op_id
  for cr al
proof
  fix op and t t' :: membership_trust
  assume "accept_membership_operation cr op True al t = Inr t'"
  then show "\<exists>k. membership_ident op = Some k \<and> validated_op_ids t' = insert k (validated_op_ids t)"
    by (cases rule: accept_membership_target) (auto simp: membership_ident_def target_only_def)
next
  fix op k and t :: membership_trust
  assume "membership_ident op = Some k" "k \<in> validated_op_ids t"
  then show "accept_membership_operation cr op True al t = Inr t"
    by (simp add: membership_ident_def accept_membership_operation_def split: sum.splits)
next
  fix op op'
  assume "has_op_id op" "has_op_id op'" "operation_order_key op = operation_order_key op'"
  then show "membership_ident op = membership_ident op'"
    by (auto simp: has_op_id_def is_str_iff operation_order_key_def membership_ident_def)
qed

section \<open>Roles\<close>

lemma merge_membership_get:
  assumes "distinct (map fst op)" and "k \<notin> membership_envelope_fields" and "k \<noteq> ''signing_key_id''"
  shows "map_of (merge_membership_fields op cur) k =
    (case map_of op k of None \<Rightarrow> map_of cur k | Some v \<Rightarrow> Some v)"
proof -
  define p where "p = truthy (py_get op ''signing_public_key'')"
  have "distinct (map fst xs) \<Longrightarrow> map_of (fold (\<lambda>(k, v) cur.
       if k \<in> membership_envelope_fields then cur
       else if k = ''signing_key_id'' \<and> \<not> p then cur
       else dict_set k v cur) xs cur) k = (case map_of xs k of None \<Rightarrow> map_of cur k | Some v \<Rightarrow> Some v)"
    for xs
  proof (induction xs arbitrary: cur)
    case Nil
    then show ?case by simp
  next
    case (Cons x xs)
    obtain a b where x: "x = (a, b)" by (cases x)
    show ?case
    proof (cases "a = k")
      case True
      with Cons.prems have "map_of xs k = None" by (simp add: x map_of_eq_None_iff)
      then show ?thesis using Cons assms(2,3) True by (simp add: x)
    next
      case False
      then show ?thesis using Cons by (auto simp: x split: option.splits)
    qed
  qed
  from this [OF assms(1)] show ?thesis
    unfolding merge_membership_fields_def p_def [symmetric] .
qed

text \<open>
  The only change a node may make to its own role is none: a self-update that carries a
  role carries the recorded one.
\<close>

lemma py_get_map_of: "py_get d k = (case map_of d k of None \<Rightarrow> PNone | Some v \<Rightarrow> v)"
  by (simp add: py_get_def)

lemma normalize_node_sync_fields_role [simp]:
  "py_get (normalize_node_sync_fields d) ''role'' = py_get d ''role''"
  by (simp add: normalize_node_sync_fields_def Let_def)

lemma get_str_cong: "py_get d k = py_get e k \<Longrightarrow> get_str d k = get_str e k"
  by (simp add: get_str_def)

lemma truthy_of_role: "py_str v \<in> node_roles \<Longrightarrow> py_str (py_or v (PStr [])) = py_str v"
proof -
  assume v: "py_str v \<in> node_roles"
  have "truthy v"
  proof (cases v)
    case (PInt i)
    with v show ?thesis by (cases "i = 0") (simp_all add: node_roles_def int_str_def nat_str.simps [of 0] digit_char_def)
  qed (use v in \<open>auto simp: node_roles_def split: if_splits\<close>)
  then show ?thesis by simp
qed

text \<open>What a self-update leaves of the role of its node.\<close>

lemma self_update_role:
  assumes "apply_membership op (ns, rm) = Inr (ns', rm')"
    and "item_str op ''op'' = Inr name" and "name \<in> {''UPDATE_NODE'', ''UPDATE_NODE_KEY''}"
    and "item_str op ''node_id'' = Inr n" and "map_of ns n = Some d" and "n \<notin> rm"
    and "distinct (map fst op)"
    and same: "dict_has op ''role'' \<Longrightarrow> py_str (py_get op ''role'') = get_str d ''role''"
    and valid: "dict_has op ''role'' \<Longrightarrow> py_str (py_get op ''role'') \<in> node_roles"
  shows "\<exists>d'. map_of ns' n = Some d' \<and> get_str d' ''role'' = get_str d ''role''"
proof -
  define cur where "cur = (if dict_has op ''sync_enabled'' \<and> \<not> dict_has op ''sync_mode''
                    then dict_pop ''sync_mode'' d else d)"
  define d1 where "d1 = merge_membership_fields op cur"
  from assms obtain at where ns': "ns' = dict_set n (dict_set ''updated_at'' (PInt at)
      (normalize_node_sync_fields (dict_setdefault ''enabled'' (PBool True) d1))) ns"
    by (cases "item_int op ''created_at''") (auto simp: apply_membership_def Let_def cur_def d1_def cong: if_cong)
  have cur: "py_get cur ''role'' = py_get d ''role''" by (simp add: cur_def)
  have d1: "py_get d1 ''role'' = (if dict_has op ''role'' then py_get op ''role'' else py_get d ''role'')"
    using merge_membership_get [OF assms(7), of "''role''" cur] cur
    by (auto simp: d1_def py_get_def dict_has_iff membership_envelope_fields_def split: option.splits)
  have "get_str d1 ''role'' = get_str d ''role''"
    using same valid by (simp add: get_str_def d1 truthy_of_role)
  then show ?thesis
    by (simp add: ns' get_str_def)
qed

lemma validate_membership_role:
  "validate_membership_payload cr op = Inr () \<Longrightarrow> dict_has op ''role'' \<Longrightarrow>
     py_str (py_get op ''role'') \<in> node_roles"
  by (simp add: validate_membership_payload_def)

section \<open>Who may change a record\<close>

lemma accept_membership_frame:
  assumes "accept_membership_operation cr op au al t = Inr t'" and "item_str op ''node_id'' \<noteq> Inr n"
  shows "map_of (nodes t') n = map_of (nodes t) n \<and> keys_of t' n = keys_of t n
    \<and> roles_of t' n = roles_of t n"
  using assms(1)
proof (cases rule: accept_membership_target)
  case (seen op_id)
  then show ?thesis by simp
next
  case (applied op_id target)
  from applied(4) obtain t1 where t1: "apply_to_trust op t = Inr t1" "nodes t' = nodes t1"
    by (auto simp: target_only_def)
  have "n \<noteq> target" using applied(3) assms(2) by auto
  then have "keys_of t' n = keys_of t n" "roles_of t' n = roles_of t n"
    using applied(4) by (auto simp: target_only_def)
  moreover have "map_of (nodes t') n = map_of (nodes t) n"
    using apply_to_trust_frame(4) [OF t1(1) assms(2)] t1(2) by simp
  ultimately show ?thesis by simp
qed

lemma apply_to_trust_node_role:
  "apply_to_trust op t = Inr t1 \<Longrightarrow> nodes t' = nodes t1 \<Longrightarrow> node_role t' n = node_role t1 n"
  by (simp add: node_role_def)

text \<open>A self-update, whether signed by the registered key or claiming a first key, keeps the role.\<close>

lemma self_update_node_role:
  assumes t1: "apply_to_trust op t = Inr t1" and "nodes t' = nodes t1"
    and "item_str op ''op'' = Inr name" "name \<in> {''UPDATE_NODE'', ''UPDATE_NODE_KEY''}"
    and "item_str op ''node_id'' = Inr n" "map_of (nodes t) n = Some d" "n \<notin> removed_node_ids t"
    and "distinct (map fst op)" "validate_membership_payload cr op = Inr ()"
    and "dict_has op ''role'' \<Longrightarrow> py_str (py_get op ''role'') = get_str d ''role''"
  shows "node_role t' n = node_role t n"
proof -
  from t1 obtain ns rm where a: "apply_membership op (nodes t, removed_node_ids t) = Inr (ns, rm)"
    and ns: "nodes t1 = ns" unfolding apply_to_trust_Inr by auto
  have "\<exists>d'. map_of ns n = Some d' \<and> get_str d' ''role'' = get_str d ''role''"
    by (rule self_update_role [OF a assms(3-8)])
      (use assms(10) validate_membership_role [OF assms(9)] in auto)
  then show ?thesis by (auto simp: node_role_def assms(2) ns assms(6))
qed

lemma node_role_target:
  assumes "accept_membership_operation cr op au al t = Inr t'" and "node_role t' n \<noteq> node_role t n"
    and "item_str op ''node_id'' = Inr target"
  shows "n = target"
proof (rule ccontr)
  assume "n \<noteq> target"
  then have "map_of (nodes t') n = map_of (nodes t) n"
    using accept_membership_frame [OF assms(1), of n] assms(3) by simp
  with assms(2) show False by (simp add: node_role_def)
qed

lemma membership_op_self:
  "name \<in> membership_ops \<Longrightarrow> name \<noteq> ''ADD_NODE'' \<Longrightarrow> name \<notin> master_admin_membership_ops \<Longrightarrow>
     name \<in> {''UPDATE_NODE'', ''UPDATE_NODE_KEY''}"
  by (auto simp: membership_ops_def master_admin_membership_ops_def)

lemma item_str_get_str: "item_str d k = Inr s \<Longrightarrow> get_str d k \<in> S \<Longrightarrow> [] \<notin> S \<Longrightarrow> get_str d k = s"
  by (cases "truthy (py_get d k)") (auto simp: item_str_Inr get_str_def py_get_def)

text \<open>
  C1: An accepted operation that changes the role of an existing replica is one that an active master other than that node signed
  with its authenticated key, or it is unsigned and the caller admits unsigned history, as only the replay of the log does.
\<close>

theorem role_change_needs_master:
  assumes "accept_membership_operation cr op au al t = Inr t'"
    and "validate_membership_payload cr op = Inr ()"
    and "get_str op ''op'' \<in> membership_ops" and "distinct (map fst op)"
    and node: "map_of (nodes t) n = Some d" "\<not> not_replica d"
    and differs: "node_role t' n \<noteq> node_role t n"
  shows "if op_signed op
    then \<exists>actor pk. item_str op ''actor'' = Inr actor \<and> actor \<noteq> n \<and> active_master t actor \<and>
      membership_key_for_operation t op = Inr pk \<and> verify_operation cr op pk = Inr ()
    else au"
  using assms(1)
proof (cases rule: accept_membership_cases)
  case (seen op_id)
  with differs show ?thesis by simp
next
  case (unsigned op_id)
  then show ?thesis by simp
next
  case (add op_id actor target)
  have n: "n = target" by (rule node_role_target [OF assms(1) differs add(5)])
  from add(9) have "add_node_checks cr op actor target t = Inr ()"
    unfolding accept_add_node_def Let_def res_bind_unit_eq_Inr by blast
  then have "target = actor" "\<not> (case map_of (nodes t) target of None \<Rightarrow> False | Some d \<Rightarrow> \<not> not_replica d)"
    by (auto simp: add_node_checks_def Let_def)
  then show ?thesis using node n by simp
next
  case (change op_id actor target name)
  have n: "n = target" by (rule node_role_target [OF assms(1) differs change(5)])
  have name: "name \<in> membership_ops"
    using item_str_get_str [OF change(6) assms(3)] assms(3) by (simp add: membership_ops_def)
  from change(10) show ?thesis
  proof (cases rule: accept_change_cases)
    case (claim d')
    then obtain t1 where "apply_to_trust op t = Inr t1" "nodes t' = nodes t1"
      and role: "dict_has op ''role'' \<Longrightarrow> py_str (py_get op ''role'') = get_str d' ''role''"
      unfolding accept_key_claim_Inr by (auto simp: key_claim_checks_def)
    then have "node_role t' n = node_role t n"
      using change(5,6,9) claim(1,4,5) n assms(2,4)
      by (intro self_update_node_role [of op t t1 t' name n d' cr]) auto
    with differs show ?thesis by simp
  next
    case (signed d')
    then have checks: "signed_change_checks cr op name actor target d' t = Inr ()"
      and t1: "\<exists>t1. apply_to_trust op t = Inr t1 \<and> nodes t' = nodes t1"
      unfolding accept_signed_change_Inr by (auto split: if_splits)
    have not_self: "\<not> is_self_update name actor target"
    proof
      assume self: "is_self_update name actor target"
      from t1 obtain t1 where "apply_to_trust op t = Inr t1" "nodes t' = nodes t1" by blast
      then have "node_role t' n = node_role t n"
        using change(5,6,9) signed(1) n assms(2,4) self checks
        by (intro self_update_node_role [of op t t1 t' name n d' cr])
          (auto simp: is_self_update_def signed_change_checks_Inr)
      with differs show False by simp
    qed
    have "actor \<noteq> n"
      using checks not_self membership_op_self [OF name change(7)] n
      by (auto simp: signed_change_checks_Inr is_self_update_def)
    moreover have "active_master t actor"
      using checks not_self signed(1-3) by (simp add: signed_change_checks_Inr active_master_def)
    ultimately show ?thesis using checks change(3,4) by (auto simp: signed_change_checks_Inr)
  qed
qed

theorem role_change_needs_master_witness:
  "\<exists>actor pk. item_str demo_promote ''actor'' = Inr actor \<and> actor \<noteq> node_b \<and> active_master demo_trust actor \<and>
    membership_key_for_operation demo_trust demo_promote = Inr pk \<and>
    verify_operation demo_crypto demo_promote pk = Inr ()"
proof -
  obtain t' where t': "accept_membership_operation demo_crypto demo_promote False False demo_trust = Inr t'"
    "node_role t' node_b = ''master''" using demo_promote_accepted by blast
  have "op_signed demo_promote" using t'(1) by (cases rule: accept_membership_cases) simp_all
  moreover have "if op_signed demo_promote
    then \<exists>actor pk. item_str demo_promote ''actor'' = Inr actor \<and> actor \<noteq> node_b \<and> active_master demo_trust actor \<and>
      membership_key_for_operation demo_trust demo_promote = Inr pk \<and> verify_operation demo_crypto demo_promote pk = Inr ()
    else False"
    by (rule role_change_needs_master [OF t'(1) demo_promote_valid, of node_b])
      (simp_all add: t'(2) demo_role_b membership_ops_def, simp_all add: demo_promote_def demo_simps)
  ultimately show ?thesis by simp
qed

section \<open>Removal is final\<close>

lemma accept_removed_mono:
  assumes "accept_membership_operation cr op au al t = Inr t'"
  shows "removed_node_ids t \<subseteq> removed_node_ids t'"
  using assms
proof (cases rule: accept_membership_target)
  case (applied op_id target)
  then obtain t1 where "apply_to_trust op t = Inr t1" "removed_node_ids t' = removed_node_ids t1"
    by (auto simp: target_only_def)
  with apply_to_trust_frame(5) [of op t t1] show ?thesis by simp
qed simp

lemma replay_removed_mono:
  "res_fold (\<lambda>op. accept_membership_operation cr op au al) ops t = Inr t' \<Longrightarrow>
     removed_node_ids t \<subseteq> removed_node_ids t'"
proof (induction ops arbitrary: t)
  case (Cons op ops)
  then obtain u where "accept_membership_operation cr op au al t = Inr u"
    "res_fold (\<lambda>op. accept_membership_operation cr op au al) ops u = Inr t'"
    by (auto simp: res_bind_eq_Inr)
  with Cons.IH accept_removed_mono show ?case by blast
qed simp

lemma replay_reachable:
  assumes "trust_reachable cr t" and "res_fold (\<lambda>op. accept_membership_operation cr op au al) ops t = Inr t'"
  shows "trust_reachable cr t'"
  by (rule res_fold_invariant [OF assms(2)]) (use assms(1) in \<open>auto intro: accepted_reachable\<close>)

text \<open>C2: A removed node ID never becomes a member again, whatever operations are accepted later.\<close>

theorem removed_node_stays_removed:
  assumes "trust_reachable cr t" and "n \<in> removed_node_ids t"
    and "res_fold (\<lambda>op. accept_membership_operation cr op au al) ops t = Inr t'"
  shows "n \<in> removed_node_ids t' \<and> map_of (nodes t') n = None"
proof -
  have "n \<in> removed_node_ids t'" using replay_removed_mono [OF assms(3)] assms(2) by blast
  moreover have "trust_wf t'"
    by (rule trust_reachable_wf) (rule replay_reachable [OF assms(1,3)])
  ultimately show ?thesis by (simp add: trust_wf_def)
qed

theorem removed_node_stays_removed_witness:
  "''old'' \<in> removed_node_ids demo_removed \<and> map_of (nodes demo_removed) ''old'' = None"
  by (rule removed_node_stays_removed [of demo_crypto demo_removed "''old''" False False "[]"])
    (simp_all add: demo_removed_reachable, simp add: demo_removed_def)

section \<open>Key rotation\<close>

text \<open>
  Spans in sequence order: every span but the last ends before the next one starts,
  and the last one is open.
\<close>

definition spans_ordered :: "key_span list \<Rightarrow> bool" where
  "spans_ordered ks \<longleftrightarrow> (ks \<noteq> [] \<longrightarrow> end_seq (last ks) = None) \<and>
     successively (\<lambda>k k'. \<exists>e. end_seq k = Some e \<and> start_seq k \<le> e \<and> e < start_seq k') ks"

lemma filter_span_covers_close:
  assumes "end_seq k = None" and "start_seq k \<le> s" and "seq \<le> s"
  shows "span_covers seq kid (k\<lparr>end_seq := Some s\<rparr>) = span_covers seq kid k"
  using assms by (simp add: span_covers_def)

text \<open>In whatever order, closing the newest span at \<open>s\<close> keeps what operations up to \<open>s\<close> resolve to.\<close>

lemma close_span_keeps:
  assumes "seq \<le> s"
  shows "map span_public_key (filter (span_covers seq q) (close_last_span (s + 1) h @
      [\<lparr>start_seq = s + 1, end_seq = None, span_key_id = kid, span_public_key = pk\<rparr>])) =
    map span_public_key (filter (span_covers seq q) h)"
proof (cases h rule: rev_cases)
  case Nil
  then show ?thesis using assms by (simp add: close_last_span_def span_covers_def)
next
  case (snoc ks k)
  then show ?thesis using assms by (auto simp: close_last_span_def span_covers_def split: option.split)
qed

lemma close_span_new:
  assumes "s < seq" "kid \<notin> span_key_id ` set h"
  shows "filter (span_covers seq kid) (close_last_span (s + 1) h @
      [\<lparr>start_seq = s + 1, end_seq = None, span_key_id = kid, span_public_key = pk\<rparr>]) =
    [\<lparr>start_seq = s + 1, end_seq = None, span_key_id = kid, span_public_key = pk\<rparr>]"
proof -
  have "span_key_id ` set (close_last_span (s + 1) h) = span_key_id ` set h"
    by (cases h rule: rev_cases) (auto simp: close_last_span_def)
  with assms(2) have "\<forall>k \<in> set (close_last_span (s + 1) h). \<not> span_covers seq kid k" by (auto simp: span_covers_def)
  then have "filter (span_covers seq kid) (close_last_span (s + 1) h) = []" by (simp add: filter_empty_conv)
  then show ?thesis using assms(1) by (simp add: span_covers_def)
qed

lemma spans_ordered_before:
  assumes "spans_ordered (ks @ [k])" and "x \<in> set ks"
  shows "\<exists>e. end_seq x = Some e \<and> e < start_seq k"
proof -
  have before: "\<forall>x \<in> set ks. \<exists>e. end_seq x = Some e \<and> e < start_seq k"
    if "successively (\<lambda>k k'. \<exists>e. end_seq k = Some e \<and> start_seq k \<le> e \<and> e < start_seq k') (ks @ [k])"
    for ks k
    using that
  proof (induction ks arbitrary: k rule: rev_induct)
    case Nil
    then show ?case by simp
  next
    case (snoc y ys)
    then have "successively (\<lambda>k k'. \<exists>e. end_seq k = Some e \<and> start_seq k \<le> e \<and> e < start_seq k') (ys @ [y])"
      and y: "\<exists>e. end_seq y = Some e \<and> start_seq y \<le> e \<and> e < start_seq k"
      by (simp_all add: successively_append_iff)
    from snoc.IH [OF this(1)] y show ?case by fastforce
  qed
  show ?thesis
    using before [of ks k] assms unfolding spans_ordered_def by blast
qed

text \<open>
  Recording a new key as of sequence \<open>s + 1\<close> leaves every resolution up to \<open>s\<close> as it was,
  and from \<open>s + 1\<close> on resolves the new key identifier only.
\<close>

lemma record_key_spans:
  fixes ks :: "key_span list" and k :: key_span
  defines "new \<equiv> \<lambda>s kid pk. \<lparr>start_seq = s + 1, end_seq = None, span_key_id = kid, span_public_key = pk\<rparr>"
  assumes ord: "spans_ordered (ks @ [k])" and s: "start_seq k \<le> s"
  shows "close_last_span (s + 1) (ks @ [k]) = ks @ [k\<lparr>end_seq := Some s\<rparr>]"
    and "spans_ordered (ks @ [k\<lparr>end_seq := Some s\<rparr>, new s kid pk])"
    and "seq \<le> s \<Longrightarrow> map span_public_key (filter (span_covers seq q) (ks @ [k\<lparr>end_seq := Some s\<rparr>, new s kid pk]))
       = map span_public_key (filter (span_covers seq q) (ks @ [k]))"
    and "s < seq \<Longrightarrow> filter (span_covers seq q) (ks @ [k\<lparr>end_seq := Some s\<rparr>, new s kid pk])
       = (if q = kid then [new s kid pk] else [])"
proof -
  have k: "end_seq k = None" using ord by (simp add: spans_ordered_def)
  show "close_last_span (s + 1) (ks @ [k]) = ks @ [k\<lparr>end_seq := Some s\<rparr>]"
    using k s by (simp add: close_last_span_def)
  show "spans_ordered (ks @ [k\<lparr>end_seq := Some s\<rparr>, new s kid pk])"
    using ord s unfolding spans_ordered_def successively_append_iff
    by (simp add: new_def)
  have same: "span_covers seq q (k\<lparr>end_seq := Some s\<rparr>) = span_covers seq q k" if "seq \<le> s"
    by (rule filter_span_covers_close [OF k s that])
  show "map span_public_key (filter (span_covers seq q) (ks @ [k\<lparr>end_seq := Some s\<rparr>, new s kid pk]))
       = map span_public_key (filter (span_covers seq q) (ks @ [k]))" if "seq \<le> s"
    using that same [OF that] by (simp add: new_def span_covers_def [of _ _ "new s kid pk", unfolded new_def])
  have old: "\<not> span_covers seq q x" if "x \<in> set ks" "s < seq" for x
    using spans_ordered_before [OF ord that(1)] that(2) s by (auto simp: span_covers_def)
  show "filter (span_covers seq q) (ks @ [k\<lparr>end_seq := Some s\<rparr>, new s kid pk])
       = (if q = kid then [new s kid pk] else [])" if "s < seq"
  proof -
    have "filter (span_covers seq q) ks = []" using old that by (simp add: filter_empty_conv)
    moreover have "\<not> span_covers seq q (k\<lparr>end_seq := Some s\<rparr>)" using that by (simp add: span_covers_def)
    moreover have "span_covers seq q (new s kid pk) \<longleftrightarrow> q = kid"
      using that by (auto simp: span_covers_def new_def)
    ultimately show ?thesis by simp
  qed
qed

lemma membership_key_alt:
  "membership_key_for_operation t op = res_bind (get_int op ''seq'' 0) (\<lambda>seq.
     case map span_public_key (filter (span_covers seq (membership_signature_key_id op))
            (keys_of t (get_str op ''actor''))) of
       [pk] \<Rightarrow> Inr pk
     | _ \<Rightarrow> Inl (ClusterStateError ''operation signer has no authenticated key for this sequence''))"
  unfolding membership_key_for_operation_def
  by (rule res_bind_cong) (auto split: list.splits)

lemma truthy_get_str: "get_str d k \<noteq> [] \<Longrightarrow> truthy (py_get d k)"
  by (cases "truthy (py_get d k)") (simp_all add: get_str_def)

text \<open>The key history after an accepted rotation.\<close>

lemma rotation_keys:
  assumes "accept_membership_operation cr op au al t = Inr t'"
    and "op_signed op" "item_str op ''op_id'' = Inr i" "i \<notin> validated_op_ids t"
    and "item_str op ''actor'' = Inr a" "item_str op ''node_id'' = Inr a"
    and "item_str op ''op'' = Inr name" "name \<in> {''UPDATE_NODE'', ''UPDATE_NODE_KEY''}"
    and "item_int op ''seq'' = Inr s" "keys_of t a \<noteq> []" "get_str op ''signing_public_key'' \<noteq> []"
  obtains t1 where "apply_to_trust op t = Inr t1"
    "keys_of t' a = keys_of (record_membership_key a op (s + 1) t1) a"
  using assms(1)
proof (cases rule: accept_membership_cases)
  case (change op_id actor target name')
  then have eq: "actor = a" "target = a" "name' = name" using assms(5-7) by auto
  from change(10) show ?thesis
  proof (cases rule: accept_change_cases)
    case (claim d)
    with assms(10) eq show ?thesis by simp
  next
    case (signed d)
    moreover have "is_self_update name' actor target" using assms(8) eq by (simp add: is_self_update_def)
    ultimately obtain t1 where t1: "apply_to_trust op t = Inr t1"
      and "t' = mark_validated op_id (record_membership_key target op (s + 1)
             (record_membership_role target op t1))"
      using assms(9) truthy_get_str [OF assms(11)] unfolding accept_signed_change_Inr by auto
    then show ?thesis using eq
      by (intro that [OF t1]) (simp add: record_membership_key_same)
  qed
qed (use assms in auto)

text \<open>
  C3: Once a node's rotation to a new key is accepted at sequence number s, operations up to s resolve as before, and a later one
  that names a key identifier new to the node resolves to the new key. When the node's keys so far followed each other in
  order of their sequence numbers and the newest one starts at s or before, they still do, and every later operation resolves
  to the new key or to none.
\<close>

theorem key_rotation_cutover:
  assumes "accept_membership_operation cr op au al t = Inr t'"
    and "op_signed op" "item_str op ''op_id'' = Inr i" "i \<notin> validated_op_ids t"
    and "item_str op ''actor'' = Inr a" "item_str op ''node_id'' = Inr a"
    and "item_str op ''op'' = Inr name" "name \<in> {''UPDATE_NODE'', ''UPDATE_NODE_KEY''}"
    and "item_int op ''seq'' = Inr s"
    and keys: "keys_of t a = ks @ [k]"
    and new: "get_str op ''signing_key_id'' = kid" "get_str op ''signing_public_key'' = pk"
      "kid \<noteq> []" "pk \<noteq> []" "(kid, pk) \<noteq> (span_key_id k, span_public_key k)"
    and op2: "get_str op2 ''actor'' = a" "get_int op2 ''seq'' 0 = Inr seq"
  shows "(seq \<le> s \<longrightarrow> membership_key_for_operation t' op2 = membership_key_for_operation t op2) \<and>
    (s < seq \<and> membership_signature_key_id op2 = kid \<and> kid \<notin> span_key_id ` set (ks @ [k]) \<longrightarrow>
       membership_key_for_operation t' op2 = Inr pk) \<and>
    (spans_ordered (ks @ [k]) \<and> start_seq k \<le> s \<longrightarrow> spans_ordered (keys_of t' a) \<and>
       (s < seq \<longrightarrow> membership_key_for_operation t' op2 =
          (if membership_signature_key_id op2 = kid then Inr pk
           else Inl (ClusterStateError ''operation signer has no authenticated key for this sequence''))))"
proof -
  define new_span where "new_span = \<lparr>start_seq = s + 1, end_seq = None, span_key_id = kid, span_public_key = pk\<rparr>"
  obtain t1 where t1: "apply_to_trust op t = Inr t1"
    "keys_of t' a = keys_of (record_membership_key a op (s + 1) t1) a"
    using rotation_keys [OF assms(1-9)] keys(1) new(2,4) by auto
  have t': "keys_of t' a = close_last_span (s + 1) (ks @ [k]) @ [new_span]"
  proof -
    have hist: "keys_of t1 a = ks @ [k]" using apply_to_trust_keys(1) [OF t1(1)] keys(1) by simp
    have "\<not> (span_key_id k = kid \<and> span_public_key k = pk)" using new(5) by auto
    then show ?thesis
      unfolding t1(2) record_membership_key_same hist new(1,2) new_span_def using new(3,4) by auto
  qed
  note alt = membership_key_alt op2 t' keys(1) res_bind_Inr
  have "membership_key_for_operation t' op2 = membership_key_for_operation t op2" if "seq \<le> s"
    by (simp only: alt close_span_keeps [OF that] new_span_def)
  moreover have "membership_key_for_operation t' op2 = Inr pk"
    if "s < seq" "membership_signature_key_id op2 = kid" "kid \<notin> span_key_id ` set (ks @ [k])"
    unfolding alt that(2) new_span_def close_span_new [OF that(1,3)] by simp
  moreover have "spans_ordered (keys_of t' a) \<and> (s < seq \<longrightarrow> membership_key_for_operation t' op2 =
      (if membership_signature_key_id op2 = kid then Inr pk
       else Inl (ClusterStateError ''operation signer has no authenticated key for this sequence'')))"
    if o: "spans_ordered (ks @ [k])" "start_seq k \<le> s"
  proof -
    have h: "keys_of t' a = ks @ [k\<lparr>end_seq := Some s\<rparr>, new_span]" using t' record_key_spans(1) [OF o] by simp
    have "membership_key_for_operation t' op2 = (if membership_signature_key_id op2 = kid then Inr pk
       else Inl (ClusterStateError ''operation signer has no authenticated key for this sequence''))" if "s < seq"
      unfolding membership_key_alt op2 h new_span_def record_key_spans(4) [OF o that] res_bind_Inr by simp
    moreover have "spans_ordered (keys_of t' a)" unfolding h new_span_def by (rule record_key_spans(2) [OF o])
    ultimately show ?thesis by blast
  qed
  ultimately show ?thesis by blast
qed

theorem key_rotation_cutover_witness:
  "\<exists>t'. accept_membership_operation demo_crypto demo_rotate False False demo_trust = Inr t' \<and>
     membership_key_for_operation t' (demo_op node_b CHR ''L'' 8 300 ''UPDATE_NODE'' [])
       = Inl (ClusterStateError ''operation signer has no authenticated key for this sequence'')"
proof -
  obtain t' where t': "accept_membership_operation demo_crypto demo_rotate False False demo_trust = Inr t'"
    using demo_rotate_accepted by blast
  let ?op = "demo_op node_b CHR ''L'' 8 300 ''UPDATE_NODE'' []"
  let ?k = "\<lparr>start_seq = 1, end_seq = None, span_key_id = ''ed25519:L'', span_public_key = demo_pk CHR ''L''\<rparr>"
  have "spans_ordered ([] @ [?k]) \<and> start_seq ?k \<le> 7 \<longrightarrow> spans_ordered (keys_of t' node_b) \<and>
      (7 < (8 :: int) \<longrightarrow> membership_key_for_operation t' ?op =
      (if membership_signature_key_id ?op = ''ed25519:M'' then Inr (demo_pk CHR ''M'')
       else Inl (ClusterStateError ''operation signer has no authenticated key for this sequence'')))"
    by (rule key_rotation_cutover [where ks = "[]" and k = ?k, OF t', THEN conjunct2, THEN conjunct2])
      (simp_all, simp_all add: demo_simps)
  with t' show ?thesis by (auto simp: membership_signature_key_id_def demo_simps spans_ordered_def)
qed

end
