(* ===== verification/Cluster_Instances.thy ===== *)
theory Cluster_Instances
  imports Cluster_Trust
begin

text \<open>
  Desired state of V7 and PB8 instances (master/cluster_state.py): \<open>_apply_v7\<close>,
  \<open>_apply_pb8\<close>, \<open>_track_parent_change\<close> and \<open>_mark_conflicts\<close>, and the membership
  fingerprint used to count credential-relevant membership changes. The two apply
  functions are separate in the code and are modelled separately; \<open>pb8_is_v7\<close> relates them.
\<close>

section \<open>State\<close>

text \<open>
  \<open>parent_change\<close> is the dictionary that \<open>_track_parent_change\<close> appends;
  \<open>instance_state\<close> holds the three dictionaries an apply function mutates.
\<close>

record parent_change =
  change_op_id :: string
  change_parent :: string
  change_version :: string
  change_host :: string
  change_desired :: string
  change_hash :: string

record instance_state =
  insts :: "(string, pydict) dict"
  tombs :: "(string, pydict) dict"
  parents :: "(string \<times> string, parent_change list) dict"

definition no_instances :: instance_state where
  "no_instances = \<lparr>insts = [], tombs = [], parents = []\<rparr>"

definition parent_change_dict :: "parent_change \<Rightarrow> pyval" where
  "parent_change_dict c = PDict [(''op_id'', PStr (change_op_id c)),
     (''parent_version'', PStr (change_parent c)), (''version'', PStr (change_version c)),
     (''assigned_host'', PStr (change_host c)), (''desired_state'', PStr (change_desired c)),
     (''config_manifest_hash'', PStr (change_hash c))]"

section \<open>Operations\<close>

definition desired_of :: "pydict \<Rightarrow> pydict \<Rightarrow> string" where
  "desired_of op current = py_str (py_or (py_or (py_get op ''desired_state'')
     (py_get current ''desired_state'')) (PStr ''stopped''))"

definition track_parent_change :: "pydict \<Rightarrow> pydict \<Rightarrow> instance_state \<Rightarrow> instance_state res" where
  "track_parent_change op materialized st =
     (if py_get op ''parent_version'' = PNone then Inr st
      else res_bind (item_str op ''instance'') (\<lambda>instance.
           res_bind (item_str op ''op_id'') (\<lambda>op_id.
           let parent = py_str (py_get op ''parent_version'') in
           Inr (st\<lparr>parents := group_append (instance, parent)
             \<lparr>change_op_id = op_id, change_parent = parent,
              change_version = py_str (py_or (py_or (py_get op ''version'')
                (py_get materialized ''version'')) (PStr [])),
              change_host = get_str materialized ''assigned_host'',
              change_desired = get_str materialized ''desired_state'',
              change_hash = get_str materialized ''config_manifest_hash''\<rparr> (parents st)\<rparr>))))"

definition tombstone_record :: "pydict \<Rightarrow> pydict res" where
  "tombstone_record op =
     res_bind (item_str op ''actor'') (\<lambda>actor.
     res_bind (item_int op ''created_at'') (\<lambda>at.
     res_bind (item_str op ''op_id'') (\<lambda>op_id.
     Inr [(''version'', PStr (get_str op ''version'')), (''deleted_by'', PStr actor),
       (''deleted_at'', PInt at), (''op_id'', PStr op_id)])))"

definition upsert_record :: "pydict \<Rightarrow> pydict \<Rightarrow> pydict res" where
  "upsert_record op current =
     res_bind (item_str op ''version'') (\<lambda>version.
     res_bind (item_str op ''assigned_host'') (\<lambda>host.
     res_bind (item_str op ''config_manifest_hash'') (\<lambda>manifest.
     res_bind (item_str op ''actor'') (\<lambda>actor.
     res_bind (item_int op ''created_at'') (\<lambda>at.
     Inr (dict_update current [(''version'', PStr version),
       (''desired_state'', PStr (desired_of op current)), (''assigned_host'', PStr host),
       (''config_manifest_hash'', PStr manifest), (''updated_by'', PStr actor),
       (''updated_at'', PInt at), (''conflicted'', PBool False)]))))))"

definition move_record :: "pydict \<Rightarrow> pydict \<Rightarrow> pydict res" where
  "move_record op current =
     res_bind (item_str op ''version'') (\<lambda>version.
     res_bind (item_str op ''to'') (\<lambda>host.
     res_bind (item_str op ''actor'') (\<lambda>actor.
     res_bind (item_int op ''created_at'') (\<lambda>at.
     let moved = dict_update current [(''version'', PStr version), (''assigned_host'', PStr host),
           (''desired_state'', PStr (desired_of op current)), (''updated_by'', PStr actor),
           (''updated_at'', PInt at), (''conflicted'', PBool False)]
     in if dict_has op ''config_manifest_hash''
        then Inr (dict_set ''config_manifest_hash'' (PStr (py_str (py_get op ''config_manifest_hash''))) moved)
        else Inr moved))))"

definition switch_record :: "string \<Rightarrow> pydict \<Rightarrow> pydict \<Rightarrow> pydict res" where
  "switch_record desired op current =
     res_bind (item_str op ''actor'') (\<lambda>actor.
     res_bind (item_int op ''created_at'') (\<lambda>at.
     Inr (dict_update current [(''desired_state'', PStr desired), (''updated_by'', PStr actor),
       (''updated_at'', PInt at)])))"

definition current_record :: "instance_state \<Rightarrow> string \<Rightarrow> pydict" where
  "current_record st i = (case map_of (insts st) i of
     None \<Rightarrow> [(''conflicted'', PBool False)] | Some d \<Rightarrow> d)"

definition apply_v7 :: "pydict \<Rightarrow> instance_state \<Rightarrow> instance_state res" where
  "apply_v7 op st =
     res_bind (item_str op ''op'') (\<lambda>name.
     res_bind (item_str op ''instance'') (\<lambda>i.
     if name \<in> {''DELETE_INSTANCE'', ''TOMBSTONE_INSTANCE''} then
       res_bind (tombstone_record op) (\<lambda>t.
       Inr (st\<lparr>tombs := dict_set i t (tombs st), insts := dict_pop i (insts st)\<rparr>))
     else if dict_has (tombs st) i
       \<and> \<not> (name = ''UPSERT_CONFIG'' \<and> is_True (py_get op ''allow_tombstone_recreate'')) then Inr st
     else
       let st = st\<lparr>tombs := dict_pop i (tombs st)\<rparr>; current = current_record st i in
       if name = ''UPSERT_CONFIG'' then
         res_bind (upsert_record op current) (\<lambda>d.
         res_bind (track_parent_change op d st) (\<lambda>st.
         Inr (st\<lparr>insts := dict_set i d (insts st)\<rparr>)))
       else if name = ''MOVE_INSTANCE'' then
         res_bind (move_record op current) (\<lambda>d.
         res_bind (track_parent_change op d st) (\<lambda>st.
         Inr (st\<lparr>insts := dict_set i d (insts st)\<rparr>)))
       else
         res_bind (if name = ''START_INSTANCE'' then switch_record ''running'' op current
                   else if name = ''STOP_INSTANCE'' then switch_record ''stopped'' op current
                   else Inr current) (\<lambda>d.
         Inr (st\<lparr>insts := dict_set i d (insts st)\<rparr>))))"

definition apply_pb8 :: "pydict \<Rightarrow> instance_state \<Rightarrow> instance_state res" where
  "apply_pb8 op st =
     res_bind (item_str op ''op'') (\<lambda>name.
     res_bind (item_str op ''instance'') (\<lambda>i.
     if name \<in> {''DELETE_PB8_INSTANCE'', ''TOMBSTONE_PB8_INSTANCE''} then
       res_bind (tombstone_record op) (\<lambda>t.
       Inr (st\<lparr>tombs := dict_set i t (tombs st), insts := dict_pop i (insts st)\<rparr>))
     else if dict_has (tombs st) i
       \<and> \<not> (name = ''UPSERT_PB8_CONFIG'' \<and> is_True (py_get op ''allow_tombstone_recreate'')) then Inr st
     else
       let st = st\<lparr>tombs := dict_pop i (tombs st)\<rparr>; current = current_record st i in
       if name = ''UPSERT_PB8_CONFIG'' then
         res_bind (upsert_record op current) (\<lambda>d.
         res_bind (track_parent_change op d st) (\<lambda>st.
         Inr (st\<lparr>insts := dict_set i d (insts st)\<rparr>)))
       else if name = ''MOVE_PB8_INSTANCE'' then
         res_bind (move_record op current) (\<lambda>d.
         res_bind (track_parent_change op d st) (\<lambda>st.
         Inr (st\<lparr>insts := dict_set i d (insts st)\<rparr>)))
       else
         res_bind (if name = ''START_PB8_INSTANCE'' then switch_record ''running'' op current
                   else if name = ''STOP_PB8_INSTANCE'' then switch_record ''stopped'' op current
                   else Inr current) (\<lambda>d.
         Inr (st\<lparr>insts := dict_set i d (insts st)\<rparr>))))"

section \<open>Conflicts\<close>

definition change_signature :: "parent_change \<Rightarrow> string \<times> string \<times> string \<times> string" where
  "change_signature c = (change_version c, change_host c, change_desired c, change_hash c)"

definition changes_conflict :: "parent_change list \<Rightarrow> bool" where
  "changes_conflict changes \<longleftrightarrow>
     1 < length changes \<and> 1 < length (remdups (map change_signature changes))"

definition instance_version :: "(string, pydict) dict \<Rightarrow> string \<Rightarrow> string" where
  "instance_version ins i = (case map_of ins i of None \<Rightarrow> [] | Some d \<Rightarrow> get_str d ''version'')"

definition mark_conflict ::
  "(string \<times> string) \<times> parent_change list \<Rightarrow> (string, pydict) dict \<Rightarrow> (string, pydict) dict res" where
  "mark_conflict = (\<lambda>((i, _), changes) ins.
     if changes_conflict changes \<and> instance_version ins i \<in> set (map change_version changes)
     then (case map_of ins i of
         None \<Rightarrow> Inl (KeyError i)
       | Some d \<Rightarrow> Inr (dict_set i (dict_set ''conflicts'' (PList (map parent_change_dict changes))
             (dict_set ''conflicted'' (PBool True) d)) ins))
     else Inr ins)"

definition mark_conflicts :: "instance_state \<Rightarrow> (string, pydict) dict res" where
  "mark_conflicts st = res_fold mark_conflict (parents st) (insts st)"

section \<open>Membership fingerprint and duplicate node IDs\<close>

definition credential_membership_fingerprint :: "(string, pydict) dict \<Rightarrow>
    (string \<times> string \<times> bool \<times> bool \<times> pyval \<times> pyval \<times> string \<times> string) list" where
  "credential_membership_fingerprint ns =
     map (\<lambda>(n, d). (n, get_str d ''role'', \<not> node_disabled d, \<not> not_replica d,
        py_normal (py_get d ''credential_protocol_version''), py_normal (py_get d ''credential_capable''),
        get_str d ''signing_key_id'', get_str d ''encryption_key_id'')) (dict_sorted ns)"

definition detect_duplicate_node_ids :: "pydict list \<Rightarrow> string set" where
  "detect_duplicate_node_ids records =
     snd (fold (\<lambda>record (seen, duplicates).
       let n = get_str record ''node_id'' in
       if n = [] then (seen, duplicates)
       else (insert n seen, if n \<in> seen then insert n duplicates else duplicates))
     records ({}, {}))"

end
