(* ===== verification/Instance_Laws.thy ===== *)
theory Instance_Laws
  imports Cluster_Instances
begin

text \<open>
  What replaying instance operations guarantees: a tombstoned instance has no record and
  stays dead until an explicit recreation, operations touch their own instance only,
  the PB8 code is the V7 code under renaming, and a conflict is marked exactly when two
  changes of the same parent version disagree and the current version is one of them.
\<close>

section \<open>The contract of a tombstoned store\<close>

definition instances_wf :: "instance_state \<Rightarrow> bool" where
  "instances_wf st \<longleftrightarrow> (\<forall>i. dict_has (tombs st) i \<longrightarrow> map_of (insts st) i = None)"

locale tombstone_store =
  fixes apply_op :: "pydict \<Rightarrow> instance_state \<Rightarrow> instance_state res"
    and deletes :: "pydict \<Rightarrow> bool"
    and recreates :: "pydict \<Rightarrow> bool"
  assumes preserves: "apply_op op st = Inr st' \<Longrightarrow> instances_wf st \<Longrightarrow> instances_wf st'"
    and others: "apply_op op st = Inr st' \<Longrightarrow> item_str op ''instance'' \<noteq> Inr i \<Longrightarrow>
      map_of (insts st') i = map_of (insts st) i \<and> dict_has (tombs st') i = dict_has (tombs st) i"
    and buried: "apply_op op st = Inr st' \<Longrightarrow> dict_has (tombs st) i \<Longrightarrow> \<not> recreates op \<Longrightarrow>
      dict_has (tombs st') i"
    and delete_buries: "apply_op op st = Inr st' \<Longrightarrow> deletes op \<Longrightarrow> item_str op ''instance'' = Inr i \<Longrightarrow>
      dict_has (tombs st') i"
begin

lemma replay_wf: "res_fold apply_op ops st = Inr st' \<Longrightarrow> instances_wf st \<Longrightarrow> instances_wf st'"
  by (erule res_fold_invariant) (auto intro: preserves)

lemma replay_buried:
  assumes "res_fold apply_op ops st = Inr st'" and "dict_has (tombs st) i"
    and "\<And>op. op \<in> set ops \<Longrightarrow> item_str op ''instance'' = Inr i \<Longrightarrow> \<not> recreates op"
  shows "dict_has (tombs st') i"
proof (rule res_fold_invariant [where P = "\<lambda>st. dict_has (tombs st) i", OF assms(1,2)])
  fix op u v
  assume op: "op \<in> set ops" "dict_has (tombs u) i" "apply_op op u = Inr v"
  show "dict_has (tombs v) i"
  proof (cases "item_str op ''instance'' = Inr i")
    case True
    with op assms(3) show ?thesis by (blast intro: buried)
  next
    case False
    with op others show ?thesis by blast
  qed
qed

text \<open>A deleted instance is absent from every later state without an explicit recreation.\<close>

lemma deleted_stays_deleted:
  assumes "res_fold apply_op (ops1 @ op # ops2) st = Inr st'" and "instances_wf st"
    and "deletes op" and "item_str op ''instance'' = Inr i"
    and "\<And>o'. o' \<in> set ops2 \<Longrightarrow> item_str o' ''instance'' = Inr i \<Longrightarrow> \<not> recreates o'"
  shows "dict_has (tombs st') i \<and> map_of (insts st') i = None"
proof -
  from assms(1) obtain u v where u: "res_fold apply_op ops1 st = Inr u" "apply_op op u = Inr v"
    "res_fold apply_op ops2 v = Inr st'"
    by (auto simp: res_fold_append res_bind_eq_Inr)
  have "dict_has (tombs v) i" using u(2) assms(3,4) by (rule delete_buries)
  with u(3) assms(5) have t: "dict_has (tombs st') i" by (blast intro: replay_buried)
  moreover have "instances_wf st'" using assms(1,2) by (rule replay_wf)
  ultimately show ?thesis by (simp add: instances_wf_def)
qed

end

section \<open>Shape of an applied operation\<close>

lemma track_parent_change_state:
  "track_parent_change op d st = Inr st' \<Longrightarrow> insts st' = insts st \<and> tombs st' = tombs st"
  by (auto simp: track_parent_change_def Let_def res_bind_eq_Inr split: if_splits)

text \<open>
  Both apply functions bury an instance, leave the state alone, or set the record of an
  instance that is not (or no longer) buried.
\<close>

definition op_name :: "pydict \<Rightarrow> string" where
  "op_name op = (case item_str op ''op'' of Inl _ \<Rightarrow> [] | Inr n \<Rightarrow> n)"

definition revives :: "string \<Rightarrow> pydict \<Rightarrow> bool" where
  "revives upsert op \<longleftrightarrow> op_name op = upsert \<and> is_True (py_get op ''allow_tombstone_recreate'')"

lemma write_tail:
  assumes "res_bind m (\<lambda>d. res_bind (track_parent_change op d st) (\<lambda>st.
      Inr (st\<lparr>insts := dict_set i d (insts st)\<rparr>))) = Inr st'"
  shows "\<exists>d. tombs st' = tombs st \<and> insts st' = dict_set i d (insts st)"
  using assms by (auto simp: res_bind_eq_Inr dest!: track_parent_change_state)

lemma apply_v7_cases:
  assumes "apply_v7 op st = Inr st'"
  obtains (bury) i t where "item_str op ''instance'' = Inr i"
      "op_name op \<in> {''DELETE_INSTANCE'', ''TOMBSTONE_INSTANCE''}"
      "tombs st' = dict_set i t (tombs st)" "insts st' = dict_pop i (insts st)"
  | (ignored) i where "item_str op ''instance'' = Inr i" "st' = st" "dict_has (tombs st) i"
      "op_name op \<notin> {''DELETE_INSTANCE'', ''TOMBSTONE_INSTANCE''}"
  | (stored) i d where "item_str op ''instance'' = Inr i"
      "op_name op \<notin> {''DELETE_INSTANCE'', ''TOMBSTONE_INSTANCE''}"
      "dict_has (tombs st) i \<longrightarrow> revives ''UPSERT_CONFIG'' op"
      "tombs st' = dict_pop i (tombs st)" "insts st' = dict_set i d (insts st)"
proof -
  from assms obtain name i where n: "item_str op ''op'' = Inr name" "item_str op ''instance'' = Inr i"
    unfolding apply_v7_def res_bind_eq_Inr by blast
  have name: "op_name op = name" by (simp add: op_name_def n)
  note run = assms [unfolded apply_v7_def n res_bind_Inr]
  consider "name \<in> {''DELETE_INSTANCE'', ''TOMBSTONE_INSTANCE''}"
    | "name \<notin> {''DELETE_INSTANCE'', ''TOMBSTONE_INSTANCE''}" "dict_has (tombs st) i" "\<not> revives ''UPSERT_CONFIG'' op"
    | "name \<notin> {''DELETE_INSTANCE'', ''TOMBSTONE_INSTANCE''}" "dict_has (tombs st) i \<longrightarrow> revives ''UPSERT_CONFIG'' op"
    by blast
  then show ?thesis
  proof cases
    case 1
    with run obtain t where "st' = st\<lparr>tombs := dict_set i t (tombs st), insts := dict_pop i (insts st)\<rparr>"
      by (auto simp: res_bind_eq_Inr)
    with 1 n(2) name show ?thesis by (intro bury) auto
  next
    case 2
    with run have "st' = st" by (simp add: revives_def name)
    with 2 n(2) name show ?thesis by (intro ignored) auto
  next
    case 3
    let ?st = "st\<lparr>tombs := dict_pop i (tombs st)\<rparr>"
    have "\<exists>d. tombs st' = tombs ?st \<and> insts st' = dict_set i d (insts ?st)"
    proof -
      have live: "(dict_has (tombs st) i \<and> \<not> (name = ''UPSERT_CONFIG''
          \<and> is_True (py_get op ''allow_tombstone_recreate''))) = False"
        using 3 by (simp add: revives_def name)
      have dead: "(name \<in> {''DELETE_INSTANCE'', ''TOMBSTONE_INSTANCE''}) = False" using 3 by simp
      note run' = run [unfolded live dead if_False Let_def]
      consider "name = ''UPSERT_CONFIG''" | "name = ''MOVE_INSTANCE''"
        | "name \<noteq> ''UPSERT_CONFIG''" "name \<noteq> ''MOVE_INSTANCE''" by blast
      then show ?thesis
      proof cases
        case 1
        with run' show ?thesis by (intro write_tail [of "upsert_record op (current_record ?st i)" op]) simp
      next
        case 2
        with run' show ?thesis by (intro write_tail [of "move_record op (current_record ?st i)" op]) simp
      next
        case 3
        with run' show ?thesis by (auto simp only: if_False res_bind_eq_Inr) auto
      qed
    qed
    with 3 n(2) name show ?thesis by (auto intro: stored)
  qed
qed

section \<open>PB8 is V7 under renaming\<close>

definition v7_name :: "string \<Rightarrow> string" where
  "v7_name n = (if n = ''UPSERT_PB8_CONFIG'' then ''UPSERT_CONFIG''
     else if n = ''MOVE_PB8_INSTANCE'' then ''MOVE_INSTANCE''
     else if n = ''START_PB8_INSTANCE'' then ''START_INSTANCE''
     else if n = ''STOP_PB8_INSTANCE'' then ''STOP_INSTANCE''
     else if n = ''DELETE_PB8_INSTANCE'' then ''DELETE_INSTANCE''
     else if n = ''TOMBSTONE_PB8_INSTANCE'' then ''TOMBSTONE_INSTANCE'' else ''OTHER'')"

definition as_v7 :: "pydict \<Rightarrow> pydict" where
  "as_v7 op = dict_set ''op'' (PStr (v7_name (op_name op))) op"

lemma as_v7_get [simp]:
  "k \<noteq> ''op'' \<Longrightarrow> py_get (as_v7 op) k = py_get op k"
  "k \<noteq> ''op'' \<Longrightarrow> get_str (as_v7 op) k = get_str op k"
  "k \<noteq> ''op'' \<Longrightarrow> item_str (as_v7 op) k = item_str op k"
  "k \<noteq> ''op'' \<Longrightarrow> item_int (as_v7 op) k = item_int op k"
  "k \<noteq> ''op'' \<Longrightarrow> dict_has (as_v7 op) k = dict_has op k"
  "item_str (as_v7 op) ''op'' = Inr (v7_name (op_name op))"
  by (simp_all add: as_v7_def get_str_def item_str_def item_int_def py_item_def)

lemma op_name_as_v7 [simp]: "op_name (as_v7 op) = v7_name (op_name op)"
  by (simp add: op_name_def)

lemma as_v7_records:
  "tombstone_record (as_v7 op) = tombstone_record op"
  "upsert_record (as_v7 op) d = upsert_record op d"
  "move_record (as_v7 op) d = move_record op d"
  "switch_record s (as_v7 op) d = switch_record s op d"
  "track_parent_change (as_v7 op) d st = track_parent_change op d st"
  by (simp_all add: tombstone_record_def upsert_record_def move_record_def switch_record_def
    track_parent_change_def desired_of_def cong: if_cong)

lemma v7_name_eq [simp]:
  "v7_name n = ''UPSERT_CONFIG'' \<longleftrightarrow> n = ''UPSERT_PB8_CONFIG''"
  "v7_name n = ''MOVE_INSTANCE'' \<longleftrightarrow> n = ''MOVE_PB8_INSTANCE''"
  "v7_name n = ''START_INSTANCE'' \<longleftrightarrow> n = ''START_PB8_INSTANCE''"
  "v7_name n = ''STOP_INSTANCE'' \<longleftrightarrow> n = ''STOP_PB8_INSTANCE''"
  "v7_name n = ''DELETE_INSTANCE'' \<longleftrightarrow> n = ''DELETE_PB8_INSTANCE''"
  "v7_name n = ''TOMBSTONE_INSTANCE'' \<longleftrightarrow> n = ''TOMBSTONE_PB8_INSTANCE''"
  by (auto simp: v7_name_def)

lemma pb8_via_v7: "item_str op ''op'' = Inr name \<Longrightarrow> apply_pb8 op st = apply_v7 (as_v7 op) st"
  unfolding apply_pb8_def apply_v7_def
  by (simp add: op_name_def as_v7_records cong: if_cong)

text \<open>The PB8 code replays an operation exactly as the V7 code replays its V7 counterpart.\<close>

theorem pb8_is_v7:
  assumes "dict_has op ''op''"
  shows "apply_pb8 op st = apply_v7 (as_v7 op) st"
  using assms by (cases "item_str op ''op''")
    (auto simp: pb8_via_v7 item_str_def py_item_def dict_has_iff res_bind_def split: option.splits)

theorem pb8_is_v7_witness:
  "apply_pb8 [(''op'', PStr ''STOP_PB8_INSTANCE''), (''instance'', PStr ''i''), (''actor'', PStr ''a''),
      (''created_at'', PInt 3)] no_instances
    = Inr (no_instances\<lparr>insts := [(''i'', [(''conflicted'', PBool False), (''desired_state'', PStr ''stopped''),
        (''updated_by'', PStr ''a''), (''updated_at'', PInt 3)])]\<rparr>)"
  by (subst pb8_is_v7, simp add: dict_has_def, code_simp)

section \<open>Both stores keep the contract\<close>

definition v7_delete :: "pydict \<Rightarrow> bool" where
  "v7_delete op \<longleftrightarrow> op_name op \<in> {''DELETE_INSTANCE'', ''TOMBSTONE_INSTANCE''}"

definition pb8_delete :: "pydict \<Rightarrow> bool" where
  "pb8_delete op \<longleftrightarrow> op_name op \<in> {''DELETE_PB8_INSTANCE'', ''TOMBSTONE_PB8_INSTANCE''}"

interpretation v7: tombstone_store apply_v7 v7_delete "revives ''UPSERT_CONFIG''"
proof
  fix op and st st' :: instance_state
  assume "apply_v7 op st = Inr st'" "instances_wf st"
  then show "instances_wf st'"
    by (cases rule: apply_v7_cases) (auto simp: instances_wf_def)
next
  fix op i and st st' :: instance_state
  assume "apply_v7 op st = Inr st'" "item_str op ''instance'' \<noteq> Inr i"
  then show "map_of (insts st') i = map_of (insts st) i \<and> dict_has (tombs st') i = dict_has (tombs st) i"
    by (cases rule: apply_v7_cases) auto
next
  fix op i and st st' :: instance_state
  assume "apply_v7 op st = Inr st'" "dict_has (tombs st) i" "\<not> revives ''UPSERT_CONFIG'' op"
  then show "dict_has (tombs st') i"
    by (cases rule: apply_v7_cases) auto
next
  fix op i and st st' :: instance_state
  assume "apply_v7 op st = Inr st'" "v7_delete op" "item_str op ''instance'' = Inr i"
  then show "dict_has (tombs st') i"
    by (cases rule: apply_v7_cases) (auto simp: v7_delete_def)
qed

lemma revives_as_v7: "revives ''UPSERT_CONFIG'' (as_v7 op) = revives ''UPSERT_PB8_CONFIG'' op"
  by (simp add: revives_def)

lemma apply_pb8_v7: "apply_pb8 op st = Inr st' \<Longrightarrow> apply_v7 (as_v7 op) st = Inr st'"
  using pb8_via_v7 by (cases "item_str op ''op''") (auto simp: apply_pb8_def)

interpretation pb8: tombstone_store apply_pb8 pb8_delete "revives ''UPSERT_PB8_CONFIG''"
proof
  fix op and st st' :: instance_state
  assume "apply_pb8 op st = Inr st'" "instances_wf st"
  then show "instances_wf st'" using v7.preserves [OF apply_pb8_v7] by blast
next
  fix op i and st st' :: instance_state
  assume "apply_pb8 op st = Inr st'" "item_str op ''instance'' \<noteq> Inr i"
  then show "map_of (insts st') i = map_of (insts st) i \<and> dict_has (tombs st') i = dict_has (tombs st) i"
    using v7.others [OF apply_pb8_v7, of op st st' i] by simp
next
  fix op i and st st' :: instance_state
  assume "apply_pb8 op st = Inr st'" "dict_has (tombs st) i" "\<not> revives ''UPSERT_PB8_CONFIG'' op"
  then show "dict_has (tombs st') i"
    using v7.buried [OF apply_pb8_v7, of op st st' i] by (simp add: revives_as_v7)
next
  fix op i and st st' :: instance_state
  assume "apply_pb8 op st = Inr st'" "pb8_delete op" "item_str op ''instance'' = Inr i"
  then show "dict_has (tombs st') i"
    using v7.delete_buries [OF apply_pb8_v7, of op st st' i] by (simp add: pb8_delete_def v7_delete_def)
qed

text \<open>
  C4: After a replay that deletes a V7 or PB8 instance and contains no explicit recreation of
  it afterwards, the instance is tombstoned and has no record.
\<close>

theorem deleted_instance_stays_deleted:
  assumes "instances_wf st" and "item_str op ''instance'' = Inr i"
    and "\<And>o'. o' \<in> set ops2 \<Longrightarrow> item_str o' ''instance'' = Inr i \<Longrightarrow>
      \<not> is_True (py_get o' ''allow_tombstone_recreate'')"
    and "(v7_delete op \<and> res_fold apply_v7 (ops1 @ op # ops2) st = Inr st')
       \<or> (pb8_delete op \<and> res_fold apply_pb8 (ops1 @ op # ops2) st = Inr st')"
  shows "dict_has (tombs st') i \<and> map_of (insts st') i = None"
  using assms(4)
proof
  assume "v7_delete op \<and> res_fold apply_v7 (ops1 @ op # ops2) st = Inr st'"
  with assms(1-3) show ?thesis
    by (intro v7.deleted_stays_deleted [of ops1 op ops2 st st' i]) (auto simp: revives_def)
next
  assume "pb8_delete op \<and> res_fold apply_pb8 (ops1 @ op # ops2) st = Inr st'"
  with assms(1-3) show ?thesis
    by (intro pb8.deleted_stays_deleted [of ops1 op ops2 st st' i]) (auto simp: revives_def)
qed

definition demo_delete :: pydict where
  "demo_delete = [(''op'', PStr ''DELETE_INSTANCE''), (''instance'', PStr ''i''), (''actor'', PStr ''a''),
     (''created_at'', PInt 3), (''op_id'', PStr ''a:1'')]"

definition demo_upsert :: "string \<Rightarrow> string \<Rightarrow> pydict" where
  "demo_upsert op_id h = [(''op'', PStr ''UPSERT_CONFIG''), (''instance'', PStr ''i''), (''actor'', PStr ''a''),
     (''created_at'', PInt 2), (''op_id'', PStr op_id), (''version'', PStr []), (''assigned_host'', PStr ''h''),
     (''config_manifest_hash'', PStr h), (''parent_version'', PStr ''1'')]"

theorem deleted_instance_stays_deleted_witness:
  "\<exists>st'. res_fold apply_v7 ([demo_upsert ''a:0'' ''x''] @ demo_delete # [demo_upsert ''a:2'' ''y'']) no_instances = Inr st'
     \<and> dict_has (tombs st') ''i'' \<and> map_of (insts st') ''i'' = None"
proof -
  have "is_ok (res_fold apply_v7 ([demo_upsert ''a:0'' ''x''] @ demo_delete # [demo_upsert ''a:2'' ''y'']) no_instances)"
    by code_simp
  then obtain st' where st': "res_fold apply_v7 ([demo_upsert ''a:0'' ''x''] @ demo_delete
      # [demo_upsert ''a:2'' ''y'']) no_instances = Inr st'" by (auto simp: is_ok_iff)
  have "dict_has (tombs st') ''i'' \<and> map_of (insts st') ''i'' = None"
  proof (rule deleted_instance_stays_deleted [of no_instances demo_delete "''i''" "[demo_upsert ''a:2'' ''y'']"])
    show "instances_wf no_instances" by (simp add: instances_wf_def no_instances_def dict_has_def)
    show "item_str demo_delete ''instance'' = Inr ''i''" by code_simp
    have "v7_delete demo_delete" by code_simp
    with st' show "v7_delete demo_delete \<and> res_fold apply_v7 ([demo_upsert ''a:0'' ''x''] @ demo_delete
        # [demo_upsert ''a:2'' ''y'']) no_instances = Inr st' \<or> pb8_delete demo_delete \<and>
        res_fold apply_pb8 ([demo_upsert ''a:0'' ''x''] @ demo_delete # [demo_upsert ''a:2'' ''y'']) no_instances = Inr st'"
      by blast
  qed (simp add: demo_upsert_def py_get_def)
  with st' show ?thesis by blast
qed

section \<open>Conflict marking\<close>

lemma changes_conflict_iff:
  "changes_conflict changes \<longleftrightarrow>
     (\<exists>c \<in> set changes. \<exists>c' \<in> set changes. change_signature c \<noteq> change_signature c')"
proof -
  let ?S = "change_signature ` set changes"
  have "card ?S \<le> length changes"
    by (metis card_image_le card_length finite_set le_trans)
  then have "changes_conflict changes \<longleftrightarrow> \<not> card ?S \<le> Suc 0"
    by (auto simp: changes_conflict_def length_remdups_card_conv)
  also have "\<dots> \<longleftrightarrow> \<not> (\<forall>a \<in> ?S. \<forall>b \<in> ?S. a = b)"
    by (subst card_le_Suc0_iff_eq) simp_all
  finally show ?thesis by auto
qed

definition in_conflict :: "string \<Rightarrow> string \<Rightarrow> ((string \<times> string) \<times> parent_change list) list \<Rightarrow> bool" where
  "in_conflict i v groups \<longleftrightarrow> (\<exists>(k, changes) \<in> set groups. fst k = i \<and>
     (\<exists>c \<in> set changes. \<exists>c' \<in> set changes. change_signature c \<noteq> change_signature c') \<and>
     v \<in> change_version ` set changes)"

text \<open>The record of one instance after some groups have been examined.\<close>

definition marked :: "pydict \<Rightarrow> bool \<Rightarrow> pydict \<Rightarrow> bool" where
  "marked d c d' \<longleftrightarrow> (is_True (py_get d' ''conflicted'') \<longleftrightarrow> c \<or> is_True (py_get d ''conflicted'')) \<and>
     (\<forall>k. k \<noteq> ''conflicted'' \<and> k \<noteq> ''conflicts'' \<longrightarrow> py_get d' k = py_get d k)"

lemma mark_conflict_step:
  assumes "mark_conflict g ins = Inr ins'" and "map_of ins i = Some d"
  shows "\<exists>d'. map_of ins' i = Some d' \<and> marked d (in_conflict i (get_str d ''version'') [g]) d'"
proof -
  obtain j p changes where g: "g = ((j, p), changes)" by (metis surj_pair)
  let ?hit = "changes_conflict changes \<and> instance_version ins j \<in> set (map change_version changes)"
  show ?thesis
  proof (cases "?hit \<and> j = i")
    case True
    then have "in_conflict i (get_str d ''version'') [g]"
      using assms(2) by (auto simp: g in_conflict_def instance_version_def changes_conflict_iff)
    with True assms show ?thesis by (auto simp: mark_conflict_def g marked_def)
  next
    case False
    then have no: "\<not> in_conflict i (get_str d ''version'') [g]"
      using assms(2) by (auto simp: g in_conflict_def instance_version_def changes_conflict_iff)
    have "map_of ins' i = Some d"
      using False assms by (auto simp: mark_conflict_def g split: if_splits option.splits)
    with no show ?thesis by (simp add: marked_def)
  qed
qed

lemma in_conflict_Cons: "in_conflict i v (g # gs) \<longleftrightarrow> in_conflict i v [g] \<or> in_conflict i v gs"
  by (auto simp: in_conflict_def)

lemma marked_trans:
  "marked d c d' \<Longrightarrow> marked d' c' d'' \<Longrightarrow> marked d (c \<or> c') d''"
  by (auto simp: marked_def)

lemma mark_conflicts_fold:
  "res_fold mark_conflict gs ins = Inr ins' \<Longrightarrow> map_of ins i = Some d \<Longrightarrow>
     \<exists>d'. map_of ins' i = Some d' \<and> marked d (in_conflict i (get_str d ''version'') gs) d'"
proof (induction gs arbitrary: ins d)
  case Nil
  then show ?case by (simp add: marked_def in_conflict_def)
next
  case (Cons g gs)
  then obtain u where u: "mark_conflict g ins = Inr u" "res_fold mark_conflict gs u = Inr ins'"
    by (auto simp: res_bind_eq_Inr)
  from mark_conflict_step [OF u(1) Cons.prems(2)] obtain d1 where
    d1: "map_of u i = Some d1" "marked d (in_conflict i (get_str d ''version'') [g]) d1" by blast
  from Cons.IH [OF u(2) d1(1)] obtain d2 where
    d2: "map_of ins' i = Some d2" "marked d1 (in_conflict i (get_str d1 ''version'') gs) d2" by blast
  have v: "get_str d1 ''version'' = get_str d ''version''" using d1(2) by (simp add: marked_def get_str_def)
  show ?case
    using d2(1) marked_trans [OF d1(2) d2(2) [unfolded v]] by (subst in_conflict_Cons) blast
qed

text \<open>
  Marking conflicts flags an instance exactly when two changes made from the same parent
  version disagree and the instance's current version is one of theirs; nothing else
  of the record changes.
\<close>

theorem conflicts_marked_exactly:
  assumes "mark_conflicts st = Inr ins'" and "map_of (insts st) i = Some d"
  shows "\<exists>d'. map_of ins' i = Some d' \<and>
    (is_True (py_get d' ''conflicted'') \<longleftrightarrow>
       in_conflict i (get_str d ''version'') (parents st) \<or> is_True (py_get d ''conflicted'')) \<and>
    (\<forall>k. k \<noteq> ''conflicted'' \<and> k \<noteq> ''conflicts'' \<longrightarrow> py_get d' k = py_get d k)"
  using mark_conflicts_fold [OF assms [unfolded mark_conflicts_def]] by (simp add: marked_def)

theorem conflicts_marked_exactly_witness:
  "\<exists>ins' d'. mark_conflicts (no_instances\<lparr>insts := [(''i'', [(''version'', PStr ''2'')])]\<rparr>) = Inr ins' \<and>
     map_of ins' ''i'' = Some d' \<and> \<not> is_True (py_get d' ''conflicted'')"
proof -
  let ?st = "no_instances\<lparr>insts := [(''i'', [(''version'', PStr ''2'')])]\<rparr>"
  have m: "mark_conflicts ?st = Inr (insts ?st)" by (simp add: mark_conflicts_def no_instances_def)
  from conflicts_marked_exactly [OF m, of "''i''" "[(''version'', PStr ''2'')]"] obtain d' where
    "map_of (insts ?st) ''i'' = Some d'"
    "is_True (py_get d' ''conflicted'') \<longleftrightarrow> in_conflict ''i'' (get_str [(''version'', PStr ''2'')] ''version'') (parents ?st)
      \<or> is_True (py_get [(''version'', PStr ''2'')] ''conflicted'')" by auto
  with m show ?thesis by (auto simp: no_instances_def in_conflict_def py_get_def)
qed

end
