(* ===== verification/Cluster_Credentials.thy ===== *)
theory Cluster_Credentials
  imports Cluster_Trust
begin

text \<open>
  Credential state materialized from the history (master/cluster_state.py): the
  retention policy, generation winners, sibling conflicts, the recipient chain, and
  \<open>_materialize_v2_credentials\<close>, one definition per section of the function. The
  dictionaries the code builds are Python dictionaries with the code's keys.
\<close>

section \<open>Sorting and grouping with keys that may raise\<close>

text \<open>\<open>sorted(xs, key=f)\<close> computes every key before it sorts.\<close>

definition res_sorted :: "('a \<Rightarrow> ('k :: linorder) res) \<Rightarrow> 'a list \<Rightarrow> 'a list res" where
  "res_sorted key xs =
     res_bind (res_map (\<lambda>x. res_bind (key x) (\<lambda>k. Inr (k, x))) xs)
       (\<lambda>kxs. Inr (map snd (sort_key fst kxs)))"

definition res_filter :: "('a \<Rightarrow> bool res) \<Rightarrow> 'a list \<Rightarrow> 'a list res" where
  "res_filter p xs =
     res_bind (res_map (\<lambda>x. res_bind (p x) (\<lambda>b. Inr (b, x))) xs)
       (\<lambda>bxs. Inr (map snd (filter fst bxs)))"

definition group_by_int :: "string \<Rightarrow> pydict list \<Rightarrow> (int, pydict list) dict res" where
  "group_by_int field items =
     res_fold (\<lambda>item groups. res_bind (item_int item field) (\<lambda>k. Inr (group_append k item groups)))
       items []"

definition op_id_of :: "pydict \<Rightarrow> string res" where
  "op_id_of item = item_str item ''op_id''"

definition order_key :: "pydict \<Rightarrow> (int \<times> string \<times> int \<times> string) res" where
  "order_key op =
     res_bind (get_int op ''created_at'' 0) (\<lambda>at.
     res_bind (get_int op ''seq'' 0) (\<lambda>seq.
     Inr (at, get_str op ''actor'', seq, get_str op ''op_id'')))"

definition int_op_key :: "string \<Rightarrow> pydict \<Rightarrow> (int \<times> string) res" where
  "int_op_key field item =
     res_bind (item_int item field) (\<lambda>g. res_bind (op_id_of item) (\<lambda>i. Inr (g, i)))"

text \<open>Hashing a tuple fails when one of its elements is a list or a dictionary.\<close>

definition hash_all :: "pyval list \<Rightarrow> unit res" where
  "hash_all vs = raise_if (\<exists>v \<in> set vs. \<not> hashable v) TypeError"

section \<open>Retention policy\<close>

definition retention_signature :: "pydict \<Rightarrow> (int \<times> string \<times> int) res" where
  "retention_signature item =
     res_bind (item_int item ''generation'') (\<lambda>g.
     res_bind (item_str item ''mode'') (\<lambda>m.
     res_bind (item_int item ''history_days'') (\<lambda>d. Inr (g, m, d))))"

definition retention_conflict :: "int \<Rightarrow> pydict \<Rightarrow> pyval res" where
  "retention_conflict parent item =
     res_bind (op_id_of item) (\<lambda>i.
     res_bind (item_int item ''generation'') (\<lambda>g.
     res_bind (item_str item ''mode'') (\<lambda>m.
     res_bind (item_int item ''history_days'') (\<lambda>d.
     Inr (PDict [(''op_id'', PStr i), (''generation'', PInt g), (''parent_generation'', PInt parent),
       (''mode'', PStr m), (''history_days'', PInt d)])))))"

definition retention_conflicts :: "pydict list \<Rightarrow> pyval list res" where
  "retention_conflicts ordered =
     res_bind (group_by_int ''parent_generation'' ordered) (\<lambda>siblings.
     res_fold (\<lambda>(parent, changes) conflicts.
       res_bind (res_map retention_signature changes) (\<lambda>sigs.
       if length (remdups sigs) < 2 then Inr conflicts
       else res_bind (res_map (retention_conflict parent) changes) (\<lambda>cs. Inr (conflicts @ cs))))
     siblings [])"

definition materialize_retention_policy :: "pydict list \<Rightarrow> pydict res" where
  "materialize_retention_policy operations =
     res_bind (res_sorted (int_op_key ''generation'') operations) (\<lambda>ordered.
     let winner = last ordered in
     res_bind (retention_conflicts ordered) (\<lambda>conflicts.
     res_bind (item_int winner ''generation'') (\<lambda>generation.
     res_bind (item_int winner ''parent_generation'') (\<lambda>parent.
     res_bind (item_str winner ''mode'') (\<lambda>mode.
     res_bind (item_int winner ''history_days'') (\<lambda>days.
     res_bind (item_str winner ''actor'') (\<lambda>actor.
     res_bind (item_int winner ''created_at'') (\<lambda>at.
     res_bind (op_id_of winner) (\<lambda>op_id.
     Inr ([(''generation'', PInt generation), (''parent_generation'', PInt parent),
       (''mode'', PStr (if conflicts \<noteq> [] then ''report_only'' else mode)),
       (''history_days'', PInt days), (''updated_by'', PStr actor), (''updated_at'', PInt at),
       (''op_id'', PStr op_id), (''conflicted'', PBool (conflicts \<noteq> []))]
       @ (if conflicts \<noteq> [] then [(''conflicts'', PList conflicts)] else [])))))))))))"

section \<open>Winners and sibling conflicts\<close>

definition generation_of :: "pydict \<Rightarrow> string \<Rightarrow> string option \<Rightarrow> int res" where
  "generation_of item field fallback =
     py_int (py_get_or item field (py_get_or item (case fallback of None \<Rightarrow> [] | Some f \<Rightarrow> f) (PInt 0)))"

definition conflict_value :: "pydict \<Rightarrow> string" where
  "conflict_value item = py_str (py_or (py_or (py_or (py_or (py_get item ''sealed_blob_hash'')
     (py_get item ''state'')) (py_get item ''authority_node_id'')) (py_get item ''profile_id'')) (PStr []))"

definition conflict_signature ::
  "string \<Rightarrow> string option \<Rightarrow> pydict \<Rightarrow> (string \<times> int \<times> string \<times> pyval \<times> pyval list) res" where
  "conflict_signature field fallback item =
     res_bind (item_str item ''op'') (\<lambda>name.
     res_bind (generation_of item field fallback) (\<lambda>g.
     res_bind (get_list item ''obsolete_secret_blob_hashes'') (\<lambda>hashes.
     res_bind (hash_all hashes) (\<lambda>_.
     Inr (name, g, conflict_value item,
       py_sorted (py_or (py_get item ''state_vector'') (PDict [])), map py_normal hashes)))))"

definition conflict_entry :: "string \<Rightarrow> string option \<Rightarrow> int \<Rightarrow> pydict \<Rightarrow> pyval res" where
  "conflict_entry field fallback parent item =
     res_bind (op_id_of item) (\<lambda>i.
     res_bind (item_str item ''op'') (\<lambda>name.
     res_bind (generation_of item field fallback) (\<lambda>g.
     Inr (PDict [(''op_id'', PStr i), (''op'', PStr name), (''parent_generation'', PInt parent),
       (''generation'', PInt g)]))))"

definition parent_conflicts ::
  "pydict list \<Rightarrow> string \<Rightarrow> string \<Rightarrow> string option \<Rightarrow> pyval list res" where
  "parent_conflicts changes parent_field field fallback =
     res_bind (group_by_int parent_field changes) (\<lambda>by_parent.
     res_fold (\<lambda>(parent, siblings) conflicts.
       res_bind (res_map (conflict_signature field fallback) siblings) (\<lambda>sigs.
       if length (remdups sigs) < 2 then Inr conflicts
       else res_bind (res_map (conflict_entry field fallback parent) siblings)
              (\<lambda>cs. Inr (conflicts @ cs))))
     by_parent [])"

definition generation_conflicts :: "pydict list \<Rightarrow> string \<Rightarrow> pyval list res" where
  "generation_conflicts changes field = parent_conflicts changes ''parent_generation'' field None"

definition winner_key :: "string \<Rightarrow> string \<Rightarrow> pydict \<Rightarrow> (int \<times> string) res" where
  "winner_key primary fallback item =
     res_bind (py_int (py_get_or item primary (py_get item fallback))) (\<lambda>g.
     res_bind (op_id_of item) (\<lambda>i. Inr (g, i)))"

definition generation_winner :: "pydict list \<Rightarrow> string \<Rightarrow> string \<Rightarrow> (pydict \<times> pyval list) res" where
  "generation_winner changes primary fallback =
     res_bind (res_sorted (winner_key primary fallback) changes) (\<lambda>ordered.
     res_bind (parent_conflicts ordered ''parent_generation'' primary (Some fallback)) (\<lambda>conflicts.
     Inr (last ordered, conflicts)))"

section \<open>The recipient chain\<close>

definition recipient_signature :: "pydict \<Rightarrow> (int \<times> string \<times> pyval list \<times> pydict \<times> int) res" where
  "recipient_signature item =
     res_bind (item_int item ''recipient_generation'') (\<lambda>g.
     res_bind (item_str item ''sealed_blob_hash'') (\<lambda>h.
     res_bind (get_list item ''recipient_ids'') (\<lambda>ids.
     res_bind (case py_or (py_get item ''recipient_key_ids'') (PDict []) of
         PDict d \<Rightarrow> Inr d | _ \<Rightarrow> Inl AttributeError) (\<lambda>keys.
     res_bind (item_int item ''membership_generation'') (\<lambda>m.
     res_bind (hash_all (ids @ map snd keys)) (\<lambda>_.
     Inr (g, h, map py_normal ids, map (\<lambda>(k, v). (k, py_normal v)) (dict_sorted keys), m)))))))"

definition recipient_conflict :: "int \<Rightarrow> pydict \<Rightarrow> pyval res" where
  "recipient_conflict parent item =
     res_bind (op_id_of item) (\<lambda>i.
     res_bind (item_str item ''op'') (\<lambda>name.
     res_bind (item_int item ''recipient_generation'') (\<lambda>g.
     Inr (PDict [(''op_id'', PStr i), (''op'', PStr name),
       (''parent_recipient_generation'', PInt parent), (''recipient_generation'', PInt g)]))))"

definition children_of :: "(int, pydict list) dict \<Rightarrow> int \<Rightarrow> pydict list" where
  "children_of by_parent g = (case map_of by_parent g of None \<Rightarrow> [] | Some xs \<Rightarrow> xs)"

text \<open>
  The \<open>while\<close> loop of \<open>_recipient_generation_winner\<close>. It ends because an iteration that
  goes on visits a parent generation of \<open>by_parent\<close> that was not visited before.
\<close>

function recipient_chain :: "(int, pydict list) dict \<Rightarrow> int list \<Rightarrow> pydict \<Rightarrow> int \<Rightarrow> pyval list
    \<Rightarrow> (pydict \<times> pyval list) res" where
  "recipient_chain by_parent visited current g conflicts =
     (if g \<in> set visited then Inr (current, conflicts)
      else if children_of by_parent g = [] then Inr (current, conflicts)
      else
        res_bind (res_sorted (int_op_key ''recipient_generation'') (children_of by_parent g)) (\<lambda>children.
        res_bind (res_map recipient_signature children) (\<lambda>sigs.
        res_bind (if 1 < length (remdups sigs)
                  then res_bind (res_map (recipient_conflict g) children) (\<lambda>cs. Inr (conflicts @ cs))
                  else Inr conflicts) (\<lambda>conflicts'.
        res_bind (item_int (last children) ''recipient_generation'') (\<lambda>g'.
        recipient_chain by_parent (g # visited) (last children) g' conflicts')))))"
  by pat_completeness auto

termination
proof (relation "measure (\<lambda>(by_parent, visited, _). card (fst ` set by_parent - set visited))")
  fix by_parent :: "(int, pydict list) dict" and visited :: "int list" and g g' :: int
    and current :: pydict and conflicts conflicts' :: "pyval list" and children :: "pydict list"
    and sigs :: "(int \<times> string \<times> pyval list \<times> pydict \<times> int) list"
  assume "g \<notin> set visited" and "children_of by_parent g \<noteq> []"
  then have "g \<in> fst ` set by_parent - set visited"
    by (auto simp: children_of_def split: option.splits dest: map_of_SomeD intro!: rev_image_eqI)
  then have "card (fst ` set by_parent - set (g # visited)) < card (fst ` set by_parent - set visited)"
    by (intro psubset_card_mono) auto
  then show "((by_parent, g # visited, last children, g', conflicts'),
      (by_parent, visited, current, g, conflicts))
    \<in> measure (\<lambda>(by_parent, visited, _). card (fst ` set by_parent - set visited))"
    by simp
qed simp

declare recipient_chain.simps [simp del]

definition recipient_generation_winner :: "pydict \<Rightarrow> pydict list \<Rightarrow> (pydict \<times> pyval list) res" where
  "recipient_generation_winner initial changes =
     res_bind (get_int initial ''recipient_generation'' 1) (\<lambda>g.
     res_bind (group_by_int ''parent_recipient_generation'' changes) (\<lambda>by_parent.
     recipient_chain by_parent [] initial g []))"

end
