(* ===== verification/Cluster_Materialize.thy ===== *)
theory Cluster_Materialize
  imports Cluster_Credentials
begin

text \<open>
  \<open>_materialize_v2_credentials\<close> (master/cluster_state.py), section by section in the
  order of the code: \<open>collect_v2\<close> is the loop that groups the operations, each
  \<open>materialize_*\<close> builds one dictionary of the result.
\<close>

section \<open>Grouping the operations\<close>

record v2_ops =
  secret_ops :: "(string, pydict list) dict"
  recipient_ops :: "(string, pydict list) dict"
  pool_entry_ops :: "(string, pydict list) dict"
  pool_state_ops :: "(string, pydict list) dict"
  authority_ops :: "(string, pydict list) dict"
  tradfi_active_ops :: "(string, pydict list) dict"
  freeze_ops :: "pydict list"
  freeze_acks :: "pydict list"
  inventory_acks :: "pydict list"
  materialization_acks :: "pydict list"
  cutoff_ops :: "pydict list"
  cutoff_acks :: "pydict list"
  migration_candidates :: "(string, pydict list) dict"
  migration_acceptances :: "(string, pydict list) dict"
  migration_conflicts :: "(string, pydict list) dict"
  migration_resolutions :: "(string, pydict list) dict"
  projection_acks :: "pydict list"
  scan_acks :: "pydict list"

definition no_v2_ops :: v2_ops where
  "no_v2_ops = \<lparr>secret_ops = [], recipient_ops = [], pool_entry_ops = [], pool_state_ops = [],
     authority_ops = [], tradfi_active_ops = [], freeze_ops = [], freeze_acks = [],
     inventory_acks = [], materialization_acks = [], cutoff_ops = [], cutoff_acks = [],
     migration_candidates = [], migration_acceptances = [], migration_conflicts = [],
     migration_resolutions = [], projection_acks = [], scan_acks = []\<rparr>"

definition collect_v2 :: "pydict \<Rightarrow> v2_ops \<Rightarrow> v2_ops res" where
  "collect_v2 op c =
     res_bind (item_str op ''op'') (\<lambda>name.
     if name \<in> {''UPSERT_SECRET'', ''TOMBSTONE_SECRET''} then
       res_bind (item_str op ''secret_id'') (\<lambda>k. Inr (c\<lparr>secret_ops := group_append k op (secret_ops c)\<rparr>))
     else if name = ''UPDATE_SECRET_RECIPIENTS'' then
       res_bind (item_str op ''secret_id'') (\<lambda>k. Inr (c\<lparr>recipient_ops := group_append k op (recipient_ops c)\<rparr>))
     else if name = ''UPSERT_CMC_POOL_ENTRY'' then
       res_bind (item_str op ''key_id'') (\<lambda>k. Inr (c\<lparr>pool_entry_ops := group_append k op (pool_entry_ops c)\<rparr>))
     else if name = ''SET_CMC_KEY_STATE'' then
       res_bind (item_str op ''key_id'') (\<lambda>k. Inr (c\<lparr>pool_state_ops := group_append k op (pool_state_ops c)\<rparr>))
     else if name = ''SET_CMC_AUTHORITY'' then
       res_bind (item_str op ''quota_domain_id'') (\<lambda>k. Inr (c\<lparr>authority_ops := group_append k op (authority_ops c)\<rparr>))
     else if name = ''SET_TRADFI_ACTIVE_PROFILE'' then
       res_bind (item_str op ''provider'') (\<lambda>k. Inr (c\<lparr>tradfi_active_ops := group_append k op (tradfi_active_ops c)\<rparr>))
     else if name = ''WRITER_FREEZE'' then Inr (c\<lparr>freeze_ops := freeze_ops c @ [op]\<rparr>)
     else if name = ''WRITER_FREEZE_ACK'' then Inr (c\<lparr>freeze_acks := freeze_acks c @ [op]\<rparr>)
     else if name = ''CREDENTIAL_INVENTORY_ACK'' then Inr (c\<lparr>inventory_acks := inventory_acks c @ [op]\<rparr>)
     else if name = ''CREDENTIAL_MATERIALIZATION_ACK'' then
       Inr (c\<lparr>materialization_acks := materialization_acks c @ [op]\<rparr>)
     else if name = ''CREDENTIAL_CUTOFF'' then Inr (c\<lparr>cutoff_ops := cutoff_ops c @ [op]\<rparr>)
     else if name = ''CREDENTIAL_CUTOFF_ACK'' then Inr (c\<lparr>cutoff_acks := cutoff_acks c @ [op]\<rparr>)
     else if name = ''MIGRATION_SECRET_CANDIDATE'' then
       res_bind (item_str op ''candidate_id'') (\<lambda>k. Inr (c\<lparr>migration_candidates := group_append k op (migration_candidates c)\<rparr>))
     else if name = ''MIGRATION_SECRET_ACCEPTANCE'' then
       res_bind (item_str op ''candidate_id'') (\<lambda>k. Inr (c\<lparr>migration_acceptances := group_append k op (migration_acceptances c)\<rparr>))
     else if name = ''MIGRATION_SECRET_CONFLICT'' then
       res_bind (item_str op ''conflict_id'') (\<lambda>k. Inr (c\<lparr>migration_conflicts := group_append k op (migration_conflicts c)\<rparr>))
     else if name = ''MIGRATION_SECRET_CONFLICT_RESOLUTION'' then
       res_bind (item_str op ''conflict_id'') (\<lambda>k. Inr (c\<lparr>migration_resolutions := group_append k op (migration_resolutions c)\<rparr>))
     else if name = ''TRADFI_PROJECTION_ACK'' then Inr (c\<lparr>projection_acks := projection_acks c @ [op]\<rparr>)
     else if name = ''CREDENTIAL_SCAN_ACK'' then Inr (c\<lparr>scan_acks := scan_acks c @ [op]\<rparr>)
     else Inr c)"

section \<open>Shared pieces\<close>

definition authorship :: "string \<Rightarrow> string \<Rightarrow> pydict \<Rightarrow> pydict res" where
  "authorship by_field at_field op =
     res_bind (item_str op ''actor'') (\<lambda>actor.
     res_bind (item_int op ''created_at'') (\<lambda>at.
     Inr [(by_field, PStr actor), (at_field, PInt at)]))"

definition authored :: "string \<Rightarrow> string \<Rightarrow> pydict \<Rightarrow> pydict res" where
  "authored by_field at_field op =
     res_bind (authorship by_field at_field op) (\<lambda>a.
     res_bind (op_id_of op) (\<lambda>i. Inr (a @ [(''op_id'', PStr i)])))"

definition conflict_fields :: "pyval list \<Rightarrow> pydict" where
  "conflict_fields conflicts = (''conflicted'', PBool (conflicts \<noteq> [])) #
     (if conflicts \<noteq> [] then [(''conflicts'', PList conflicts)] else [])"

definition dict_val :: "(string, pydict) dict \<Rightarrow> pyval" where
  "dict_val d = PDict (map (\<lambda>(k, v). (k, PDict v)) (dict_sorted d))"

definition unsorted_val :: "(string, pydict) dict \<Rightarrow> pyval" where
  "unsorted_val d = PDict (map (\<lambda>(k, v). (k, PDict v)) d)"

definition ack_node :: "pydict \<Rightarrow> string res" where
  "ack_node ack = (if truthy (py_get ack ''node_id'') then Inr (py_str (py_get ack ''node_id''))
                   else item_str ack ''actor'')"

definition secret_kind_of :: "pydict \<Rightarrow> string" where
  "secret_kind_of op = py_str (py_or (py_get_or op ''secret_kind'' (py_get op ''kind'')) (PStr []))"

text \<open>Keep the candidate with the greatest order per node (\<open>current is None or new > current\<close>).\<close>

definition keep_latest :: "string \<Rightarrow> 'k :: linorder \<Rightarrow> pydict \<Rightarrow> (string, 'k \<times> pydict) dict
    \<Rightarrow> (string, 'k \<times> pydict) dict" where
  "keep_latest node order candidate acks = (case map_of acks node of
     None \<Rightarrow> dict_set node (order, candidate) acks
   | Some (current, _) \<Rightarrow> if current < order then dict_set node (order, candidate) acks else acks)"

definition latest_values :: "(string, 'k \<times> pydict) dict \<Rightarrow> (string, pydict) dict" where
  "latest_values = map (\<lambda>(n, (_, d)). (n, d))"

section \<open>Secrets\<close>

definition secret_tombstone :: "pydict \<Rightarrow> pydict res" where
  "secret_tombstone op =
     res_bind (item_int op ''generation'') (\<lambda>g.
     res_bind (item_int op ''parent_generation'') (\<lambda>p.
     res_bind (authored ''deleted_by'' ''deleted_at'' op) (\<lambda>a.
     Inr ([(''generation'', PInt g), (''parent_generation'', PInt p),
       (''secret_kind'', PStr (secret_kind_of op))] @ a))))"

definition secret_base :: "string \<Rightarrow> pydict \<Rightarrow> pyval list \<Rightarrow> pydict res" where
  "secret_base secret_id winner conflicts =
     res_bind (item_str winner ''audience'') (\<lambda>audience.
     res_bind (item_int winner ''generation'') (\<lambda>g.
     res_bind (item_int winner ''parent_generation'') (\<lambda>p.
     res_bind (item_str winner ''sealed_blob_hash'') (\<lambda>h.
     res_bind (authored ''updated_by'' ''updated_at'' winner) (\<lambda>a.
     Inr ([(''secret_id'', PStr secret_id), (''secret_kind'', PStr (secret_kind_of winner)),
       (''audience'', PStr audience), (''generation'', PInt g), (''parent_generation'', PInt p),
       (''sealed_blob_hash'', PStr h)] @ a @ [(''conflicted'', PBool (conflicts \<noteq> []))]))))))"

definition recipient_fields :: "int \<Rightarrow> pydict \<Rightarrow> pyval list \<Rightarrow> pydict res" where
  "recipient_fields initial w conflicts =
     res_bind (get_int w ''recipient_generation'' initial) (\<lambda>g.
     res_bind (get_int w ''parent_recipient_generation'' 0) (\<lambda>p.
     res_bind (item_str w ''sealed_blob_hash'') (\<lambda>h.
     res_bind (get_int w ''membership_generation'' 0) (\<lambda>m.
     res_bind (get_list w ''recipient_ids'') (\<lambda>ids.
     res_bind (get_dict w ''recipient_key_ids'') (\<lambda>keys.
     res_bind (authorship ''recipient_updated_by'' ''recipient_updated_at'' w) (\<lambda>a.
     res_bind (op_id_of w) (\<lambda>i.
     Inr ([(''recipient_generation'', PInt g), (''parent_recipient_generation'', PInt p),
       (''sealed_blob_hash'', PStr h), (''membership_generation'', PInt m), (''recipient_ids'', PList ids),
       (''recipient_key_ids'', PDict keys)] @ a @ [(''recipient_op_id'', PStr i),
       (''recipient_conflicted'', PBool (conflicts \<noteq> []))])))))))))"

definition copied_fields :: "string list \<Rightarrow> pydict \<Rightarrow> pydict" where
  "copied_fields names op = [(f, py_get op f). f \<leftarrow> names, dict_has op f]"

definition secret_record :: "string \<Rightarrow> pydict \<Rightarrow> pydict list \<Rightarrow> pyval list \<Rightarrow> pydict res" where
  "secret_record secret_id winner recipient_changes conflicts =
     res_bind (secret_base secret_id winner conflicts) (\<lambda>base.
     res_bind (get_int winner ''recipient_generation'' 1) (\<lambda>initial.
     res_bind (res_filter (\<lambda>item.
         res_bind (get_int item ''provider_generation'' 0) (\<lambda>p.
         res_bind (item_int winner ''generation'') (\<lambda>g. Inr (p = g)))) recipient_changes) (\<lambda>changes.
     res_bind (recipient_generation_winner winner changes) (\<lambda>(rwinner, rconflicts).
     res_bind (recipient_fields initial rwinner rconflicts) (\<lambda>rfields.
     Inr (dict_update base (rfields
       @ [(''conflicted'', PBool (conflicts \<noteq> [] \<or> rconflicts \<noteq> []))]
       @ copied_fields [''label'', ''provider'', ''active'', ''shared'', ''lifecycle_state''] winner
       @ (if conflicts \<noteq> [] then [(''conflicts'', PList conflicts)] else [])
       @ (if rconflicts \<noteq> [] then [(''recipient_conflicts'', PList rconflicts)] else []))))))))"

definition has_op :: "string \<Rightarrow> pydict \<Rightarrow> bool" where
  "has_op name op \<longleftrightarrow> py_get op ''op'' = PStr name"

definition secret_step :: "(string, pydict list) dict \<Rightarrow> string \<times> pydict list \<Rightarrow>
    (string, pydict) dict \<times> (string, pydict) dict \<Rightarrow>
    ((string, pydict) dict \<times> (string, pydict) dict) res" where
  "secret_step recipients = (\<lambda>(secret_id, changes) (secrets, tombstones).
     res_bind (res_sorted (int_op_key ''generation'') changes) (\<lambda>ordered.
     res_bind (generation_conflicts ordered ''generation'') (\<lambda>conflicts.
     let dead = filter (has_op ''TOMBSTONE_SECRET'') ordered;
         upserts = filter (has_op ''UPSERT_SECRET'') ordered
     in res_bind (if dead = [] then Inr False
                  else res_bind (item_int (last dead) ''generation'') (\<lambda>d.
                       res_bind (item_int (last ordered) ''generation'') (\<lambda>w. Inr (w \<le> d)))) (\<lambda>buried.
        if buried then res_bind (secret_tombstone (last dead)) (\<lambda>t.
          Inr (secrets, dict_set secret_id t tombstones))
        else if upserts = [] then Inr (secrets, tombstones)
        else res_bind (secret_record secret_id (last upserts)
               (case map_of recipients secret_id of None \<Rightarrow> [] | Some xs \<Rightarrow> xs) conflicts) (\<lambda>r.
          Inr (dict_set secret_id r secrets, tombstones))))))"

definition materialize_secrets :: "v2_ops \<Rightarrow> ((string, pydict) dict \<times> (string, pydict) dict) res" where
  "materialize_secrets c = res_fold (secret_step (recipient_ops c)) (secret_ops c) ([], [])"

section \<open>CoinMarketCap pool\<close>

definition pool_entry_fields :: "string set" where
  "pool_entry_fields = {''key_id'', ''secret_id'', ''label'', ''state'', ''quota_domain_id'',
     ''provider_plan'', ''minute_limit'', ''daily_limit'', ''monthly_limit'',
     ''catalog_generation'', ''generation'', ''parent_generation'', ''active''}"

definition pool_entry_step ::
  "string \<times> pydict list \<Rightarrow> (string, pydict) dict \<Rightarrow> (string, pydict) dict res" where
  "pool_entry_step = (\<lambda>(key, changes) entries.
     res_bind (generation_winner changes ''catalog_generation'' ''generation'') (\<lambda>(winner, conflicts).
     res_bind (authored ''updated_by'' ''updated_at'' winner) (\<lambda>a.
     Inr (dict_set key (dict_update (filter (\<lambda>(k, v). k \<in> pool_entry_fields) winner)
       (a @ [(''conflicted'', PBool (conflicts \<noteq> []))]
         @ (if conflicts \<noteq> [] then [(''conflicts'', PList conflicts), (''state'', PStr ''conflicted'')]
            else []))) entries))))"

definition pool_state_step ::
  "string \<times> pydict list \<Rightarrow> (string, pydict) dict \<Rightarrow> (string, pydict) dict res" where
  "pool_state_step = (\<lambda>(key, changes) entries.
     res_bind (generation_winner changes ''state_generation'' ''generation'') (\<lambda>(winner, conflicts).
     let record = (case map_of entries key of None \<Rightarrow> [(''key_id'', PStr key)] | Some d \<Rightarrow> d) in
     res_bind (if conflicts \<noteq> [] then Inr ''conflicted'' else item_str winner ''state'') (\<lambda>state.
     res_bind (py_int (py_get_or winner ''state_generation'' (py_get winner ''generation''))) (\<lambda>g.
     res_bind (authorship ''state_updated_by'' ''state_updated_at'' winner) (\<lambda>a.
     Inr (dict_set key (dict_update record ([(''state'', PStr state), (''state_generation'', PInt g)] @ a
       @ (if conflicts \<noteq> [] then [(''state_conflicts'', PList conflicts)] else []))) entries))))))"

definition authority_step ::
  "string \<times> pydict list \<Rightarrow> (string, pydict) dict \<Rightarrow> (string, pydict) dict res" where
  "authority_step = (\<lambda>(domain, changes) authorities.
     res_bind (res_sorted (int_op_key ''authority_epoch'') changes) (\<lambda>ordered.
     let winner = last ordered in
     res_bind (parent_conflicts changes ''parent_epoch'' ''authority_epoch'' None) (\<lambda>conflicts.
     res_bind (item_str winner ''authority_node_id'') (\<lambda>n.
     res_bind (item_int winner ''authority_epoch'') (\<lambda>e.
     res_bind (item_int winner ''parent_epoch'') (\<lambda>p.
     res_bind (authored ''updated_by'' ''updated_at'' winner) (\<lambda>a.
     Inr (dict_set domain ([(''quota_domain_id'', PStr domain), (''authority_node_id'', PStr n),
       (''authority_epoch'', PInt e), (''parent_epoch'', PInt p)] @ a @ conflict_fields conflicts)
       authorities))))))))"

definition tradfi_step ::
  "string \<times> pydict list \<Rightarrow> (string, pydict) dict \<Rightarrow> (string, pydict) dict res" where
  "tradfi_step = (\<lambda>(provider, changes) profiles.
     res_bind (generation_winner changes ''activation_generation'' ''activation_generation'') (\<lambda>(winner, conflicts).
     let profile = py_get winner ''profile_id'' in
     res_bind (item_int winner ''activation_generation'') (\<lambda>g.
     res_bind (item_int winner ''parent_generation'') (\<lambda>p.
     res_bind (authored ''updated_by'' ''updated_at'' winner) (\<lambda>a.
     Inr (dict_set provider ([(''provider'', PStr provider),
       (''profile_id'', if profile = PNone then PNone else PStr (py_str profile)),
       (''activation_generation'', PInt g), (''parent_generation'', PInt p)] @ a @ conflict_fields conflicts)
       profiles))))))"

section \<open>Acknowledgements\<close>

definition materialization_ack_step ::
  "pydict \<Rightarrow> (string, (int \<times> string) \<times> pydict) dict \<Rightarrow> (string, (int \<times> string) \<times> pydict) dict res" where
  "materialization_ack_step ack acks =
     (if \<not> dict_has ack ''recipient_generations'' then Inr acks
      else
        res_bind (ack_node ack) (\<lambda>n.
        res_bind (item_int ack ''seq'') (\<lambda>seq.
        res_bind (op_id_of ack) (\<lambda>i.
        res_bind (get_int ack ''membership_generation'' 0) (\<lambda>m.
        res_bind (get_dict ack ''credential_generations'') (\<lambda>cg.
        res_bind (get_dict ack ''recipient_generations'') (\<lambda>rg.
        res_bind (authored ''acked_by'' ''acked_at'' ack) (\<lambda>a.
        let candidate = [(''membership_generation'', PInt m), (''credential_generations'', PDict cg),
              (''recipient_generations'', PDict rg)] @ a;
            current = (case map_of acks n of None \<Rightarrow> (-1, []) | Some (k, _) \<Rightarrow> k)
        in Inr (if current < (seq, i) then dict_set n ((seq, i), candidate) acks else acks)))))))))"

definition freeze_ack_step :: "int \<Rightarrow> pydict \<Rightarrow> (string, pydict) dict \<Rightarrow> (string, pydict) dict res" where
  "freeze_ack_step active ack acks =
     res_bind (item_int ack ''freeze_generation'') (\<lambda>g.
     if g \<noteq> active then Inr acks
     else
       res_bind (ack_node ack) (\<lambda>n.
       res_bind (authorship ''acked_by'' ''acked_at'' ack) (\<lambda>a.
       res_bind (get_list ack ''process_readiness'') (\<lambda>r.
       Inr (dict_set n ([(''freeze_generation'', PInt active)] @ a @ [(''frozen'', PBool True),
         (''process_readiness'', PList r)]) acks)))))"

definition inventory_ack_step :: "int \<Rightarrow> pydict \<Rightarrow> (string, pydict) dict \<Rightarrow> (string, pydict) dict res" where
  "inventory_ack_step active ack acks =
     res_bind (item_int ack ''freeze_generation'') (\<lambda>g.
     if g \<noteq> active then Inr acks
     else
       res_bind (ack_node ack) (\<lambda>n.
       res_bind (authorship ''acked_by'' ''acked_at'' ack) (\<lambda>a.
       res_bind (get_dict ack ''source_generations'') (\<lambda>sg.
       res_bind (get_dict ack ''source_fingerprints'') (\<lambda>sf.
       res_bind (get_list ack ''process_readiness'') (\<lambda>r.
       res_bind (op_id_of ack) (\<lambda>i.
       Inr (dict_set n ([(''freeze_generation'', PInt active)] @ a @ [(''source_generations'', PDict sg),
         (''source_fingerprints'', PDict sf), (''process_readiness'', PList r), (''op_id'', PStr i)])
         acks))))))))"

definition frozen_materialization_step ::
  "int \<Rightarrow> pydict \<Rightarrow> (string, pydict) dict \<Rightarrow> (string, pydict) dict res" where
  "frozen_materialization_step active ack acks =
     res_bind (get_int ack ''freeze_generation'' 0) (\<lambda>g.
     if g \<noteq> active then Inr acks
     else
       res_bind (ack_node ack) (\<lambda>n.
       res_bind (authorship ''acked_by'' ''acked_at'' ack) (\<lambda>a.
       Inr (dict_set n ([(''freeze_generation'', PInt active)] @ a @ [(''credential_generations'',
         py_get_or ack ''credential_generations'' (PDict []))]) acks))))"

text \<open>The freeze section: the latest \<open>WRITER_FREEZE\<close> and the acknowledgements of its generation.\<close>

definition materialize_freeze :: "v2_ops \<Rightarrow> pydict \<Rightarrow> pydict res" where
  "materialize_freeze c migration =
     (if freeze_ops c = [] then Inr migration
      else
        res_bind (res_sorted (int_op_key ''freeze_generation'') (freeze_ops c)) (\<lambda>ordered.
        let freeze = last ordered in
        res_bind (item_int freeze ''freeze_generation'') (\<lambda>active.
        res_bind (authorship ''updated_by'' ''updated_at'' freeze) (\<lambda>a.
        res_bind (res_fold (freeze_ack_step active) (freeze_acks c) []) (\<lambda>facks.
        res_bind (res_fold (inventory_ack_step active) (inventory_acks c) []) (\<lambda>iacks.
        res_bind (res_fold (frozen_materialization_step active) (materialization_acks c) []) (\<lambda>macks.
        Inr (dict_update migration
          ([(''freeze_generation'', PInt active),
            (''frozen'', PBool (truthy (py_get_or freeze ''frozen'' (PBool True))))] @ a
           @ copied_fields [''migration_operation_id''] freeze
           @ [(''freeze_acks'', unsorted_val facks), (''inventory_acks'', unsorted_val iacks)]
           @ (if macks \<noteq> [] then [(''materialization_acks'', unsorted_val macks)] else []))))))))))"

definition cutoff_ack_step ::
  "int \<Rightarrow> pydict \<Rightarrow> (string, (int \<times> string) \<times> pydict) dict \<Rightarrow> (string, (int \<times> string) \<times> pydict) dict res" where
  "cutoff_ack_step active ack acks =
     res_bind (get_int ack ''cutoff_generation'' 0) (\<lambda>g.
     if g \<noteq> active then Inr acks
     else
       res_bind (ack_node ack) (\<lambda>n.
       res_bind (get_dict ack ''state_vector'') (\<lambda>sv.
       res_bind (get_list ack ''removed_secret_blob_hashes'') (\<lambda>removed.
       res_bind (authorship ''acked_by'' ''acked_at'' ack) (\<lambda>a.
       res_bind (item_int ack ''created_at'') (\<lambda>at.
       res_bind (op_id_of ack) (\<lambda>i.
       Inr (keep_latest n (at, i) ([(''cutoff_generation'', PInt active), (''state_vector'', PDict sv),
         (''removed_secret_blob_hashes'', PList removed)] @ a @ [(''op_id'', PStr i)]) acks))))))))"

definition materialize_cutoff :: "v2_ops \<Rightarrow> pydict \<Rightarrow> pydict res" where
  "materialize_cutoff c migration =
     (if cutoff_ops c = [] then Inr migration
      else
        res_bind (generation_winner (cutoff_ops c) ''cutoff_generation'' ''cutoff_generation'') (\<lambda>(cutoff, conflicts).
        res_bind (item_int cutoff ''cutoff_generation'') (\<lambda>g.
        res_bind (item_int cutoff ''parent_generation'') (\<lambda>p.
        res_bind (item_int cutoff ''min_protocol'') (\<lambda>protocol.
        res_bind (res_bind (py_item cutoff ''state_vector'') py_dict) (\<lambda>sv.
        res_bind (res_bind (py_item cutoff ''obsolete_secret_blob_hashes'') py_list) (\<lambda>obsolete.
        res_bind (authored ''published_by'' ''published_at'' cutoff) (\<lambda>a.
        res_bind (res_fold (cutoff_ack_step g) (cutoff_acks c) []) (\<lambda>cleanup.
        Inr (dict_update migration
          [(''cutoff'', PDict ([(''cutoff_generation'', PInt g), (''parent_generation'', PInt p),
              (''min_protocol'', PInt protocol), (''state_vector'', PDict sv),
              (''obsolete_secret_blob_hashes'', PList obsolete)] @ a @ conflict_fields conflicts)),
           (''cleanup_acks'', dict_val (latest_values cleanup))]))))))))))"

section \<open>Migration candidates and conflicts\<close>

definition newest :: "pydict list \<Rightarrow> pydict res" where
  "newest changes = res_bind (res_sorted order_key changes) (\<lambda>ordered. Inr (last ordered))"

definition candidate_step ::
  "string \<times> pydict list \<Rightarrow> (string, pydict) dict \<Rightarrow> (string, pydict) dict res" where
  "candidate_step = (\<lambda>(k, changes) acc.
     res_bind (newest changes) (\<lambda>w.
     res_bind (item_str w ''candidate_kind'') (\<lambda>kind.
     res_bind (item_int w ''freeze_generation'') (\<lambda>fg.
     res_bind (item_str w ''source_fingerprint'') (\<lambda>fp.
     res_bind (item_int w ''source_generation'') (\<lambda>sg.
     res_bind (item_str w ''sealed_blob_hash'') (\<lambda>h.
     res_bind (get_int w ''membership_generation'' 0) (\<lambda>m.
     res_bind (get_list w ''recipient_ids'') (\<lambda>ids.
     res_bind (get_dict w ''recipient_key_ids'') (\<lambda>keys.
     res_bind (authored ''submitted_by'' ''submitted_at'' w) (\<lambda>a.
     Inr (dict_set k ([(''candidate_id'', PStr k), (''candidate_kind'', PStr kind),
       (''freeze_generation'', PInt fg), (''source_fingerprint'', PStr fp), (''source_generation'', PInt sg),
       (''sealed_blob_hash'', PStr h), (''audience'', PStr ''masters''), (''membership_generation'', PInt m),
       (''recipient_ids'', PList ids), (''recipient_key_ids'', PDict keys)] @ a) acc))))))))))))"

definition acceptance_step ::
  "string \<times> pydict list \<Rightarrow> (string, pydict) dict \<Rightarrow> (string, pydict) dict res" where
  "acceptance_step = (\<lambda>(k, changes) acc.
     res_bind (newest changes) (\<lambda>w.
     res_bind (item_str w ''credential_id'') (\<lambda>cid.
     res_bind (item_int w ''credential_generation'') (\<lambda>cg.
     res_bind (item_int w ''freeze_generation'') (\<lambda>fg.
     res_bind (authored ''accepted_by'' ''accepted_at'' w) (\<lambda>a.
     Inr (dict_set k ([(''candidate_id'', PStr k), (''credential_id'', PStr cid),
       (''credential_generation'', PInt cg), (''freeze_generation'', PInt fg),
       (''status'', PStr ''accepted'')] @ a) acc)))))))"

definition resolution_record :: "pydict \<Rightarrow> pydict res" where
  "resolution_record r =
     res_bind (item_str r ''choice'') (\<lambda>choice.
     res_bind (item_str r ''resolution_id'') (\<lambda>rid.
     res_bind (authored ''resolved_by'' ''resolved_at'' r) (\<lambda>a.
     Inr ([(''choice'', PStr choice), (''resolution_id'', PStr rid)] @ a))))"

definition migration_conflict_step :: "(string, pydict list) dict \<Rightarrow>
    string \<times> pydict list \<Rightarrow> (string, pydict) dict \<Rightarrow> (string, pydict) dict res" where
  "migration_conflict_step resolutions = (\<lambda>(k, changes) acc.
     res_bind (newest changes) (\<lambda>w.
     res_bind (case map_of resolutions k of
         None \<Rightarrow> Inr None
       | Some rs \<Rightarrow> if rs = [] then Inr None else res_bind (newest rs) (\<lambda>r. Inr (Some r))) (\<lambda>resolution.
     res_bind (item_str w ''candidate_id'') (\<lambda>cid.
     res_bind (item_str w ''existing_credential_id'') (\<lambda>eid.
     res_bind (item_str w ''provider'') (\<lambda>provider.
     res_bind (item_int w ''freeze_generation'') (\<lambda>fg.
     res_bind (authored ''reported_by'' ''reported_at'' w) (\<lambda>a.
     res_bind (case resolution of
         None \<Rightarrow> Inr []
       | Some r \<Rightarrow> res_bind (resolution_record r) (\<lambda>d. Inr [(''resolution'', PDict d)])) (\<lambda>rf.
     Inr (dict_set k ([(''conflict_id'', PStr k), (''candidate_id'', PStr cid),
       (''existing_credential_id'', PStr eid), (''provider'', PStr provider), (''freeze_generation'', PInt fg),
       (''status'', PStr (if resolution \<noteq> None then ''resolved'' else ''unresolved''))] @ a @ rf) acc))))))))))"

definition projection_ack_step ::
  "pydict \<Rightarrow> (string, (int \<times> int \<times> string) \<times> pydict) dict \<Rightarrow> (string, (int \<times> int \<times> string) \<times> pydict) dict res" where
  "projection_ack_step ack acks =
     res_bind (ack_node ack) (\<lambda>n.
     res_bind (get_int ack ''membership_generation'' 0) (\<lambda>m.
     res_bind (get_dict ack ''active_profile_generations'') (\<lambda>apg.
     res_bind (get_int ack ''projection_applied_generation'' 0) (\<lambda>pag.
     res_bind (authored ''acked_by'' ''acked_at'' ack) (\<lambda>a.
     res_bind (item_int ack ''created_at'') (\<lambda>at.
     res_bind (op_id_of ack) (\<lambda>i.
     Inr (keep_latest n (m, at, i) ([(''membership_generation'', PInt m),
       (''active_profile_generations'', PDict apg), (''projection_applied_generation'', PInt pag),
       (''projection_status'', PStr (get_str ack ''projection_status''))] @ a) acks))))))))"

definition scan_ack_step :: "pydict \<Rightarrow> (string, (int \<times> int \<times> int \<times> string) \<times> pydict) dict
    \<Rightarrow> (string, (int \<times> int \<times> int \<times> string) \<times> pydict) dict res" where
  "scan_ack_step ack acks =
     res_bind (ack_node ack) (\<lambda>n.
     res_bind (item_int ack ''freeze_generation'') (\<lambda>fg.
     res_bind (get_int ack ''cutoff_generation'' 0) (\<lambda>cg.
     res_bind (item_str ack ''status'') (\<lambda>status.
     res_bind (get_list ack ''findings'') (\<lambda>findings.
     res_bind (authored ''acked_by'' ''acked_at'' ack) (\<lambda>a.
     res_bind (item_int ack ''created_at'') (\<lambda>at.
     res_bind (op_id_of ack) (\<lambda>i.
     Inr (keep_latest n (fg, cg, at, i) ([(''freeze_generation'', PInt fg), (''cutoff_generation'', PInt cg),
       (''status'', PStr status), (''clean'', PBool (truthy (py_get ack ''clean''))),
       (''findings'', PList findings)] @ a) acks)))))))))"

definition section_if :: "string \<Rightarrow> (string, pydict) dict \<Rightarrow> pydict" where
  "section_if name d = (if d \<noteq> [] then [(name, dict_val d)] else [])"

section \<open>The whole function\<close>

definition materialize_v2_credentials :: "pydict list \<Rightarrow> pydict res" where
  "materialize_v2_credentials operations =
     res_bind (res_fold collect_v2 operations no_v2_ops) (\<lambda>c.
     res_bind (materialize_secrets c) (\<lambda>(secrets, tombstones).
     res_bind (res_fold pool_entry_step (pool_entry_ops c) []) (\<lambda>entries0.
     res_bind (res_fold pool_state_step (pool_state_ops c) entries0) (\<lambda>entries.
     res_bind (res_fold authority_step (authority_ops c) []) (\<lambda>authorities.
     res_bind (res_fold tradfi_step (tradfi_active_ops c) []) (\<lambda>profiles.
     res_bind (res_fold materialization_ack_step (materialization_acks c) []) (\<lambda>macks.
     res_bind (materialize_freeze c [(''freeze_acks'', PDict []), (''inventory_acks'', PDict [])]) (\<lambda>m1.
     res_bind (materialize_cutoff c m1) (\<lambda>m2.
     res_bind (res_fold candidate_step (migration_candidates c) []) (\<lambda>candidates.
     res_bind (res_fold acceptance_step (migration_acceptances c) []) (\<lambda>acceptances.
     res_bind (res_fold (migration_conflict_step (migration_resolutions c)) (migration_conflicts c) []) (\<lambda>conflicts.
     res_bind (res_fold projection_ack_step (projection_acks c) []) (\<lambda>packs.
     res_bind (res_fold scan_ack_step (scan_acks c) []) (\<lambda>sacks.
     Inr [(''secrets'', dict_val secrets), (''secret_tombstones'', dict_val tombstones),
       (''cmc_pool'', PDict [(''entries'', dict_val entries), (''authorities'', dict_val authorities)]),
       (''tradfi_active_profiles'', dict_val profiles),
       (''credential_migration'', PDict (dict_update m2 (section_if ''candidates'' candidates
          @ section_if ''candidate_acceptances'' acceptances @ section_if ''conflicts'' conflicts
          @ section_if ''scan_acks'' (latest_values sacks)))),
       (''credential_materialization_acks'', dict_val (latest_values macks)),
       (''tradfi_projection_acks'', dict_val (latest_values packs))]))))))))))))))"

end
