(* ===== verification/Credential_Laws.thy ===== *)
theory Credential_Laws
  imports Cluster_Materialize
begin

text \<open>
  What materialized credentials guarantee: elections by a key that ends in the operation
  identifier have one winner whatever the order of the candidates, conflicts are reported
  exactly when siblings differ, the recipient chain is followed to its end, and a
  retention mode that deletes data is never chosen while signed policies disagree.
\<close>

section \<open>Sorting by a key that may raise\<close>

lemma sort_key_decorated: "sort_key fst (map (\<lambda>x. (k x, x)) xs) = map (\<lambda>x. (k x, x)) (sort_key k xs)"
proof (induction xs)
  case (Cons x xs)
  have "insort_key fst (k x, x) (map (\<lambda>x. (k x, x)) ys) = map (\<lambda>x. (k x, x)) (insort_key k x ys)" for ys
    by (induction ys) simp_all
  with Cons show ?case by simp
qed simp

lemma res_map_projr: "res_map f xs = Inr ys \<Longrightarrow> ys = map (\<lambda>x. projr (f x)) xs \<and> (\<forall>x \<in> set xs. is_ok (f x))"
  by (induction xs arbitrary: ys) (auto simp: res_bind_eq_Inr)

lemma res_sorted_Inr:
  assumes "res_sorted key xs = Inr ys"
  shows "ys = sort_key (\<lambda>x. projr (key x)) xs" "\<And>x. x \<in> set xs \<Longrightarrow> key x = Inr (projr (key x))"
proof -
  from assms obtain kxs where k: "res_map (\<lambda>x. res_bind (key x) (\<lambda>k. Inr (k, x))) xs = Inr kxs"
    and ys: "ys = map snd (sort_key fst kxs)" by (auto simp: res_sorted_def res_bind_eq_Inr)
  from res_map_projr [OF k] have ok: "\<forall>x \<in> set xs. is_ok (key x)"
    by (auto simp: is_ok_iff res_bind_eq_Inr)
  then have "kxs = map (\<lambda>x. (projr (key x), x)) xs"
    using res_map_projr [OF k] by (auto simp: is_ok_iff intro!: map_cong)
  then show "ys = sort_key (\<lambda>x. projr (key x)) xs" by (simp add: ys sort_key_decorated comp_def)
  fix x assume "x \<in> set xs"
  with ok show "key x = Inr (projr (key x))" by (auto simp: is_ok_iff)
qed

lemma res_sorted_total:
  assumes "\<And>x. x \<in> set xs \<Longrightarrow> key x = Inr (k x)"
  shows "res_sorted key xs = Inr (sort_key k xs)"
proof -
  have "res_map (\<lambda>x. res_bind (key x) (\<lambda>k. Inr (k, x))) xs = Inr (map (\<lambda>x. (k x, x)) xs)"
    using assms by (intro res_map_total) simp
  then show ?thesis by (simp add: res_sorted_def sort_key_decorated comp_def)
qed

section \<open>Elections\<close>

text \<open>
  Every election of the code sorts its candidates by a key whose last component is the
  operation identifier and takes the last one.
\<close>

locale election =
  fixes key :: "pydict \<Rightarrow> ('k :: linorder) res"
    and ident :: "pydict \<Rightarrow> 'i"
  assumes key_names: "key x = Inr k \<Longrightarrow> key y = Inr k \<Longrightarrow> ident x = ident y"
begin

lemma sorted_order_independent:
  assumes "mset xs = mset ys" and "inj_on ident (set xs)" and "res_sorted key xs = Inr zs"
  shows "res_sorted key ys = Inr zs"
proof -
  let ?k = "\<lambda>x. projr (key x)"
  have ok: "\<And>x. x \<in> set xs \<Longrightarrow> key x = Inr (?k x)" and zs: "zs = sort_key ?k xs"
    using res_sorted_Inr [OF assms(3)] by auto
  have "inj_on ?k (set xs)"
    using ok assms(2) key_names by (metis (no_types, lifting) inj_on_def)
  then have "sort_key ?k xs = sort_key ?k ys" by (rule sort_key_perm [OF assms(1)])
  moreover have "res_sorted key ys = Inr (sort_key ?k ys)"
    using ok mset_eq_setD [OF assms(1)] by (intro res_sorted_total) auto
  ultimately show ?thesis by (simp add: zs)
qed

lemma sorted_last_greatest:
  assumes "res_sorted key xs = Inr zs" and "xs \<noteq> []"
  shows "last zs \<in> set xs" "x \<in> set xs \<Longrightarrow> projr (key x) \<le> projr (key (last zs))"
proof -
  have zs: "zs = sort_key (\<lambda>x. projr (key x)) xs" using res_sorted_Inr(1) [OF assms(1)] .
  show "last zs \<in> set xs" unfolding zs by (rule last_sort_key_in [OF assms(2)])
  assume "x \<in> set xs"
  then show "projr (key x) \<le> projr (key (last zs))"
    unfolding zs by (rule last_sort_key_greatest)
qed

end

lemma key_ends_in_op_id:
  "res_bind m (\<lambda>g. res_bind (op_id_of x) (\<lambda>i. Inr (g, i))) = Inr k \<Longrightarrow> op_id_of x = Inr (snd k)"
  by (auto simp: res_bind_eq_Inr)

interpretation generation_election: election "winner_key primary fallback" op_id_of
  for primary fallback
proof
  fix x y k
  assume "winner_key primary fallback x = Inr k" "winner_key primary fallback y = Inr k"
  then show "op_id_of x = op_id_of y"
    unfolding winner_key_def by (auto dest!: key_ends_in_op_id)
qed

interpretation field_election: election "int_op_key field" op_id_of
  for field
proof
  fix x y k
  assume "int_op_key field x = Inr k" "int_op_key field y = Inr k"
  then show "op_id_of x = op_id_of y"
    unfolding int_op_key_def by (auto dest!: key_ends_in_op_id)
qed

interpretation history_election: election order_key "\<lambda>op. get_str op ''op_id''"
proof
  fix x y k
  assume "order_key x = Inr k" "order_key y = Inr k"
  then show "get_str x ''op_id'' = get_str y ''op_id''"
    by (auto simp: order_key_def res_bind_eq_Inr)
qed

section \<open>Grouping by a parent\<close>

lemma group_by_int_step:
  assumes "res_fold (\<lambda>item groups. res_bind (item_int item field) (\<lambda>k. Inr (group_append k item groups)))
      items groups0 = Inr groups"
  shows "(\<forall>x \<in> set items. is_ok (item_int x field)) \<and>
    (distinct (map fst groups0) \<longrightarrow> distinct (map fst groups)) \<and>
    (\<forall>k. children_of groups k = children_of groups0 k @ filter (\<lambda>x. item_int x field = Inr k) items)"
  using assms
proof (induction items arbitrary: groups0)
  case Nil
  then show ?case by simp
next
  case (Cons x xs)
  then obtain k where k: "item_int x field = Inr k"
    and rest: "res_fold (\<lambda>item groups. res_bind (item_int item field) (\<lambda>k. Inr (group_append k item groups)))
      xs (group_append k x groups0) = Inr groups" by (auto simp: res_bind_eq_Inr)
  have "children_of (group_append k x groups0) j = children_of groups0 j @ (if j = k then [x] else [])" for j
    by (simp add: children_of_def)
  moreover have "distinct (map fst (group_append k x groups0)) = distinct (map fst groups0)"
    by (simp add: group_append_def)
  ultimately show ?case using Cons.IH [OF rest] k by auto
qed

lemma group_by_int_Inr:
  assumes "group_by_int field items = Inr groups"
  shows "\<And>x. x \<in> set items \<Longrightarrow> is_ok (item_int x field)" "distinct (map fst groups)"
    "children_of groups k = filter (\<lambda>x. item_int x field = Inr k) items"
  using group_by_int_step [OF assms [unfolded group_by_int_def]] by (auto simp: children_of_def)

lemma group_by_int_set:
  assumes "group_by_int field items = Inr groups" and "(k, xs) \<in> set groups"
  shows "xs = filter (\<lambda>x. item_int x field = Inr k) items"
proof -
  have "map_of groups k = Some xs"
    using group_by_int_Inr(2) [OF assms(1)] assms(2) by simp
  then show ?thesis using group_by_int_Inr(3) [OF assms(1), of k] by (simp add: children_of_def)
qed

lemma group_by_int_ex:
  assumes "group_by_int field items = Inr groups" and "x \<in> set items"
  obtains k xs where "item_int x field = Inr k" "(k, xs) \<in> set groups" "x \<in> set xs"
proof -
  from group_by_int_Inr(1) [OF assms] obtain k where k: "item_int x field = Inr k" by (auto simp: is_ok_iff)
  have x: "x \<in> set (children_of groups k)" using group_by_int_Inr(3) [OF assms(1)] assms(2) k by simp
  then obtain xs where "map_of groups k = Some xs" "x \<in> set xs"
    by (cases "map_of groups k") (auto simp: children_of_def)
  then show ?thesis using that k by (auto dest: map_of_SomeD)
qed

section \<open>Conflicts among siblings\<close>

text \<open>
  The loop shared by \<open>_materialize_retention_policy\<close> and \<open>_parent_conflicts\<close>: a group
  contributes one entry per element when its signatures are not all equal.
\<close>

definition sibling_fold :: "('a \<Rightarrow> 'g res) \<Rightarrow> (int \<Rightarrow> 'a \<Rightarrow> pyval res) \<Rightarrow> (int, 'a list) dict
    \<Rightarrow> pyval list \<Rightarrow> pyval list res" where
  "sibling_fold signature entry = res_fold (\<lambda>(parent, siblings) conflicts.
     res_bind (res_map signature siblings) (\<lambda>sigs.
     if length (remdups sigs) < 2 then Inr conflicts
     else res_bind (res_map (entry parent) siblings) (\<lambda>cs. Inr (conflicts @ cs))))"

lemma remdups_agree: "length (remdups xs) < 2 \<longleftrightarrow> (\<forall>a \<in> set xs. \<forall>b \<in> set xs. a = b)"
proof -
  have "length (remdups xs) < 2 \<longleftrightarrow> card (set xs) \<le> Suc 0"
    by (auto simp: length_remdups_card_conv)
  also have "\<dots> \<longleftrightarrow> (\<forall>a \<in> set xs. \<forall>b \<in> set xs. a = b)" by (rule card_le_Suc0_iff_eq) simp
  finally show ?thesis .
qed

definition siblings_agree :: "('a \<Rightarrow> 'g res) \<Rightarrow> 'a list \<Rightarrow> bool" where
  "siblings_agree signature xs \<longleftrightarrow> (\<forall>a \<in> set xs. \<forall>b \<in> set xs. signature a = signature b)"

lemma res_map_agree:
  assumes "res_map f xs = Inr ys"
  shows "length (remdups ys) < 2 \<longleftrightarrow> siblings_agree f xs"
proof -
  have ys: "ys = map (\<lambda>x. projr (f x)) xs" and ok: "\<forall>x \<in> set xs. is_ok (f x)"
    using res_map_projr [OF assms] by auto
  have "projr (f a) = projr (f b) \<longleftrightarrow> f a = f b" if "a \<in> set xs" "b \<in> set xs" for a b
    using bspec [OF ok that(1)] bspec [OF ok that(2)] by (auto simp: is_ok_iff)
  then show ?thesis by (auto simp: remdups_agree ys siblings_agree_def)
qed

lemma sibling_fold_empty:
  assumes "sibling_fold signature entry groups acc = Inr cs" and "\<forall>(k, xs) \<in> set groups. xs \<noteq> []"
  shows "cs = [] \<longleftrightarrow> acc = [] \<and> (\<forall>(k, xs) \<in> set groups. siblings_agree signature xs)"
  using assms
proof (induction groups arbitrary: acc)
  case Nil
  then show ?case by (simp add: sibling_fold_def)
next
  case (Cons g groups)
  obtain k xs where g: "g = (k, xs)" by (cases g)
  from Cons.prems(1) obtain sigs acc' where sigs: "res_map signature xs = Inr sigs"
    and acc': "(if length (remdups sigs) < 2 then Inr acc
        else res_bind (res_map (entry k) xs) (\<lambda>cs. Inr (acc @ cs))) = Inr acc'"
    and rest: "sibling_fold signature entry groups acc' = Inr cs"
    by (auto simp: sibling_fold_def g res_bind_eq_Inr simp del: if_split)
  have "acc' = [] \<longleftrightarrow> acc = [] \<and> siblings_agree signature xs"
  proof (cases "length (remdups sigs) < 2")
    case True
    then show ?thesis using acc' res_map_agree [OF sigs] by auto
  next
    case False
    then obtain es where "res_map (entry k) xs = Inr es" "acc' = acc @ es"
      using acc' by (auto simp: res_bind_eq_Inr)
    moreover have "es \<noteq> []"
      using res_map_Inr_length [OF \<open>res_map (entry k) xs = Inr es\<close>] Cons.prems(2) by (auto simp: g)
    ultimately show ?thesis using False res_map_agree [OF sigs] by auto
  qed
  then show ?case using Cons.IH [OF rest] Cons.prems(2) by (auto simp: g)
qed

lemma group_conflicts_empty:
  assumes groups: "group_by_int field items = Inr groups"
    and "sibling_fold signature entry groups [] = Inr cs"
  shows "cs = [] \<longleftrightarrow> (\<forall>x \<in> set items. \<forall>y \<in> set items.
     item_int x field = item_int y field \<longrightarrow> signature x = signature y)"
proof -
  have ne: "\<forall>(k, xs) \<in> set groups. xs \<noteq> []"
  proof (rule res_fold_invariant [where P = "\<lambda>g. \<forall>(k, xs) \<in> set g. xs \<noteq> []"])
    show "res_fold (\<lambda>item groups. res_bind (item_int item field) (\<lambda>k. Inr (group_append k item groups)))
        items [] = Inr groups" using groups by (simp add: group_by_int_def)
  next
    fix x :: pydict and u v :: "(int, pydict list) dict"
    assume u: "\<forall>(k, xs) \<in> set u. xs \<noteq> []"
      and "res_bind (item_int x field) (\<lambda>k. Inr (group_append k x u)) = Inr v"
    then obtain k where v: "v = group_append k x u" by (auto simp: res_bind_eq_Inr)
    have "set v \<subseteq> insert (k, (case map_of u k of None \<Rightarrow> [] | Some xs \<Rightarrow> xs) @ [x]) (set u)"
      unfolding v group_append_def by (rule set_dict_set)
    with u show "\<forall>(k, xs) \<in> set v. xs \<noteq> []" by auto
  qed simp
  have "cs = [] \<longleftrightarrow> (\<forall>(k, xs) \<in> set groups. siblings_agree signature xs)"
    using sibling_fold_empty [OF assms(2) ne] by simp
  also have "\<dots> \<longleftrightarrow> (\<forall>x \<in> set items. \<forall>y \<in> set items.
     item_int x field = item_int y field \<longrightarrow> signature x = signature y)" (is "?L = ?R")
  proof
    assume ?L
    show ?R
    proof (intro ballI impI)
      fix x y assume x: "x \<in> set items" "y \<in> set items" "item_int x field = item_int y field"
      from group_by_int_ex [OF groups x(1)] obtain k xs where k: "item_int x field = Inr k" "(k, xs) \<in> set groups" by blast
      then have "x \<in> set xs" "y \<in> set xs" using group_by_int_set [OF groups k(2)] x by auto
      moreover have "siblings_agree signature xs" using \<open>?L\<close> k(2) by auto
      ultimately show "signature x = signature y" unfolding siblings_agree_def by blast
    qed
  next
    assume ?R
    show ?L
    proof (intro ballI, clarify)
      fix k xs assume "(k, xs) \<in> set groups"
      then have "xs = filter (\<lambda>x. item_int x field = Inr k) items" by (rule group_by_int_set [OF groups])
      then have "x \<in> set items \<and> item_int x field = Inr k" if "x \<in> set xs" for x using that by simp
      with \<open>?R\<close> show "siblings_agree signature xs" unfolding siblings_agree_def by (metis (no_types))
    qed
  qed
  finally show ?thesis .
qed

lemma parent_conflicts_fold:
  "parent_conflicts changes pf field fb = res_bind (group_by_int pf changes)
     (\<lambda>groups. sibling_fold (conflict_signature field fb) (conflict_entry field fb) groups [])"
  by (simp add: parent_conflicts_def sibling_fold_def)

lemma retention_conflicts_fold:
  "retention_conflicts changes = res_bind (group_by_int ''parent_generation'' changes)
     (\<lambda>groups. sibling_fold retention_signature retention_conflict groups [])"
  by (simp add: retention_conflicts_def sibling_fold_def)

text \<open>
  The sibling conflict report is empty exactly when any two changes of the same parent
  generation have the same operation, generation, value, state vector and blob list.
\<close>

theorem conflicts_iff_siblings_differ:
  assumes "parent_conflicts changes parent_field field fallback = Inr conflicts"
  shows "conflicts = [] \<longleftrightarrow> (\<forall>x \<in> set changes. \<forall>y \<in> set changes.
    item_int x parent_field = item_int y parent_field \<longrightarrow>
    conflict_signature field fallback x = conflict_signature field fallback y)"
proof -
  from assms obtain groups where g: "group_by_int parent_field changes = Inr groups"
    "sibling_fold (conflict_signature field fallback) (conflict_entry field fallback) groups [] = Inr conflicts"
    by (auto simp: parent_conflicts_fold res_bind_eq_Inr)
  show ?thesis by (rule group_conflicts_empty [OF g])
qed

section \<open>Winners\<close>

text \<open>
  The generation winner is one of the changes, has the greatest generation among them
  with the greatest operation identifier breaking ties, and neither it nor the reported conflicts
  depend on the order of the changes.
\<close>

theorem generation_winner_deterministic:
  assumes "generation_winner changes primary fallback = Inr (w, conflicts)" and "changes \<noteq> []"
    and "mset changes' = mset changes" and "inj_on op_id_of (set changes)"
  shows "w \<in> set changes \<and>
    (\<forall>x \<in> set changes. projr (winner_key primary fallback x) \<le> projr (winner_key primary fallback w)) \<and>
    generation_winner changes' primary fallback = Inr (w, conflicts)"
proof -
  from assms(1) obtain ordered where ordered: "res_sorted (winner_key primary fallback) changes = Inr ordered"
    and pc: "parent_conflicts ordered ''parent_generation'' primary (Some fallback) = Inr conflicts"
    and w: "w = last ordered" by (auto simp: generation_winner_def res_bind_eq_Inr)
  have "res_sorted (winner_key primary fallback) changes' = Inr ordered"
    by (rule generation_election.sorted_order_independent [OF assms(3) [symmetric] assms(4) ordered])
  then have "generation_winner changes' primary fallback = Inr (w, conflicts)"
    by (simp add: generation_winner_def pc w)
  with generation_election.sorted_last_greatest [OF ordered assms(2)] w show ?thesis by auto
qed

definition demo_state :: "string \<Rightarrow> int \<Rightarrow> string \<Rightarrow> pydict" where
  "demo_state op_id g state = [(''op_id'', PStr op_id), (''op'', PStr ''SET_CMC_KEY_STATE''),
     (''state_generation'', PInt g), (''parent_generation'', PInt 0), (''state'', PStr state),
     (''actor'', PStr ''a''), (''created_at'', PInt 1), (''key_id'', PStr ''k'')]"

lemma demo_winner: "generation_winner [demo_state ''a:1'' 2 ''active'', demo_state ''b:1'' 1 ''disabled'']
     ''state_generation'' ''generation'' = Inr (demo_state ''a:1'' 2 ''active'',
       [PDict [(''op_id'', PStr ''b:1''), (''op'', PStr ''SET_CMC_KEY_STATE''), (''parent_generation'', PInt 0),
               (''generation'', PInt 1)],
        PDict [(''op_id'', PStr ''a:1''), (''op'', PStr ''SET_CMC_KEY_STATE''), (''parent_generation'', PInt 0),
               (''generation'', PInt 2)]])"
  by code_simp

theorem generation_winner_deterministic_witness:
  "generation_winner [demo_state ''b:1'' 1 ''disabled'', demo_state ''a:1'' 2 ''active'']
     ''state_generation'' ''generation''
   = generation_winner [demo_state ''a:1'' 2 ''active'', demo_state ''b:1'' 1 ''disabled'']
     ''state_generation'' ''generation''"
  using generation_winner_deterministic [OF demo_winner,
      of "[demo_state ''b:1'' 1 ''disabled'', demo_state ''a:1'' 2 ''active'']"]
  by (simp add: demo_winner inj_on_def) (simp add: demo_state_def op_id_of_def item_str_def py_item_def)

theorem conflicts_iff_siblings_differ_witness:
  "\<exists>x \<in> set [demo_state ''b:1'' 1 ''disabled'', demo_state ''a:1'' 2 ''active''].
   \<exists>y \<in> set [demo_state ''b:1'' 1 ''disabled'', demo_state ''a:1'' 2 ''active''].
     item_int x ''parent_generation'' = item_int y ''parent_generation'' \<and>
     conflict_signature ''state_generation'' (Some ''generation'') x
       \<noteq> conflict_signature ''state_generation'' (Some ''generation'') y"
proof -
  have "parent_conflicts [demo_state ''b:1'' 1 ''disabled'', demo_state ''a:1'' 2 ''active''] ''parent_generation''
    ''state_generation'' (Some ''generation'') = Inr
       [PDict [(''op_id'', PStr ''b:1''), (''op'', PStr ''SET_CMC_KEY_STATE''), (''parent_generation'', PInt 0),
               (''generation'', PInt 1)],
        PDict [(''op_id'', PStr ''a:1''), (''op'', PStr ''SET_CMC_KEY_STATE''), (''parent_generation'', PInt 0),
               (''generation'', PInt 2)]]" by code_simp
  from conflicts_iff_siblings_differ [OF this] show ?thesis by blast
qed

section \<open>Retention\<close>

text \<open>
  A retention policy other than report-only is in force only when all signed policies of
  the same parent generation agree, and then it is the mode of a policy with the greatest
  generation and operation identifier.
\<close>

theorem retention_mode_needs_agreement:
  assumes "materialize_retention_policy operations = Inr policy" and "operations \<noteq> []"
    and "py_get policy ''mode'' \<noteq> PStr ''report_only''"
  shows "(\<forall>x \<in> set operations. \<forall>y \<in> set operations.
      item_int x ''parent_generation'' = item_int y ''parent_generation'' \<longrightarrow>
      retention_signature x = retention_signature y) \<and>
    (\<exists>w \<in> set operations. py_get policy ''mode'' = PStr (projr (item_str w ''mode'')) \<and>
      (\<forall>x \<in> set operations. projr (int_op_key ''generation'' x) \<le> projr (int_op_key ''generation'' w)))"
proof -
  from assms(1) obtain ordered cs mode where
    ordered: "res_sorted (int_op_key ''generation'') operations = Inr ordered"
    and cs: "retention_conflicts ordered = Inr cs"
    and mode: "item_str (last ordered) ''mode'' = Inr mode"
    and policy: "py_get policy ''mode'' = PStr (if cs \<noteq> [] then ''report_only'' else mode)"
    by (auto simp: materialize_retention_policy_def Let_def res_bind_eq_Inr py_get_def)
  have set: "set ordered = set operations" using res_sorted_Inr(1) [OF ordered] by simp
  have none: "cs = []" using assms(3) policy by (cases cs) auto
  from cs obtain groups where g: "group_by_int ''parent_generation'' ordered = Inr groups"
    "sibling_fold retention_signature retention_conflict groups [] = Inr cs"
    by (auto simp: retention_conflicts_fold res_bind_eq_Inr)
  from group_conflicts_empty [OF g] none have agree: "\<forall>x \<in> set operations. \<forall>y \<in> set operations.
      item_int x ''parent_generation'' = item_int y ''parent_generation'' \<longrightarrow>
      retention_signature x = retention_signature y" unfolding set by blast
  have last: "py_get policy ''mode'' = PStr (projr (item_str (last ordered) ''mode''))"
    using policy none mode by simp
  show ?thesis
    by (rule conjI [OF agree], rule bexI [of _ "last ordered"], rule conjI [OF last], rule ballI)
      (erule field_election.sorted_last_greatest(2) [OF ordered assms(2)],
        rule field_election.sorted_last_greatest(1) [OF ordered assms(2)])
qed

definition demo_policy :: "string \<Rightarrow> int \<Rightarrow> int \<Rightarrow> string \<Rightarrow> pydict" where
  "demo_policy op_id g p mode = [(''op_id'', PStr op_id), (''generation'', PInt g), (''parent_generation'', PInt p),
     (''mode'', PStr mode), (''history_days'', PInt 30), (''actor'', PStr ''a''), (''created_at'', PInt 5)]"

theorem retention_mode_needs_agreement_witness:
  "retention_signature (demo_policy ''a:1'' 1 0 ''oplog'') = Inr (1, ''oplog'', 30) \<and>
   retention_signature (demo_policy ''a:1'' 1 0 ''oplog'') = retention_signature (demo_policy ''b:1'' 1 0 ''oplog'')"
proof -
  have m: "materialize_retention_policy [demo_policy ''a:1'' 1 0 ''oplog'', demo_policy ''b:1'' 1 0 ''oplog'']
    = Inr [(''generation'', PInt 1), (''parent_generation'', PInt 0), (''mode'', PStr ''oplog''),
       (''history_days'', PInt 30), (''updated_by'', PStr ''a''), (''updated_at'', PInt 5),
       (''op_id'', PStr ''b:1''), (''conflicted'', PBool False)]" by code_simp
  have mode: "py_get [(''generation'', PInt 1), (''parent_generation'', PInt 0), (''mode'', PStr ''oplog''),
       (''history_days'', PInt 30), (''updated_by'', PStr ''a''), (''updated_at'', PInt 5),
       (''op_id'', PStr ''b:1''), (''conflicted'', PBool False)] ''mode'' \<noteq> PStr ''report_only''"
    by code_simp
  have agree: "\<forall>x \<in> set [demo_policy ''a:1'' 1 0 ''oplog'', demo_policy ''b:1'' 1 0 ''oplog''].
      \<forall>y \<in> set [demo_policy ''a:1'' 1 0 ''oplog'', demo_policy ''b:1'' 1 0 ''oplog''].
      item_int x ''parent_generation'' = item_int y ''parent_generation'' \<longrightarrow>
      retention_signature x = retention_signature y"
    by (rule retention_mode_needs_agreement [OF m _ mode, THEN conjunct1]) simp
  have "retention_signature (demo_policy ''a:1'' 1 0 ''oplog'') = retention_signature (demo_policy ''b:1'' 1 0 ''oplog'')"
    by (rule agree [THEN bspec, THEN bspec, THEN mp]) (simp, simp, code_simp)
  moreover have "retention_signature (demo_policy ''a:1'' 1 0 ''oplog'') = Inr (1, ''oplog'', 30)" by code_simp
  ultimately show ?thesis by blast
qed

section \<open>The recipient chain\<close>

lemma recipient_chain_end:
  assumes "recipient_chain groups visited current g acc = Inr (w, cs)"
    and "\<forall>k. \<forall>x \<in> set (children_of groups k). item_int x ''recipient_generation'' = Inr (k + 1)"
    and "\<forall>v \<in> set visited. v < g"
  shows "\<exists>g'. g \<le> g' \<and> children_of groups g' = [] \<and> (\<forall>i. g \<le> i \<and> i < g' \<longrightarrow> children_of groups i \<noteq> []) \<and>
    (if g' = g then w = current
     else w \<in> set (children_of groups (g' - 1)) \<and> (\<forall>x \<in> set (children_of groups (g' - 1)).
       projr (int_op_key ''recipient_generation'' x) \<le> projr (int_op_key ''recipient_generation'' w)))"
  using assms
proof (induction groups visited current g acc rule: recipient_chain.induct)
  case (1 groups visited current g acc)
  have fresh: "g \<notin> set visited" using "1.prems"(3) by auto
  show ?case
  proof (cases "children_of groups g = []")
    case True
    with "1.prems"(1) fresh have "w = current" by (simp add: recipient_chain.simps)
    with True show ?thesis by (intro exI [of _ g]) auto
  next
    case False
    with "1.prems"(1) fresh obtain children sigs acc' g1 where
      children: "res_sorted (int_op_key ''recipient_generation'') (children_of groups g) = Inr children"
      and sigs: "res_map recipient_signature children = Inr sigs"
      and acc': "(if 1 < length (remdups sigs)
            then res_bind (res_map (recipient_conflict g) children) (\<lambda>cs. Inr (acc @ cs)) else Inr acc) = Inr acc'"
      and g1: "item_int (last children) ''recipient_generation'' = Inr g1"
      and rest: "recipient_chain groups (g # visited) (last children) g1 acc' = Inr (w, cs)"
      by (subst (asm) recipient_chain.simps) (auto simp: res_bind_eq_Inr simp del: if_split split del: if_split)
    note best = field_election.sorted_last_greatest [OF children False]
    have g1': "g1 = g + 1" using best(1) "1.prems"(2) g1 by auto
    from "1.IH" [OF fresh False children sigs acc' g1 rest "1.prems"(2)] "1.prems"(3)
    obtain g' where g': "g + 1 \<le> g'" "children_of groups g' = []"
      "\<forall>i. g + 1 \<le> i \<and> i < g' \<longrightarrow> children_of groups i \<noteq> []"
      "if g' = g + 1 then w = last children
       else w \<in> set (children_of groups (g' - 1)) \<and> (\<forall>x \<in> set (children_of groups (g' - 1)).
         projr (int_op_key ''recipient_generation'' x) \<le> projr (int_op_key ''recipient_generation'' w))"
      unfolding g1' by fastforce
    have "\<forall>i. g \<le> i \<and> i < g' \<longrightarrow> children_of groups i \<noteq> []"
      using g'(3) False by (metis zle_iff_zadd zless_imp_add1_zle order_le_less)
    moreover have "w \<in> set (children_of groups (g' - 1)) \<and> (\<forall>x \<in> set (children_of groups (g' - 1)).
         projr (int_op_key ''recipient_generation'' x) \<le> projr (int_op_key ''recipient_generation'' w))"
      using g'(4) best by (cases "g' = g + 1") auto
    ultimately show ?thesis using g'(1,2) by (intro exI [of _ g']) simp
  qed
qed

text \<open>
  C10: When every recipient update advances its parent by one, as payload validation requires,
  the winner stands at the first generation from the initial one on that has no
  successor: every generation before it has one, and the winner is the greatest
  candidate of its generation.
\<close>

theorem recipient_chain_complete:
  assumes "recipient_generation_winner initial changes = Inr (w, conflicts)"
    and "get_int initial ''recipient_generation'' 1 = Inr g0"
    and "\<forall>c \<in> set changes. \<exists>p. item_int c ''parent_recipient_generation'' = Inr p
      \<and> item_int c ''recipient_generation'' = Inr (p + 1)"
  shows "\<exists>g \<ge> g0. (\<forall>c \<in> set changes. item_int c ''parent_recipient_generation'' \<noteq> Inr g) \<and>
    (\<forall>i \<in> {g0..<g}. \<exists>c \<in> set changes. item_int c ''parent_recipient_generation'' = Inr i) \<and>
    (if g = g0 then w = initial
     else w \<in> set changes \<and> item_int w ''recipient_generation'' = Inr g \<and>
       (\<forall>x \<in> set changes. item_int x ''recipient_generation'' = Inr g \<longrightarrow>
         projr (int_op_key ''recipient_generation'' x) \<le> projr (int_op_key ''recipient_generation'' w)))"
proof -
  from assms(1,2) obtain groups where groups: "group_by_int ''parent_recipient_generation'' changes = Inr groups"
    and chain: "recipient_chain groups [] initial g0 [] = Inr (w, conflicts)"
    by (auto simp: recipient_generation_winner_def res_bind_eq_Inr)
  note ch = group_by_int_Inr(3) [OF groups]
  have step: "item_int x ''recipient_generation'' = Inr k \<longleftrightarrow> item_int x ''parent_recipient_generation'' = Inr (k - 1)"
    if "x \<in> set changes" for x k using assms(3) that by auto
  have "\<forall>k. \<forall>x \<in> set (children_of groups k). item_int x ''recipient_generation'' = Inr (k + 1)"
    using assms(3) by (auto simp: ch)
  from recipient_chain_end [OF chain this] obtain g where g: "g0 \<le> g" "children_of groups g = []"
    "\<forall>i. g0 \<le> i \<and> i < g \<longrightarrow> children_of groups i \<noteq> []"
    "if g = g0 then w = initial
     else w \<in> set (children_of groups (g - 1)) \<and> (\<forall>x \<in> set (children_of groups (g - 1)).
       projr (int_op_key ''recipient_generation'' x) \<le> projr (int_op_key ''recipient_generation'' w))" by auto
  show ?thesis
  proof (intro exI [of _ g] conjI)
    show "g0 \<le> g" by (rule g(1))
    show "\<forall>c \<in> set changes. item_int c ''parent_recipient_generation'' \<noteq> Inr g"
      using g(2) by (simp add: ch filter_empty_conv)
    show "\<forall>i \<in> {g0..<g}. \<exists>c \<in> set changes. item_int c ''parent_recipient_generation'' = Inr i"
      using g(3) by (auto simp: ch filter_empty_conv)
    show "if g = g0 then w = initial
     else w \<in> set changes \<and> item_int w ''recipient_generation'' = Inr g \<and>
       (\<forall>x \<in> set changes. item_int x ''recipient_generation'' = Inr g \<longrightarrow>
         projr (int_op_key ''recipient_generation'' x) \<le> projr (int_op_key ''recipient_generation'' w))"
      using g(4) step by (auto simp: ch split: if_splits)
  qed
qed

definition demo_recipients :: "string \<Rightarrow> int \<Rightarrow> pydict" where
  "demo_recipients op_id p = [(''op_id'', PStr op_id), (''op'', PStr ''UPDATE_SECRET_RECIPIENTS''),
     (''recipient_generation'', PInt (p + 1)), (''parent_recipient_generation'', PInt p),
     (''membership_generation'', PInt 1), (''sealed_blob_hash'', PStr op_id)]"

theorem recipient_chain_complete_witness:
  "recipient_generation_winner [] [demo_recipients ''b'' 2, demo_recipients ''a'' 1]
     = Inr (demo_recipients ''b'' 2, []) \<and>
   (\<exists>g \<ge> 1. \<forall>c \<in> set [demo_recipients ''b'' 2, demo_recipients ''a'' 1].
      item_int c ''parent_recipient_generation'' \<noteq> Inr g)"
proof -
  have w: "recipient_generation_winner [] [demo_recipients ''b'' 2, demo_recipients ''a'' 1]
     = Inr (demo_recipients ''b'' 2, [])" by code_simp
  have "get_int [] ''recipient_generation'' 1 = Inr 1" by code_simp
  moreover have "\<forall>c \<in> set [demo_recipients ''b'' 2, demo_recipients ''a'' 1].
      \<exists>p. item_int c ''parent_recipient_generation'' = Inr p \<and> item_int c ''recipient_generation'' = Inr (p + 1)"
    by (simp add: demo_recipients_def item_int_def py_item_def)
  ultimately show ?thesis using recipient_chain_complete [OF w] w by blast
qed

section \<open>Secrets and tombstones\<close>

text \<open>A tombstone wins over every change of the same or a lower generation.\<close>

definition buried_by :: "pydict list \<Rightarrow> bool" where
  "buried_by changes \<longleftrightarrow> (\<exists>d \<in> set changes. has_op ''TOMBSTONE_SECRET'' d \<and>
     (\<forall>x \<in> set changes. projr (item_int x ''generation'') \<le> projr (item_int d ''generation'')))"

lemma int_op_key_Inr:
  "int_op_key field x = Inr (g, i) \<longleftrightarrow> item_int x field = Inr g \<and> op_id_of x = Inr i"
  by (auto simp: int_op_key_def res_bind_eq_Inr)

lemma sorted_generation:
  assumes "res_sorted (int_op_key field) xs = Inr ys" and "x \<in> set xs"
  shows "\<exists>g i. int_op_key field x = Inr (g, i) \<and> item_int x field = Inr g"
  using res_sorted_Inr(2) [OF assms] int_op_key_Inr by (metis surj_pair)

lemma last_filter_greatest:
  fixes k :: "'a \<Rightarrow> 'k :: linorder"
  assumes "x \<in> set xs" and "p x"
  shows "k x \<le> k (last (filter p (sort_key k xs)))" "p (last (filter p (sort_key k xs)))"
    "last (filter p (sort_key k xs)) \<in> set xs"
proof -
  have f: "filter p (sort_key k xs) = sort_key k (filter p xs)" by (rule filter_sort)
  from assms have x: "x \<in> set (filter p xs)" by simp
  show "k x \<le> k (last (filter p (sort_key k xs)))" unfolding f by (rule last_sort_key_greatest [OF x])
  have "last (sort_key k (filter p xs)) \<in> set (filter p xs)" by (rule last_sort_key_in) (use x in \<open>auto simp: filter_empty_conv\<close>)
  then show "p (last (filter p (sort_key k xs)))" "last (filter p (sort_key k xs)) \<in> set xs"
    unfolding f by auto
qed

text \<open>The test of the code agrees with \<open>buried_by\<close>.\<close>

lemma buried_test:
  assumes ordered: "res_sorted (int_op_key ''generation'') changes = Inr ordered"
    and ne: "changes \<noteq> []"
    and dead: "dead = filter (has_op ''TOMBSTONE_SECRET'') ordered"
    and test: "(if dead = [] then Inr False
                  else res_bind (item_int (last dead) ''generation'') (\<lambda>d.
                       res_bind (item_int (last ordered) ''generation'') (\<lambda>w. Inr (w \<le> d)))) = Inr b"
  shows "b \<longleftrightarrow> buried_by changes"
proof -
  let ?k = "\<lambda>x. projr (int_op_key ''generation'' x)"
  let ?g = "\<lambda>x. projr (item_int x ''generation'')"
  have ord: "ordered = sort_key ?k changes" by (rule res_sorted_Inr(1) [OF ordered])
  have mono: "?g x \<le> ?g y" if "x \<in> set changes" "y \<in> set changes" "?k x \<le> ?k y" for x y
    using sorted_generation [OF ordered that(1)] sorted_generation [OF ordered that(2)] that(3)
    by (auto simp: less_eq_prod_def)
  have last: "last ordered \<in> set changes" unfolding ord by (rule last_sort_key_in [OF ne])
  have top: "?g x \<le> ?g (last ordered)" if "x \<in> set changes" for x
    using mono [OF that last] last_sort_key_greatest [OF that, of ?k] by (simp add: ord)
  show ?thesis
  proof (cases "dead = []")
    case True
    then have "\<not> (\<exists>d \<in> set changes. has_op ''TOMBSTONE_SECRET'' d)"
      by (auto simp: dead ord filter_empty_conv)
    then show ?thesis using True test by (auto simp: buried_by_def)
  next
    case False
    then obtain d0 where d0: "d0 \<in> set changes" "has_op ''TOMBSTONE_SECRET'' d0"
      by (auto simp: dead ord filter_empty_conv)
    note best = last_filter_greatest [where xs = changes and p = "has_op ''TOMBSTONE_SECRET''" and k = ?k, folded ord, folded dead]
    from best(3) [OF d0] have ld: "last dead \<in> set changes" .
    have b: "b \<longleftrightarrow> ?g (last ordered) \<le> ?g (last dead)"
      using False test sorted_generation [OF ordered ld] sorted_generation [OF ordered last]
      by (auto simp: res_bind_eq_Inr)
    have "buried_by changes \<longleftrightarrow> ?g (last ordered) \<le> ?g (last dead)"
    proof
      assume "buried_by changes"
      then obtain d where d: "d \<in> set changes" "has_op ''TOMBSTONE_SECRET'' d" "?g (last ordered) \<le> ?g d"
        using last by (auto simp: buried_by_def)
      have "?g d \<le> ?g (last dead)" by (rule mono [OF d(1) ld best(1) [OF d(1,2)]])
      with d(3) show "?g (last ordered) \<le> ?g (last dead)" by linarith
    next
      assume "?g (last ordered) \<le> ?g (last dead)"
      then show "buried_by changes"
        unfolding buried_by_def using ld best(2) [OF d0] top by (intro bexI [of _ "last dead"]) force+
    qed
    with b show ?thesis by simp
  qed
qed

lemma secret_step_shape:
  assumes "secret_step recipients (k, changes) (s, t) = Inr (s', t')" and "changes \<noteq> []"
  shows "(buried_by changes \<longrightarrow> s' = s \<and> (\<exists>d. t' = dict_set k d t)) \<and>
    (\<not> buried_by changes \<longrightarrow> t' = t \<and> (s' = s \<or> (\<exists>d. s' = dict_set k d s)))"
proof -
  define dead where "dead = (\<lambda>ordered. filter (has_op ''TOMBSTONE_SECRET'') ordered)"
  from assms(1) obtain ordered cs b where ordered: "res_sorted (int_op_key ''generation'') changes = Inr ordered"
    and test: "(if dead ordered = [] then Inr False
                  else res_bind (item_int (last (dead ordered)) ''generation'') (\<lambda>d.
                       res_bind (item_int (last ordered) ''generation'') (\<lambda>w. Inr (w \<le> d)))) = Inr b"
    and run: "(if b then res_bind (secret_tombstone (last (dead ordered))) (\<lambda>td. Inr (s, dict_set k td t))
        else if filter (has_op ''UPSERT_SECRET'') ordered = [] then Inr (s, t)
        else res_bind (secret_record k (last (filter (has_op ''UPSERT_SECRET'') ordered))
               (case map_of recipients k of None \<Rightarrow> [] | Some xs \<Rightarrow> xs) cs) (\<lambda>r.
          Inr (dict_set k r s, t))) = Inr (s', t')"
    unfolding secret_step_def Let_def prod.case res_bind_eq_Inr dead_def [symmetric] by blast
  have result: "if b then s' = s \<and> (\<exists>d. t' = dict_set k d t)
      else t' = t \<and> (s' = s \<or> (\<exists>d. s' = dict_set k d s))"
  proof (cases b)
    case True
    with run obtain td where "secret_tombstone (last (dead ordered)) = Inr td" "s' = s" "t' = dict_set k td t"
      by (auto simp: res_bind_eq_Inr)
    with True show ?thesis by auto
  next
    case False
    then show ?thesis
    proof (cases "filter (has_op ''UPSERT_SECRET'') ordered = []")
      case True
      with run False show ?thesis by auto
    next
      case f: False
      from run [unfolded if_not_P [OF False] if_not_P [OF f] res_bind_eq_Inr] obtain r
        where "s' = dict_set k r s" "t' = t" by auto
      with False show ?thesis by auto
    qed
  qed
  have "b \<longleftrightarrow> buried_by changes" by (rule buried_test [OF ordered assms(2) refl test [unfolded dead_def]])
  with result show ?thesis by (simp split: if_splits)
qed

lemma materialize_secrets_fold:
  assumes "res_fold (secret_step recipients) groups (s, t) = Inr (s', t')"
    and "distinct (map fst groups)" and "\<forall>(k, xs) \<in> set groups. xs \<noteq> []"
  shows "(\<forall>k. k \<notin> fst ` set groups \<longrightarrow> dict_has s' k = dict_has s k \<and> dict_has t' k = dict_has t k) \<and>
    (\<forall>(k, xs) \<in> set groups. (dict_has t' k \<longleftrightarrow> dict_has t k \<or> buried_by xs) \<and>
       (buried_by xs \<longrightarrow> dict_has s' k = dict_has s k))"
  using assms
proof (induction groups arbitrary: s t)
  case Nil
  then show ?case by simp
next
  case (Cons g groups)
  obtain k xs where g: "g = (k, xs)" by (cases g)
  from Cons.prems(1) obtain s1 t1 where step: "secret_step recipients (k, xs) (s, t) = Inr (s1, t1)"
    and rest: "res_fold (secret_step recipients) groups (s1, t1) = Inr (s', t')"
    by (auto simp: g res_bind_eq_Inr)
  have xs: "xs \<noteq> []" using Cons.prems(3) by (simp add: g)
  note shape = secret_step_shape [OF step xs]
  have other: "dict_has s1 j = dict_has s j \<and> dict_has t1 j = dict_has t j" if "j \<noteq> k" for j
    using shape that by (cases "buried_by xs") auto
  have own: "(dict_has t1 k \<longleftrightarrow> dict_has t k \<or> buried_by xs) \<and> (buried_by xs \<longrightarrow> dict_has s1 k = dict_has s k)"
    using shape by (cases "buried_by xs") auto
  have k: "k \<notin> fst ` set groups" "distinct (map fst groups)" using Cons.prems(2) by (auto simp: g)
  from Cons.IH [OF rest k(2)] Cons.prems(3)
  have IH: "\<forall>j. j \<notin> fst ` set groups \<longrightarrow> dict_has s' j = dict_has s1 j \<and> dict_has t' j = dict_has t1 j"
    "\<forall>(j, xs) \<in> set groups. (dict_has t' j \<longleftrightarrow> dict_has t1 j \<or> buried_by xs) \<and>
       (buried_by xs \<longrightarrow> dict_has s' j = dict_has s1 j)" by auto
  have ne: "j \<noteq> k" if "(j, ys) \<in> set groups" for j ys using that k(1) by force
  show ?case
    unfolding g list.set ball_simps prod.case
    using IH other own k(1) ne by (auto 0 3)
qed

text \<open>
  C11: A secret ends up among the tombstones exactly when one of its tombstones has a generation
  no lower than every change of the secret, ties included, and then it has no secret record.
\<close>

theorem tombstone_wins_ties:
  assumes "materialize_secrets c = Inr (secrets, tombstones)"
    and "distinct (map fst (secret_ops c))" and "\<forall>(k, xs) \<in> set (secret_ops c). xs \<noteq> []"
    and "(k, changes) \<in> set (secret_ops c)"
  shows "(dict_has tombstones k \<longleftrightarrow> (\<exists>d \<in> set changes. has_op ''TOMBSTONE_SECRET'' d \<and>
      (\<forall>x \<in> set changes. projr (item_int x ''generation'') \<le> projr (item_int d ''generation'')))) \<and>
    \<not> (dict_has secrets k \<and> dict_has tombstones k)"
proof -
  have f: "res_fold (secret_step (recipient_ops c)) (secret_ops c) ([], []) = Inr (secrets, tombstones)"
    using assms(1) by (simp add: materialize_secrets_def)
  from materialize_secrets_fold [OF f assms(2,3)] assms(4)
  have "dict_has tombstones k \<longleftrightarrow> buried_by changes" "buried_by changes \<longrightarrow> \<not> dict_has secrets k"
    by (auto simp: dict_has_def)
  then show ?thesis by (auto simp: buried_by_def)
qed

definition demo_secret :: "string \<Rightarrow> string \<Rightarrow> int \<Rightarrow> pydict" where
  "demo_secret op_id name g = [(''op_id'', PStr op_id), (''op'', PStr name), (''generation'', PInt g),
     (''parent_generation'', PInt (g - 1)), (''actor'', PStr ''a''), (''created_at'', PInt 5),
     (''audience'', PStr ''cluster''), (''sealed_blob_hash'', PStr ''h'')]"

theorem tombstone_wins_ties_witness:
  "\<exists>secrets tombstones. materialize_secrets (no_v2_ops\<lparr>secret_ops :=
       [(''s'', [demo_secret ''a:2'' ''UPSERT_SECRET'' 2, demo_secret ''a:1'' ''TOMBSTONE_SECRET'' 2])]\<rparr>)
     = Inr (secrets, tombstones) \<and> dict_has tombstones ''s'' \<and> \<not> dict_has secrets ''s''"
proof -
  let ?xs = "[demo_secret ''a:2'' ''UPSERT_SECRET'' 2, demo_secret ''a:1'' ''TOMBSTONE_SECRET'' 2]"
  let ?c = "no_v2_ops\<lparr>secret_ops := [(''s'', ?xs)]\<rparr>"
  have "is_ok (materialize_secrets ?c)" by code_simp
  then obtain s t where m: "materialize_secrets ?c = Inr (s, t)" by (auto simp: is_ok_iff)
  have "(dict_has t ''s'' \<longleftrightarrow> (\<exists>d \<in> set ?xs. has_op ''TOMBSTONE_SECRET'' d \<and>
      (\<forall>x \<in> set ?xs. projr (item_int x ''generation'') \<le> projr (item_int d ''generation'')))) \<and>
    \<not> (dict_has s ''s'' \<and> dict_has t ''s'')"
    by (rule tombstone_wins_ties [OF m]) simp_all
  moreover have "\<exists>d \<in> set ?xs. has_op ''TOMBSTONE_SECRET'' d \<and>
      (\<forall>x \<in> set ?xs. projr (item_int x ''generation'') \<le> projr (item_int d ''generation''))" by code_simp
  ultimately show ?thesis using m by blast
qed

section \<open>Accepted payloads that stop materialization\<close>

definition demo_hash :: string where
  "demo_hash = ''sha256:'' @ replicate 64 CHR ''0''"

definition demo_bad_secret :: pydict where
  "demo_bad_secret = [(''op'', PStr ''UPSERT_SECRET''), (''secret_id'', PStr ''s''), (''generation'', PInt 1),
     (''parent_generation'', PInt 0), (''kind'', PStr ''exchange''), (''audience'', PStr ''cluster''),
     (''sealed_blob_hash'', PStr demo_hash), (''recipient_ids'', PInt 5), (''actor'', PStr ''a''),
     (''created_at'', PInt 1), (''op_id'', PStr ''a:1'')]"

definition demo_bad_ack :: pydict where
  "demo_bad_ack = [(''op'', PStr ''WRITER_FREEZE_ACK''), (''freeze_generation'', PInt 1), (''frozen'', PBool True),
     (''process_readiness'', PInt 5), (''actor'', PStr ''a''), (''created_at'', PInt 1), (''op_id'', PStr ''a:2'')]"

definition demo_freeze :: pydict where
  "demo_freeze = [(''op'', PStr ''WRITER_FREEZE''), (''freeze_generation'', PInt 1), (''parent_generation'', PInt 0),
     (''actor'', PStr ''m''), (''created_at'', PInt 1), (''op_id'', PStr ''m:1'')]"

lemma bad_secret_valid: "validate_v2_credential_payload demo_bad_secret = Inr ()"
  by code_simp
lemma bad_secret_stops: "materialize_v2_credentials [demo_bad_secret] = Inl TypeError"
  by code_simp
lemma bad_ack_valid: "validate_v2_credential_payload demo_bad_ack = Inr ()"
  by code_simp
lemma bad_ack_stops: "materialize_v2_credentials [demo_freeze, demo_bad_ack] = Inl TypeError"
  by code_simp
text \<open>
  Two operations that pass payload validation and make every later materialization raise TypeError:
  a secret without a recipient generation whose recipient list is a number, and a freeze
  acknowledgement of the active freeze whose process readiness is a number.
\<close>

lemma accepted_payloads_stop_materialization:
  "validate_v2_credential_payload demo_bad_secret = Inr () \<and>
   materialize_v2_credentials [demo_bad_secret] = Inl TypeError \<and>
   validate_v2_credential_payload demo_bad_ack = Inr () \<and>
   materialize_v2_credentials [demo_freeze, demo_bad_ack] = Inl TypeError"
  using bad_secret_valid bad_secret_stops bad_ack_valid bad_ack_stops by blast

end
