(* ===== verification/Cluster_Oplog.thy ===== *)
theory Cluster_Oplog
  imports Cluster_Credentials Trust_Laws
begin

text \<open>
  The operation log of one node (master/cluster_state.py): local identity, sequence
  numbers, validation of an operation against the store, immutable operation files,
  and loading the log. \<open>cluster_store\<close> is the content of the cluster directory: the
  oplog maps a directory name to its files, a file name to its JSON value. File
  contents are taken to be readable JSON. An active checkpoint enters through its
  identifier, epoch and baseline and through the trust that it and the log above it lead to
  (\<open>branch_trust\<close>, a function of the expected cluster and the log); Checkpoint_Tail builds it
  from the checkpoint files of the node. \<open>load_log_trust\<close> is the loading without a checkpoint.
\<close>

section \<open>The store\<close>

record checkpoint_info =
  checkpoint_id :: string
  checkpoint_epoch :: int
  checkpoint_baseline :: "(string, int) dict"
  branch_trust :: "string \<Rightarrow> (string, (string, pyval) dict) dict \<Rightarrow> membership_trust res"

record key_material =
  signing_private :: string
  encryption_public_raw :: string

record cluster_store =
  cluster_id_file :: "string option"
  node_id_file :: "string option"
  node_identity :: pydict
  oplog :: "(string, (string, pyval) dict) dict"
  desired_state_file :: "pyval option"
  active_checkpoint :: "checkpoint_info option"
  store_keys :: key_material
  sync_requested :: bool

definition dir_files :: "cluster_store \<Rightarrow> string \<Rightarrow> (string, pyval) dict" where
  "dir_files st actor = (case map_of (oplog st) actor of None \<Rightarrow> [] | Some fs \<Rightarrow> fs)"

definition stored :: "cluster_store \<Rightarrow> string \<Rightarrow> string \<Rightarrow> pyval option" where
  "stored st actor file = map_of (dir_files st actor) file"

definition read_local_identity :: "cluster_store \<Rightarrow> pydict res" where
  "read_local_identity st =
     (case (cluster_id_file st, node_id_file st) of
        (Some cluster, Some node) \<Rightarrow>
          res_bind (validate_cluster_id cluster) (\<lambda>_.
          res_bind (validate_node_id node) (\<lambda>_.
          Inr (dict_update (node_identity st)
            [(''cluster_id'', PStr cluster), (''node_id'', PStr node)])))
      | _ \<Rightarrow> Inl (ClusterStateError ''cluster identity is not initialized''))"

section \<open>Sequence numbers and file names\<close>

definition json_suffix :: string where
  "json_suffix = ''.json''"

definition file_name :: "int \<Rightarrow> string" where
  "file_name seq = int_str08 seq @ json_suffix"

definition op_identifier :: "string \<Rightarrow> int \<Rightarrow> string" where
  "op_identifier actor seq = actor @ '':'' @ int_str08 seq"

text \<open>The stem of a name matched by \<open>glob("*.json")\<close>; the stem of \<open>.json\<close> is the whole name.\<close>

definition json_stem :: "string \<Rightarrow> string option" where
  "json_stem name =
     (if length name < 5 \<or> drop (length name - 5) name \<noteq> json_suffix then None
      else if length name = 5 then Some name
      else Some (take (length name - 5) name))"

definition baseline_of :: "cluster_store \<Rightarrow> string \<Rightarrow> int" where
  "baseline_of st actor = (case active_checkpoint st of None \<Rightarrow> 0
     | Some c \<Rightarrow> (case map_of (checkpoint_baseline c) actor of None \<Rightarrow> 0 | Some n \<Rightarrow> n))"

definition file_seq :: "string \<Rightarrow> int option" where
  "file_seq name = (case json_stem name of None \<Rightarrow> None | Some s \<Rightarrow> int_of_string 10 s)"

definition next_seq :: "cluster_store \<Rightarrow> string \<Rightarrow> int" where
  "next_seq st actor =
     fold (\<lambda>name m. case file_seq name of None \<Rightarrow> m | Some n \<Rightarrow> max m n)
       (map fst (dir_files st actor)) (baseline_of st actor) + 1"

text \<open>\<open>_highest_contiguous_sequence\<close>: the loop ends because the set of sequences is finite.\<close>

function contiguous_from :: "int list \<Rightarrow> int \<Rightarrow> int" where
  "contiguous_from sequences c =
     (if c + 1 \<in> set sequences then contiguous_from sequences (c + 1) else c)"
  by pat_completeness auto

termination
proof (relation "measure (\<lambda>(sequences, c). card {n \<in> set sequences. c < n})")
  fix sequences :: "int list" and c :: int
  assume "c + 1 \<in> set sequences"
  then have "c + 1 \<in> {n \<in> set sequences. c < n}" by simp
  moreover have "c + 1 \<notin> {n \<in> set sequences. c + 1 < n}" by simp
  moreover have "{n \<in> set sequences. c + 1 < n} \<subseteq> {n \<in> set sequences. c < n}" by (rule Collect_mono) linarith
  ultimately have "{n \<in> set sequences. c + 1 < n} \<subset> {n \<in> set sequences. c < n}" by blast
  then have "card {n \<in> set sequences. c + 1 < n} < card {n \<in> set sequences. c < n}"
    by (rule psubset_card_mono [rotated]) simp
  then show "((sequences, c + 1), sequences, c) \<in> measure (\<lambda>(sequences, c). card {n \<in> set sequences. c < n})"
    by simp
qed simp

declare contiguous_from.simps [simp del]

definition highest_contiguous_sequence :: "int list \<Rightarrow> int" where
  "highest_contiguous_sequence sequences = contiguous_from sequences 0"

section \<open>Validation\<close>

definition envelope_fields :: "string list" where
  "envelope_fields = [''actor'', ''cluster_id'', ''created_at'', ''op'', ''op_id'', ''schema_version'', ''seq'']"

definition validate_envelope :: "pydict \<Rightarrow> string option \<Rightarrow> unit res" where
  "validate_envelope op expected = (let missing = filter (\<lambda>f. \<not> dict_has op f) envelope_fields in all_ok [
     reject (missing \<noteq> []) (''operation missing required field(s): '' @ join_with '', '' missing),
     reject (\<not> py_eq (py_get op ''schema_version'') (PInt 1)) ''unsupported operation schema_version'',
     validate_cluster_id (py_str (py_get op ''cluster_id'')),
     reject (case expected of None \<Rightarrow> False | Some e \<Rightarrow> e \<noteq> [] \<and> py_str (py_get op ''cluster_id'') \<noteq> e)
       ''foreign cluster_id'',
     validate_node_id (py_str (py_get op ''actor'')),
     res_bind (as_positive_int (py_get op ''seq'') ''seq'') (\<lambda>seq.
       reject (py_get op ''op_id'' \<noteq> PStr (op_identifier (py_str (py_get op ''actor'')) seq))
         ''op_id must match actor and seq''),
     void (as_int (py_get op ''created_at'') ''created_at''),
     reject (py_str (py_get op ''op'') \<notin> supported_ops)
       (''unsupported operation: '' @ py_str (py_get op ''op''))])"

definition validate_v2_operation_signature ::
  "crypto \<Rightarrow> pydict \<Rightarrow> membership_trust \<Rightarrow> bool \<Rightarrow> unit res" where
  "validate_v2_operation_signature cr op t network_input =
     res_bind (item_str op ''actor'') (\<lambda>actor. all_ok [
       reject (get_str op ''signer_id'' \<noteq> actor) ''v2 operation signer_id must match actor'',
       when_ok network_input (all_ok [
         reject (case map_of (nodes t) actor of None \<Rightarrow> False | Some d \<Rightarrow> node_disabled d)
           ''v2 operation actor is disabled'',
         reject (case map_of (nodes t) actor of None \<Rightarrow> True | Some d \<Rightarrow> not_replica d)
           ''v2 operation actor is not an active state replica'']),
       res_bind (membership_key_for_operation t op) (\<lambda>pk. as_state_error (verify_operation cr op pk))])"

definition validate_v2_actor_role :: "pydict \<Rightarrow> membership_trust \<Rightarrow> bool \<Rightarrow> unit res" where
  "validate_v2_actor_role op t network_input =
     res_bind (item_str op ''actor'') (\<lambda>actor.
     res_bind (membership_role_for_operation t op network_input) (\<lambda>role.
     res_bind (item_str op ''op'') (\<lambda>name. all_ok [
       reject (role \<notin> {''master'', ''vps''}) ''credential operation actor has no authenticated role'',
       reject (name \<in> master_only_signed_state_ops \<and> role \<noteq> ''master'')
         (name @ '' requires an authenticated master actor''),
       reject (name \<in> vps_self_credential_ops \<and>
           py_str (py_or (py_get op ''node_id'') (PStr actor)) \<noteq> actor)
         (name @ '' node_id must match actor'')])))"

definition desired_migration :: "cluster_store \<Rightarrow> pydict option" where
  "desired_migration st = (case desired_state_file st of
     Some (PDict d) \<Rightarrow> (case py_get d ''credential_migration'' of PDict m \<Rightarrow> Some m | _ \<Rightarrow> None)
   | _ \<Rightarrow> None)"

definition validate_api_key_operation_after_cutoff :: "cluster_store \<Rightarrow> pydict \<Rightarrow> unit res" where
  "validate_api_key_operation_after_cutoff st op =
     (case desired_state_file st of None \<Rightarrow> Inr ()
      | Some _ \<Rightarrow>
     (case desired_migration st of None \<Rightarrow> Inr ()
      | Some migration \<Rightarrow>
     (case py_get migration ''cutoff'' of
        PDict cutoff \<Rightarrow>
          if is_True (py_get cutoff ''conflicted'') then Inr ()
          else
            res_bind (get_list cutoff ''obsolete_secret_blob_hashes'') (\<lambda>obsolete.
            res_bind (hash_all obsolete) (\<lambda>_.
            res_bind (reject (PStr (get_str op ''secret_blob_hash'') \<in> set obsolete)
              ''pre-cutoff plaintext API-key operation is obsolete'') (\<lambda>_.
            res_bind (get_int op ''seq'' 0) (\<lambda>seq.
            res_bind (get_int (dict_of (py_get cutoff ''state_vector'')) (get_str op ''actor'') 0) (\<lambda>limit.
            if seq \<le> limit then Inr ()
            else if \<not> is_True (py_get op ''sanitized'') then
              Inl (ClusterStateError ''credential protocol downgrade rejected after cutoff'')
            else res_bind (get_int op ''credential_protocol_version'' 0) (\<lambda>v.
              reject (v < 2) ''credential protocol downgrade rejected after cutoff''))))))
      | _ \<Rightarrow> Inr ())))"

definition validate_candidate_against_current_freeze :: "cluster_store \<Rightarrow> pydict \<Rightarrow> unit res" where
  "validate_candidate_against_current_freeze st op =
     (case desired_state_file st of
        None \<Rightarrow> Inl (ClusterStateError ''migration candidate requires current writer-freeze state'')
      | Some _ \<Rightarrow>
     (case desired_migration st of
        None \<Rightarrow> Inl (ClusterStateError ''migration candidate is outside the current writer freeze'')
      | Some migration \<Rightarrow>
          if \<not> is_True (py_get migration ''frozen'')
          then Inl (ClusterStateError ''migration candidate is outside the current writer freeze'')
          else
            res_bind (get_int migration ''freeze_generation'' 0) (\<lambda>current.
            res_bind (get_int op ''freeze_generation'' (-1)) (\<lambda>claimed.
            reject (current \<noteq> claimed) ''migration candidate is outside the current writer freeze''))))"

section \<open>Membership history\<close>

text \<open>Every file of the log in the order in which the code reads them.\<close>

definition log_files :: "cluster_store \<Rightarrow> (string \<times> string \<times> pyval) list" where
  "log_files st = concat (map (\<lambda>(actor, fs).
     map (\<lambda>(name, v). (actor, name, v)) (filter (\<lambda>(name, v). json_stem name \<noteq> None) (dict_sorted fs)))
     (dict_sorted (oplog st)))"

text \<open>\<open>validate_operation\<close> with \<open>validate_membership_auth=False\<close>, on a membership operation.\<close>

definition validate_membership_static :: "crypto \<Rightarrow> pydict \<Rightarrow> string option \<Rightarrow> unit res" where
  "validate_membership_static cr op expected = all_ok [
     validate_envelope op expected, validate_membership_payload cr op]"

definition history_key :: "pydict \<Rightarrow> (int \<times> string \<times> int \<times> string) res" where
  "history_key op =
     res_bind (item_int op ''created_at'') (\<lambda>at.
     res_bind (item_str op ''actor'') (\<lambda>actor.
     res_bind (item_int op ''seq'') (\<lambda>seq.
     res_bind (op_id_of op) (\<lambda>i. Inr (at, actor, seq, i)))))"

definition is_membership :: "pydict \<Rightarrow> bool" where
  "is_membership op \<longleftrightarrow> get_str op ''op'' \<in> membership_ops"

definition membership_history :: "crypto \<Rightarrow> cluster_store \<Rightarrow> string \<Rightarrow> pydict list res" where
  "membership_history cr st expected =
     res_bind (res_map (\<lambda>op. res_bind (validate_membership_static cr op (Some expected)) (\<lambda>_. Inr op))
       [op. (_, _, PDict op) \<leftarrow> log_files st, is_membership op])
       (res_sorted history_key)"

definition load_log_trust :: "crypto \<Rightarrow> cluster_store \<Rightarrow> string \<Rightarrow> membership_trust res" where
  "load_log_trust cr st expected =
     res_bind (membership_history cr st expected) (\<lambda>ops.
     res_fold (\<lambda>op. accept_membership_operation cr op True True) ops empty_trust)"

definition load_membership_trust :: "crypto \<Rightarrow> cluster_store \<Rightarrow> string \<Rightarrow> membership_trust res" where
  "load_membership_trust cr st expected = (case active_checkpoint st of
     Some c \<Rightarrow> branch_trust c expected (oplog st)
   | None \<Rightarrow> load_log_trust cr st expected)"

section \<open>Validating an operation against the store\<close>

text \<open>
  \<open>validate_operation\<close>: the result is the trust state the operation was checked
  against, updated by an accepted membership operation (the code mutates it), or
  \<open>None\<close> where the branch needs none. A store argument stands for \<open>cluster_root\<close>,
  a trust argument for \<open>membership_trust\<close>.
\<close>

definition resolve_trust :: "crypto \<Rightarrow> cluster_store option \<Rightarrow> membership_trust option
    \<Rightarrow> (string, pydict) dict \<Rightarrow> string \<Rightarrow> membership_trust res" where
  "resolve_trust cr store trust membership_nodes cluster = (case trust of
     Some t \<Rightarrow> Inr t
   | None \<Rightarrow> (case store of
       Some st \<Rightarrow> load_membership_trust cr st cluster
     | None \<Rightarrow> Inr (trust_from_nodes membership_nodes)))"

definition validate_branch :: "crypto \<Rightarrow> cluster_store option \<Rightarrow> membership_trust option
    \<Rightarrow> (string, pydict) dict \<Rightarrow> bool \<Rightarrow> bool \<Rightarrow> bool \<Rightarrow> pydict \<Rightarrow> membership_trust option res" where
  "validate_branch cr store trust ns network_input allow_legacy_membership allow_legacy_key_claim op =
     (let name = py_str (py_get op ''op'');
          resolve = resolve_trust cr store trust ns (py_str (py_get op ''cluster_id''));
          signed_check = (\<lambda>_. if py_get op ''base_checkpoint_id'' = PNone then Inr None
            else res_bind resolve (\<lambda>t.
              res_bind (validate_v2_operation_signature cr op t network_input) (\<lambda>_. Inr (Some t))));
          state_check = (\<lambda>_. res_bind resolve (\<lambda>t.
              res_bind (validate_v2_operation_signature cr op t network_input) (\<lambda>_.
              res_bind (validate_v2_actor_role op t network_input) (\<lambda>_. Inr (Some t)))))
      in if name \<in> membership_ops then
           res_bind (validate_membership_payload cr op) (\<lambda>_.
           res_bind resolve (\<lambda>t.
           res_bind (accept_membership_operation cr op allow_legacy_membership
             (allow_legacy_key_claim \<or> \<not> network_input) t) (\<lambda>t'. Inr (Some t'))))
         else if name \<in> v7_ops then res_bind (validate_v7_payload op) signed_check
         else if name \<in> pb8_ops then res_bind (validate_pb8_payload op) signed_check
         else if name \<in> api_key_ops then
           res_bind (validate_api_key_payload op) (\<lambda>_.
           res_bind (signed_check ()) (\<lambda>t.
           case store of
             Some st \<Rightarrow> if network_input
               then res_bind (validate_api_key_operation_after_cutoff st op) (\<lambda>_. Inr t) else Inr t
           | None \<Rightarrow> Inr t))
         else if name \<in> v2_credential_ops then
           res_bind (validate_v2_credential_payload op) (\<lambda>_.
           res_bind (state_check ()) (\<lambda>t.
           case store of
             Some st \<Rightarrow> if network_input \<and> name = ''MIGRATION_SECRET_CANDIDATE''
               then res_bind (validate_candidate_against_current_freeze st op) (\<lambda>_. Inr t) else Inr t
           | None \<Rightarrow> Inr t))
         else if name \<in> cluster_policy_ops then
           res_bind (validate_cluster_policy_payload op) state_check
         else Inr None)"

definition validate_operation :: "crypto \<Rightarrow> string option \<Rightarrow> cluster_store option
    \<Rightarrow> membership_trust option \<Rightarrow> (string, pydict) dict \<Rightarrow> bool \<Rightarrow> bool \<Rightarrow> bool \<Rightarrow> pydict
    \<Rightarrow> membership_trust option res" where
  "validate_operation cr expected store trust ns network_input allow_legacy_membership
       allow_legacy_key_claim op =
     res_bind (validate_envelope op expected) (\<lambda>_.
     validate_branch cr store trust ns network_input allow_legacy_membership allow_legacy_key_claim op)"

end
