(* ===== verification/Cluster_History.thy ===== *)
theory Cluster_History
  imports Cluster_Oplog Cluster_Materialize Cluster_Instances
begin

text \<open>
  Writing, appending and loading operations, and rebuilding the materialized state
  (master/cluster_state.py): \<open>_write_operation_unlocked\<close>, \<open>append_operation\<close>,
  \<open>_ensure_local_crypto_membership\<close>, \<open>stage_membership_operations\<close>,
  \<open>create_join_authorization\<close> and the part of \<open>load_operations\<close> that loads the whole log of a
  node without an active checkpoint (\<open>load_log_operations\<close>; both branches are \<open>load_operations\<close> in
  Checkpoint_Tail). Functions of
  the history lock run alone, so each is one step on the store. Key files are taken to
  exist (\<open>ensure_node_key_material\<close> then only reads them).
\<close>

section \<open>Writing one operation\<close>

definition store_file :: "string \<Rightarrow> string \<Rightarrow> pyval \<Rightarrow> cluster_store \<Rightarrow> cluster_store" where
  "store_file actor name v st =
     st\<lparr>oplog := dict_set actor (dict_set name v (dir_files st actor)) (oplog st)\<rparr>"

definition checkpoint_guard :: "cluster_store \<Rightarrow> pydict \<Rightarrow> unit res" where
  "checkpoint_guard st op =
     res_bind (get_int op ''seq'' 0) (\<lambda>seq. all_ok [
       reject (seq \<le> baseline_of st (get_str op ''actor''))
         ''operation is at or below the committed checkpoint baseline'',
       reject (case active_checkpoint st of None \<Rightarrow> False
           | Some c \<Rightarrow> get_str op ''base_checkpoint_id'' \<noteq> checkpoint_id c)
         ''operation belongs to a stale checkpoint branch''])"

definition write_operation :: "crypto \<Rightarrow> bool \<Rightarrow> membership_trust option \<Rightarrow> bool \<Rightarrow> bool
    \<Rightarrow> pydict \<Rightarrow> cluster_store \<Rightarrow> cluster_store res" where
  "write_operation cr network_input trust allow_legacy_membership allow_legacy_key_claim op st =
     res_bind (checkpoint_guard st op) (\<lambda>_.
     res_bind (validate_operation cr None (Some st) trust [] network_input allow_legacy_membership
       allow_legacy_key_claim op) (\<lambda>_.
     res_bind (item_str op ''actor'') (\<lambda>actor.
     res_bind (item_int op ''seq'') (\<lambda>seq.
     case stored st actor (file_name seq) of
       Some existing \<Rightarrow>
         if py_eq existing (PDict op) then Inr st
         else Inl (ClusterStateError ''operation already exists with different content'')
     | None \<Rightarrow> Inr (store_file actor (file_name seq) (PDict op) (st\<lparr>sync_requested := True\<rparr>))))))"

section \<open>Appending\<close>

definition public_bundle :: "crypto \<Rightarrow> key_material \<Rightarrow> string \<Rightarrow> string \<Rightarrow> pydict res" where
  "public_bundle cr keys node role =
     res_bind (validated_text (PStr node) ''node_id'') (\<lambda>n.
     res_bind (raise_if (role \<notin> {''master'', ''vps''})
       (ClusterCredentialError ''role must be master or vps'')) (\<lambda>_.
     let signing = ed25519_public cr (signing_private keys); enc = encryption_public_raw keys in
     Inr [(''node_id'', PStr n), (''role'', PStr role), (''signing_public_key'', PStr (b64_encode signing)),
       (''signing_key_id'', PStr (key_id cr ''ed25519'' signing)),
       (''encryption_public_key'', PStr (b64_encode enc)),
       (''encryption_key_id'', PStr (key_id cr ''x25519'' enc))]))"

definition checkpoint_fields :: "cluster_store \<Rightarrow> pydict" where
  "checkpoint_fields st = (case active_checkpoint st of None \<Rightarrow> []
     | Some c \<Rightarrow> [(''base_checkpoint_id'', PStr (checkpoint_id c)),
                  (''checkpoint_epoch'', PInt (checkpoint_epoch c))])"

definition envelope :: "string \<Rightarrow> string \<Rightarrow> int \<Rightarrow> string \<Rightarrow> int \<Rightarrow> pydict" where
  "envelope cluster actor seq name created_at = [(''schema_version'', PInt 1), (''cluster_id'', PStr cluster),
     (''op_id'', PStr (op_identifier actor seq)), (''actor'', PStr actor), (''seq'', PInt seq),
     (''op'', PStr name), (''created_at'', PInt created_at)]"

definition target_was_removed :: "cluster_store \<Rightarrow> string \<Rightarrow> bool" where
  "target_was_removed st node \<longleftrightarrow> (\<exists>(_, _, v) \<in> set (log_files st).
     is_dict v \<and> py_get (dict_of v) ''op'' = PStr ''REMOVE_NODE'' \<and> py_get (dict_of v) ''node_id'' = PStr node)"

definition ensure_local_crypto_membership ::
  "crypto \<Rightarrow> pydict \<Rightarrow> pydict \<Rightarrow> int \<Rightarrow> cluster_store \<Rightarrow> cluster_store res" where
  "ensure_local_crypto_membership cr identity bundle created_at st =
     res_bind (item_str identity ''cluster_id'') (\<lambda>cluster.
     res_bind (item_str identity ''node_id'') (\<lambda>node.
     res_bind (load_membership_trust cr st cluster) (\<lambda>t.
     let current = map_of (nodes t) node in
     if (case current of None \<Rightarrow> False | Some d \<Rightarrow> d \<noteq> [] \<and>
           (\<forall>f \<in> set crypto_public_fields. py_eq (py_get d f) (py_get bundle f)))
     then Inr st
     else if current = None \<and> target_was_removed st node
     then Inl (ClusterStateError ''removed local node cannot publish credential operations'')
     else
       let seq = next_seq st node;
           name = (if current \<noteq> None then ''UPDATE_NODE_KEY'' else ''ADD_NODE'');
           role = py_str (py_or (py_get identity ''role'') (PStr ''master''));
           op = dict_update bundle (envelope cluster node seq name created_at @
             [(''node_id'', PStr node), (''role'', PStr role), (''state_replica'', PBool True),
              (''credential_protocol_version'', PInt 2), (''credential_capable'', PBool True)] @
             (if current = None
              then [(''membership_authorization'', PDict [(''kind'', PStr ''bootstrap'')])] else []) @
             checkpoint_fields st)
       in res_bind (as_state_error (sign_operation cr op (signing_private (store_keys st)) node)) (\<lambda>signed.
          write_operation cr False None False False signed st))))"

definition requires_signature :: "cluster_store \<Rightarrow> string \<Rightarrow> bool" where
  "requires_signature st name \<longleftrightarrow> name \<in> membership_ops \<union> signed_state_ops \<or>
     active_checkpoint st \<noteq> None \<and> name \<in> v7_ops \<union> pb8_ops \<union> api_key_ops"

definition needs_crypto_membership :: "cluster_store \<Rightarrow> string \<Rightarrow> bool" where
  "needs_crypto_membership st name \<longleftrightarrow> name \<in> signed_state_ops \<or>
     active_checkpoint st \<noteq> None \<and> name \<in> v7_ops \<union> pb8_ops \<union> api_key_ops"

definition publish_crypto :: "crypto \<Rightarrow> pydict \<Rightarrow> string \<Rightarrow> int \<Rightarrow> cluster_store \<Rightarrow> cluster_store res" where
  "publish_crypto cr identity actor created_at st =
     res_bind (public_bundle cr (store_keys st) actor
       (py_str (py_or (py_get identity ''role'') (PStr ''master'')))) (\<lambda>bundle.
     ensure_local_crypto_membership cr identity bundle created_at st)"

definition role_epoch_fields :: "crypto \<Rightarrow> cluster_store \<Rightarrow> string \<Rightarrow> string \<Rightarrow> pydict res" where
  "role_epoch_fields cr st cluster actor =
     res_bind (load_membership_trust cr st cluster) (\<lambda>t.
     if roles_of t actor = []
     then Inl (ClusterStateError ''signed operation actor has no authenticated membership epoch'')
     else let e = last (roles_of t actor) in
       Inr [(''actor_role_epoch'', PInt (event_epoch e)),
         (''actor_membership_op_id'', PStr (case membership_op_id e of None \<Rightarrow> [] | Some i \<Rightarrow> i))])"

definition add_node_fields ::
  "crypto \<Rightarrow> pydict \<Rightarrow> string \<Rightarrow> cluster_store \<Rightarrow> pydict \<Rightarrow> pydict res" where
  "add_node_fields cr identity actor st op =
     res_bind (reject (get_str op ''node_id'' \<noteq> actor) ''ADD_NODE must be a self-add by the local actor'') (\<lambda>_.
     res_bind (public_bundle cr (store_keys st) actor
       (py_str (py_or (py_get identity ''role'') (PStr ''master'')))) (\<lambda>bundle.
     Inr (dict_setdefault ''credential_capable'' (PBool True)
         (dict_setdefault ''credential_protocol_version'' (PInt 2)
         (dict_setdefault ''state_replica'' (PBool True)
         (dict_setdefault ''membership_authorization'' (PDict [(''kind'', PStr ''bootstrap'')])
           (dict_update op bundle)))))))"

text \<open>
  \<open>append_operation\<close>; \<open>now\<close> is \<open>int(time.time())\<close>. The result is the appended
  operation and the store that holds it.
\<close>

definition append_operation :: "crypto \<Rightarrow> string \<Rightarrow> pydict \<Rightarrow> string option \<Rightarrow> string option \<Rightarrow> int option
    \<Rightarrow> int \<Rightarrow> cluster_store \<Rightarrow> (pydict \<times> cluster_store) res" where
  "append_operation cr name payload actor cluster created_at now st =
     res_bind (read_local_identity st) (\<lambda>identity.
     res_bind (item_str identity ''node_id'') (\<lambda>local.
     res_bind (item_str identity ''cluster_id'') (\<lambda>local_cluster.
     let active_actor = (case actor of Some a \<Rightarrow> if a = [] then local else a | None \<Rightarrow> local);
         active_cluster = (case cluster of Some c \<Rightarrow> if c = [] then local_cluster else c | None \<Rightarrow> local_cluster);
         at = (case created_at of Some t \<Rightarrow> t | None \<Rightarrow> now)
     in
     res_bind (validate_node_id active_actor) (\<lambda>_.
     res_bind (validate_cluster_id active_cluster) (\<lambda>_.
     res_bind (reject (requires_signature st name \<and> active_actor \<noteq> local)
       ''signed operations can only use the local actor'') (\<lambda>_.
     res_bind (if name \<in> membership_ops - {''ADD_NODE''} then publish_crypto cr identity active_actor at st
               else Inr st) (\<lambda>st.
     res_bind (if needs_crypto_membership st name then publish_crypto cr identity active_actor at st
               else Inr st) (\<lambda>st.
     let seq = next_seq st active_actor; op0 = dict_update payload (checkpoint_fields st) in
     res_bind (if name \<in> signed_state_ops
               then res_bind (role_epoch_fields cr st active_cluster active_actor) (\<lambda>fs. Inr (dict_update op0 fs))
               else Inr op0) (\<lambda>op1.
     res_bind (if name = ''ADD_NODE'' then add_node_fields cr identity active_actor st op1 else Inr op1) (\<lambda>op2.
     let op3 = dict_update op2 (envelope active_cluster active_actor seq name at) in
     res_bind (if requires_signature st name
               then as_state_error (sign_operation cr op3 (signing_private (store_keys st)) active_actor)
               else Inr op3) (\<lambda>op4.
     res_bind (if name \<in> api_key_ops then validate_api_key_operation_after_cutoff st op4 else Inr ()) (\<lambda>_.
     res_bind (if name = ''MIGRATION_SECRET_CANDIDATE''
               then validate_candidate_against_current_freeze st op4 else Inr ()) (\<lambda>_.
     res_bind (write_operation cr (name \<in> v2_credential_ops) None False False op4 st) (\<lambda>st'.
     Inr (op4, st')))))))))))))))"

definition append_node_placeholder :: "crypto \<Rightarrow> pydict \<Rightarrow> int option \<Rightarrow> int \<Rightarrow> cluster_store
    \<Rightarrow> (pydict \<times> cluster_store) res" where
  "append_node_placeholder cr payload created_at now st =
     append_operation cr ''UPDATE_NODE'' (dict_set ''state_replica'' (PBool False) payload) None None
       created_at now st"

section \<open>Joining and staging\<close>

definition create_join_authorization ::
  "crypto \<Rightarrow> string \<Rightarrow> string \<Rightarrow> int option \<Rightarrow> int \<Rightarrow> cluster_store \<Rightarrow> pydict res" where
  "create_join_authorization cr node role created_at now st =
     res_bind (read_local_identity st) (\<lambda>identity.
     res_bind (item_str identity ''node_id'') (\<lambda>actor.
     res_bind (item_str identity ''cluster_id'') (\<lambda>cluster.
     res_bind (load_membership_trust cr st cluster) (\<lambda>t.
     res_bind (reject (node_role t actor \<noteq> ''master'')
       ''only a registered local master can authorize a join'') (\<lambda>_.
     res_bind (validate_node_id node) (\<lambda>_.
     res_bind (reject (role \<notin> {''master'', ''vps''}) ''node role must be master or vps'') (\<lambda>_.
     sign_operation cr [(''kind'', PStr ''join''), (''cluster_id'', PStr cluster), (''node_id'', PStr node),
       (''role'', PStr role), (''created_at'', PInt (case created_at of Some t \<Rightarrow> t | None \<Rightarrow> now))]
       (signing_private (store_keys st)) actor)))))))"

text \<open>The key claims of one actor that continue its stored sequence without a gap.\<close>

fun claimed_ids :: "int \<Rightarrow> (int \<times> pydict) list \<Rightarrow> string list" where
  "claimed_ids expected [] = []"
| "claimed_ids expected ((seq, op) # rest) =
     (if seq \<noteq> expected then []
      else (if get_str op ''op'' = ''UPDATE_NODE_KEY'' then [get_str op ''op_id''] else [])
        @ claimed_ids (expected + 1) rest)"

definition direct_claims :: "cluster_store \<Rightarrow> pydict list \<Rightarrow> string \<Rightarrow> string list res" where
  "direct_claims st incoming actor =
     (if actor = [] then Inr []
      else
        let expected = next_seq st actor in
        res_bind (res_map (\<lambda>op. res_bind (get_int op ''seq'' 0) (\<lambda>s. Inr (s, op)))
          (filter (\<lambda>op. get_str op ''actor'' = actor) incoming)) (\<lambda>sops.
        Inr (claimed_ids expected (sort_key fst (filter (\<lambda>(s, _). expected \<le> s) sops)))))"

definition stage_membership_operations :: "crypto \<Rightarrow> pydict list \<Rightarrow> string \<Rightarrow> string option
    \<Rightarrow> cluster_store \<Rightarrow> membership_trust res" where
  "stage_membership_operations cr incoming expected remote st =
     res_bind (load_membership_trust cr st expected) (\<lambda>t.
     let membership = filter is_membership incoming;
         actors = (case remote of
             None \<Rightarrow> []
           | Some r \<Rightarrow> if r = [] then []
               else if active_master t r then remdups (r # map (\<lambda>op. get_str op ''actor'') incoming)
               else [r])
     in res_bind (res_map (direct_claims st incoming) actors) (\<lambda>claims.
        res_bind (res_sorted order_key membership) (\<lambda>ordered.
        res_fold (\<lambda>op u.
          res_bind (validate_operation cr (Some expected) None (Some u) [] True False
            (get_str op ''op_id'' \<in> set (concat claims)) op) (\<lambda>u'.
          Inr (case u' of None \<Rightarrow> u | Some v \<Rightarrow> v))) ordered t)))"

section \<open>Loading\<close>

definition load_file :: "crypto \<Rightarrow> cluster_store \<Rightarrow> string option \<Rightarrow> string \<times> string \<times> pyval
    \<Rightarrow> membership_trust \<times> pydict list \<Rightarrow> (membership_trust \<times> pydict list) res" where
  "load_file cr st expected = (\<lambda>(dir, name, v) (t, ops). (case v of
     PDict op \<Rightarrow>
       res_bind (validate_operation cr expected (Some st) (Some t) [] False True False op) (\<lambda>t'.
       res_bind (item_str op ''actor'') (\<lambda>actor.
       res_bind (item_int op ''seq'') (\<lambda>seq.
       res_bind (reject (dir \<noteq> actor \<or> name \<noteq> file_name seq)
         ''operation path does not match actor/seq'') (\<lambda>_.
       Inr (case t' of None \<Rightarrow> t | Some u \<Rightarrow> u, ops @ [op])))))
   | _ \<Rightarrow> Inl (ClusterStateError ''operation file is not an object'')))"

definition load_log_operations :: "crypto \<Rightarrow> cluster_store \<Rightarrow> string option \<Rightarrow> pydict list res" where
  "load_log_operations cr st expected =
     (if oplog st = [] then Inr []
      else
        res_bind (case expected of
            Some c \<Rightarrow> if c = [] then res_bind (read_local_identity st) (\<lambda>d. item_str d ''cluster_id'') else Inr c
          | None \<Rightarrow> res_bind (read_local_identity st) (\<lambda>d. item_str d ''cluster_id'')) (\<lambda>cluster.
        res_bind (load_log_trust cr st cluster) (\<lambda>t.
        res_bind (res_fold (load_file cr st expected) (log_files st) (t, [])) (\<lambda>(_, ops).
        res_sorted history_key ops))))"

end
