(* ===== verification/Cluster_Rebuild.thy ===== *)
theory Cluster_Rebuild
  imports Cluster_History
begin

text \<open>
  \<open>_rebuild_materialized_state_unlocked\<close> (master/cluster_state.py) for a node without an active
  checkpoint (both branches are \<open>rebuild_materialized_state\<close> in Checkpoint_Tail): one pass over the
  loaded operations, then the conflict marks, the credential state, the API-key
  record, the state vector and the three documents.
\<close>

record replay_state =
  replay_members :: "(string, pydict) dict \<times> string set"
  replay_v7 :: instance_state
  replay_pb8 :: instance_state
  replay_api :: "pydict list"
  replay_policies :: "pydict list"
  replay_seqs :: "(string, int list) dict"
  replay_generated_at :: int
  replay_membership_generation :: int

definition replay_start :: replay_state where
  "replay_start = \<lparr>replay_members = ([], {}), replay_v7 = no_instances, replay_pb8 = no_instances,
     replay_api = [], replay_policies = [], replay_seqs = [], replay_generated_at = 0,
     replay_membership_generation = 0\<rparr>"

definition replay_dispatch :: "string \<Rightarrow> pydict \<Rightarrow> replay_state \<Rightarrow> replay_state res" where
  "replay_dispatch name op s =
     (if name \<in> membership_ops then
        res_bind (apply_membership op (replay_members s)) (\<lambda>m.
        Inr (s\<lparr>replay_members := m,
          replay_membership_generation := replay_membership_generation s +
            (if credential_membership_fingerprint (fst m)
                \<noteq> credential_membership_fingerprint (fst (replay_members s)) then 1 else 0)\<rparr>))
      else if name \<in> v7_ops then
        res_bind (apply_v7 op (replay_v7 s)) (\<lambda>i. Inr (s\<lparr>replay_v7 := i\<rparr>))
      else if name \<in> pb8_ops then
        res_bind (apply_pb8 op (replay_pb8 s)) (\<lambda>i. Inr (s\<lparr>replay_pb8 := i\<rparr>))
      else if name = ''UPSERT_API_KEYS'' then Inr (s\<lparr>replay_api := replay_api s @ [op]\<rparr>)
      else if name \<in> cluster_policy_ops then Inr (s\<lparr>replay_policies := replay_policies s @ [op]\<rparr>)
      else Inr s)"

definition replay_step :: "pydict \<Rightarrow> replay_state \<Rightarrow> replay_state res" where
  "replay_step op s =
     res_bind (item_str op ''actor'') (\<lambda>actor.
     res_bind (item_int op ''seq'') (\<lambda>seq.
     res_bind (get_int op ''created_at'' 0) (\<lambda>at.
     res_bind (item_str op ''op'') (\<lambda>name.
     replay_dispatch name op (s\<lparr>replay_seqs := group_append actor seq (replay_seqs s),
       replay_generated_at := max (replay_generated_at s) at\<rparr>)))))"

definition api_key_record :: "pydict \<Rightarrow> pydict res" where
  "api_key_record op =
     res_bind (item_int op ''api_serial'') (\<lambda>serial.
     res_bind (item_str op ''payload_hash'') (\<lambda>payload.
     res_bind (item_str op ''secret_blob_hash'') (\<lambda>blob.
     res_bind (authorship ''updated_by'' ''updated_at'' op) (\<lambda>a.
     Inr ([(''serial'', PInt serial), (''payload_hash'', PStr payload), (''secret_blob_hash'', PStr blob)] @ a
       @ (if is_True (py_get op ''sanitized'') then [(''sanitized'', PBool True)] else []))))))"

definition obsolete_blobs :: "pydict \<Rightarrow> pyval list res" where
  "obsolete_blobs v2_state =
     (let cutoff = dict_of (py_get (dict_of (py_get v2_state ''credential_migration'')) ''cutoff'') in
      res_bind (get_list cutoff ''obsolete_secret_blob_hashes'') (\<lambda>hashes.
      res_bind (hash_all hashes) (\<lambda>_. Inr hashes)))"

definition materialize_api_keys :: "pydict list \<Rightarrow> pyval list \<Rightarrow> pydict res" where
  "materialize_api_keys operations obsolete =
     (let usable = filter (\<lambda>op. PStr (get_str op ''secret_blob_hash'') \<notin> set obsolete) operations in
      if usable = [] then Inr []
      else res_bind (api_key_record (last usable)) (\<lambda>d. Inr [(''api_keys'', PDict d)]))"

definition state_vector :: "(string, int list) dict \<Rightarrow> (string, int) dict" where
  "state_vector sequences = dict_sorted (filter (\<lambda>(_, n). 0 < n)
     (map (\<lambda>(actor, ns). (actor, highest_contiguous_sequence ns)) sequences))"

record materialized =
  cluster_nodes_doc :: pydict
  desired_state_doc :: pydict
  state_vector_doc :: "(string, int) dict"

definition materialize :: "string \<Rightarrow> pydict list \<Rightarrow> materialized res" where
  "materialize cluster operations =
     res_bind (res_fold replay_step operations replay_start) (\<lambda>s.
     res_bind (mark_conflicts (replay_v7 s)) (\<lambda>instances.
     res_bind (mark_conflicts (replay_pb8 s)) (\<lambda>pb8_instances.
     res_bind (materialize_v2_credentials operations) (\<lambda>v2_state.
     res_bind (obsolete_blobs v2_state) (\<lambda>obsolete.
     res_bind (materialize_api_keys (replay_api s) obsolete) (\<lambda>api.
     res_bind (if replay_policies s = [] then Inr []
               else res_bind (materialize_retention_policy (replay_policies s))
                      (\<lambda>p. Inr [(''retention_policy'', PDict p)])) (\<lambda>policy.
     Inr \<lparr>cluster_nodes_doc = [(''schema_version'', PInt 1), (''cluster_id'', PStr cluster),
            (''generation'', PInt (int (length operations))),
            (''credential_membership_generation'', PInt (replay_membership_generation s)),
            (''nodes'', dict_val (fst (replay_members s)))],
          desired_state_doc = dict_update ([(''schema_version'', PInt 1), (''cluster_id'', PStr cluster),
            (''generated_at'', PInt (replay_generated_at s)), (''instances'', dict_val instances),
            (''tombstones'', dict_val (tombs (replay_v7 s))), (''pb8_instances'', dict_val pb8_instances),
            (''pb8_tombstones'', dict_val (tombs (replay_pb8 s)))] @ api) (v2_state @ policy),
          state_vector_doc = state_vector (replay_seqs s)\<rparr>)))))))"

definition rebuild_log :: "crypto \<Rightarrow> cluster_store \<Rightarrow> materialized res" where
  "rebuild_log cr st =
     res_bind (read_local_identity st) (\<lambda>identity.
     res_bind (item_str identity ''cluster_id'') (\<lambda>cluster.
     res_bind (load_log_operations cr st (Some cluster)) (\<lambda>operations.
     materialize cluster operations)))"

end
