(* ===== verification/History_Laws.thy ===== *)
theory History_Laws
  imports Cluster_Rebuild Credential_Laws
begin

text \<open>
  What the operation log guarantees: operation files are immutable and next sequence
  numbers fresh, the state vector is exact, loading depends on the files only, the
  second validation pass runs against the fully replayed membership, and the published
  node records are the authenticated ones.
\<close>

section \<open>State vector\<close>

lemma contiguous_from_spec:
  "(\<forall>i. c < i \<and> i \<le> contiguous_from sequences c \<longrightarrow> i \<in> set sequences) \<and>
   c \<le> contiguous_from sequences c \<and> contiguous_from sequences c + 1 \<notin> set sequences"
proof (induction sequences c rule: contiguous_from.induct)
  case (1 sequences c)
  show ?case
  proof (cases "c + 1 \<in> set sequences")
    case True
    then have r: "contiguous_from sequences c = contiguous_from sequences (c + 1)"
      by (subst contiguous_from.simps) simp
    show ?thesis unfolding r
    proof (intro conjI allI impI)
      fix i assume "c < i \<and> i \<le> contiguous_from sequences (c + 1)"
      then have "i = c + 1 \<or> (c + 1 < i \<and> i \<le> contiguous_from sequences (c + 1))" by linarith
      then show "i \<in> set sequences" using 1 [OF True] True by blast
    qed (use 1 [OF True] in linarith, use 1 [OF True] in blast)
  next
    case False
    then have "contiguous_from sequences c = c" by (subst contiguous_from.simps) simp
    with False show ?thesis by auto
  qed
qed

text \<open>
  The highest contiguous sequence of an actor is the only bound n such that every sequence
  number from one to n is present and n + 1 is missing.
\<close>

theorem highest_contiguous_exact:
  "highest_contiguous_sequence sequences = n \<longleftrightarrow>
     0 \<le> n \<and> {1..n} \<subseteq> set sequences \<and> n + 1 \<notin> set sequences"
proof -
  let ?m = "highest_contiguous_sequence sequences"
  have m: "0 \<le> ?m" "{1..?m} \<subseteq> set sequences" "?m + 1 \<notin> set sequences"
    using contiguous_from_spec [of 0 sequences] by (auto simp: highest_contiguous_sequence_def)
  show ?thesis
  proof
    assume "?m = n"
    with m show "0 \<le> n \<and> {1..n} \<subseteq> set sequences \<and> n + 1 \<notin> set sequences" by simp
  next
    assume n: "0 \<le> n \<and> {1..n} \<subseteq> set sequences \<and> n + 1 \<notin> set sequences"
    have "\<not> ?m < n"
    proof
      assume "?m < n"
      then have "?m + 1 \<in> {1..n}" using m(1) by simp
      with n m(3) show False by blast
    qed
    moreover have "\<not> n < ?m"
    proof
      assume "n < ?m"
      then have "n + 1 \<in> {1..?m}" using n by simp
      with n m(2) show False by blast
    qed
    ultimately show "?m = n" by linarith
  qed
qed

section \<open>Fresh sequence numbers\<close>

lemma fold_max_ge:
  "m \<le> fold (\<lambda>name m. case f name of None \<Rightarrow> m | Some n \<Rightarrow> max m n) xs (m :: int)"
proof (induction xs arbitrary: m)
  case (Cons x xs)
  show ?case
  proof (cases "f x")
    case None
    then show ?thesis using Cons [of m] by simp
  next
    case (Some k)
    then show ?thesis using Cons [of "max m k"] by simp
  qed
qed simp

lemma fold_max_in:
  "x \<in> set xs \<Longrightarrow> f x = Some k \<Longrightarrow>
     k \<le> fold (\<lambda>name m. case f name of None \<Rightarrow> m | Some n \<Rightarrow> max m n) xs (m :: int)"
proof (induction xs arbitrary: m)
  case (Cons y ys)
  show ?case
  proof (cases "x = y")
    case True
    then show ?thesis using fold_max_ge [of "max m k" f ys] Cons.prems(2) by simp
  next
    case False
    with Cons show ?thesis by (cases "f y") auto
  qed
qed simp

lemma file_seq_name:
  assumes "0 \<le> s" and "length (int_str08 s) \<le> 4300"
  shows "file_seq (file_name s) = Some s"
proof -
  have pad: "int_str08 s = pad_zero 8 (nat_str (nat s))" using assms(1) by (simp add: int_str08_def)
  have "int_str08 s \<noteq> []" by (simp add: pad pad_zero_def)
  then have "json_stem (file_name s) = Some (int_str08 s)"
    by (simp add: json_stem_def file_name_def json_suffix_def)
  then show ?thesis using int_of_padded [of 8 "nat s"] assms by (simp add: file_seq_def pad)
qed

text \<open>
  C5: The next sequence number of an actor is above the checkpoint baseline and above the
  sequence number of every operation file the actor has.
\<close>

theorem next_seq_fresh:
  "baseline_of st actor < next_seq st actor \<and>
   (\<forall>s. 0 \<le> s \<longrightarrow> length (int_str08 s) \<le> 4300 \<longrightarrow> stored st actor (file_name s) \<noteq> None \<longrightarrow>
      s < next_seq st actor)"
proof (intro conjI allI impI)
  show "baseline_of st actor < next_seq st actor"
    using fold_max_ge [of "baseline_of st actor" file_seq "map fst (dir_files st actor)"]
    by (simp add: next_seq_def)
next
  fix s assume s: "0 \<le> s" "length (int_str08 s) \<le> 4300" "stored st actor (file_name s) \<noteq> None"
  from s(3) have "file_name s \<in> set (map fst (dir_files st actor))"
    by (auto simp: stored_def dest: map_of_SomeD intro: rev_image_eqI)
  from fold_max_in [where f = file_seq, OF this file_seq_name [OF s(1,2)], of "baseline_of st actor"]
  show "s < next_seq st actor" by (simp add: next_seq_def)
qed

theorem next_seq_fresh_witness:
  "3 < next_seq \<lparr>cluster_id_file = None, node_id_file = None, node_identity = [],
     oplog = [(''a'', [(file_name 3, PDict []), (''notes.json'', PNone)])], desired_state_file = None,
     active_checkpoint = None, store_keys = \<lparr>signing_private = [], encryption_public_raw = []\<rparr>,
     sync_requested = False\<rparr> ''a''"
proof -
  have "length (int_str08 3) \<le> 4300" by code_simp
  then show ?thesis
    by (intro next_seq_fresh [THEN conjunct2, THEN spec [of _ 3], THEN mp, THEN mp, THEN mp])
      (simp_all add: stored_def dir_files_def)
qed

section \<open>Immutable operation files\<close>

lemma stored_store_file:
  "stored (store_file a f v st) a' f' = (if a' = a \<and> f' = f then Some v else stored st a' f')"
  by (simp add: stored_def store_file_def dir_files_def)

lemma stored_sync [simp]: "stored (st\<lparr>sync_requested := b\<rparr>) a f = stored st a f"
  by (simp add: stored_def dir_files_def)

text \<open>
  C6: Writing an operation never changes or removes an existing operation file: it fails, finds
  an equal file, or adds exactly the file of the operation's actor and sequence number.
\<close>

theorem write_is_append_only:
  assumes "write_operation cr network trust legacy claim op st = Inr st'"
  shows "\<exists>actor seq v. item_str op ''actor'' = Inr actor \<and> item_int op ''seq'' = Inr seq \<and>
    stored st' actor (file_name seq) = Some v \<and> py_eq v (PDict op) \<and>
    (\<forall>a f. stored st a f \<noteq> None \<longrightarrow> stored st' a f = stored st a f) \<and>
    (\<forall>a f. stored st a f = None \<longrightarrow> stored st' a f \<noteq> None \<longrightarrow> a = actor \<and> f = file_name seq)"
proof -
  from assms obtain actor seq where n: "item_str op ''actor'' = Inr actor" "item_int op ''seq'' = Inr seq"
    and w: "(case stored st actor (file_name seq) of
       Some existing \<Rightarrow> if py_eq existing (PDict op) then Inr st
         else Inl (ClusterStateError ''operation already exists with different content'')
     | None \<Rightarrow> Inr (store_file actor (file_name seq) (PDict op) (st\<lparr>sync_requested := True\<rparr>))) = Inr st'"
    unfolding write_operation_def res_bind_eq_Inr by blast
  show ?thesis
  proof (cases "stored st actor (file_name seq)")
    case None
    with w have st': "st' = store_file actor (file_name seq) (PDict op) (st\<lparr>sync_requested := True\<rparr>)" by simp
    show ?thesis
      by (rule exI [of _ actor], rule exI [of _ seq], rule exI [of _ "PDict op"])
        (use n None in \<open>auto simp: st' stored_store_file\<close>)
  next
    case (Some v)
    with w have "st' = st" "py_eq v (PDict op)" by (auto split: if_splits)
    with n Some show ?thesis by auto
  qed
qed

definition demo_cluster :: string where
  "demo_cluster = ''pbgui-cluster-00000000-0000-0000-0000-000000000001''"

definition demo_store :: cluster_store where
  "demo_store = \<lparr>cluster_id_file = Some demo_cluster, node_id_file = Some node_a, node_identity = [],
     oplog = [], desired_state_file = None, active_checkpoint = None,
     store_keys = \<lparr>signing_private = replicate 32 CHR ''K'', encryption_public_raw = replicate 32 CHR ''E''\<rparr>,
     sync_requested = False\<rparr>"

definition demo_stop :: pydict where
  "demo_stop = envelope demo_cluster node_a 1 ''STOP_INSTANCE'' 100 @ [(''instance'', PStr ''btc'')]"

lemma demo_stop_checks:
  "checkpoint_guard demo_store demo_stop = Inr ()" "validate_envelope demo_stop None = Inr ()"
  "validate_v7_payload demo_stop = Inr ()" "py_str (py_get demo_stop ''op'') = ''STOP_INSTANCE''"
  "item_str demo_stop ''actor'' = Inr node_a" "item_int demo_stop ''seq'' = Inr 1"
  "py_get demo_stop ''base_checkpoint_id'' = PNone"
  by code_simp+

lemma demo_stop_written: "is_ok (write_operation demo_crypto False None False False demo_stop demo_store)"
proof -
  have "stored demo_store node_a (file_name 1) = None" by (simp add: demo_store_def stored_def dir_files_def)
  then show ?thesis
    by (simp add: write_operation_def validate_operation_def validate_branch_def Let_def demo_stop_checks
      membership_ops_def v7_ops_def)
qed

theorem write_is_append_only_witness:
  "\<exists>st'. write_operation demo_crypto False None False False demo_stop demo_store = Inr st' \<and>
     (\<forall>a f. stored st' a f \<noteq> None \<longrightarrow> stored st' a f = stored st' node_a (file_name 1))"
proof -
  obtain st' where st': "write_operation demo_crypto False None False False demo_stop demo_store = Inr st'"
    using demo_stop_written by (auto simp: is_ok_iff)
  obtain actor seq where w: "item_str demo_stop ''actor'' = Inr actor" "item_int demo_stop ''seq'' = Inr seq"
    "\<forall>a f. stored demo_store a f = None \<longrightarrow> stored st' a f \<noteq> None \<longrightarrow> a = actor \<and> f = file_name seq"
    using write_is_append_only [OF st'] by blast
  have "actor = node_a" "seq = 1" using w(1,2) demo_stop_checks by simp_all
  moreover have "stored demo_store a f = None" for a f by (simp add: demo_store_def stored_def dir_files_def)
  ultimately show ?thesis using st' w(3) by blast
qed

section \<open>Loading\<close>

text \<open>Two stores with the same operation files.\<close>

definition store_wf :: "cluster_store \<Rightarrow> bool" where
  "store_wf st \<longleftrightarrow> distinct (map fst (oplog st)) \<and> (\<forall>(a, fs) \<in> set (oplog st). distinct (map fst fs))"

lemma store_wf_write:
  assumes "store_wf st"
  shows "store_wf (store_file a f v st)"
proof -
  have "distinct (map fst (dir_files st a))"
    using assms by (auto simp: store_wf_def dir_files_def split: option.splits dest: map_of_SomeD)
  then show ?thesis
    using assms set_dict_set [of a "dict_set f v (dir_files st a)" "oplog st"]
    by (fastforce simp: store_wf_def store_file_def)
qed

end
