(* ===== verification/Load_Laws.thy ===== *)
theory Load_Laws
  imports History_Laws
begin

text \<open>
  What loading a log establishes: every operation is checked against the membership
  rebuilt from the whole log, credential and policy operations carry a signature of the
  key their actor had at their sequence number, the node records that are published are
  the authenticated ones, and the result depends on the operation files only.
\<close>

section \<open>The second validation pass\<close>

lemma upper_not_digit: "c \<in> set ''ABCDEFGHIJKLMNOPQRSTUVWXYZ'' \<Longrightarrow> 57 < char_ord c"
  by (auto simp: char_ord_def)

lemma digit_not_upper:
  assumes "d < 10"
  shows "digit_char d \<notin> set ''ABCDEFGHIJKLMNOPQRSTUVWXYZ''"
proof
  assume "digit_char d \<in> set ''ABCDEFGHIJKLMNOPQRSTUVWXYZ''"
  from upper_not_digit [OF this] assms show False by (simp add: digit_char_def char_ord_def)
qed

lemma op_text_string: "py_str v \<in> S \<Longrightarrow> S \<subseteq> supported_ops \<Longrightarrow> v = PStr (py_str v)"
proof -
  assume "py_str v \<in> S" "S \<subseteq> supported_ops"
  then have s: "py_str v \<in> supported_ops" by auto
  have "\<forall>n \<in> supported_ops. n \<noteq> [] \<and> hd n \<in> set ''ABCDEFGHIJKLMNOPQRSTUVWXYZ'' \<and> n \<noteq> ''None'' \<and> n \<noteq> ''True'' \<and> n \<noteq> ''False''"
    by (simp add: supported_ops_def membership_ops_def v7_ops_def pb8_ops_def api_key_ops_def
      signed_state_ops_def v2_credential_ops_def cluster_policy_ops_def)
  with s have n: "py_str v \<noteq> []" "hd (py_str v) \<in> set ''ABCDEFGHIJKLMNOPQRSTUVWXYZ''" "py_str v \<noteq> ''None''"
    "py_str v \<noteq> ''True''" "py_str v \<noteq> ''False''" by auto
  have digit: "hd (nat_str k) \<notin> set ''ABCDEFGHIJKLMNOPQRSTUVWXYZ''" for k
  proof -
    have "hd (nat_str k) \<in> set (nat_str k)" by (rule hd_in_set) simp
    then obtain d where "d < 10" "hd (nat_str k) = digit_char d" using nat_str_digits [of k] by blast
    with digit_not_upper show ?thesis by metis
  qed
  show ?thesis
  proof (cases v)
    case (PInt i)
    then have "hd (py_str v) \<notin> set ''ABCDEFGHIJKLMNOPQRSTUVWXYZ''"
      using digit [of "nat i"] by (simp add: int_str_def)
    with n show ?thesis by blast
  qed (use n in \<open>auto split: if_splits\<close>)
qed

lemma is_membership_iff: "is_membership op \<longleftrightarrow> py_str (py_get op ''op'') \<in> membership_ops"
proof
  assume "is_membership op"
  then have m: "get_str op ''op'' \<in> membership_ops" by (simp add: is_membership_def)
  have "truthy (py_get op ''op'')"
    by (rule truthy_get_str) (use m in \<open>auto simp: membership_ops_def\<close>)
  with m show "py_str (py_get op ''op'') \<in> membership_ops" by (simp add: get_str_def)
next
  assume m: "py_str (py_get op ''op'') \<in> membership_ops"
  have "py_get op ''op'' = PStr (py_str (py_get op ''op''))"
    by (rule op_text_string [OF m]) (auto simp: supported_ops_def)
  then have "get_str op ''op'' = py_str (py_get op ''op'')" by (metis get_str_PStr)
  with m show "is_membership op" by (simp add: is_membership_def)
qed

lemma validate_branch_trust:
  assumes "validate_branch cr store (Some t) ns net lm lk op = Inr r"
  shows "if is_membership op then \<exists>t'. r = Some t' \<and> accept_membership_operation cr op lm (lk \<or> \<not> net) t = Inr t'
     else r = None \<or> r = Some t"
proof (cases "is_membership op")
  case True
  with assms show ?thesis
    by (auto simp: validate_branch_def Let_def is_membership_iff resolve_trust_def res_bind_eq_Inr)
next
  case False
  then have m: "py_str (py_get op ''op'') \<notin> membership_ops" by (simp add: is_membership_iff)
  show ?thesis
    using assms False
    unfolding validate_branch_def Let_def if_not_P [OF m] resolve_trust_def
    by (simp only: option.case res_bind_Inr if_False refl split: if_split_asm)
      (auto simp: res_bind_eq_Inr split: if_split_asm option.splits)
qed

definition log_operations :: "cluster_store \<Rightarrow> pydict list" where
  "log_operations st = [op. (_, _, PDict op) \<leftarrow> log_files st]"

lemma log_operations_iff: "op \<in> set (log_operations st) \<longleftrightarrow> (\<exists>d f. (d, f, PDict op) \<in> set (log_files st))"
  by (auto simp: log_operations_def split: pyval.splits)

lemma membership_log:
  "[op. (_, _, PDict op) \<leftarrow> log_files st, is_membership op] = filter is_membership (log_operations st)"
proof -
  have "[op. (_, _, PDict op) \<leftarrow> fs, is_membership op] = filter is_membership [op. (_, _, PDict op) \<leftarrow> fs]"
    for fs :: "(string \<times> string \<times> pyval) list"
    by (induction fs) (auto split: pyval.splits)
  then show ?thesis by (simp add: log_operations_def)
qed

lemma res_map_check: "res_map (\<lambda>x. res_bind (c x) (\<lambda>_. Inr x)) xs = Inr ys \<Longrightarrow> ys = xs"
  by (induction xs arbitrary: ys) (auto simp: res_bind_eq_Inr)

text \<open>The membership history is the membership part of the log, in history order.\<close>

lemma membership_history_sorted:
  assumes "membership_history cr st c = Inr ops"
  shows "ops = sort_key (\<lambda>x. projr (history_key x)) (filter is_membership (log_operations st))"
    "set ops = {op \<in> set (log_operations st). is_membership op}"
proof -
  from assms obtain ms where "res_map (\<lambda>op. res_bind (validate_membership_static cr op (Some c)) (\<lambda>_. Inr op))
      (filter is_membership (log_operations st)) = Inr ms" "res_sorted history_key ms = Inr ops"
    unfolding membership_history_def membership_log res_bind_eq_Inr by blast
  note m = this
  have "ms = filter is_membership (log_operations st)" by (rule res_map_check [OF m(1)])
  with m(2) have "res_sorted history_key (filter is_membership (log_operations st)) = Inr ops" by simp
  from res_sorted_Inr(1) [OF this]
  show "ops = sort_key (\<lambda>x. projr (history_key x)) (filter is_membership (log_operations st))" .
  then show "set ops = {op \<in> set (log_operations st). is_membership op}" by auto
qed

lemma trust_accepts_log:
  assumes "load_log_trust cr st c = Inr t" and "op \<in> set (log_operations st)" and "is_membership op"
  shows "accept_membership_operation cr op True True t = Inr t"
proof -
  from assms(1) obtain ops where ops: "membership_history cr st c = Inr ops"
    "res_fold (\<lambda>op. accept_membership_operation cr op True True) ops empty_trust = Inr t"
    by (auto simp: load_log_trust_def res_bind_eq_Inr)
  have "op \<in> set ops" using membership_history_sorted(2) [OF ops(1)] assms(2,3) by simp
  then have "res_fold (\<lambda>op. accept_membership_operation cr op True True) [op] t = Inr t"
    by (intro membership.replay_again [OF ops(2)]) simp
  then show ?thesis by (auto simp: res_bind_eq_Inr)
qed

text \<open>What \<open>load_log_operations\<close> has checked of one file.\<close>

definition file_checked :: "crypto \<Rightarrow> cluster_store \<Rightarrow> string option \<Rightarrow> membership_trust
    \<Rightarrow> string \<times> string \<times> pyval \<Rightarrow> bool" where
  "file_checked cr st expected t = (\<lambda>(dir, name, v). \<exists>op r seq. v = PDict op \<and>
     validate_operation cr expected (Some st) (Some t) [] False True False op = Inr r \<and>
     item_str op ''actor'' = Inr dir \<and> item_int op ''seq'' = Inr seq \<and> name = file_name seq)"

lemma load_file_step:
  assumes "load_file cr st expected (d, n, v) (t, ops) = Inr (t', ops')"
    and "(d, n, v) \<in> set (log_files st)" and "load_log_trust cr st c = Inr t"
  shows "t' = t \<and> (\<exists>op. v = PDict op \<and> ops' = ops @ [op]) \<and> file_checked cr st expected t (d, n, v)"
proof -
  from assms(1) obtain op where v: "v = PDict op" by (cases v) (simp_all add: load_file_def)
  from assms(1) obtain r actor seq where r: "validate_operation cr expected (Some st) (Some t) [] False True False op = Inr r"
    and n: "item_str op ''actor'' = Inr actor" "item_int op ''seq'' = Inr seq" "d = actor" "n = file_name seq"
    and res: "t' = (case r of None \<Rightarrow> t | Some u \<Rightarrow> u)" "ops' = ops @ [op]"
    by (auto simp: load_file_def v res_bind_eq_Inr)
  from r have b: "validate_branch cr (Some st) (Some t) [] False True False op = Inr r"
    by (auto simp: validate_operation_def res_bind_eq_Inr)
  have "op \<in> set (log_operations st)" using assms(2) by (auto simp: log_operations_iff v)
  then have "t' = t"
    using validate_branch_trust [OF b] trust_accepts_log [OF assms(3)] res(1) by (auto split: if_splits)
  with v r n res(2) show ?thesis by (auto simp: file_checked_def)
qed

lemma load_fold:
  assumes "res_fold (load_file cr st expected) fs (t, ops) = Inr (t', ops')"
    and "set fs \<subseteq> set (log_files st)" and "load_log_trust cr st c = Inr t"
  shows "t' = t \<and> ops' = ops @ [op. (_, _, PDict op) \<leftarrow> fs] \<and> (\<forall>f \<in> set fs. file_checked cr st expected t f)"
  using assms(1,2)
proof (induction fs arbitrary: ops)
  case (Cons f fs)
  obtain d n v where f: "f = (d, n, v)" by (cases f)
  from Cons.prems(1) obtain t1 ops1 where s: "load_file cr st expected (d, n, v) (t, ops) = Inr (t1, ops1)"
    "res_fold (load_file cr st expected) fs (t1, ops1) = Inr (t', ops')"
    by (auto simp: f res_bind_eq_Inr)
  have "(d, n, v) \<in> set (log_files st)" using Cons.prems(2) by (simp add: f)
  from load_file_step [OF s(1) this assms(3)] obtain op where
    op: "t1 = t" "v = PDict op" "ops1 = ops @ [op]" "file_checked cr st expected t (d, n, v)" by blast
  from Cons.IH [OF s(2) [unfolded op(1)]] Cons.prems(2) op show ?case by (simp add: f)
qed simp

text \<open>Everything a successful load establishes.\<close>

lemma load_log_operations_checked:
  assumes "load_log_operations cr st (Some c) = Inr ops" and "oplog st \<noteq> []" and "c \<noteq> []"
  obtains t where "load_log_trust cr st c = Inr t"
    "ops = sort_key (\<lambda>x. projr (history_key x)) (log_operations st)"
    "\<forall>f \<in> set (log_files st). file_checked cr st (Some c) t f"
    "\<forall>op \<in> set ops. history_key op = Inr (projr (history_key op))"
proof -
  from assms obtain t t' ops' where t: "load_log_trust cr st c = Inr t"
    and f: "res_fold (load_file cr st (Some c)) (log_files st) (t, []) = Inr (t', ops')"
    and s: "res_sorted history_key ops' = Inr ops"
    by (auto simp: load_log_operations_def res_bind_eq_Inr)
  from load_fold [OF f order_refl t] have "ops' = log_operations st"
    "\<forall>f \<in> set (log_files st). file_checked cr st (Some c) t f"
    by (simp_all add: log_operations_def)
  with t s res_sorted_Inr [OF s] show ?thesis by (intro that [of t]) auto
qed

section \<open>Signed operations\<close>

lemma signed_branch:
  assumes "validate_branch cr store (Some t) ns net lm lk op = Inr r"
    and "py_str (py_get op ''op'') \<in> signed_state_ops"
  shows "validate_v2_operation_signature cr op t net = Inr () \<and> validate_v2_actor_role op t net = Inr ()"
proof -
  let ?n = "py_str (py_get op ''op'')"
  have n: "?n \<notin> membership_ops" "?n \<notin> v7_ops" "?n \<notin> pb8_ops" "?n \<notin> api_key_ops"
    using assms(2) by (auto simp: signed_state_ops_def v2_credential_ops_def cluster_policy_ops_def
      membership_ops_def v7_ops_def pb8_ops_def api_key_ops_def)
  have "?n \<in> v2_credential_ops \<or> ?n \<in> cluster_policy_ops" using assms(2) by (simp add: signed_state_ops_def)
  with assms(1) show ?thesis
    unfolding validate_branch_def Let_def resolve_trust_def
    by (simp only: n if_False option.case res_bind_Inr split: if_split_asm)
      (auto simp: res_bind_eq_Inr)
qed

lemma signed_checks:
  assumes "validate_v2_operation_signature cr op t False = Inr ()" "validate_v2_actor_role op t False = Inr ()"
    and "item_str op ''actor'' = Inr actor" and "item_str op ''op'' = Inr name"
  shows "get_str op ''signer_id'' = actor \<and>
    (\<exists>pk. membership_key_for_operation t op = Inr pk \<and> verify_operation cr op pk = Inr ()) \<and>
    (\<exists>role. membership_role_for_operation t op False = Inr role \<and>
       (name \<in> master_only_signed_state_ops \<longrightarrow> role = ''master''))"
  using assms by (auto simp: validate_v2_operation_signature_def validate_v2_actor_role_def res_bind_eq_Inr)

lemma load_empty: "oplog st = [] \<Longrightarrow> load_log_operations cr st e = Inr []"
  by (simp add: load_log_operations_def)

text \<open>
  C7: Every credential or policy operation of a loaded log is signed by its actor with the key
  the replayed membership has for that sequence number, and a master-only operation by an
  actor recorded as master in the role epoch the operation names.
\<close>

theorem loaded_operations_authenticated:
  assumes "load_log_operations cr st (Some c) = Inr ops" and "c \<noteq> []"
    and "op \<in> set ops" and "py_str (py_get op ''op'') \<in> signed_state_ops"
  shows "\<exists>t pk role actor. load_log_trust cr st c = Inr t \<and> item_str op ''actor'' = Inr actor \<and>
    get_str op ''signer_id'' = actor \<and> membership_key_for_operation t op = Inr pk \<and>
    verify_operation cr op pk = Inr () \<and> membership_role_for_operation t op False = Inr role \<and>
    (py_str (py_get op ''op'') \<in> master_only_signed_state_ops \<longrightarrow> role = ''master'')"
proof -
  have "oplog st \<noteq> []" using assms(1,3) load_empty by fastforce
  from load_log_operations_checked [OF assms(1) this assms(2)] obtain t where
    t: "load_log_trust cr st c = Inr t" and
    ops: "ops = sort_key (\<lambda>x. projr (history_key x)) (log_operations st)" and
    f: "\<forall>f \<in> set (log_files st). file_checked cr st (Some c) t f" by blast
  from assms(3) ops obtain d n where "(d, n, PDict op) \<in> set (log_files st)"
    by (auto simp: log_operations_iff)
  with f obtain r where r: "validate_operation cr (Some c) (Some st) (Some t) [] False True False op = Inr r"
    and actor: "item_str op ''actor'' = Inr d"
    by (auto simp: file_checked_def)
  then have "validate_branch cr (Some st) (Some t) [] False True False op = Inr r"
    by (simp add: validate_operation_def res_bind_eq_Inr)
  from signed_branch [OF this assms(4)]
  have "validate_v2_operation_signature cr op t False = Inr ()" "validate_v2_actor_role op t False = Inr ()"
    by simp_all
  moreover then obtain name where "item_str op ''op'' = Inr name"
    by (auto simp: validate_v2_actor_role_def res_bind_eq_Inr)
  moreover then have "py_str (py_get op ''op'') = name"
    by (auto simp: item_str_Inr py_get_def)
  ultimately show ?thesis using signed_checks [of cr op t d name] actor t by blast
qed

text \<open>A log with the registration of a master and a policy it signed.\<close>

definition demo_founder :: pydict where
  "demo_founder = envelope demo_cluster node_a 1 ''ADD_NODE'' 100 @
     [(''node_id'', PStr node_a), (''role'', PStr ''master''), (''signing_key_id'', PStr ''ed25519:K''),
      (''signing_public_key'', PStr (demo_pk CHR ''K'')), (''encryption_key_id'', PStr ''x25519:E''),
      (''encryption_public_key'', PStr (demo_pk CHR ''E''))]"

definition demo_retention :: pydict where
  "demo_retention = envelope demo_cluster node_a 2 ''SET_RETENTION_POLICY'' 200 @
     [(''mode'', PStr ''oplog''), (''history_days'', PInt 7), (''generation'', PInt 1),
      (''parent_generation'', PInt 0), (''actor_role_epoch'', PInt 1),
      (''actor_membership_op_id'', PStr (op_identifier node_a 1)),
      (''signer_id'', PStr node_a), (''signer_key_id'', PStr ''ed25519:K''),
      (''signature_version'', PInt 1), (''signature_algorithm'', PStr ''Ed25519''),
      (''signature'', PStr demo_sig)]"

definition demo_log_store :: cluster_store where
  "demo_log_store = demo_store\<lparr>oplog := [(node_a, [(file_name 1, PDict demo_founder), (file_name 2, PDict demo_retention)])]\<rparr>"

definition demo_logged :: membership_trust where
  "demo_logged = (case accept_membership_operation demo_crypto demo_founder True True empty_trust of Inl _ \<Rightarrow> empty_trust | Inr t \<Rightarrow> t)"

lemma demo_sequence: "int_str08 1 = ''00000001''" "int_str08 2 = ''00000002''"
proof -
  have r: "replicate 7 x = [x, x, x, x, x, x, x]" for x :: char by (simp add: numeral_eq_Suc)
  have c: "char_of (48 :: nat) = CHR ''0''" "char_of (49 :: nat) = CHR ''1''" "char_of (50 :: nat) = CHR ''2''"
    by (simp_all add: char_of_def bit_Suc_0_iff)
  show "int_str08 1 = ''00000001''" "int_str08 2 = ''00000002''"
    by (simp_all add: int_str08_def pad_zero_def nat_str.simps digit_char_def r c)
qed

lemma demo_names: "file_name 1 \<le> file_name 2" "json_stem (file_name 1) \<noteq> None" "json_stem (file_name 2) \<noteq> None"
  by (simp_all add: file_name_def demo_sequence json_suffix_def json_stem_def less_char_def)

lemma demo_log_files:
  "log_files demo_log_store = [(node_a, file_name 1, PDict demo_founder), (node_a, file_name 2, PDict demo_retention)]"
  using demo_names by (simp add: log_files_def dict_sorted_def demo_log_store_def)

lemmas demo_log_simps = demo_founder_def demo_retention_def envelope_def demo_cluster_def op_identifier_def demo_simps

lemma demo_founder_fields:
  "is_membership demo_founder" "py_str (py_get demo_founder ''op'') \<in> membership_ops"
  "item_str demo_founder ''actor'' = Inr node_a" "item_int demo_founder ''seq'' = Inr 1"
  "history_key demo_founder = Inr (100, node_a, 1, op_identifier node_a 1)"
  by (simp_all add: demo_log_simps is_membership_def membership_ops_def history_key_def op_id_of_def)

lemma demo_retention_fields:
  "\<not> is_membership demo_retention" "py_str (py_get demo_retention ''op'') = ''SET_RETENTION_POLICY''"
  "item_str demo_retention ''actor'' = Inr node_a" "item_int demo_retention ''seq'' = Inr 2"
  "item_str demo_retention ''op'' = Inr ''SET_RETENTION_POLICY''"
  "get_str demo_retention ''signer_id'' = node_a"
  "history_key demo_retention = Inr (200, node_a, 2, op_identifier node_a 2)"
  by (simp_all add: demo_log_simps is_membership_def membership_ops_def history_key_def op_id_of_def)

lemma demo_retention_payload: "validate_cluster_policy_payload demo_retention = Inr ()"
  by (simp add: validate_cluster_policy_payload_def demo_log_simps retention_modes_def as_positive_int_def
    as_nonnegative_int_def as_int_def)


lemma demo_cluster_valid: "validate_cluster_id demo_cluster = Inr ()"
  by code_simp

lemmas demo_envelope_simps = validate_envelope_def demo_log_simps envelope_fields_def as_positive_int_def
    as_int_def supported_ops_def signed_state_ops_def cluster_policy_ops_def membership_ops_def py_eq_def

lemma demo_envelopes:
  "validate_envelope demo_founder (Some demo_cluster) = Inr ()"
  "validate_envelope demo_retention (Some demo_cluster) = Inr ()"
  using demo_cluster_valid demo_sequence by (simp_all add: demo_envelope_simps)

lemma demo_key_id: "key_id demo_crypto alg (replicate 32 c) = alg @ '':'' @ [c]"
  by (simp add: key_id_def demo_crypto_def)

lemma demo_founder_payload: "validate_membership_payload demo_crypto demo_founder = Inr ()"
  by (simp add: validate_membership_payload_def demo_log_simps node_roles_def crypto_public_fields_def
    validate_public_key_bundle_def validate_key_bundle_part_def demo_pk_def b64_decode_encode demo_key_id)

lemma demo_founder_accepted:
  "\<exists>t. accept_membership_operation demo_crypto demo_founder True True empty_trust = Inr t \<and>
     keys_of t node_a = [\<lparr>start_seq = 1, end_seq = None, span_key_id = ''ed25519:K'', span_public_key = demo_pk CHR ''K''\<rparr>]
     \<and> roles_of t node_a = [\<lparr>role_epoch = Some 1, event_role = ''master'', membership_op_id = Some (op_identifier node_a 1)\<rparr>]"
  by (simp add: accept_membership_operation_def accept_unsigned_def
    demo_log_simps op_signed_def membership_signature_fields_def empty_trust_def apply_to_trust_def
    apply_membership_def record_membership_key_def record_membership_role_def Let_def merge_membership_fields_def
    membership_envelope_fields_def close_last_span_def normalize_node_sync_fields_def dict_setdefault_def dict_has_iff
    node_role_def keys_of_def roles_of_def)

lemma demo_logged_trust:
  "accept_membership_operation demo_crypto demo_founder True True empty_trust = Inr demo_logged"
  "keys_of demo_logged node_a = [\<lparr>start_seq = 1, end_seq = None, span_key_id = ''ed25519:K'', span_public_key = demo_pk CHR ''K''\<rparr>]"
  "roles_of demo_logged node_a = [\<lparr>role_epoch = Some 1, event_role = ''master'', membership_op_id = Some (op_identifier node_a 1)\<rparr>]"
  using demo_founder_accepted by (auto simp: demo_logged_def)

lemma demo_retention_role:
  "membership_role_for_operation demo_logged demo_retention False = Inr ''master''"
  "membership_key_for_operation demo_logged demo_retention = Inr (demo_pk CHR ''K'')"
  using demo_logged_trust(2,3)
  by (simp_all add: membership_role_for_operation_def membership_key_for_operation_def demo_log_simps
    event_epoch_def span_covers_def membership_signature_key_id_def)

lemma demo_retention_actor: "validate_v2_actor_role demo_retention demo_logged False = Inr ()"
  by (simp add: validate_v2_actor_role_def demo_retention_role demo_retention_fields vps_self_credential_ops_def)

lemma demo_retention_verifies: "verify_operation demo_crypto demo_retention (demo_pk CHR ''K'') = Inr ()"
  by (rule demo_verify) (simp_all add: demo_retention_def envelope_def demo_cluster_def op_identifier_def
    demo_simps max_safe_integer_def)

lemma demo_load_trust: "load_log_trust demo_crypto demo_log_store demo_cluster = Inr demo_logged"
  by (simp add: load_log_trust_def membership_history_def demo_log_files demo_founder_fields
    validate_membership_static_def demo_envelopes demo_founder_payload demo_retention_fields demo_logged_trust res_sorted_def)

lemma demo_load: "load_log_operations demo_crypto demo_log_store (Some demo_cluster) = Inr [demo_founder, demo_retention]"
proof -
  have "accept_membership_operation demo_crypto demo_founder True True demo_logged = Inr demo_logged"
    by (rule membership.accept_again [OF demo_logged_trust(1)])
  then have 1: "validate_operation demo_crypto (Some demo_cluster) (Some demo_log_store) (Some demo_logged) []
      False True False demo_founder = Inr (Some demo_logged)"
    by (simp add: validate_operation_def validate_branch_def resolve_trust_def demo_envelopes
      demo_founder_payload demo_founder_fields)
  have 2: "validate_operation demo_crypto (Some demo_cluster) (Some demo_log_store) (Some demo_logged) []
      False True False demo_retention = Inr (Some demo_logged)"
    by (simp add: validate_operation_def validate_branch_def resolve_trust_def demo_envelopes demo_retention_fields
      demo_retention_payload demo_retention_actor demo_retention_role
      validate_v2_operation_signature_def demo_retention_verifies membership_ops_def v7_ops_def pb8_ops_def
      api_key_ops_def v2_credential_ops_def cluster_policy_ops_def)
  have "oplog demo_log_store \<noteq> []" "demo_cluster \<noteq> []"
    by (simp_all add: demo_log_store_def demo_cluster_def)
  then show ?thesis
    by (simp add: load_log_operations_def demo_load_trust demo_log_files load_file_def 1 2 demo_founder_fields
      demo_retention_fields res_sorted_def)
qed

theorem loaded_operations_authenticated_witness:
  "\<exists>t. load_log_trust demo_crypto demo_log_store demo_cluster = Inr t \<and>
     membership_role_for_operation t demo_retention False = Inr ''master''"
proof -
  have "demo_cluster \<noteq> []" "demo_retention \<in> set [demo_founder, demo_retention]"
    "py_str (py_get demo_retention ''op'') \<in> signed_state_ops" 
    by (simp_all add: demo_cluster_def demo_retention_fields demo_retention_role signed_state_ops_def cluster_policy_ops_def)
  from loaded_operations_authenticated [OF demo_load this]
  show ?thesis by (auto simp: demo_retention_fields demo_retention_role master_only_signed_state_ops_def cluster_policy_ops_def)
qed

section \<open>Published membership\<close>

text \<open>An operation identifier determines the file it is stored in.\<close>

lemma last_separator:
  assumes "a @ x # b = a' @ x # b'" and "x \<notin> set b" and "x \<notin> set b'"
  shows "a = a' \<and> b = b'"
proof -
  have suffix: "takeWhile (\<lambda>c. c \<noteq> x) (rev (a @ x # b)) = rev b" if "x \<notin> set b" for a b :: "'a list"
    using that by (simp add: takeWhile_append) 
  have "rev b = rev b'" using suffix [OF assms(2), of a] suffix [OF assms(3), of a'] assms(1) by simp
  then show ?thesis using assms(1) by simp
qed

lemma padded_no_colon: "CHR '':'' \<notin> set (int_str08 n)"
proof -
  have "CHR '':'' \<notin> set (nat_str k)" for k using nat_str_digits [of k] digit_char_not(2) by metis
  then show ?thesis by (auto simp: int_str08_def pad_zero_def)
qed

lemma op_identifier_inject:
  "op_identifier a m = op_identifier b n \<Longrightarrow> a = b \<and> file_name m = file_name n"
  using last_separator [of a "CHR '':''" "int_str08 m" b "int_str08 n"]
  by (simp add: op_identifier_def file_name_def padded_no_colon)

lemma file_checked_ident:
  assumes "file_checked cr st e t (d, n, PDict op)"
  shows "\<exists>seq. membership_ident op = Some (op_identifier d seq) \<and> n = file_name seq"
proof -
  from assms obtain r seq where v: "validate_operation cr e (Some st) (Some t) [] False True False op = Inr r"
    and n: "item_str op ''actor'' = Inr d" "item_int op ''seq'' = Inr seq" "n = file_name seq"
    by (auto simp: file_checked_def)
  then have "validate_envelope op e = Inr ()" by (simp add: validate_operation_def res_bind_unit_eq_Inr)
  then obtain q where q: "as_positive_int (py_get op ''seq'') ''seq'' = Inr q"
    "py_get op ''op_id'' = PStr (op_identifier (py_str (py_get op ''actor'')) q)"
    by (auto simp: validate_envelope_def Let_def res_bind_eq_Inr)
  have "q = seq"
    using n(2) q(1) by (auto simp: item_int_Inr as_positive_int_def as_int_def res_bind_eq_Inr py_get_def
      split: sum.splits pyexc.splits if_splits)
  moreover have "py_str (py_get op ''actor'') = d" using n(1) by (auto simp: item_str_Inr py_get_def)
  moreover have "item_str op ''op_id'' = Inr i" if "py_get op ''op_id'' = PStr i" for i
    using that by (auto simp: item_str_Inr py_get_def split: option.splits)
  ultimately show ?thesis using q(2) n(3) by (auto simp: membership_ident_def)
qed

lemma log_files_distinct:
  assumes "store_wf st"
  shows "distinct (map (\<lambda>(d, n, v). (d, n)) (log_files st))"
proof -
  have part: "distinct (map (\<lambda>(d, n, v). (d, n)) (map (\<lambda>(n, v). (d, n, v)) (filter p fs)))"
    if "distinct (map fst fs)" for d p and fs :: "(string, pyval) dict"
  proof -
    have "distinct (map fst (filter p fs))" using that by (rule distinct_map_filter)
    then show ?thesis by (auto simp: distinct_map inj_on_def comp_def split: prod.splits)
  qed
  have dirs: "distinct (map (\<lambda>(d, n, v). (d, n)) (concat (map (\<lambda>(d, fs).
       map (\<lambda>(n, v). (d, n, v)) (filter (p d) (dict_sorted fs))) ds)))"
    if "distinct (map fst ds)" "\<forall>(d, fs) \<in> set ds. distinct (map fst fs)" for p and ds :: "(string, (string, pyval) dict) dict"
    using that
  proof (induction ds)
    case (Cons x ds)
    obtain d fs where x: "x = (d, fs)" by (cases x)
    have "distinct (map fst (dict_sorted fs))" using Cons.prems(2)
      by (simp add: x dict_sorted_def distinct_map inj_on_def)
    from part [OF this, of d "p d"]
    have "distinct (map (\<lambda>(d, n, v). (d, n)) (map (\<lambda>(n, v). (d, n, v)) (filter (p d) (dict_sorted fs))))" .
    moreover have "d \<notin> fst ` set ds" "distinct (map fst ds)" "\<forall>(d, fs) \<in> set ds. distinct (map fst fs)"
      using Cons.prems by (simp_all add: x)
    ultimately show ?case using Cons.IH by (auto simp: x rev_image_eqI)
  qed simp
  have "distinct (map fst (dict_sorted (oplog st)))"
    using assms by (simp add: store_wf_def dict_sorted_def distinct_map inj_on_def)
  from dirs [OF this, of "\<lambda>_ (n, v). json_stem n \<noteq> None"] assms show ?thesis
    by (simp add: log_files_def store_wf_def)
qed


text \<open>Operations with distinct identifiers are applied, not skipped.\<close>

lemma replay_applies:
  assumes "res_fold (\<lambda>op. accept_membership_operation cr op au al) ops t = Inr t'"
    and "distinct (map membership_ident ops)"
    and "\<forall>op \<in> set ops. \<forall>i. membership_ident op = Some i \<longrightarrow> i \<notin> validated_op_ids t"
  shows "res_fold apply_membership ops (nodes t, removed_node_ids t) = Inr (nodes t', removed_node_ids t')"
  using assms
proof (induction ops arbitrary: t)
  case Nil
  then show ?case by simp
next
  case (Cons op ops)
  then obtain u where u: "accept_membership_operation cr op au al t = Inr u"
    "res_fold (\<lambda>op. accept_membership_operation cr op au al) ops u = Inr t'"
    by (auto simp: res_bind_eq_Inr)
  from u(1) show ?case
  proof (cases rule: accept_membership_target)
    case (seen i)
    with Cons.prems(3) show ?thesis by (simp add: membership_ident_def)
  next
    case (applied i target)
    from applied(4) obtain t1 where t1: "apply_to_trust op t = Inr t1" "nodes u = nodes t1"
      "removed_node_ids u = removed_node_ids t1" "validated_op_ids u = insert i (validated_op_ids t)"
      by (auto simp: target_only_def)
    have "membership_ident op = Some i" using applied(1) by (simp add: membership_ident_def)
    then have "\<forall>x \<in> set ops. \<forall>j. membership_ident x = Some j \<longrightarrow> j \<notin> validated_op_ids u"
      using Cons.prems(2,3) t1(4) by (auto simp: image_iff)
    from Cons.IH [OF u(2) _ this] Cons.prems(2)
    have "res_fold apply_membership ops (nodes u, removed_node_ids u) = Inr (nodes t', removed_node_ids t')"
      by simp
    moreover have "apply_membership op (nodes t, removed_node_ids t) = Inr (nodes u, removed_node_ids u)"
      using t1(1-3) by (auto simp: apply_to_trust_Inr)
    ultimately show ?thesis by simp
  qed
qed

lemma replay_dispatch_members:
  "replay_dispatch name op s = Inr s' \<Longrightarrow>
     (if name \<in> membership_ops then apply_membership op (replay_members s) = Inr (replay_members s')
      else replay_members s' = replay_members s)"
  by (auto simp: replay_dispatch_def res_bind_eq_Inr split: if_splits)

lemma replay_members_fold:
  assumes "res_fold replay_step ops s = Inr s'"
  shows "res_fold apply_membership (filter is_membership ops) (replay_members s) = Inr (replay_members s')"
  using assms
proof (induction ops arbitrary: s)
  case Nil
  then show ?case by simp
next
  case (Cons op ops)
  then obtain u where u: "replay_step op s = Inr u" "res_fold replay_step ops u = Inr s'"
    by (auto simp: res_bind_eq_Inr)
  then obtain name s1 where n: "item_str op ''op'' = Inr name" "replay_dispatch name op s1 = Inr u"
    "replay_members s1 = replay_members s"
    by (auto simp: replay_step_def res_bind_eq_Inr)
  have "py_str (py_get op ''op'') = name" using n(1) by (auto simp: item_str_Inr py_get_def)
  then have "is_membership op \<longleftrightarrow> name \<in> membership_ops" by (simp add: is_membership_iff)
  with replay_dispatch_members [OF n(2)] n(3) Cons.IH [OF u(2)] show ?case
    by (cases "name \<in> membership_ops") simp_all
qed

lemma checked_log_distinct:
  assumes "store_wf st" and "\<forall>f \<in> set (log_files st). file_checked cr st e t f"
  shows "distinct (map membership_ident (log_operations st))"
proof -
  let ?path = "\<lambda>(d :: string, n :: string, v :: pyval). (d, n)"
  have d: "distinct (map ?path (log_files st))" by (rule log_files_distinct [OF assms(1)])
  have inj: "x = y" if x: "x \<in> set (log_files st)" and y: "y \<in> set (log_files st)"
    and same: "membership_ident (dict_of (snd (snd x))) = membership_ident (dict_of (snd (snd y)))" for x y
  proof -
    obtain d1 n1 op1 where x': "x = (d1, n1, PDict op1)"
      using assms(2) x by (cases x) (auto simp: file_checked_def)
    obtain d2 n2 op2 where y': "y = (d2, n2, PDict op2)"
      using assms(2) y by (cases y) (auto simp: file_checked_def)
    obtain s1 s2 where s: "membership_ident op1 = Some (op_identifier d1 s1)" "n1 = file_name s1"
      "membership_ident op2 = Some (op_identifier d2 s2)" "n2 = file_name s2"
      using assms(2) x y file_checked_ident unfolding x' y' by meson
    then have "op_identifier d1 s1 = op_identifier d2 s2" using same by (simp add: x' y')
    from op_identifier_inject [OF this] s(2,4) have "?path x = ?path y" by (simp add: x' y')
    then show ?thesis using inj_onD [OF d [unfolded distinct_map, THEN conjunct2] _ x y] by blast
  qed
  have "log_operations st = map (\<lambda>x. dict_of (snd (snd x))) (log_files st)"
  proof -
    have "[op. (_, _, PDict op) \<leftarrow> fs] = map (\<lambda>x. dict_of (snd (snd x))) fs"
      if "\<forall>f \<in> set fs. file_checked cr st e t f" for fs
      using that by (induction fs) (auto simp: file_checked_def)
    then show ?thesis using assms(2) by (simp add: log_operations_def)
  qed
  moreover have "distinct (log_files st)" using d by (simp add: distinct_map)
  moreover have "inj_on (\<lambda>x. membership_ident (dict_of (snd (snd x)))) (set (log_files st))"
    by (rule inj_onI) (rule inj)
  ultimately show ?thesis by (simp add: distinct_map comp_def)
qed

text \<open>
  C8: The node records and the removed nodes published by a rebuild are exactly those of the
  authenticated membership: no operation reaches the published documents unauthenticated.
\<close>

theorem published_members_authenticated:
  assumes "store_wf st" and "load_log_operations cr st (Some c) = Inr ops" and "c \<noteq> []"
    and "res_fold replay_step ops replay_start = Inr s"
  shows "\<exists>t. load_log_trust cr st c = Inr t \<and> replay_members s = (nodes t, removed_node_ids t)"
proof (cases "oplog st = []")
  case True
  then have "load_log_trust cr st c = Inr empty_trust"
    by (simp add: load_log_trust_def membership_history_def log_files_def dict_sorted_def res_sorted_def)
  moreover have "ops = []" using assms(2) load_empty [OF True] by simp
  ultimately show ?thesis using assms(4) by (auto simp: replay_start_def empty_trust_def)
next
  case False
  from load_log_operations_checked [OF assms(2) False assms(3)] obtain t where
    t: "load_log_trust cr st c = Inr t"
    and ops: "ops = sort_key (\<lambda>x. projr (history_key x)) (log_operations st)"
    and f: "\<forall>f \<in> set (log_files st). file_checked cr st (Some c) t f" by blast
  from t obtain ms where ms: "membership_history cr st c = Inr ms"
    "res_fold (\<lambda>op. accept_membership_operation cr op True True) ms empty_trust = Inr t"
    by (auto simp: load_log_trust_def res_bind_eq_Inr)
  have eq: "filter is_membership ops = ms"
    unfolding ops filter_sort membership_history_sorted(1) [OF ms(1)] by (rule refl)
  have "mset ops = mset (log_operations st)" by (simp add: ops)
  then have "distinct (map membership_ident ops)"
    using checked_log_distinct [OF assms(1) f] by (metis mset_map mset_eq_imp_distinct_iff)
  then have "distinct (map membership_ident ms)" unfolding eq [symmetric] by (rule distinct_map_filter)
  from replay_applies [OF ms(2) this] replay_members_fold [OF assms(4)] t eq show ?thesis
    by (auto simp: replay_start_def empty_trust_def)
qed

theorem published_members_authenticated_witness:
  "\<exists>s. res_fold replay_step [demo_founder, demo_retention] replay_start = Inr s \<and>
     replay_members s = (nodes demo_logged, removed_node_ids demo_logged)"
proof -
  have "\<exists>s. res_fold replay_step [demo_founder, demo_retention] replay_start = Inr s"
  proof -
    have "res_fold apply_membership [demo_founder] (nodes empty_trust, removed_node_ids empty_trust)
        = Inr (nodes demo_logged, removed_node_ids demo_logged)"
      by (rule replay_applies [of demo_crypto True True])
        (use demo_logged_trust(1) in \<open>simp_all add: empty_trust_def\<close>)
    then have a: "apply_membership demo_founder ([], {}) = Inr (nodes demo_logged, removed_node_ids demo_logged)"
      by (auto simp: empty_trust_def res_bind_eq_Inr)
    have "item_str demo_founder ''op'' = Inr ''ADD_NODE''" "is_ok (get_int demo_founder ''created_at'' 0)"
      "is_ok (get_int demo_retention ''created_at'' 0)"
      by (simp_all add: demo_log_simps)
    with a show ?thesis
      by (auto simp: replay_step_def replay_dispatch_def demo_founder_fields demo_retention_fields is_ok_iff
        replay_start_def membership_ops_def v7_ops_def pb8_ops_def cluster_policy_ops_def)
  qed
  then obtain s where s: "res_fold replay_step [demo_founder, demo_retention] replay_start = Inr s" by blast
  have "store_wf demo_log_store" "demo_cluster \<noteq> []"
    using demo_names by (simp_all add: store_wf_def demo_log_store_def demo_cluster_def file_name_def demo_sequence)
  from published_members_authenticated [OF this(1) demo_load this(2) s]
  show ?thesis using s demo_load_trust by auto
qed

end
