(* ===== verification/Cmc_Authority.thy ===== *)
theory Cmc_Authority
  imports Py_Value
begin

text \<open>
  \<open>CmcLeaseAuthority\<close> (cmc_leases.py): the journal of leases and its operations \<open>grant\<close>,
  \<open>settle\<close>, \<open>record_provider_event\<close> and \<open>status\<close>. The journal is the state the
  authority itself wrote (version 2); a raised exception leaves it as it was, because the
  code writes it last. The clock and \<open>uuid4().hex\<close> are arguments. Candidates are the rows
  the provider builds, with integer limits; amounts are microcredits, and \<open>float\<close>
  arithmetic enters only where an integer number of credits is converted.
\<close>

section \<open>Amounts and identifiers\<close>

text \<open>The double nearest to a natural number, ties to even.\<close>

fun halvings :: "nat \<Rightarrow> nat" where
  "halvings n = (if n < 2 ^ 53 then 0 else Suc (halvings (n div 2)))"

declare halvings.simps [simp del]

definition round53 :: "nat \<Rightarrow> nat" where
  "round53 n = (let e = halvings n; q = n div 2 ^ e; r = n mod 2 ^ e in
     (if 2 ^ e < 2 * r \<or> 2 * r = 2 ^ e \<and> odd q then q + 1 else q) * 2 ^ e)"

definition microcredits :: nat where
  "microcredits = 1000000"

definition credits_to_micros :: "int \<Rightarrow> int res" where
  "credits_to_micros v =
     (if v \<le> 0 then Inl (CmcLeaseError ''credits must be a positive finite number'')
      else Inr (max 1 (int (round53 (round53 (nat v) * microcredits)))))"

definition cmc_bounded_text :: "nat \<Rightarrow> pyval \<Rightarrow> string \<Rightarrow> string res" where
  "cmc_bounded_text maximum v field = (case v of
     PStr s \<Rightarrow> if s = [] \<or> maximum < utf8_length s \<or> has_control s
       then Inl (CmcLeaseError (''invalid '' @ field)) else Inr s
   | _ \<Rightarrow> Inl (CmcLeaseError (''invalid '' @ field)))"

definition cmc_identifier :: "pyval \<Rightarrow> string \<Rightarrow> string res" where
  "cmc_identifier v field =
     res_bind (cmc_bounded_text 512 v field) (\<lambda>s.
     if s \<in> {''.'', ''..''} \<or> CHR ''/'' \<in> set s \<or> char_of (92 :: nat) \<in> set s \<or> char_of (0 :: nat) \<in> set s
     then Inl (CmcLeaseError (''invalid '' @ field)) else Inr s)"

definition cmc_int :: "int \<Rightarrow> string \<Rightarrow> pyval \<Rightarrow> string \<Rightarrow> int res" where
  "cmc_int least kind v field = (case v of
     PBool _ \<Rightarrow> Inl (CmcLeaseError (field @ '' must be a '' @ kind @ '' integer''))
   | _ \<Rightarrow> (case py_int v of
       Inl _ \<Rightarrow> Inl (CmcLeaseError (field @ '' must be a '' @ kind @ '' integer''))
     | Inr i \<Rightarrow> if i < least then Inl (CmcLeaseError (field @ '' must be a '' @ kind @ '' integer''))
         else Inr i))"

definition cmc_positive_int :: "pyval \<Rightarrow> string \<Rightarrow> int res" where
  "cmc_positive_int = cmc_int 1 ''positive''"

definition cmc_nonnegative_int :: "pyval \<Rightarrow> string \<Rightarrow> int res" where
  "cmc_nonnegative_int = cmc_int 0 ''nonnegative''"

section \<open>The journal\<close>

record authority_config =
  per_key_credit_limit_micros :: int
  per_key_request_limit :: int
  max_lease_credits_micros :: int
  max_lease_requests :: int
  lease_ttl :: int
  minute_request_limit :: int
  daily_credit_limit_micros :: int
  monthly_credit_limit_micros :: int
  concurrent_limit :: int
  authority_epochs :: "(string, int) dict"

record candidate =
  candidate_id :: string
  candidate_generation :: int
  candidate_domain :: "string option"
  candidate_epoch :: "int option"
  minute_limit :: "int option"
  daily_limit :: "int option"
  monthly_limit :: "int option"
  candidate_concurrent :: "int option"

record lease =
  lease_id :: string
  lease_request :: string
  credential_id :: string
  secret_generation :: int
  lease_domain :: string
  lease_epoch :: int
  recipient :: string
  credits_micros :: int
  request_count :: int
  granted_at :: int
  expires_at :: int

record settlement =
  settled_lease :: string
  outcome :: string
  actual_credits_micros :: int
  status_code :: "int option"
  settled_at :: int

record lease_state =
  request_ref :: string
  terminal :: bool
  lease_settlement :: "settlement option"

record key_usage =
  key_generation :: int
  reserved_credits :: int
  reserved_requests :: int
  used_credits :: int
  used_requests :: int

record quota_limits =
  minute_requests_limit :: int
  daily_credits_limit :: int
  monthly_credits_limit :: int
  concurrent_leases_limit :: int

text \<open>
  A day is the proleptic Gregorian date of the code's ISO text, a month its first two
  parts. The counters of a provider snapshot are the fields \<open>provider_*\<close>.
\<close>

record quota_domain =
  domain_id :: string
  domain_epoch :: int
  day :: "int \<times> int \<times> int"
  month :: "int \<times> int"
  day_reserved :: int
  day_used :: int
  month_reserved :: int
  month_used :: int
  minute_requests :: "(int \<times> int) list"
  concurrent_leases :: int
  domain_used_requests :: int
  uncertain_credits :: int
  domain_limits :: "quota_limits option"
  provider_counters :: "(string, int) dict"
  provider_snapshot :: "((string, int) dict \<times> int) option"

record journal =
  requests :: "(string, lease) dict"
  leases :: "(string, lease_state) dict"
  credential_keys :: "(string, key_usage) dict"
  provider_events :: "(string, pyval \<times> int) dict"
  quota_domains :: "(string, quota_domain) dict"

definition empty_journal :: journal where
  "empty_journal = \<lparr>requests = [], leases = [], credential_keys = [], provider_events = [],
     quota_domains = []\<rparr>"

section \<open>Quota domains\<close>

text \<open>The UTC date of a Unix time: days since 0000-03-01, eras of 400 years.\<close>

definition utc_date :: "int \<Rightarrow> int \<times> int \<times> int" where
  "utc_date now = (let z = now div 86400 + 719468; era = z div 146097; doe = z mod 146097;
     yoe = (doe - doe div 1460 + doe div 36524 - doe div 146096) div 365;
     doy = doe - (365 * yoe + yoe div 4 - yoe div 100); mp = (5 * doy + 2) div 153;
     m = (if mp < 10 then mp + 3 else mp - 9)
   in (yoe + era * 400 + (if m \<le> 2 then 1 else 0), m, doy - (153 * mp + 2) div 5 + 1))"

definition new_domain :: "string \<Rightarrow> int \<Rightarrow> int \<times> int \<times> int \<Rightarrow> quota_domain" where
  "new_domain d epoch date = \<lparr>domain_id = d, domain_epoch = epoch, day = date,
     month = (fst date, fst (snd date)), day_reserved = 0, day_used = 0, month_reserved = 0, month_used = 0,
     minute_requests = [], concurrent_leases = 0, domain_used_requests = 0, uncertain_credits = 0,
     domain_limits = None, provider_counters = [], provider_snapshot = None\<rparr>"

definition roll_day :: "int \<times> int \<times> int \<Rightarrow> quota_domain \<Rightarrow> quota_domain" where
  "roll_day date q = (if day q = date then q else q\<lparr>day := date, day_reserved := 0, day_used := 0\<rparr>)"

definition roll_month :: "int \<times> int \<Rightarrow> quota_domain \<Rightarrow> quota_domain" where
  "roll_month m q = (if month q = m then q else q\<lparr>month := m, month_reserved := 0, month_used := 0\<rparr>)"

definition drop_stale_counters :: "int \<Rightarrow> quota_domain \<Rightarrow> quota_domain" where
  "drop_stale_counters now q = (case map_of (provider_counters q) ''reset_at'' of
     None \<Rightarrow> q
   | Some t \<Rightarrow> if t \<le> now then q\<lparr>provider_counters := []\<rparr> else q)"

definition reconcile_domain :: "string \<Rightarrow> int \<Rightarrow> int \<Rightarrow> journal \<Rightarrow> journal res" where
  "reconcile_domain d epoch now j =
     (let date = utc_date now;
          q = (case map_of (quota_domains j) d of None \<Rightarrow> new_domain d epoch date | Some q \<Rightarrow> q)
      in if domain_epoch q \<noteq> epoch \<and> 0 < concurrent_leases q
         then Inl (CmcLeaseError ''cannot advance CMC authority epoch with active leases'')
         else
           let q' = drop_stale_counters now
                 ((roll_month (fst date, fst (snd date)) (roll_day date (q\<lparr>domain_epoch := epoch\<rparr>)))
                   \<lparr>minute_requests := filter (\<lambda>(at, _). now - 60 < at) (minute_requests q)\<rparr>)
           in Inr (j\<lparr>quota_domains := dict_set d q' (quota_domains j)\<rparr>))"

section \<open>Terminal leases\<close>

definition settle_key :: "lease \<Rightarrow> int \<Rightarrow> key_usage \<Rightarrow> key_usage" where
  "settle_key l actual k = k\<lparr>reserved_credits := max 0 (reserved_credits k - credits_micros l),
     reserved_requests := max 0 (reserved_requests k - request_count l),
     used_credits := used_credits k + actual, used_requests := used_requests k + request_count l\<rparr>"

definition settle_domain :: "lease \<Rightarrow> settlement \<Rightarrow> quota_domain \<Rightarrow> quota_domain" where
  "settle_domain l s q =
     (let q' = q\<lparr>day_reserved := max 0 (day_reserved q - credits_micros l),
            month_reserved := max 0 (month_reserved q - credits_micros l),
            day_used := day_used q + actual_credits_micros s,
            month_used := month_used q + actual_credits_micros s,
            domain_used_requests := domain_used_requests q + request_count l,
            concurrent_leases := max 0 (concurrent_leases q - 1)\<rparr>
      in if outcome s = ''expired_assumed_used''
         then q'\<lparr>uncertain_credits := uncertain_credits q' + actual_credits_micros s\<rparr> else q')"

definition apply_terminal :: "lease \<Rightarrow> settlement \<Rightarrow> journal \<Rightarrow> journal res" where
  "apply_terminal l s j =
     (case map_of (leases j) (lease_id l) of
        None \<Rightarrow> Inl (KeyError (lease_id l))
      | Some ls \<Rightarrow>
          if terminal ls then Inr j
          else (case (map_of (credential_keys j) (credential_id l), map_of (quota_domains j) (lease_domain l)) of
              (None, _) \<Rightarrow> Inl (KeyError (credential_id l))
            | (Some _, None) \<Rightarrow> Inl (KeyError (lease_domain l))
            | (Some k, Some q) \<Rightarrow> Inr (j\<lparr>
                credential_keys := dict_set (credential_id l) (settle_key l (actual_credits_micros s) k)
                  (credential_keys j),
                quota_domains := dict_set (lease_domain l) (settle_domain l s q) (quota_domains j),
                leases := dict_set (lease_id l) (ls\<lparr>terminal := True, lease_settlement := Some s\<rparr>)
                  (leases j)\<rparr>)))"

definition expire_lease :: "int \<Rightarrow> string \<times> lease_state \<Rightarrow> journal \<Rightarrow> journal res" where
  "expire_lease now = (\<lambda>(i, ls) j.
     if terminal ls then Inr j
     else (case map_of (requests j) (request_ref ls) of
         None \<Rightarrow> Inr j
       | Some l \<Rightarrow> if now < expires_at l then Inr j
           else apply_terminal l \<lparr>settled_lease = i, outcome = ''expired_assumed_used'',
             actual_credits_micros = credits_micros l, status_code = None, settled_at = now\<rparr> j))"

definition expire_leases :: "int \<Rightarrow> journal \<Rightarrow> journal res" where
  "expire_leases now j = res_fold (expire_lease now) (leases j) j"

section \<open>Granting\<close>

definition validate_lease_epoch :: "authority_config \<Rightarrow> lease \<Rightarrow> string option \<Rightarrow> int option \<Rightarrow> unit res" where
  "validate_lease_epoch cfg l d epoch = all_ok [
     raise_if (case d of None \<Rightarrow> False | Some x \<Rightarrow> x \<noteq> lease_domain l)
       (CmcLeaseError ''CMC settlement quota domain mismatch''),
     raise_if (case epoch of None \<Rightarrow> False | Some e \<Rightarrow> e \<noteq> lease_epoch l)
       (CmcLeaseError ''stale CMC settlement authority epoch''),
     raise_if (case map_of (authority_epochs cfg) (lease_domain l) of None \<Rightarrow> False | Some e \<Rightarrow> e \<noteq> lease_epoch l)
       (CmcLeaseError ''stale CMC settlement authority epoch'')]"

definition positive_or :: "int option \<Rightarrow> int \<Rightarrow> int" where
  "positive_or v dflt = (case v of None \<Rightarrow> dflt | Some i \<Rightarrow> if 0 < i then i else dflt)"

definition credits_or :: "int option \<Rightarrow> int \<Rightarrow> int" where
  "credits_or v dflt = (case v of None \<Rightarrow> dflt | Some i \<Rightarrow>
     (case credits_to_micros i of Inl _ \<Rightarrow> dflt | Inr m \<Rightarrow> m))"

definition candidate_limits :: "authority_config \<Rightarrow> candidate \<Rightarrow> quota_limits" where
  "candidate_limits cfg c = \<lparr>
     minute_requests_limit = positive_or (minute_limit c) (minute_request_limit cfg),
     daily_credits_limit = credits_or (daily_limit c) (daily_credit_limit_micros cfg),
     monthly_credits_limit = credits_or (monthly_limit c) (monthly_credit_limit_micros cfg),
     concurrent_leases_limit = positive_or (candidate_concurrent c) (concurrent_limit cfg)\<rparr>"

text \<open>\<open>a or b\<close> for optional texts and integers, whose falsy values are the empty text and zero.\<close>

definition or_text :: "string option \<Rightarrow> string \<Rightarrow> string" where
  "or_text a b = (case a of None \<Rightarrow> b | Some s \<Rightarrow> if s = [] then b else s)"

definition or_int :: "int option \<Rightarrow> int \<Rightarrow> int" where
  "or_int a b = (case a of None \<Rightarrow> b | Some i \<Rightarrow> if i = 0 then b else i)"

text \<open>The identifiers of one candidate; a failing check makes the loop \<open>continue\<close>.\<close>

definition resolve_candidate :: "authority_config \<Rightarrow> string option \<Rightarrow> int option \<Rightarrow> candidate
    \<Rightarrow> (string \<times> int \<times> string \<times> int) res" where
  "resolve_candidate cfg d epoch c =
     res_bind (cmc_identifier (PStr (candidate_id c)) ''credential_id'') (\<lambda>cred.
     res_bind (cmc_positive_int (PInt (candidate_generation c)) ''generation'') (\<lambda>gen.
     res_bind (cmc_identifier (PStr (or_text d (or_text (candidate_domain c) cred))) ''quota_domain_id'') (\<lambda>qd.
     res_bind (cmc_positive_int (PInt (case epoch of Some e \<Rightarrow> e
         | None \<Rightarrow> or_int (candidate_epoch c) (or_int (map_of (authority_epochs cfg) qd) 1)))
       ''authority_epoch'') (\<lambda>ep.
     Inr (cred, gen, qd, ep)))))"

definition fresh_key :: "int \<Rightarrow> key_usage" where
  "fresh_key gen = \<lparr>key_generation = gen, reserved_credits = 0, reserved_requests = 0,
     used_credits = 0, used_requests = 0\<rparr>"

definition within_limits :: "authority_config \<Rightarrow> int \<Rightarrow> int \<Rightarrow> quota_limits \<Rightarrow> key_usage \<Rightarrow> quota_domain \<Rightarrow> bool" where
  "within_limits cfg cost n lim k q \<longleftrightarrow>
     reserved_credits k + used_credits k + cost \<le> per_key_credit_limit_micros cfg \<and>
     reserved_requests k + used_requests k + n \<le> per_key_request_limit cfg \<and>
     sum_list (map snd (minute_requests q)) + n \<le> minute_requests_limit lim \<and>
     day_reserved q + day_used q + cost \<le> daily_credits_limit lim \<and>
     month_reserved q + month_used q + cost \<le> monthly_credits_limit lim \<and>
     concurrent_leases q + 1 \<le> concurrent_leases_limit lim \<and>
     (case map_of (provider_counters q) ''remaining_micros'' of None \<Rightarrow> True | Some r \<Rightarrow> cost \<le> r)"

type_synonym eligible = "candidate \<times> string \<times> string \<times> quota_limits"

text \<open>One round of the loop over the candidates.\<close>

definition consider_candidate :: "authority_config \<Rightarrow> string option \<Rightarrow> int option \<Rightarrow> int \<Rightarrow> int \<Rightarrow> int
    \<Rightarrow> candidate \<Rightarrow> journal \<times> eligible list \<Rightarrow> (journal \<times> eligible list) res" where
  "consider_candidate cfg d epoch cost n now c = (\<lambda>(j, eligible).
     (case resolve_candidate cfg d epoch c of
        Inl _ \<Rightarrow> Inr (j, eligible)
      | Inr (cred, gen, qd, ep) \<Rightarrow>
          res_bind (raise_if (case map_of (authority_epochs cfg) qd of None \<Rightarrow> False | Some e \<Rightarrow> ep \<noteq> e)
            (CmcLeaseError ''stale CMC authority epoch'')) (\<lambda>_.
          res_bind (reconcile_domain qd ep now j) (\<lambda>j1.
          let k = (case map_of (credential_keys j1) cred of None \<Rightarrow> fresh_key gen | Some k \<Rightarrow> k) in
          if key_generation k \<noteq> gen \<and> 0 < reserved_requests k
          then Inr (j1\<lparr>credential_keys := dict_set cred k (credential_keys j1)\<rparr>, eligible)
          else
            let k' = (if key_generation k \<noteq> gen then fresh_key gen else k);
                j2 = j1\<lparr>credential_keys := dict_set cred k' (credential_keys j1)\<rparr>;
                lim = candidate_limits cfg c;
                q = the (map_of (quota_domains j1) qd)
            in Inr (j2, if within_limits cfg cost n lim k' q
                        then eligible @ [(c, cred, qd, lim)] else eligible)))))"

definition eligible_rank :: "journal \<Rightarrow> eligible \<Rightarrow> int \<times> int \<times> string" where
  "eligible_rank j = (\<lambda>(c, cred, qd, _).
     (let q = the (map_of (quota_domains j) qd); k = the (map_of (credential_keys j) cred) in
      (day_reserved q + day_used q, reserved_credits k + used_credits k, candidate_id c)))"

text \<open>\<open>min(..., key=...)\<close>: the first element with the least key.\<close>

definition best_eligible :: "journal \<Rightarrow> eligible list \<Rightarrow> eligible" where
  "best_eligible j es = hd (sort_key (eligible_rank j) es)"

definition reserve_key :: "int \<Rightarrow> int \<Rightarrow> key_usage \<Rightarrow> key_usage" where
  "reserve_key cost n k = k\<lparr>reserved_credits := reserved_credits k + cost,
     reserved_requests := reserved_requests k + n\<rparr>"

definition reserve_domain :: "int \<Rightarrow> int \<Rightarrow> int \<Rightarrow> quota_limits \<Rightarrow> quota_domain \<Rightarrow> quota_domain" where
  "reserve_domain cost n now lim q = q\<lparr>day_reserved := day_reserved q + cost,
     month_reserved := month_reserved q + cost, concurrent_leases := concurrent_leases q + 1,
     minute_requests := minute_requests q @ [(now, n)], domain_limits := Some lim\<rparr>"

definition bind_lease :: "authority_config \<Rightarrow> string \<Rightarrow> string \<Rightarrow> string \<Rightarrow> int \<Rightarrow> int \<Rightarrow> int \<Rightarrow> eligible
    \<Rightarrow> journal \<Rightarrow> lease \<times> journal" where
  "bind_lease cfg fresh request to cost n now = (\<lambda>(c, cred, qd, lim) j.
     let q = the (map_of (quota_domains j) qd); k = the (map_of (credential_keys j) cred);
         l = \<lparr>lease_id = fresh, lease_request = request, credential_id = cred,
           secret_generation = candidate_generation c, lease_domain = qd, lease_epoch = domain_epoch q,
           recipient = to, credits_micros = cost, request_count = n, granted_at = now,
           expires_at = now + lease_ttl cfg\<rparr>
     in (l, j\<lparr>credential_keys := dict_set cred (reserve_key cost n k) (credential_keys j),
         quota_domains := dict_set qd (reserve_domain cost n now lim q) (quota_domains j),
         requests := dict_set request l (requests j),
         leases := dict_set fresh \<lparr>request_ref = request, terminal = False, lease_settlement = None\<rparr>
           (leases j)\<rparr>))"

text \<open>\<open>grant\<close>; \<open>cost\<close> and \<open>n\<close> are the requested microcredits and requests.\<close>

definition grant :: "authority_config \<Rightarrow> string \<Rightarrow> string \<Rightarrow> candidate list \<Rightarrow> string \<Rightarrow> int \<Rightarrow> int
    \<Rightarrow> string option \<Rightarrow> int option \<Rightarrow> int \<Rightarrow> journal \<Rightarrow> (lease option \<times> journal) res" where
  "grant cfg fresh request candidates to cost n d epoch now j =
     res_bind (cmc_identifier (PStr request) ''request_id'') (\<lambda>request.
     res_bind (cmc_identifier (PStr to) ''recipient'') (\<lambda>to.
     res_bind (cmc_nonnegative_int (PInt cost) ''credits_micros'') (\<lambda>cost.
     res_bind (cmc_positive_int (PInt n) ''request_count'') (\<lambda>n.
     res_bind (expire_leases now j) (\<lambda>j1.
     case map_of (requests j1) request of
       Some l \<Rightarrow> res_bind (validate_lease_epoch cfg l d epoch) (\<lambda>_. Inr (Some l, j1))
     | None \<Rightarrow>
         if max_lease_credits_micros cfg < cost \<or> max_lease_requests cfg < n then Inr (None, j1)
         else
           res_bind (res_fold (consider_candidate cfg d epoch cost n now) candidates (j1, [])) (\<lambda>(j2, eligible).
           if eligible = [] then Inr (None, j2)
           else let (l, j3) = bind_lease cfg fresh request to cost n now (best_eligible j2 eligible) j2
                in Inr (Some l, j3)))))))"

section \<open>Settling\<close>

definition apply_provider_snapshot :: "(string, int) dict \<Rightarrow> int \<Rightarrow> quota_domain \<Rightarrow> quota_domain" where
  "apply_provider_snapshot snapshot now q =
     (if snapshot = [] then q
      else q\<lparr>provider_snapshot := Some (snapshot, now),
        provider_counters := fold (\<lambda>f cs. case map_of snapshot f of None \<Rightarrow> cs | Some v \<Rightarrow> dict_set f v cs)
          [''remaining_micros'', ''limit_micros'', ''used_micros'', ''reset_at''] (provider_counters q)\<rparr>)"

text \<open>
  \<open>settle\<close>: \<open>actual\<close> is the reported amount, if any, and \<open>snapshot\<close> the counters taken
  from \<open>provider_status\<close>, empty when there are none.
\<close>

definition settle :: "authority_config \<Rightarrow> string \<Rightarrow> string \<Rightarrow> int option \<Rightarrow> int option \<Rightarrow> string option
    \<Rightarrow> int option \<Rightarrow> (string, int) dict \<Rightarrow> int \<Rightarrow> journal \<Rightarrow> (settlement \<times> journal) res" where
  "settle cfg i result actual code d epoch snapshot now j =
     res_bind (cmc_identifier (PStr i) ''lease_id'') (\<lambda>i.
     res_bind (expire_leases now j) (\<lambda>j1.
     case map_of (leases j1) i of
       None \<Rightarrow> Inl (CmcLeaseError ''unknown CMC lease'')
     | Some ls \<Rightarrow> (case map_of (requests j1) (request_ref ls) of
         None \<Rightarrow> Inl (CmcLeaseError ''CMC lease request binding is missing'')
       | Some l \<Rightarrow>
           res_bind (validate_lease_epoch cfg l d epoch) (\<lambda>_.
           res_bind (reconcile_domain (lease_domain l) (lease_epoch l) now j1) (\<lambda>j2.
           case lease_settlement ls of
             Some s \<Rightarrow> Inr (s, j2)
           | None \<Rightarrow>
               res_bind (case actual of None \<Rightarrow> Inr (credits_micros l)
                 | Some a \<Rightarrow> cmc_nonnegative_int (PInt a) ''actual_credits_micros'') (\<lambda>amount.
               res_bind (cmc_bounded_text 512 (PStr result) ''outcome'') (\<lambda>result.
               let s = \<lparr>settled_lease = i, outcome = result, actual_credits_micros = amount,
                     status_code = code, settled_at = now\<rparr>
               in res_bind (apply_terminal l s j2) (\<lambda>j3.
                  case map_of (quota_domains j3) (lease_domain l) of
                    None \<Rightarrow> Inl (KeyError (lease_domain l))
                  | Some q \<Rightarrow> Inr (s, j3\<lparr>quota_domains := dict_set (lease_domain l)
                      (apply_provider_snapshot snapshot now q) (quota_domains j3)\<rparr>))))))))) "

definition authority_status :: "int \<Rightarrow> journal \<Rightarrow> journal res" where
  "authority_status now j =
     res_bind (expire_leases now j) (\<lambda>j1.
     res_fold (\<lambda>(d, q) u. reconcile_domain d (if domain_epoch q = 0 then 1 else domain_epoch q) now u)
       (quota_domains j1) j1)"

section \<open>Provider events\<close>

definition forbidden_payload_keys :: "string set" where
  "forbidden_payload_keys = {''api_key'', ''authorization'', ''credentials'', ''key'', ''password'',
     ''private_key'', ''secret'', ''token''}"

definition endswith :: "string \<Rightarrow> string \<Rightarrow> bool" where
  "endswith s suffix \<longleftrightarrow> length suffix \<le> length s \<and> drop (length s - length suffix) s = suffix"

definition secret_field :: "string \<Rightarrow> bool" where
  "secret_field name \<longleftrightarrow> (let lowered = str_lower name in
     lowered \<in> forbidden_payload_keys \<or> (\<exists>suffix \<in> {''_api_key'', ''_password'', ''_private_key'', ''_secret'',
       ''_token''}. endswith lowered suffix))"

fun validated_public_payload :: "string \<Rightarrow> pyval \<Rightarrow> pyval res" where
  "validated_public_payload field (PDict d) =
     res_bind (res_map (\<lambda>(name, item).
       if secret_field name
       then Inl (CmcLeaseError (''mailbox '' @ field @ '' contains forbidden field '' @ name))
       else res_bind (validated_public_payload (field @ ''.'' @ name) item) (\<lambda>v. Inr (name, v))) d)
     (\<lambda>d'. Inr (PDict d'))"
| "validated_public_payload field (PList xs) =
     res_bind (res_map (validated_public_payload field) xs) (\<lambda>xs'. Inr (PList xs'))"
| "validated_public_payload field v = Inr v"

definition record_provider_event :: "string \<Rightarrow> pyval \<Rightarrow> int \<Rightarrow> journal \<Rightarrow> ((pyval \<times> int) \<times> journal) res" where
  "record_provider_event event payload now j =
     res_bind (cmc_identifier (PStr event) ''event_id'') (\<lambda>event.
     res_bind (validated_public_payload ''payload'' payload) (\<lambda>clean.
     case map_of (provider_events j) event of
       Some e \<Rightarrow> Inr (e, j)
     | None \<Rightarrow> Inr ((clean, now), j\<lparr>provider_events := dict_set event (clean, now) (provider_events j)\<rparr>)))"

text \<open>\<open>update_authority_epochs\<close> replaces the epochs the authority checks leases against.\<close>

definition update_authority_epochs :: "(string, int) dict \<Rightarrow> authority_config \<Rightarrow> authority_config res" where
  "update_authority_epochs epochs cfg =
     res_bind (res_map (\<lambda>(d, e).
       res_bind (cmc_identifier (PStr d) ''quota_domain_id'') (\<lambda>d.
       res_bind (cmc_positive_int (PInt e) ''authority_epoch'') (\<lambda>e. Inr (d, e)))) epochs)
     (\<lambda>es. Inr (cfg\<lparr>authority_epochs := es\<rparr>))"

end
