(* ===== verification/Cluster_Mailbox.thy ===== *)
theory Cluster_Mailbox
  imports Cluster_Crypto Cmc_Authority
begin

text \<open>
  \<open>ClusterMailbox\<close> (cmc_leases.py): signed messages kept one per file under \<open>messages/\<close> and
  the acknowledgements of their recipients. A file holds the JSON value of its text, or
  cannot be read; the directory is a dictionary from file stems. The clock readings of an
  operation are its time arguments, in the order the code takes them, and the membership
  is the \<open>nodes\<close> argument. An operation that raises may already have collected garbage,
  so every operation returns its result or exception together with the new mailbox.
\<close>

record mailbox =
  mail_files :: "(string, json_file) dict"
  ack_file :: "json_file option"

type_synonym 'a outcome = "'a res \<times> mailbox"

section \<open>Messages\<close>

definition message_types :: "string set" where
  "message_types = {''CMC_LEASE_REQUEST'', ''CMC_LEASE_GRANT'', ''CMC_LEASE_SETTLEMENT'',
     ''CMC_PROVIDER_EVENT'', ''CMC_LEASE_ACK''}"

definition max_message_bytes :: nat where
  "max_message_bytes = 64 * 1024"

definition max_messages :: nat where
  "max_messages = 2000"

definition validate_message_type :: "string \<Rightarrow> string res" where
  "validate_message_type t = (if t \<in> message_types then Inr t
     else Inl (CmcLeaseError ''unsupported CMC mailbox message type''))"

definition active_member :: "pyval \<Rightarrow> bool" where
  "active_member v \<longleftrightarrow> is_dict v \<and> \<not> is_False (py_get_or (dict_of v) ''enabled'' (PBool True)) \<and>
     \<not> is_False (py_get_or (dict_of v) ''state_replica'' (PBool True))"

text \<open>\<open>json.dumps(v, sort_keys=True, separators=(",", ":"))\<close>, whose text is ASCII.\<close>

definition ascii_char :: "char \<Rightarrow> string" where
  "ascii_char c = (let n = char_ord c in
     if 127 \<le> n then [char_of (92 :: nat)] @ ''u00'' @ [hex_char (n div 16), hex_char (n mod 16)]
     else json_char c)"

definition ascii_string :: "string \<Rightarrow> string" where
  "ascii_string s = [char_of (34 :: nat)] @ concat (map ascii_char s) @ [char_of (34 :: nat)]"

fun json_dumps :: "pyval \<Rightarrow> string" where
  "json_dumps PNone = ''null''"
| "json_dumps (PBool b) = (if b then ''true'' else ''false'')"
| "json_dumps (PInt i) = int_str i"
| "json_dumps (PStr s) = ascii_string s"
| "json_dumps (PList xs) = ''['' @ join_with '','' (map json_dumps xs) @ '']''"
| "json_dumps (PDict d) = ''{'' @ join_with '',''
     (map snd (sort_key fst (map (\<lambda>(k, v). (k, ascii_string k @ '':'' @ json_dumps v)) d))) @ ''}''"

definition required_fields :: "string list" where
  "required_fields = [''sender'', ''recipient'', ''message_id'', ''message_type'', ''created_at'',
     ''expires_at'', ''payload'', ''signature'', ''signer_id'', ''signing_key_id'',
     ''signature_version'', ''signature_algorithm'']"

definition as_cmc_error :: "'a res \<Rightarrow> 'a res" where
  "as_cmc_error m = (case m of Inl (ClusterCredentialError t) \<Rightarrow> Inl (CmcLeaseError t) | _ \<Rightarrow> m)"

definition node_signing_key :: "pyval \<Rightarrow> string" where
  "node_signing_key v = get_str (dict_of v) ''signing_public_key''"

text \<open>\<open>validate_message\<close>; no time is \<open>allow_expired=True\<close>.\<close>

definition validate_message :: "crypto \<Rightarrow> pydict \<Rightarrow> int option \<Rightarrow> pyval \<Rightarrow> pydict res" where
  "validate_message cr nodes now v = (case v of
     PDict m \<Rightarrow>
       res_bind (raise_if (\<not> list_all (dict_has m) required_fields)
         (CmcLeaseError ''mailbox message is missing required fields'')) (\<lambda>_.
       res_bind (cmc_identifier (py_get m ''sender'') ''sender'') (\<lambda>from.
       res_bind (cmc_identifier (py_get m ''recipient'') ''recipient'') (\<lambda>to.
       res_bind (cmc_identifier (py_get m ''message_id'') ''message_id'') (\<lambda>_.
       res_bind (validate_message_type (get_str m ''message_type'')) (\<lambda>_.
       res_bind (cmc_nonnegative_int (py_get m ''created_at'') ''created_at'') (\<lambda>created.
       res_bind (cmc_positive_int (py_get m ''expires_at'') ''expires_at'') (\<lambda>expires.
       res_bind (all_ok [
         raise_if (expires \<le> created) (CmcLeaseError ''mailbox expires_at must be after created_at''),
         raise_if (case now of None \<Rightarrow> False | Some t \<Rightarrow> expires \<le> t) (CmcLeaseError ''mailbox message has expired''),
         void (validated_public_payload ''payload'' (py_get m ''payload'')),
         raise_if (get_str m ''signer_id'' \<noteq> from) (CmcLeaseError ''mailbox signer_id must match sender''),
         raise_if (\<not> active_member (py_get nodes from))
           (CmcLeaseError ''mailbox sender is not an active cluster member''),
         raise_if (\<not> active_member (py_get nodes to))
           (CmcLeaseError ''mailbox recipient is not an active cluster member''),
         raise_if (node_signing_key (py_get nodes from) = [])
           (CmcLeaseError ''mailbox sender has no membership signing key''),
         as_cmc_error (verify_operation cr m (node_signing_key (py_get nodes from))),
         raise_if (max_message_bytes < length (json_dumps v)) (CmcLeaseError ''mailbox message is too large'')])
       (\<lambda>_. Inr m))))))))
   | _ \<Rightarrow> Inl (CmcLeaseError ''mailbox message must be an object''))"

definition default_message_ttl :: int where
  "default_message_ttl = 3600"

text \<open>
  \<open>create_message\<close> on the node \<open>here\<close> with the signing key \<open>private\<close>; \<open>t1\<close> is the creation
  time and \<open>t2\<close> the time of the final check, \<open>fresh\<close> a new \<open>uuid4().hex\<close>.
\<close>

definition create_message :: "crypto \<Rightarrow> pydict \<Rightarrow> string \<Rightarrow> string \<Rightarrow> string \<Rightarrow> int \<Rightarrow> int \<Rightarrow> string \<Rightarrow> string
    \<Rightarrow> pyval \<Rightarrow> string option \<Rightarrow> int option \<Rightarrow> int option \<Rightarrow> int \<Rightarrow> pydict res" where
  "create_message cr nodes here private fresh t1 t2 kind to payload i created expires ttl =
     res_bind (validate_message_type kind) (\<lambda>kind.
     res_bind (cmc_identifier (PStr to) ''recipient'') (\<lambda>to.
     res_bind (case created of None \<Rightarrow> Inr t1 | Some c \<Rightarrow> cmc_nonnegative_int (PInt c) ''created_at'') (\<lambda>now.
     res_bind (case expires of
         None \<Rightarrow> res_bind (cmc_positive_int (PInt ttl) ''ttl'') (\<lambda>n. Inr (now + n))
       | Some x \<Rightarrow> cmc_positive_int (PInt x) ''expires_at'') (\<lambda>expiry.
     res_bind (raise_if (expiry \<le> now) (CmcLeaseError ''mailbox expires_at must be after created_at'')) (\<lambda>_.
     res_bind (cmc_identifier (PStr (or_text i fresh)) ''message_id'') (\<lambda>i.
     res_bind (validated_public_payload ''payload'' payload) (\<lambda>clean.
     res_bind (sign_operation cr [(''sender'', PStr here), (''recipient'', PStr to), (''message_id'', PStr i),
         (''message_type'', PStr kind), (''created_at'', PInt now), (''expires_at'', PInt expiry),
         (''payload'', clean)] private here) (\<lambda>signed.
     res_bind (validate_message cr nodes (Some t2) (PDict signed)) (\<lambda>_. Inr signed)))))))))"

section \<open>Files\<close>

definition read_message :: "crypto \<Rightarrow> pydict \<Rightarrow> int option \<Rightarrow> string \<times> json_file \<Rightarrow> pydict res" where
  "read_message cr nodes now = (\<lambda>(stem, f). case f of
     Unreadable \<Rightarrow> Inl (CmcLeaseError ''unable to read mailbox message'')
   | Undecodable \<Rightarrow> Inl UnicodeDecodeError
   | Json v \<Rightarrow>
       res_bind (validate_message cr nodes now v) (\<lambda>m.
       res_bind (item_str m ''message_id'') (\<lambda>i.
       res_bind (cmc_identifier (PStr i) ''message_id'') (\<lambda>i.
       if stem \<noteq> i then Inl (CmcLeaseError ''mailbox message path does not match message_id'')
       else Inr m))))"

definition read_acks :: "mailbox \<Rightarrow> (string, string list) dict res" where
  "read_acks box = (case ack_file box of
     None \<Rightarrow> Inr []
   | Some Unreadable \<Rightarrow> Inl (CmcLeaseError ''unable to read mailbox acknowledgements'')
   | Some Undecodable \<Rightarrow> Inl UnicodeDecodeError
   | Some (Json v) \<Rightarrow>
       if is_dict v
       then Inr (map (\<lambda>(k, w). (k, map py_str (list_of w))) (filter (\<lambda>(_, w). is_list w) (dict_of v)))
       else Inl (CmcLeaseError ''mailbox acknowledgements must be an object''))"

definition write_acks :: "(string, string list) dict \<Rightarrow> mailbox \<Rightarrow> mailbox" where
  "write_acks as box = box\<lparr>ack_file := Some (Json (PDict (map (\<lambda>(k, ns). (k, PList (map PStr ns))) as)))\<rparr>"

section \<open>Collecting garbage\<close>

record collection =
  kept_files :: "(string, json_file) dict"
  kept_acks :: "(string, string list) dict"
  retained :: "string list"
  expired_count :: nat
  acknowledged_count :: nat
  invalid_count :: nat

definition ack_nodes :: "(string, string list) dict \<Rightarrow> string \<Rightarrow> string list" where
  "ack_nodes as i = (case map_of as i of None \<Rightarrow> [] | Some ns \<Rightarrow> ns)"

text \<open>One file of the directory.\<close>

definition collect_file :: "crypto \<Rightarrow> pydict \<Rightarrow> int \<Rightarrow> string \<times> json_file \<Rightarrow> collection \<Rightarrow> collection res" where
  "collect_file cr nodes now entry c =
     (case read_message cr nodes None entry of
        Inl e \<Rightarrow> (case e of
            CmcLeaseError _ \<Rightarrow> Inr (c\<lparr>kept_files := dict_pop (fst entry) (kept_files c),
              invalid_count := invalid_count c + 1\<rparr>)
          | _ \<Rightarrow> Inl e)
      | Inr m \<Rightarrow>
          res_bind (item_str m ''message_id'') (\<lambda>i.
          res_bind (item_int m ''expires_at'') (\<lambda>expires.
          res_bind (item_str m ''recipient'') (\<lambda>to.
          let drop_message = c\<lparr>kept_files := dict_pop (fst entry) (kept_files c), kept_acks := dict_pop i (kept_acks c)\<rparr>
          in if expires \<le> now then Inr (drop_message\<lparr>expired_count := expired_count c + 1\<rparr>)
             else if to \<in> set (ack_nodes (kept_acks c) i)
             then Inr (drop_message\<lparr>acknowledged_count := acknowledged_count c + 1\<rparr>)
             else Inr (c\<lparr>retained := i # retained c\<rparr>)))))"

text \<open>The loop over the files; what it removed before an exception stays removed.\<close>

fun collect_loop :: "crypto \<Rightarrow> pydict \<Rightarrow> int \<Rightarrow> (string \<times> json_file) list \<Rightarrow> collection \<Rightarrow> unit res \<times> collection" where
  "collect_loop cr nodes now [] c = (Inr (), c)"
| "collect_loop cr nodes now (f # fs) c = (case collect_file cr nodes now f c of
     Inl e \<Rightarrow> (Inl e, c) | Inr c' \<Rightarrow> collect_loop cr nodes now fs c')"

definition collect_mail :: "crypto \<Rightarrow> pydict \<Rightarrow> int \<Rightarrow> mailbox \<Rightarrow> (nat \<times> nat \<times> nat) outcome" where
  "collect_mail cr nodes now box = (case read_acks box of
     Inl e \<Rightarrow> (Inl e, box)
   | Inr as \<Rightarrow> (case collect_loop cr nodes now (mail_files box)
         \<lparr>kept_files = mail_files box, kept_acks = as, retained = [], expired_count = 0, acknowledged_count = 0, invalid_count = 0\<rparr> of
       (Inl e, c) \<Rightarrow> (Inl e, box\<lparr>mail_files := kept_files c\<rparr>)
     | (Inr _, c) \<Rightarrow> (Inr (expired_count c, acknowledged_count c, invalid_count c),
         write_acks (filter (\<lambda>(i, _). i \<in> set (retained c)) (kept_acks c)) (box\<lparr>mail_files := kept_files c\<rparr>))))"

definition garbage_collect :: "crypto \<Rightarrow> pydict \<Rightarrow> int \<Rightarrow> mailbox \<Rightarrow> (nat \<times> nat \<times> nat) outcome" where
  "garbage_collect cr nodes now box = collect_mail cr nodes now box"

section \<open>Operations\<close>

definition put_message :: "crypto \<Rightarrow> pydict \<Rightarrow> int \<Rightarrow> int \<Rightarrow> pyval \<Rightarrow> mailbox \<Rightarrow> bool outcome" where
  "put_message cr nodes t1 t2 v box =
     (case res_bind (validate_message cr nodes (Some t1) v) (\<lambda>m.
        res_bind (item_str m ''message_id'') (\<lambda>i. Inr (m, i))) of
        Inl e \<Rightarrow> (Inl e, box)
      | Inr (m, i) \<Rightarrow> (case collect_mail cr nodes t2 box of
          (Inl e, box') \<Rightarrow> (Inl e, box')
        | (Inr _, box') \<Rightarrow> (case map_of (mail_files box') i of
            Some f \<Rightarrow> (case read_message cr nodes None (i, f) of
                Inl e \<Rightarrow> (Inl e, box')
              | Inr old \<Rightarrow>
                  if \<not> py_eq (PDict old) (PDict m)
                  then (Inl (CmcLeaseError ''mailbox message_id already has different content''), box')
                  else (Inr False, box'))
          | None \<Rightarrow>
              if max_messages \<le> length (mail_files box')
              then (Inl (CmcLeaseError ''mailbox message limit reached''), box')
              else (Inr True, box'\<lparr>mail_files := dict_set i (Json (PDict m)) (mail_files box')\<rparr>))))"

definition index_fields :: "string list" where
  "index_fields = [''message_id'', ''message_type'', ''sender'', ''recipient'', ''created_at'', ''expires_at'']"

definition index_entry :: "pydict \<Rightarrow> pydict res" where
  "index_entry m = res_map (\<lambda>k. res_bind (py_item m k) (\<lambda>v. Inr (k, v))) index_fields"

definition index_messages :: "crypto \<Rightarrow> pydict \<Rightarrow> int \<Rightarrow> int \<Rightarrow> mailbox \<Rightarrow> pydict list outcome" where
  "index_messages cr nodes t1 t2 box =
     (if mail_files box = [] then (case collect_mail cr [] t1 box of
          (Inl e, box') \<Rightarrow> (Inl e, box') | (Inr _, box') \<Rightarrow> (Inr [], box'))
      else (case collect_mail cr nodes t1 box of
          (Inl e, box') \<Rightarrow> (Inl e, box')
        | (Inr _, box') \<Rightarrow> (res_map (\<lambda>f. res_bind (read_message cr nodes (Some t2) f) index_entry)
            (sort_key (\<lambda>(i, _). i @ ''.json'') (mail_files box')), box')))"

definition get_message :: "crypto \<Rightarrow> pydict \<Rightarrow> int \<Rightarrow> int \<Rightarrow> string \<Rightarrow> mailbox \<Rightarrow> pydict outcome" where
  "get_message cr nodes t1 t2 i box =
     (case cmc_identifier (PStr i) ''message_id'' of
        Inl e \<Rightarrow> (Inl e, box)
      | Inr i \<Rightarrow> (case collect_mail cr nodes t1 box of
          (Inl e, box') \<Rightarrow> (Inl e, box')
        | (Inr _, box') \<Rightarrow> (case map_of (mail_files box') i of
            None \<Rightarrow> (Inl (CmcLeaseError ''mailbox message not found''), box')
          | Some f \<Rightarrow> (read_message cr nodes (Some t2) (i, f), box'))))"

definition add_ack :: "string \<Rightarrow> string \<Rightarrow> mailbox \<Rightarrow> bool outcome" where
  "add_ack i node box = (case read_acks box of
     Inl e \<Rightarrow> (Inl e, box)
   | Inr as \<Rightarrow> if node \<in> set (ack_nodes as i) then (Inr False, box)
       else (Inr True, write_acks (dict_set i (sort (ack_nodes as i @ [node])) as) box))"

definition ack_message :: "crypto \<Rightarrow> pydict \<Rightarrow> int \<Rightarrow> int \<Rightarrow> string \<Rightarrow> string \<Rightarrow> mailbox \<Rightarrow> bool outcome" where
  "ack_message cr nodes t1 t2 i node box =
     (case res_bind (cmc_identifier (PStr i) ''message_id'') (\<lambda>i.
        res_bind (cmc_identifier (PStr node) ''node_id'') (\<lambda>node.
        res_bind (raise_if (\<not> active_member (py_get nodes node))
          (CmcLeaseError ''mailbox acknowledgement node is not active'')) (\<lambda>_. Inr (i, node)))) of
        Inl e \<Rightarrow> (Inl e, box)
      | Inr (i, node) \<Rightarrow> (case collect_mail cr nodes t1 box of
          (Inl e, box1) \<Rightarrow> (Inl e, box1)
        | (Inr _, box1) \<Rightarrow>
            if \<not> dict_has (mail_files box1) i then (Inr False, box1)
            else (case add_ack i node box1 of
                (Inl e, box2) \<Rightarrow> (Inl e, box2)
              | (Inr changed, box2) \<Rightarrow> (case collect_mail cr nodes t2 box2 of
                  (Inl e, box3) \<Rightarrow> (Inl e, box3)
                | (Inr _, box3) \<Rightarrow> (Inr changed, box3)))))"

end
