(* ===== verification/Checkpoint_Seal.thy ===== *)
theory Checkpoint_Seal
  imports Cluster_Mailbox Cluster_Materialize
begin

text \<open>
  What a checkpoint of the cluster log says about its state (cluster_checkpoint.py): the
  strict readers of its fields, the tagged hash of a JSON value, the effective retention
  policy, and the migration seal, the evidence that every active node has followed the
  credential migration so far that old operations may be deleted.
\<close>

section \<open>Readers\<close>

definition checkpoint_error :: "string \<Rightarrow> 'a res" where
  "checkpoint_error msg = Inl (ClusterCheckpointError msg)"

definition reject_checkpoint :: "bool \<Rightarrow> string \<Rightarrow> unit res" where
  "reject_checkpoint c msg = raise_if c (ClusterCheckpointError msg)"

definition strict_int :: "int \<Rightarrow> string \<Rightarrow> pyval \<Rightarrow> string \<Rightarrow> int res" where
  "strict_int least kind v field = (case v of
     PInt i \<Rightarrow> if least \<le> i then Inr i else checkpoint_error (field @ '' must be a '' @ kind @ '' integer'')
   | _ \<Rightarrow> checkpoint_error (field @ '' must be a '' @ kind @ '' integer''))"

definition strict_positive_int :: "pyval \<Rightarrow> string \<Rightarrow> int res" where
  "strict_positive_int = strict_int 1 ''positive''"

definition strict_nonnegative_int :: "pyval \<Rightarrow> string \<Rightarrow> int res" where
  "strict_nonnegative_int = strict_int 0 ''nonnegative''"

definition is_sha256 :: "string \<Rightarrow> bool" where
  "is_sha256 s \<longleftrightarrow> startswith s ''sha256:'' \<and> length s = 7 + 64 \<and> set (drop 7 s) \<subseteq> set ''0123456789abcdef''"

text \<open>\<open>_sha256_json\<close> on a value that is JSON.\<close>

definition sha256_json :: "crypto \<Rightarrow> pyval \<Rightarrow> string" where
  "sha256_json cr v = ''sha256:'' @ sha256_hex cr (json_dumps v)"

text \<open>The idiom \<open>(v or {}).get(...)\<close>: any other truthy value has no \<open>get\<close>.\<close>

definition or_empty :: "pyval \<Rightarrow> pydict res" where
  "or_empty v = (if truthy v then (case v of PDict d \<Rightarrow> Inr d | _ \<Rightarrow> Inl AttributeError) else Inr [])"

text \<open>Short-circuit disjunction of tests that may raise.\<close>

definition res_or :: "bool res \<Rightarrow> bool res \<Rightarrow> bool res" where
  "res_or a b = res_bind a (\<lambda>x. if x then Inr True else b)"

fun py_len :: "pyval \<Rightarrow> int res" where
  "py_len (PList xs) = Inr (int (length xs))"
| "py_len (PStr s) = Inr (int (length s))"
| "py_len (PDict d) = Inr (int (length d))"
| "py_len _ = Inl TypeError"

section \<open>The retention policy\<close>

definition checkpoint_retention_modes :: "string set" where
  "checkpoint_retention_modes = {''report_only'', ''oplog'', ''oplog_and_blobs''}"

definition default_policy :: "bool \<Rightarrow> pydict" where
  "default_policy conflicted = [(''generation'', PInt 0), (''mode'', PStr ''report_only''), (''history_days'', PInt 7),
     (''conflicted'', PBool conflicted)]"

text \<open>An entry of a dictionary literal that is present only when the source field is truthy.\<close>

definition entry_if :: "pydict \<Rightarrow> string \<Rightarrow> pyval \<Rightarrow> pydict" where
  "entry_if d k v = (if truthy (py_get d k) then [(k, v)] else [])"

definition retention_policy :: "pyval \<Rightarrow> pydict res" where
  "retention_policy materialized =
     (case py_get (dict_of (py_get (dict_of materialized) ''desired_state'')) ''retention_policy'' of
        PDict raw \<Rightarrow>
          (case (strict_nonnegative_int (py_get raw ''generation'') ''retention generation'',
                 strict_positive_int (py_get raw ''history_days'') ''history_days'') of
             (Inr generation, Inr days) \<Rightarrow>
               let mode = get_str raw ''mode''; conflicted = is_True (py_get raw ''conflicted'') \<or> mode \<notin> checkpoint_retention_modes
               in res_bind (if truthy (py_get raw ''updated_at'') then get_int raw ''updated_at'' 0 else Inr 0) (\<lambda>at.
                  Inr ([(''generation'', PInt generation), (''mode'', PStr (if conflicted then ''report_only'' else mode)),
                      (''history_days'', PInt days), (''conflicted'', PBool conflicted)]
                    @ entry_if raw ''updated_by'' (PStr (get_str raw ''updated_by''))
                    @ entry_if raw ''updated_at'' (PInt at)
                    @ entry_if raw ''op_id'' (PStr (get_str raw ''op_id''))))
           | _ \<Rightarrow> Inr (default_policy True))
      | _ \<Rightarrow> Inr (default_policy False))"

section \<open>The migration seal\<close>

text \<open>A blocker that applies under a condition, and one for each member of a collection.\<close>

definition blocker_if :: "bool \<Rightarrow> string \<Rightarrow> string list" where
  "blocker_if c s = (if c then [s] else [])"

definition block_when :: "bool res \<Rightarrow> string \<Rightarrow> string list res" where
  "block_when c s = res_bind c (\<lambda>x. Inr (blocker_if x s))"

definition blocks :: "('a \<Rightarrow> string list res) \<Rightarrow> 'a list \<Rightarrow> string list res" where
  "blocks f xs = res_bind (res_map f xs) (\<lambda>bs. Inr (concat bs))"

definition active_nodes :: "pydict \<Rightarrow> pydict" where
  "active_nodes ns = filter (\<lambda>(_, node). active_member node) ns"

definition master_ids :: "pydict \<Rightarrow> string list" where
  "master_ids ns = map fst (filter (\<lambda>(_, node). get_str (dict_of node) ''role'' = ''master'') ns)"

definition node_blockers :: "pydict \<Rightarrow> string list res" where
  "node_blockers = blocks (\<lambda>(i, node).
     block_when (res_or
         (res_bind (get_int (dict_of node) ''credential_protocol_version'' 0) (\<lambda>v. Inr (v < 2)))
         (Inr (\<not> is_True (py_get (dict_of node) ''credential_capable''))))
       (''node_not_v2:'' @ i))"

definition migration_blockers :: "pydict \<Rightarrow> pydict \<Rightarrow> string list res" where
  "migration_blockers migration cutoff =
     res_bind (get_list migration ''blockers'') (\<lambda>items.
     res_bind (if cutoff = [] then Inr [''cutoff_missing'']
       else block_when (res_or
           (res_bind (get_int cutoff ''min_protocol'' 0) (\<lambda>p. Inr (p \<noteq> 2)))
           (Inr (is_True (py_get cutoff ''conflicted'')))) ''cutoff_invalid'') (\<lambda>bs.
     Inr (blocker_if (is_True (py_get migration ''frozen'')) ''migration_frozen''
       @ blocker_if (is_True (py_get migration ''blocked'')) ''migration_blocked''
       @ map (\<lambda>v. ''migration_blocker:'' @ py_str v) items @ bs)))"

text \<open>Every active node has cleaned up and scanned at the cutoff generation \<open>g\<close>.\<close>

definition cleanup_blockers :: "pydict \<Rightarrow> int \<Rightarrow> string list \<Rightarrow> string list res" where
  "cleanup_blockers migration g = blocks (\<lambda>i.
     let cleanup = dict_of (py_get (dict_of (py_get migration ''cleanup_acks'')) i);
         scan = dict_of (py_get (dict_of (py_get migration ''scan_acks'')) i)
     in res_bind (block_when (res_bind (get_int cleanup ''cutoff_generation'' 0) (\<lambda>c. Inr (c \<noteq> g))) (''cleanup_ack:'' @ i)) (\<lambda>b1.
        res_bind (block_when (res_or
            (res_bind (get_int scan ''cutoff_generation'' 0) (\<lambda>c. Inr (c \<noteq> g)))
            (Inr (\<not> is_True (py_get scan ''clean'') \<or> truthy (py_get scan ''findings'')))) (''scan_ack:'' @ i)) (\<lambda>b2.
        Inr (b1 @ b2))))"

text \<open>\<open>{str(id): int(d.get(field) or 0)}\<close> over the entries that are objects.\<close>

definition generations_of :: "string \<Rightarrow> pydict \<Rightarrow> pydict res" where
  "generations_of field d = res_map (\<lambda>(i, v). res_bind (get_int (dict_of v) field 0) (\<lambda>g. Inr (i, PInt g)))
     (filter (\<lambda>(_, v). is_dict v) d)"

definition materialization_behind :: "pydict \<Rightarrow> int \<Rightarrow> string \<Rightarrow> pydict \<Rightarrow> string \<Rightarrow> bool res" where
  "materialization_behind acks g sid secret i = (let ack = dict_of (py_get acks i) in
     res_or (res_bind (get_int ack ''membership_generation'' (-1)) (\<lambda>m. Inr (m \<noteq> g)))
     (res_or (res_bind (or_empty (py_get ack ''credential_generations'')) (\<lambda>d.
         res_bind (get_int d sid 0) (\<lambda>a. res_bind (get_int secret ''generation'' 0) (\<lambda>b. Inr (a < b)))))
       (res_bind (or_empty (py_get ack ''recipient_generations'')) (\<lambda>d.
         res_bind (get_int d sid 0) (\<lambda>a. res_bind (get_int secret ''recipient_generation'' 0) (\<lambda>b. Inr (a \<noteq> b)))))))"

text \<open>Every intended active recipient has materialized a secret; \<open>actives\<close> and \<open>masters\<close> are sorted.\<close>

definition secret_blockers :: "string list \<Rightarrow> string list \<Rightarrow> int \<Rightarrow> pydict \<Rightarrow> pydict \<Rightarrow> string list res" where
  "secret_blockers actives masters g acks = blocks (\<lambda>(sid, v).
     if \<not> is_dict v then Inr [''secret_invalid:'' @ sid]
     else let secret = dict_of v in
       res_bind (get_list secret ''recipient_ids'') (\<lambda>items.
       let named = map py_str items;
           intended = (if named = [] then if get_str secret ''audience'' = ''masters'' then masters else actives else named)
       in res_bind (blocks (\<lambda>i. block_when (materialization_behind acks g sid secret i)
              (''materialization_ack:'' @ i @ '':'' @ sid))
            (filter (\<lambda>i. i \<in> set intended) actives)) (\<lambda>bs.
          Inr (blocker_if (is_True (py_get secret ''conflicted'') \<or> is_True (py_get secret ''recipient_conflicted''))
            (''secret_conflict:'' @ sid) @ bs))))"

definition conflicted_or_invalid :: "pyval \<Rightarrow> bool" where
  "conflicted_or_invalid v \<longleftrightarrow> \<not> is_dict v \<or> is_True (py_get (dict_of v) ''conflicted'')"

definition projection_blockers :: "string list \<Rightarrow> int \<Rightarrow> pydict \<Rightarrow> pydict \<Rightarrow> string list res" where
  "projection_blockers masters g acks profiles =
     res_bind (generations_of ''activation_generation'' (filter (\<lambda>(_, p). \<not> conflicted_or_invalid p) profiles)) (\<lambda>expected.
     blocks (\<lambda>i. let ack = dict_of (py_get acks i) in
       block_when (res_or (res_bind (get_int ack ''membership_generation'' (-1)) (\<lambda>m. Inr (m \<noteq> g)))
         (res_or (Inr (get_str ack ''projection_status'' \<noteq> ''current''))
           (res_bind (get_dict ack ''active_profile_generations'') (\<lambda>d. Inr (\<not> py_eq (PDict d) (PDict expected))))))
       (''projection_ack:'' @ i)) masters)"

text \<open>Whether \<open>secrets\<close> holds an object of the kind under the name.\<close>

definition secret_of_kind :: "pydict \<Rightarrow> string \<Rightarrow> string \<Rightarrow> bool" where
  "secret_of_kind secrets kind i \<longleftrightarrow> is_dict (py_get secrets i) \<and> get_str (dict_of (py_get secrets i)) ''secret_kind'' = kind"

definition profile_blockers :: "pydict \<Rightarrow> string \<times> pyval \<Rightarrow> string list" where
  "profile_blockers secrets = (\<lambda>(provider, v).
     if conflicted_or_invalid v then [''tradfi_profile_conflict:'' @ provider]
     else let i = py_get (dict_of v) ''profile_id'' in
       blocker_if (i \<noteq> PNone \<and> \<not> secret_of_kind secrets ''tradfi_profile'' (py_str i)) (''tradfi_profile_missing:'' @ provider))"

definition cmc_entry_blockers :: "pydict \<Rightarrow> string \<times> pyval \<Rightarrow> string list" where
  "cmc_entry_blockers secrets = (\<lambda>(key, v).
     if conflicted_or_invalid v \<or> truthy (py_get (dict_of v) ''state_conflicts'') then [''cmc_entry_conflict:'' @ key]
     else blocker_if (\<not> secret_of_kind secrets ''cmc_api_key'' (get_str (dict_of v) ''secret_id'')) (''cmc_secret_missing:'' @ key))"

definition acceptance_blockers :: "pydict \<Rightarrow> pydict \<Rightarrow> string list res" where
  "acceptance_blockers secrets = blocks (\<lambda>(candidate, v).
     if \<not> is_dict v then Inr [''acceptance_invalid:'' @ candidate]
     else let secret = py_get secrets (get_str (dict_of v) ''credential_id'') in
       block_when (res_or (Inr (\<not> is_dict secret))
         (res_bind (get_int (dict_of secret) ''generation'' 0) (\<lambda>a.
          res_bind (get_int (dict_of v) ''credential_generation'' 0) (\<lambda>b. Inr (a < b)))))
       (''acceptance_target_missing:'' @ candidate))"


text \<open>\<open>build_migration_seal\<close>: every check in turn, then the sorted blockers and the evidence they were drawn from.\<close>

definition build_migration_seal :: "pyval \<Rightarrow> pydict res" where
  "build_migration_seal materialized =
     (let m = dict_of materialized; desired = dict_of (py_get m ''desired_state'');
          actives = active_nodes (dict_of (py_get (dict_of (py_get m ''cluster_nodes'')) ''nodes''));
          ids = sort (map fst actives); masters = sort (master_ids actives);
          migration = dict_of (py_get desired ''credential_migration''); cutoff = dict_of (py_get migration ''cutoff'');
          secrets = dict_of (py_get desired ''secrets''); pool = dict_of (py_get desired ''cmc_pool'');
          buried = dict_of (py_get desired ''secret_tombstones''); profiles = dict_of (py_get desired ''tradfi_active_profiles'');
          entries = dict_of (py_get pool ''entries''); authorities = dict_of (py_get pool ''authorities'');
          conflicts = dict_of (py_get migration ''conflicts''); acceptances = dict_of (py_get migration ''candidate_acceptances'')
      in res_bind (or_empty (py_get m ''cluster_nodes'')) (\<lambda>cluster.
         res_bind (get_int cluster ''credential_membership_generation'' 0) (\<lambda>g.
         res_bind (node_blockers actives) (\<lambda>b1.
         res_bind (migration_blockers migration cutoff) (\<lambda>b2.
         res_bind (get_int cutoff ''cutoff_generation'' 0) (\<lambda>cut.
         res_bind (cleanup_blockers migration cut ids) (\<lambda>b3.
         res_bind (generations_of ''generation'' secrets) (\<lambda>secret_gens.
         res_bind (generations_of ''recipient_generation'' secrets) (\<lambda>recipient_gens.
         res_bind (secret_blockers ids masters g (dict_of (py_get desired ''credential_materialization_acks'')) secrets) (\<lambda>b4.
         res_bind (projection_blockers masters g (dict_of (py_get desired ''tradfi_projection_acks'')) profiles) (\<lambda>b5.
         res_bind (acceptance_blockers secrets acceptances) (\<lambda>b6.
         res_bind (get_int cutoff ''min_protocol'' 0) (\<lambda>protocol.
         res_bind (get_list cutoff ''obsolete_secret_blob_hashes'') (\<lambda>obsolete.
         res_bind (py_len (py_or (py_get migration ''candidates'') (PDict []))) (\<lambda>candidates.
         let found = b1 @ b2 @ b3 @ b4 @ b5 @ b6 @ blocker_if (actives = []) ''no_active_replicas''
               @ concat (map (\<lambda>(i, v). blocker_if (conflicted_or_invalid v) (''secret_tombstone_conflict:'' @ i)) buried)
               @ concat (map (profile_blockers secrets) profiles)
               @ concat (map (cmc_entry_blockers secrets) entries)
               @ concat (map (\<lambda>(i, v). blocker_if (conflicted_or_invalid v \<or>
                   get_str (dict_of v) ''authority_node_id'' \<notin> set ids) (''cmc_authority_invalid:'' @ i)) authorities)
               @ concat (map (\<lambda>(i, v). blocker_if (\<not> is_dict v \<or> get_str (dict_of v) ''status'' \<noteq> ''resolved'')
                   (''migration_conflict:'' @ i)) conflicts)
         in Inr [(''schema_version'', PInt 1), (''status'', PStr (if found = [] then ''sealed'' else ''blocked'')),
              (''cluster_id'', PStr (get_str cluster ''cluster_id'')), (''membership_generation'', PInt g),
              (''active_node_ids'', PList (map PStr ids)), (''active_master_ids'', PList (map PStr masters)),
              (''cutoff_generation'', PInt cut), (''cutoff_min_protocol'', PInt protocol),
              (''obsolete_secret_blob_hashes'', PList (map PStr (sort (map py_str obsolete)))),
              (''secret_generations'', PDict secret_gens), (''recipient_generations'', PDict recipient_gens),
              (''secret_tombstone_count'', PInt (int (length buried))), (''candidate_count'', PInt candidates),
              (''acceptance_count'', PInt (int (length acceptances))), (''cmc_entry_count'', PInt (int (length entries))),
              (''cmc_authority_count'', PInt (int (length authorities))), (''tradfi_profile_count'', PInt (int (length profiles))),
              (''blockers'', PList (map PStr (sort (remdups found))))])))))))))))))))"

end
