(* ===== verification/Cluster_Checkpoint.thy ===== *)
theory Cluster_Checkpoint
  imports Checkpoint_Seal Cluster_Oplog
begin

text \<open>
  Checkpoints of the cluster log and the protocol that commits them (cluster_checkpoint.py):
  a checkpoint object and its verification; the coordinator's signed proposal, the signed
  acknowledgements of the replicas, and the commit proof that embeds them all; and the store
  of one node with its checkpoint objects and the pointer to the active one. Clock readings
  are arguments; \<open>_json_copy\<close> of a JSON value is \<open>py_sorted\<close>.
\<close>

section \<open>Checkpoint objects\<close>

text \<open>A vector as a dictionary with sorted keys.\<close>

definition normalized_vector :: "pyval \<Rightarrow> (string, int) dict res" where
  "normalized_vector v = (case v of
     PDict d \<Rightarrow> res_map (\<lambda>(actor, s). res_bind (strict_positive_int s ''state vector sequence'') (\<lambda>n. Inr (actor, n))) (dict_sorted d)
   | _ \<Rightarrow> checkpoint_error ''checkpoint state vector must be an object'')"

definition vector_val :: "(string, int) dict \<Rightarrow> pyval" where
  "vector_val b = PDict (map (\<lambda>(actor, n). (actor, PInt n)) b)"

definition vector_get :: "(string, int) dict \<Rightarrow> string \<Rightarrow> int" where
  "vector_get b actor = (case map_of b actor of None \<Rightarrow> 0 | Some n \<Rightarrow> n)"

definition blob_kinds :: "string list" where
  "blob_kinds = [''config'', ''secret'', ''sealed'']"

definition blob_hashes :: "pydict \<Rightarrow> string \<Rightarrow> (string \<times> pyval) res" where
  "blob_hashes d kind = (case py_get d kind of
     PList items \<Rightarrow>
       if \<exists>v \<in> set items. \<not> is_str v \<or> \<not> is_sha256 (py_str v)
       then checkpoint_error (''checkpoint '' @ kind @ '' blob references are invalid'')
       else if map py_str items \<noteq> sort (remdups (map py_str items))
       then checkpoint_error (''checkpoint '' @ kind @ '' blob references must be sorted and unique'')
       else Inr (kind, PList items)
   | _ \<Rightarrow> checkpoint_error (''checkpoint '' @ kind @ '' blob references are invalid''))"

definition normalized_blob_refs :: "pyval \<Rightarrow> pydict res" where
  "normalized_blob_refs v = (case v of
     PDict d \<Rightarrow>
       res_bind (res_map (blob_hashes d) blob_kinds) (\<lambda>refs.
       if set (map fst d) = set blob_kinds then Inr refs
       else checkpoint_error ''checkpoint blob_refs contains unknown fields'')
   | _ \<Rightarrow> checkpoint_error ''checkpoint blob_refs must be an object'')"

text \<open>The operations of a basis; anything else has no \<open>get\<close>.\<close>

definition basis_operations :: "pyval list \<Rightarrow> pydict list res" where
  "basis_operations = res_map (\<lambda>v. case v of PDict d \<Rightarrow> Inr d | _ \<Rightarrow> Inl AttributeError)"

definition v2_sections :: "string list" where
  "v2_sections = [''secrets'', ''secret_tombstones'', ''cmc_pool'', ''tradfi_active_profiles'', ''credential_migration'',
     ''credential_materialization_acks'', ''tradfi_projection_acks'']"

definition verify_reducer_state :: "pydict \<Rightarrow> pyval \<Rightarrow> unit res" where
  "verify_reducer_state reducer materialized =
     (let desired = dict_of (py_get (dict_of materialized) ''desired_state'');
          expected = map (\<lambda>k. (k, py_or (py_get desired k) (PDict []))) v2_sections
      in res_bind (reject_checkpoint (set (map fst reducer) \<noteq> {''schema_version'', ''v2_basis_operations'',
             ''retention_policy_basis_operations''} \<or> \<not> py_eq (py_get reducer ''schema_version'') (PInt 1))
           ''checkpoint reducer state has invalid fields'') (\<lambda>_.
         case (py_get reducer ''v2_basis_operations'', py_get reducer ''retention_policy_basis_operations'') of
           (PList v2_basis, PList policy_basis) \<Rightarrow>
             res_bind (basis_operations (map py_sorted v2_basis)) (\<lambda>v2_ops.
             res_bind (materialize_v2_credentials v2_ops) (\<lambda>v2.
             res_bind (reject_checkpoint (\<not> py_eq (PDict v2) (PDict expected)) ''checkpoint v2 reducer basis mismatch'') (\<lambda>_.
             res_bind (if policy_basis = [] then Inr PNone
               else res_bind (basis_operations (map py_sorted policy_basis)) (\<lambda>ops.
                    res_bind (materialize_retention_policy ops) (\<lambda>p. Inr (PDict p)))) (\<lambda>actual.
             let policy = py_get desired ''retention_policy''; expected_policy = (if is_dict policy then policy else PNone) in
             reject_checkpoint (\<not> py_eq actual expected_policy) ''checkpoint retention policy basis mismatch''))))
         | _ \<Rightarrow> checkpoint_error ''checkpoint reducer basis must be a list''))"

definition checkpoint_identity :: "string \<Rightarrow> (string, int) dict \<Rightarrow> string \<Rightarrow> string \<Rightarrow> string \<Rightarrow> string \<Rightarrow> pydict \<Rightarrow> pydict" where
  "checkpoint_identity cluster baseline state membership seal reducer blobs = [(''schema_version'', PInt 2),
     (''cluster_id'', PStr cluster), (''baseline_vector'', vector_val baseline), (''state_hash'', PStr state),
     (''membership_hash'', PStr membership), (''migration_seal_hash'', PStr seal), (''reducer_hash'', PStr reducer),
     (''blob_refs'', PDict blobs)]"

text \<open>\<open>str((d.get(section) or {}).get("cluster_id") or "")\<close>\<close>

definition section_cluster :: "pydict \<Rightarrow> string \<Rightarrow> string res" where
  "section_cluster d section = res_bind (or_empty (py_get d section)) (\<lambda>s. Inr (get_str s ''cluster_id''))"

text \<open>The hashes a checkpoint states must be those of its parts.\<close>

definition verify_hashes :: "crypto \<Rightarrow> string \<Rightarrow> (string, int) dict \<Rightarrow> pydict \<Rightarrow> pydict \<Rightarrow> unit res" where
  "verify_hashes cr cluster baseline blobs clean =
     (let part = py_get clean; materialized = part ''materialized''; state = sha256_json cr materialized;
          membership = sha256_json cr (part ''membership_trust''); reducer = sha256_json cr (part ''reducer_state'')
      in res_bind (build_migration_seal materialized) (\<lambda>seal.
         let sealed = sha256_json cr (PDict seal) in
         res_bind (all_ok [
           reject_checkpoint (part ''state_hash'' \<noteq> PStr state) ''checkpoint state hash mismatch'',
           reject_checkpoint (part ''membership_hash'' \<noteq> PStr membership) ''checkpoint membership hash mismatch'',
           reject_checkpoint (\<not> py_eq (part ''migration_seal'') (PDict seal) \<or> part ''migration_seal_hash'' \<noteq> PStr sealed)
             ''checkpoint migration seal mismatch'',
           reject_checkpoint (part ''reducer_hash'' \<noteq> PStr reducer) ''checkpoint reducer hash mismatch'',
           verify_reducer_state (dict_of (part ''reducer_state'')) materialized]) (\<lambda>_.
         res_bind (retention_policy materialized) (\<lambda>policy. all_ok [
           reject_checkpoint (\<not> py_eq (part ''retention_policy'') (PDict policy)) ''checkpoint retention policy mismatch'',
           reject_checkpoint (part ''checkpoint_id'' \<noteq> PStr (sha256_json cr (PDict
             (checkpoint_identity cluster baseline state membership sealed reducer blobs)))) ''checkpoint ID mismatch'']))))"

definition verify_times :: "pydict \<Rightarrow> unit res" where
  "verify_times clean =
     res_bind (strict_nonnegative_int (py_get clean ''created_at'') ''created_at'') (\<lambda>created.
     res_bind (strict_positive_int (py_get clean ''history_seconds'') ''history_seconds'') (\<lambda>seconds.
     res_bind (strict_nonnegative_int (py_get clean ''history_cutoff'') ''history_cutoff'') (\<lambda>cutoff.
     res_bind (reject_checkpoint (cutoff \<noteq> max 0 (created - seconds)) ''checkpoint history cutoff is invalid'') (\<lambda>_.
     void (strict_nonnegative_int (py_get clean ''operation_count'') ''operation_count'')))))"

definition verify_shadow_checkpoint :: "crypto \<Rightarrow> string option \<Rightarrow> pyval \<Rightarrow> pydict res" where
  "verify_shadow_checkpoint cr expected_cluster checkpoint =
     (let clean = dict_of (py_sorted checkpoint); cluster = get_str clean ''cluster_id''; part = py_get clean in
      res_bind (all_ok [
        reject_checkpoint (\<not> is_dict checkpoint) ''checkpoint must be an object'',
        reject_checkpoint (\<not> py_eq (part ''schema_version'') (PInt 2)) ''unsupported checkpoint schema_version'',
        reject_checkpoint (part ''kind'' \<noteq> PStr ''shadow'') ''unsupported checkpoint kind'',
        reject_checkpoint (cluster = [] \<or> (case expected_cluster of None \<Rightarrow> False | Some c \<Rightarrow> c \<noteq> [] \<and> cluster \<noteq> c))
          ''checkpoint belongs to another cluster'']) (\<lambda>_.
      res_bind (normalized_vector (part ''baseline_vector'')) (\<lambda>baseline.
      res_bind (normalized_blob_refs (part ''blob_refs'')) (\<lambda>blobs.
      res_bind (reject_checkpoint (\<not> list_all (\<lambda>k. is_dict (part k))
          [''materialized'', ''membership_trust'', ''migration_seal'', ''reducer_state'']) ''checkpoint state is invalid'') (\<lambda>_.
      let materialized = dict_of (part ''materialized'') in
      res_bind (normalized_vector (py_get materialized ''state_vector'')) (\<lambda>vector.
      res_bind (reject_checkpoint (vector \<noteq> baseline) ''checkpoint baseline does not match materialized state'') (\<lambda>_.
      res_bind (section_cluster materialized ''cluster_nodes'') (\<lambda>c1.
      res_bind (reject_checkpoint (c1 \<noteq> cluster) ''checkpoint materialized state belongs to another cluster'') (\<lambda>_.
      res_bind (section_cluster materialized ''desired_state'') (\<lambda>c2.
      res_bind (reject_checkpoint (c2 \<noteq> cluster) ''checkpoint desired state belongs to another cluster'') (\<lambda>_.
      res_bind (verify_hashes cr cluster baseline blobs clean) (\<lambda>_.
      res_bind (verify_times clean) (\<lambda>_.
      Inr (dict_set ''blob_refs'' (PDict blobs) (dict_set ''baseline_vector'' (vector_val baseline) clean)))))))))))))))"


section \<open>Coordinator and signatures\<close>

definition trust_nodes :: "pydict \<Rightarrow> pydict res" where
  "trust_nodes clean = res_bind (or_empty (py_get clean ''membership_trust'')) (\<lambda>trust. or_empty (py_get trust ''nodes''))"

definition coordinator_id :: "pydict \<Rightarrow> string res" where
  "coordinator_id clean =
     res_bind (trust_nodes clean) (\<lambda>ns.
     case sort (master_ids (active_nodes ns)) of
       [] \<Rightarrow> checkpoint_error ''checkpoint has no active master coordinator''
     | m # _ \<Rightarrow> Inr m)"

definition as_checkpoint_error :: "'a res \<Rightarrow> 'a res" where
  "as_checkpoint_error m = (case m of Inl (ClusterCredentialError t) \<Rightarrow> Inl (ClusterCheckpointError t) | _ \<Rightarrow> m)"

definition sign_control :: "crypto \<Rightarrow> string \<Rightarrow> string \<Rightarrow> pydict \<Rightarrow> pydict res" where
  "sign_control cr node private doc = as_checkpoint_error (sign_operation cr doc private node)"

text \<open>The public key a checkpoint's own membership has for a node.\<close>

definition control_key :: "pydict \<Rightarrow> string \<Rightarrow> string res" where
  "control_key clean node =
     res_bind (or_empty (py_get clean ''membership_trust'')) (\<lambda>trust.
     case py_get_or trust ''nodes'' (PDict []) of
       PDict ns \<Rightarrow> res_bind (or_empty (py_get ns node)) (\<lambda>n. Inr (get_str n ''signing_public_key''))
     | _ \<Rightarrow> Inl AttributeError)"

definition verify_control :: "crypto \<Rightarrow> pydict \<Rightarrow> pydict \<Rightarrow> string \<Rightarrow> unit res" where
  "verify_control cr clean doc node =
     res_bind (control_key clean node) (\<lambda>key.
     res_bind (reject_checkpoint (key = []) ''checkpoint control signer has no trusted key'') (\<lambda>_.
     as_checkpoint_error (verify_operation cr doc key)))"

definition signature_fields :: "string set" where
  "signature_fields = {''signer_id'', ''signing_key_id'', ''signer_key_id'', ''signature'', ''signature_version'',
     ''signature_algorithm''}"

text \<open>The document an identifier was computed from: without the identifier and what signing added.\<close>

definition unsigned_part :: "string \<Rightarrow> pydict \<Rightarrow> pydict" where
  "unsigned_part id_field d = filter (\<lambda>(k, _). k \<noteq> id_field \<and> k \<notin> signature_fields) d"

definition matches :: "pydict \<Rightarrow> string \<times> pyval \<Rightarrow> bool" where
  "matches d = (\<lambda>(k, v). py_eq (py_get d k) v)"

text \<open>Every expected field in turn; the first that differs is reported.\<close>

definition expect_fields :: "string \<Rightarrow> pydict \<Rightarrow> pydict \<Rightarrow> unit res" where
  "expect_fields what d expected = all_ok (map (\<lambda>(k, v).
     reject_checkpoint (\<not> matches d (k, v)) (what @ '' '' @ k @ '' mismatch'')) expected)"

section \<open>Proposals\<close>

definition required_ids :: "pydict \<Rightarrow> pyval list res" where
  "required_ids clean = get_list (dict_of (py_get clean ''migration_seal'')) ''active_node_ids''"

definition proposal_fields :: "pydict \<Rightarrow> string \<Rightarrow> pydict res" where
  "proposal_fields clean coordinator =
     res_bind (item_str clean ''cluster_id'') (\<lambda>cluster.
     res_bind (item_str clean ''checkpoint_id'') (\<lambda>cid.
     res_bind (res_bind (py_item clean ''baseline_vector'') py_dict) (\<lambda>baseline.
     res_bind (item_str clean ''state_hash'') (\<lambda>state.
     res_bind (item_str clean ''membership_hash'') (\<lambda>membership.
     res_bind (item_str clean ''migration_seal_hash'') (\<lambda>seal.
     res_bind (required_ids clean) (\<lambda>required.
     Inr [(''cluster_id'', PStr cluster), (''checkpoint_id'', PStr cid), (''baseline_vector'', PDict baseline),
       (''state_hash'', PStr state), (''membership_hash'', PStr membership), (''migration_seal_hash'', PStr seal),
       (''required_node_ids'', PList required), (''coordinator_id'', PStr coordinator)])))))))"

definition seal_checked :: "pydict \<Rightarrow> unit res" where
  "seal_checked clean = reject_checkpoint (py_get (dict_of (py_get clean ''migration_seal'')) ''status'' \<noteq> PStr ''sealed'')
     ''checkpoint migration seal is blocked''"

text \<open>The identity and the signing key of the node that creates a document.\<close>

record signer =
  signer_cluster :: string
  signer_node :: string
  signer_private :: string

definition create_proposal :: "crypto \<Rightarrow> signer \<Rightarrow> pyval \<Rightarrow> int \<Rightarrow> int \<Rightarrow> pydict res" where
  "create_proposal cr me checkpoint expires now =
     res_bind (verify_shadow_checkpoint cr (Some (signer_cluster me)) checkpoint) (\<lambda>clean.
     res_bind (seal_checked clean) (\<lambda>_.
     res_bind (strict_nonnegative_int (PInt now) ''created_at'') (\<lambda>now.
     res_bind (strict_positive_int (PInt expires) ''expires_at'') (\<lambda>expires.
     res_bind (reject_checkpoint (expires \<le> now) ''checkpoint proposal expiry must be in the future'') (\<lambda>_.
     res_bind (coordinator_id clean) (\<lambda>coordinator.
     res_bind (reject_checkpoint (signer_node me \<noteq> coordinator) ''only the elected coordinator may propose a checkpoint'') (\<lambda>_.
     res_bind (proposal_fields clean coordinator) (\<lambda>fields.
     let doc = [(''schema_version'', PInt 1), (''kind'', PStr ''PBCLUSTER_CHECKPOINT_PROPOSAL'')] @ fields
           @ [(''created_at'', PInt now), (''expires_at'', PInt expires)]
     in sign_control cr (signer_node me) (signer_private me)
          (dict_set ''proposal_id'' (PStr (sha256_json cr (PDict doc))) doc)))))))))"

definition verify_proposal :: "crypto \<Rightarrow> pyval \<Rightarrow> pyval \<Rightarrow> int \<Rightarrow> pydict res" where
  "verify_proposal cr checkpoint proposal now =
     res_bind (verify_shadow_checkpoint cr None checkpoint) (\<lambda>clean.
     let value = dict_of (py_sorted proposal) in
     res_bind (reject_checkpoint (\<not> is_dict proposal \<or> py_get value ''kind'' \<noteq> PStr ''PBCLUSTER_CHECKPOINT_PROPOSAL'')
       ''invalid checkpoint proposal kind'') (\<lambda>_.
     res_bind (strict_nonnegative_int (PInt now) ''now'') (\<lambda>now.
     res_bind (get_int value ''expires_at'' 0) (\<lambda>expires.
     res_bind (reject_checkpoint (expires \<le> now) ''checkpoint proposal expired'') (\<lambda>_.
     res_bind (coordinator_id clean) (\<lambda>coordinator.
     res_bind (reject_checkpoint
       (get_str value ''proposal_id'' \<noteq> sha256_json cr (PDict (unsigned_part ''proposal_id'' value)))
       ''checkpoint proposal ID mismatch'') (\<lambda>_.
     res_bind (proposal_fields clean coordinator) (\<lambda>fields.
     res_bind (expect_fields ''checkpoint proposal'' value fields) (\<lambda>_.
     res_bind (reject_checkpoint (get_str value ''signer_id'' \<noteq> coordinator)
       ''checkpoint proposal signer is not coordinator'') (\<lambda>_.
     res_bind (verify_control cr clean value coordinator) (\<lambda>_. Inr value)))))))))))"

section \<open>Acknowledgements\<close>

definition is_required :: "pydict \<Rightarrow> string \<Rightarrow> bool" where
  "is_required proposal node \<longleftrightarrow> PStr node \<in> set (list_of (py_get proposal ''required_node_ids''))"

definition ack_fields :: "pydict \<Rightarrow> pydict \<Rightarrow> int \<Rightarrow> pydict res" where
  "ack_fields clean proposal expires =
     res_bind (item_str clean ''cluster_id'') (\<lambda>cluster.
     res_bind (item_str proposal ''proposal_id'') (\<lambda>pid.
     res_bind (item_str clean ''checkpoint_id'') (\<lambda>cid.
     res_bind (res_bind (py_item clean ''baseline_vector'') py_dict) (\<lambda>baseline.
     Inr [(''cluster_id'', PStr cluster), (''proposal_id'', PStr pid), (''checkpoint_id'', PStr cid),
       (''baseline_vector'', PDict baseline), (''expires_at'', PInt expires)]))))"

text \<open>\<open>t1\<close> is the time of the check of the proposal, \<open>now\<close> the time of the acknowledgement.\<close>

definition create_ack :: "crypto \<Rightarrow> signer \<Rightarrow> pyval \<Rightarrow> pyval \<Rightarrow> int \<Rightarrow> int \<Rightarrow> pydict res" where
  "create_ack cr me checkpoint proposal t1 now =
     res_bind (verify_shadow_checkpoint cr (Some (signer_cluster me)) checkpoint) (\<lambda>clean.
     res_bind (verify_proposal cr (PDict clean) proposal t1) (\<lambda>p.
     res_bind (reject_checkpoint (\<not> is_required p (signer_node me)) ''local node is not a required checkpoint replica'') (\<lambda>_.
     res_bind (strict_nonnegative_int (PInt now) ''created_at'') (\<lambda>now.
     res_bind (item_int p ''expires_at'') (\<lambda>expires.
     res_bind (ack_fields clean p expires) (\<lambda>fields.
     sign_control cr (signer_node me) (signer_private me)
       ([(''schema_version'', PInt 1), (''kind'', PStr ''PBCLUSTER_CHECKPOINT_ACK'')] @ fields
        @ [(''node_id'', PStr (signer_node me)), (''created_at'', PInt now)])))))))"

definition verify_ack :: "crypto \<Rightarrow> pyval \<Rightarrow> pyval \<Rightarrow> int \<Rightarrow> pyval \<Rightarrow> pydict res" where
  "verify_ack cr checkpoint proposal now ack =
     res_bind (verify_shadow_checkpoint cr None checkpoint) (\<lambda>clean.
     res_bind (verify_proposal cr (PDict clean) proposal now) (\<lambda>p.
     let value = dict_of (py_sorted ack); node = get_str value ''node_id'' in
     res_bind (reject_checkpoint (\<not> is_dict ack \<or> py_get value ''kind'' \<noteq> PStr ''PBCLUSTER_CHECKPOINT_ACK'')
       ''invalid checkpoint ACK kind'') (\<lambda>_.
     res_bind (reject_checkpoint (\<not> is_required p node) ''checkpoint ACK node is not required'') (\<lambda>_.
     res_bind (item_int p ''expires_at'') (\<lambda>expires.
     res_bind (ack_fields clean p expires) (\<lambda>fields.
     res_bind (expect_fields ''checkpoint ACK'' value (fields @ [(''signer_id'', PStr node)])) (\<lambda>_.
     res_bind (verify_control cr clean value node) (\<lambda>_. Inr value))))))))"

end
