(* ===== verification/Checkpoint_Commit.thy ===== *)
theory Checkpoint_Commit
  imports Cluster_Checkpoint
begin

text \<open>
  The commit proof of a checkpoint and its activation on a node (cluster_checkpoint.py). A node
  keeps immutable checkpoint objects, each with a backup copy, and one pointer file that names
  the active checkpoint and its predecessor with their proofs. Every operation holds the history
  lock, so it is one step; one that raises may have written objects, so it returns the store too.
\<close>

section \<open>Commit proofs\<close>

text \<open>Each acknowledgement comes with the time of its check.\<close>

fun collect_acks :: "crypto \<Rightarrow> pydict \<Rightarrow> pydict \<Rightarrow> (pyval \<times> int) list \<Rightarrow> (string, pydict) dict \<Rightarrow> (string, pydict) dict res" where
  "collect_acks cr clean proposal [] found = Inr found"
| "collect_acks cr clean proposal ((ack, t) # acks) found =
     res_bind (verify_ack cr (PDict clean) (PDict proposal) t ack) (\<lambda>v.
     res_bind (item_str v ''node_id'') (\<lambda>node.
     res_bind (reject_checkpoint (dict_has found node) ''duplicate checkpoint ACK'') (\<lambda>_.
     collect_acks cr clean proposal acks (dict_set node v found))))"

definition commit_fields :: "pydict \<Rightarrow> pydict \<Rightarrow> string \<Rightarrow> pydict res" where
  "commit_fields clean proposal coordinator =
     res_bind (item_str clean ''cluster_id'') (\<lambda>cluster.
     res_bind (item_str proposal ''proposal_id'') (\<lambda>pid.
     res_bind (item_str clean ''checkpoint_id'') (\<lambda>cid.
     res_bind (res_bind (py_item clean ''baseline_vector'') py_dict) (\<lambda>baseline.
     Inr [(''cluster_id'', PStr cluster), (''proposal'', PDict proposal), (''proposal_id'', PStr pid),
       (''checkpoint_id'', PStr cid), (''baseline_vector'', PDict baseline),
       (''required_node_ids'', py_get proposal ''required_node_ids''), (''coordinator_id'', PStr coordinator)]))))"

definition create_commit_proof :: "crypto \<Rightarrow> signer \<Rightarrow> pyval \<Rightarrow> pyval \<Rightarrow> (pyval \<times> int) list \<Rightarrow> int \<Rightarrow> int \<Rightarrow> pydict res" where
  "create_commit_proof cr me checkpoint proposal acks t1 now =
     res_bind (verify_shadow_checkpoint cr (Some (signer_cluster me)) checkpoint) (\<lambda>clean.
     res_bind (verify_proposal cr (PDict clean) proposal t1) (\<lambda>p.
     res_bind (coordinator_id clean) (\<lambda>coordinator.
     res_bind (reject_checkpoint (signer_node me \<noteq> coordinator) ''only the elected coordinator may commit a checkpoint'') (\<lambda>_.
     res_bind (collect_acks cr clean p acks []) (\<lambda>found.
     let required = list_of (py_get p ''required_node_ids'') in
     res_bind (reject_checkpoint (map PStr (sort (map fst found)) \<noteq> required)
       ''checkpoint commit requires every active replica ACK'') (\<lambda>_.
     res_bind (strict_nonnegative_int (PInt now) ''created_at'') (\<lambda>now.
     res_bind (commit_fields clean p coordinator) (\<lambda>fields.
     let doc = [(''schema_version'', PInt 1), (''kind'', PStr ''PBCLUSTER_CHECKPOINT_COMMIT'')] @ fields
           @ [(''acknowledgements'', PList (map (\<lambda>n. PDict (the (map_of found (py_str n)))) required)), (''created_at'', PInt now)]
     in sign_control cr (signer_node me) (signer_private me)
          (dict_set ''commit_proof_id'' (PStr (sha256_json cr (PDict doc))) doc)))))))))"

text \<open>The checks of the coordinator against the history a node already trusts.\<close>

definition verify_anchor :: "crypto \<Rightarrow> membership_trust \<Rightarrow> string \<Rightarrow> pydict \<Rightarrow> unit res" where
  "verify_anchor cr trust coordinator proof =
     (case map_of (nodes trust) coordinator of
        None \<Rightarrow> checkpoint_error ''checkpoint coordinator is not trusted by local history''
      | Some anchor \<Rightarrow> let key = get_str anchor ''signing_public_key'' in
          res_bind (all_ok [
            reject_checkpoint (get_str anchor ''role'' \<noteq> ''master'' \<or> \<not> active_member (PDict anchor))
              ''checkpoint coordinator is not trusted by local history'',
            reject_checkpoint (key = []) ''trusted checkpoint coordinator has no signing key'']) (\<lambda>_.
          (case verify_operation cr proof key of
             Inl (ClusterCredentialError _) \<Rightarrow> checkpoint_error ''checkpoint proof failed local trust anchor''
           | r \<Rightarrow> r)))"

text \<open>The nodes of the acknowledgements of a proof, each verified at the time of the proof.\<close>

definition acknowledging_nodes :: "crypto \<Rightarrow> pydict \<Rightarrow> pydict \<Rightarrow> int \<Rightarrow> pyval \<Rightarrow> string list res" where
  "acknowledging_nodes cr clean proposal now v = (case v of
     PList acks \<Rightarrow> res_map (\<lambda>ack. res_bind (verify_ack cr (PDict clean) (PDict proposal) now ack) (\<lambda>a. item_str a ''node_id'')) acks
   | _ \<Rightarrow> checkpoint_error ''checkpoint commit acknowledgements are invalid'')"

definition verify_commit_proof :: "crypto \<Rightarrow> membership_trust option \<Rightarrow> pyval \<Rightarrow> pyval \<Rightarrow> pydict res" where
  "verify_commit_proof cr anchor checkpoint commit_proof =
     res_bind (verify_shadow_checkpoint cr None checkpoint) (\<lambda>clean.
     let proof = dict_of (py_sorted commit_proof) in
     res_bind (reject_checkpoint (\<not> is_dict commit_proof \<or> py_get proof ''kind'' \<noteq> PStr ''PBCLUSTER_CHECKPOINT_COMMIT'')
       ''invalid checkpoint commit proof kind'') (\<lambda>_.
     res_bind (get_int proof ''created_at'' 0) (\<lambda>now.
     res_bind (verify_proposal cr (PDict clean) (py_or (py_get proof ''proposal'') (PDict [])) now) (\<lambda>p.
     res_bind (coordinator_id clean) (\<lambda>coordinator.
     res_bind (reject_checkpoint
       (get_str proof ''commit_proof_id'' \<noteq> sha256_json cr (PDict (unsigned_part ''commit_proof_id'' proof)))
       ''checkpoint commit proof ID mismatch'') (\<lambda>_.
     res_bind (item_str clean ''checkpoint_id'') (\<lambda>cid.
     res_bind (item_str p ''proposal_id'') (\<lambda>pid.
     res_bind (reject_checkpoint (get_str proof ''checkpoint_id'' \<noteq> cid
         \<or> \<not> py_eq (py_get proof ''baseline_vector'') (py_get clean ''baseline_vector'')
         \<or> get_str proof ''proposal_id'' \<noteq> pid
         \<or> \<not> py_eq (py_get proof ''required_node_ids'') (py_get p ''required_node_ids'')
         \<or> get_str proof ''coordinator_id'' \<noteq> coordinator
         \<or> get_str proof ''signer_id'' \<noteq> coordinator) ''checkpoint commit proof does not match checkpoint'') (\<lambda>_.
     res_bind (acknowledging_nodes cr clean p now (py_get proof ''acknowledgements'')) (\<lambda>ns.
     res_bind (reject_checkpoint (map PStr (sort ns) \<noteq> list_of (py_get p ''required_node_ids''))
       ''checkpoint commit ACK set is incomplete'') (\<lambda>_.
     res_bind (verify_control cr clean proof coordinator) (\<lambda>_.
     res_bind (case anchor of None \<Rightarrow> Inr () | Some trust \<Rightarrow> verify_anchor cr trust coordinator proof) (\<lambda>_.
     Inr proof)))))))))))))"

section \<open>The checkpoint store of a node\<close>

record checkpoint_store =
  local_cluster :: string
  checkpoint_objects :: "(string, json_file) dict"
  commit_file :: "json_file option"

definition object_stem :: "string \<Rightarrow> string" where
  "object_stem cid = (if startswith cid ''sha256:'' then drop 7 cid else cid)"

definition backup_stem :: "string \<Rightarrow> string" where
  "backup_stem cid = object_stem cid @ ''.backup''"

definition read_commit :: "checkpoint_store \<Rightarrow> pydict option res" where
  "read_commit st = (case commit_file st of
     None \<Rightarrow> Inr None
   | Some Unreadable \<Rightarrow> checkpoint_error ''checkpoint commit is unreadable''
   | Some Undecodable \<Rightarrow> Inl UnicodeDecodeError
   | Some (Json v) \<Rightarrow>
       if is_dict v \<and> py_eq (py_get (dict_of v) ''schema_version'') (PInt 1) then Inr (Some (dict_of v))
       else checkpoint_error ''checkpoint commit is invalid'')"

text \<open>The first copy that verifies; a copy that is missing or fails with a checkpoint error is passed over.\<close>

fun read_copies :: "crypto \<Rightarrow> checkpoint_store \<Rightarrow> string \<Rightarrow> string list \<Rightarrow> pydict res" where
  "read_copies cr st cid [] = checkpoint_error ''checkpoint object and backup are unavailable''"
| "read_copies cr st cid (stem # stems) = (case map_of (checkpoint_objects st) stem of
     Some (Json v) \<Rightarrow>
       (case res_bind (verify_shadow_checkpoint cr (Some (local_cluster st)) v) (\<lambda>c.
           res_bind (reject_checkpoint (get_str c ''checkpoint_id'' \<noteq> cid) ''checkpoint object ID mismatch'') (\<lambda>_. Inr c)) of
          Inl (ClusterCheckpointError _) \<Rightarrow> read_copies cr st cid stems
        | r \<Rightarrow> r)
   | Some Undecodable \<Rightarrow> Inl UnicodeDecodeError
   | _ \<Rightarrow> read_copies cr st cid stems)"

definition read_checkpoint_object :: "crypto \<Rightarrow> checkpoint_store \<Rightarrow> string \<Rightarrow> pydict res" where
  "read_checkpoint_object cr st cid =
     (if is_sha256 cid then read_copies cr st cid [object_stem cid, backup_stem cid]
      else checkpoint_error ''invalid checkpoint ID'')"

text \<open>The object the pointer names, with its proof verified.\<close>

definition read_current :: "crypto \<Rightarrow> checkpoint_store \<Rightarrow> pydict \<Rightarrow> pydict res" where
  "read_current cr st commit =
     res_bind (read_checkpoint_object cr st (get_str commit ''current_checkpoint_id'')) (\<lambda>c.
     res_bind (normalized_vector (py_get commit ''baseline_vector'')) (\<lambda>baseline.
     res_bind (reject_checkpoint (\<not> py_eq (vector_val baseline) (py_get c ''baseline_vector'')) ''checkpoint commit baseline mismatch'') (\<lambda>_.
     res_bind (verify_commit_proof cr None (PDict c) (py_or (py_get commit ''commit_proof'') (PDict []))) (\<lambda>_. Inr c))))"

definition read_previous :: "crypto \<Rightarrow> checkpoint_store \<Rightarrow> pydict \<Rightarrow> pydict res" where
  "read_previous cr st commit =
     res_bind (read_checkpoint_object cr st (get_str commit ''previous_checkpoint_id'')) (\<lambda>c.
     res_bind (verify_commit_proof cr None (PDict c) (py_or (py_get commit ''previous_commit_proof'') (PDict []))) (\<lambda>_. Inr c))"

text \<open>The predecessor stands in when the current object or its proof fails with a checkpoint error.\<close>

definition read_committed :: "crypto \<Rightarrow> checkpoint_store \<Rightarrow> pydict \<Rightarrow> pydict res" where
  "read_committed cr st commit = (case read_current cr st commit of
     Inl (ClusterCheckpointError m) \<Rightarrow>
       let previous = get_str commit ''previous_checkpoint_id'' in
       if previous = [] \<or> previous = get_str commit ''current_checkpoint_id'' then checkpoint_error m
       else (case read_previous cr st commit of Inl (ClusterCheckpointError _) \<Rightarrow> checkpoint_error m | r \<Rightarrow> r)
   | r \<Rightarrow> r)"

definition read_active :: "crypto \<Rightarrow> checkpoint_store \<Rightarrow> pydict option res" where
  "read_active cr st =
     res_bind (read_commit st) (\<lambda>c. case c of
       None \<Rightarrow> Inr None
     | Some commit \<Rightarrow>
         res_bind (all_ok [
           reject_checkpoint (get_str commit ''cluster_id'' \<noteq> local_cluster st) ''checkpoint commit belongs to another cluster'',
           reject_checkpoint (get_str commit ''commit_id'' \<noteq> sha256_json cr (PDict (dict_pop ''commit_id'' commit)))
             ''checkpoint commit hash mismatch'']) (\<lambda>_.
         res_bind (read_committed cr st commit) (\<lambda>c. Inr (Some c))))"

definition active_baseline :: "crypto \<Rightarrow> checkpoint_store \<Rightarrow> pydict res" where
  "active_baseline cr st = res_bind (read_active cr st) (\<lambda>a. case a of
     None \<Rightarrow> Inr [] | Some c \<Rightarrow> res_bind (py_item c ''baseline_vector'') py_dict)"

section \<open>Activation\<close>

text \<open>One immutable copy of an object: written once, afterwards only compared.\<close>

definition write_copy :: "crypto \<Rightarrow> string \<Rightarrow> string \<Rightarrow> pydict \<Rightarrow> string \<Rightarrow> checkpoint_store \<Rightarrow> checkpoint_store res" where
  "write_copy cr what differs clean stem st = (case map_of (checkpoint_objects st) stem of
     None \<Rightarrow> Inr (st\<lparr>checkpoint_objects := dict_set stem (Json (PDict clean)) (checkpoint_objects st)\<rparr>)
   | Some Unreadable \<Rightarrow> checkpoint_error (what @ '' is unreadable'')
   | Some Undecodable \<Rightarrow> Inl UnicodeDecodeError
   | Some (Json v) \<Rightarrow>
       res_bind (verify_shadow_checkpoint cr (Some (local_cluster st)) v) (\<lambda>old.
       res_bind (reject_checkpoint (\<not> py_eq (PDict old) (PDict clean)) (what @ differs)) (\<lambda>_. Inr st)))"

definition write_object :: "crypto \<Rightarrow> pyval \<Rightarrow> checkpoint_store \<Rightarrow> unit res \<times> checkpoint_store" where
  "write_object cr checkpoint st =
     (case res_bind (verify_shadow_checkpoint cr (Some (local_cluster st)) checkpoint) (\<lambda>clean.
        res_bind (item_str clean ''checkpoint_id'') (\<lambda>cid. Inr (clean, cid))) of
        Inl e \<Rightarrow> (Inl e, st)
      | Inr (clean, cid) \<Rightarrow>
          (case write_copy cr ''checkpoint object'' '' already exists with different content'' clean (object_stem cid) st of
             Inl e \<Rightarrow> (Inl e, st)
           | Inr st1 \<Rightarrow> (case write_copy cr ''checkpoint backup object'' '' has different content'' clean (backup_stem cid) st1 of
                 Inl e \<Rightarrow> (Inl e, st1)
               | Inr st2 \<Rightarrow> (Inr (), st2))))"

definition moves_back :: "(string, int) dict \<Rightarrow> (string, int) dict \<Rightarrow> bool" where
  "moves_back old new \<longleftrightarrow> (\<exists>(actor, n) \<in> set old. vector_get new actor < n)"

text \<open>The pointer file, with the hash of its other entries.\<close>

definition pointer_record :: "crypto \<Rightarrow> string \<Rightarrow> int \<Rightarrow> string \<Rightarrow> string \<Rightarrow> pyval \<Rightarrow> (string, int) dict \<Rightarrow> int \<Rightarrow> pydict \<Rightarrow> pydict" where
  "pointer_record cr cluster epoch cid previous previous_proof baseline now pf =
     (let commit = [(''schema_version'', PInt 1), (''cluster_id'', PStr cluster), (''epoch'', PInt epoch),
           (''current_checkpoint_id'', PStr cid), (''previous_checkpoint_id'', PStr previous),
           (''previous_commit_proof'', previous_proof), (''baseline_vector'', vector_val baseline),
           (''activated_at'', PInt now), (''commit_proof'', PDict pf)]
      in dict_set ''commit_id'' (PStr (sha256_json cr (PDict commit))) commit)"

text \<open>Everything that is checked before anything is written: the new pointer and the verified object.\<close>

definition prepare_activation :: "crypto \<Rightarrow> pyval \<Rightarrow> pyval \<Rightarrow> int \<Rightarrow> bool \<Rightarrow> checkpoint_store \<Rightarrow> (pydict \<times> pydict) res" where
  "prepare_activation cr checkpoint commit_proof now expired_ok st =
     res_bind (verify_shadow_checkpoint cr (Some (local_cluster st)) checkpoint) (\<lambda>clean.
     res_bind (seal_checked clean) (\<lambda>_.
     res_bind (verify_commit_proof cr None (PDict clean) commit_proof) (\<lambda>proof.
     res_bind (strict_nonnegative_int (PInt now) ''activated_at'') (\<lambda>now.
     res_bind (if expired_ok then Inr (now + 1)
       else res_bind (or_empty (py_get proof ''proposal'')) (\<lambda>p. get_int p ''expires_at'' 0)) (\<lambda>expires.
     res_bind (reject_checkpoint (\<not> expired_ok \<and> expires \<le> now) ''checkpoint commit proposal has expired'') (\<lambda>_.
     res_bind (read_commit st) (\<lambda>current.
     let old = (case current of None \<Rightarrow> [] | Some c \<Rightarrow> c); previous = get_str old ''current_checkpoint_id'' in
     res_bind (get_int old ''epoch'' 0) (\<lambda>epoch.
     res_bind (normalized_vector (py_or (py_get old ''baseline_vector'') (PDict []))) (\<lambda>old_baseline.
     res_bind (res_bind (py_item clean ''baseline_vector'') normalized_vector) (\<lambda>baseline.
     res_bind (reject_checkpoint (moves_back old_baseline baseline) ''checkpoint baseline must not move backwards'') (\<lambda>_.
     res_bind (item_str clean ''checkpoint_id'') (\<lambda>cid.
     Inr (pointer_record cr (local_cluster st) (epoch + 1) cid (if previous = [] then cid else previous)
         (py_sorted (py_or (py_get old ''commit_proof'') (PDict proof))) baseline now proof, clean)))))))))))))"

definition activate_checkpoint :: "crypto \<Rightarrow> pyval \<Rightarrow> pyval \<Rightarrow> int \<Rightarrow> bool \<Rightarrow> checkpoint_store \<Rightarrow> pydict res \<times> checkpoint_store" where
  "activate_checkpoint cr checkpoint commit_proof now expired_ok st =
     (case prepare_activation cr checkpoint commit_proof now expired_ok st of
        Inl e \<Rightarrow> (Inl e, st)
      | Inr (commit, clean) \<Rightarrow> (case write_object cr (PDict clean) st of
          (Inl e, st1) \<Rightarrow> (Inl e, st1)
        | (Inr _, st1) \<Rightarrow>
            let st2 = st1\<lparr>commit_file := Some (Json (PDict commit))\<rparr>
            in (res_bind (read_active cr st2) (\<lambda>a.
                 if (case a of None \<Rightarrow> True | Some c \<Rightarrow> py_get c ''checkpoint_id'' \<noteq> py_get clean ''checkpoint_id'')
                 then checkpoint_error ''activated checkpoint verification failed'' else Inr commit), st2)))"

definition checkpoint_status :: "crypto \<Rightarrow> checkpoint_store \<Rightarrow> pydict res" where
  "checkpoint_status cr st =
     res_bind (read_commit st) (\<lambda>c. case c of
       None \<Rightarrow> Inr [(''active'', PBool False), (''checkpoint_id'', PStr []), (''checkpoint_epoch'', PInt 0),
         (''checkpoint_baseline'', PDict []), (''previous_checkpoint_id'', PStr [])]
     | Some commit \<Rightarrow>
         res_bind (read_active cr st) (\<lambda>a.
         let active = (case a of None \<Rightarrow> [] | Some c \<Rightarrow> c) in
         res_bind (item_str active ''checkpoint_id'') (\<lambda>cid.
         res_bind (get_int commit ''epoch'' 0) (\<lambda>epoch.
         res_bind (res_bind (py_item active ''baseline_vector'') py_dict) (\<lambda>baseline.
         res_bind (get_int commit ''activated_at'' 0) (\<lambda>at.
         Inr [(''active'', PBool True), (''checkpoint_id'', PStr cid), (''checkpoint_epoch'', PInt epoch),
           (''checkpoint_baseline'', PDict baseline), (''previous_checkpoint_id'', PStr (get_str commit ''previous_checkpoint_id'')),
           (''activated_at'', PInt at),
           (''recovery_fallback'', PBool (cid \<noteq> get_str commit ''current_checkpoint_id''))]))))))"

definition active_bundle :: "crypto \<Rightarrow> checkpoint_store \<Rightarrow> pydict option res" where
  "active_bundle cr st =
     res_bind (read_commit st) (\<lambda>c. case c of
       None \<Rightarrow> Inr None
     | Some commit \<Rightarrow>
         res_bind (read_active cr st) (\<lambda>a.
         let active = (case a of None \<Rightarrow> [] | Some c \<Rightarrow> c) in
         res_bind (item_str active ''checkpoint_id'') (\<lambda>cid.
         let proof = py_get commit (if cid = get_str commit ''current_checkpoint_id'' then ''commit_proof'' else ''previous_commit_proof'') in
         res_bind (get_int commit ''epoch'' 0) (\<lambda>epoch.
         Inr (Some [(''checkpoint'', PDict active), (''commit_proof'', py_sorted (py_or proof (PDict []))),
           (''epoch'', PInt epoch), (''previous_checkpoint_id'', PStr (get_str commit ''previous_checkpoint_id''))])))))"

end
