(* ===== verification/Checkpoint_Tail.thy ===== *)
theory Checkpoint_Tail
  imports Checkpoint_Commit Cluster_Rebuild
begin

text \<open>
  The operations above an active checkpoint and the state they lead to (cluster_checkpoint.py,
  cluster_state.py): the trust anchor of a checkpoint, \<open>load_checkpoint_tail\<close>,
  \<open>materialize_checkpoint_tail\<close>, and the loading and rebuilding functions of a node with or
  without an active checkpoint. The parts of a checkpoint that are read back as trust, instances
  and conflicts are read in the shape in which they are written; any other shape raises here,
  where the code raises when it uses the value. The text of a wrapped exception is cut.
\<close>

section \<open>The trust anchor\<close>

definition span_doc :: "key_span \<Rightarrow> pyval" where
  "span_doc k = PDict [(''end_seq'', case end_seq k of None \<Rightarrow> PNone | Some e \<Rightarrow> PInt e),
     (''key_id'', PStr (span_key_id k)), (''public_key'', PStr (span_public_key k)), (''start_seq'', PInt (start_seq k))]"

definition event_doc :: "role_event \<Rightarrow> pyval" where
  "event_doc e = PDict (
     (case membership_op_id e of None \<Rightarrow> [] | Some i \<Rightarrow> [(''membership_op_id'', PStr i)]) @ [(''role'', PStr (event_role e))]
     @ (case role_epoch e of None \<Rightarrow> [] | Some n \<Rightarrow> [(''role_epoch'', PInt n)]))"

definition event_rank :: "role_event \<Rightarrow> int \<times> string" where
  "event_rank e = (event_epoch e, case membership_op_id e of None \<Rightarrow> [] | Some i \<Rightarrow> i)"

definition strings_val :: "string set \<Rightarrow> pyval" where
  "strings_val s = PList (map PStr (sorted_list_of_set s))"

text \<open>Spans have none of the fields the code sorts them by, so that sort keeps their order.\<close>

definition serialize_trust :: "membership_trust \<Rightarrow> pydict" where
  "serialize_trust t = [
     (''nodes'', PDict (map (\<lambda>(n, d). (n, py_sorted (PDict d))) (dict_sorted (nodes t)))),
     (''removed_node_ids'', strings_val (removed_node_ids t)),
     (''signing_keys'', PDict (map (\<lambda>(n, ks). (n, PList (map span_doc ks))) (dict_sorted (signing_keys t)))),
     (''role_history'', PDict (map (\<lambda>(n, es). (n, PList (map event_doc (sort_key event_rank es)))) (dict_sorted (role_history t)))),
     (''validated_op_ids'', strings_val (validated_op_ids t))]"

definition parse_span :: "pyval \<Rightarrow> key_span res" where
  "parse_span v = (let d = dict_of v in
     case (py_get d ''start_seq'', py_get d ''end_seq'', py_get d ''key_id'', py_get d ''public_key'') of
       (PInt s, PNone, PStr k, PStr p) \<Rightarrow> Inr \<lparr>start_seq = s, end_seq = None, span_key_id = k, span_public_key = p\<rparr>
     | (PInt s, PInt e, PStr k, PStr p) \<Rightarrow> Inr \<lparr>start_seq = s, end_seq = Some e, span_key_id = k, span_public_key = p\<rparr>
     | _ \<Rightarrow> Inl TypeError)"

definition parse_event :: "pyval \<Rightarrow> role_event res" where
  "parse_event v = (let d = dict_of v in
     case (py_get d ''role'', py_get d ''role_epoch'', py_get d ''membership_op_id'') of
       (PStr r, PNone, PNone) \<Rightarrow> Inr \<lparr>role_epoch = None, event_role = r, membership_op_id = None\<rparr>
     | (PStr r, PInt n, PStr i) \<Rightarrow> Inr \<lparr>role_epoch = Some n, event_role = r, membership_op_id = Some i\<rparr>
     | _ \<Rightarrow> Inl TypeError)"

definition parse_record :: "pyval \<Rightarrow> pydict res" where
  "parse_record v = (case v of PDict d \<Rightarrow> Inr d | _ \<Rightarrow> Inl TypeError)"

text \<open>A dictionary whose values have one shape, and the members of a list of texts.\<close>

definition parse_entries :: "(pyval \<Rightarrow> 'a res) \<Rightarrow> pydict \<Rightarrow> string \<Rightarrow> (string, 'a) dict res" where
  "parse_entries parse d k =
     res_bind (or_empty (py_get d k)) (res_map (\<lambda>(n, v). res_bind (parse v) (\<lambda>x. Inr (n, x))))"

definition parse_each :: "(pyval \<Rightarrow> 'a res) \<Rightarrow> pyval \<Rightarrow> 'a list res" where
  "parse_each parse v = res_bind (py_list v) (res_map parse)"

definition parse_strings :: "pydict \<Rightarrow> string \<Rightarrow> string set res" where
  "parse_strings d k = res_bind (get_list d k) (\<lambda>vs. Inr (set (map py_str vs)))"

definition deserialize_trust :: "pydict \<Rightarrow> membership_trust res" where
  "deserialize_trust d =
     res_bind (parse_entries parse_record d ''nodes'') (\<lambda>ns.
     res_bind (parse_strings d ''removed_node_ids'') (\<lambda>removed.
     res_bind (parse_entries (parse_each parse_span) d ''signing_keys'') (\<lambda>keys.
     res_bind (parse_entries (parse_each parse_event) d ''role_history'') (\<lambda>roles.
     res_bind (parse_strings d ''validated_op_ids'') (\<lambda>ids.
     Inr \<lparr>nodes = ns, removed_node_ids = removed, signing_keys = keys, role_history = roles, validated_op_ids = ids\<rparr>)))))"

definition checkpoint_trust :: "pydict \<Rightarrow> membership_trust res" where
  "checkpoint_trust active = res_bind (or_empty (py_get active ''membership_trust'')) deserialize_trust"

section \<open>Loading the tail\<close>

definition tail_operation :: "string \<Rightarrow> int \<Rightarrow> pyval \<Rightarrow> pydict res" where
  "tail_operation actor seq v = (case v of
     PDict op \<Rightarrow>
       if get_str op ''actor'' \<noteq> actor then checkpoint_error ''checkpoint tail operation path mismatch''
       else res_bind (get_int op ''seq'' 0) (\<lambda>s.
         res_bind (reject_checkpoint (s \<noteq> seq) ''checkpoint tail operation path mismatch'') (\<lambda>_. Inr op))
   | _ \<Rightarrow> checkpoint_error ''checkpoint tail operation path mismatch'')"

fun actor_tail :: "string \<Rightarrow> int \<Rightarrow> int \<Rightarrow> (string \<times> pyval) list \<Rightarrow> pydict list res" where
  "actor_tail actor base expected [] = Inr []"
| "actor_tail actor base expected ((name, v) # files) = (case file_seq name of
     None \<Rightarrow> checkpoint_error ''oplog contains an invalid operation filename''
   | Some seq \<Rightarrow>
       if seq \<le> base then actor_tail actor base expected files
       else res_bind (reject_checkpoint (seq \<noteq> expected) (''checkpoint tail sequence gap for actor '' @ actor)) (\<lambda>_.
         res_bind (tail_operation actor seq v) (\<lambda>op.
         res_bind (actor_tail actor base (expected + 1) files) (\<lambda>ops. Inr (op # ops)))))"

text \<open>The files a directory listing \<open>*.json\<close> gives, in order.\<close>

definition json_files :: "(string, pyval) dict \<Rightarrow> (string \<times> pyval) list" where
  "json_files fs = filter (\<lambda>(name, _). json_stem name \<noteq> None) (dict_sorted fs)"

definition tail_above :: "(string, int) dict \<Rightarrow> cluster_store \<Rightarrow> pydict list res" where
  "tail_above baseline st =
     res_bind (res_map (\<lambda>(actor, fs). let base = vector_get baseline actor in actor_tail actor base (base + 1) (json_files fs))
       (dict_sorted (oplog st))) (\<lambda>opss. res_sorted order_key (concat opss))"

definition baseline_vector :: "pydict \<Rightarrow> (string, int) dict res" where
  "baseline_vector active = res_bind (py_item active ''baseline_vector'') normalized_vector"

section \<open>A node\<close>

text \<open>The cluster named in both parts is the content of the same file.\<close>

record node_state =
  history :: cluster_store
  checkpoints :: checkpoint_store

definition load_checkpoint_tail :: "crypto \<Rightarrow> pyval option \<Rightarrow> node_state \<Rightarrow> pydict list res" where
  "load_checkpoint_tail cr checkpoint ns =
     res_bind (case checkpoint of
         Some v \<Rightarrow> res_bind (verify_shadow_checkpoint cr (Some (local_cluster (checkpoints ns))) v) (\<lambda>c. Inr (Some c))
       | None \<Rightarrow> read_active cr (checkpoints ns)) (\<lambda>active. case active of
       None \<Rightarrow> Inr []
     | Some c \<Rightarrow> res_bind (baseline_vector c) (\<lambda>b. tail_above b (history ns)))"

section \<open>Materializing the tail\<close>

definition parse_change :: "pyval \<Rightarrow> parent_change res" where
  "parse_change v = (let d = dict_of v in
     case (py_get d ''op_id'', py_get d ''parent_version'', py_get d ''version'', py_get d ''assigned_host'',
           py_get d ''desired_state'', py_get d ''config_manifest_hash'') of
       (PStr i, PStr p, PStr v, PStr h, PStr s, PStr m) \<Rightarrow>
         Inr \<lparr>change_op_id = i, change_parent = p, change_version = v, change_host = h, change_desired = s, change_hash = m\<rparr>
     | _ \<Rightarrow> Inl TypeError)"

definition seed_changes :: "(string, pydict) dict \<Rightarrow> (string \<times> string, parent_change list) dict res" where
  "seed_changes ins = res_fold (\<lambda>(i, record) acc.
     res_bind (parse_each parse_change (py_or (py_get record ''conflicts'') (PList []))) (\<lambda>cs.
     Inr (fold (\<lambda>c a. if change_parent c = [] then a else group_append (i, change_parent c) c a) cs acc))) ins []"

definition seed_instances :: "pydict \<Rightarrow> string \<Rightarrow> string \<Rightarrow> instance_state res" where
  "seed_instances desired instances_key tombstones_key =
     res_bind (parse_entries parse_record desired instances_key) (\<lambda>ins.
     res_bind (parse_entries parse_record desired tombstones_key) (\<lambda>ts.
     res_bind (seed_changes ins) (\<lambda>ps. Inr \<lparr>insts = ins, tombs = ts, parents = ps\<rparr>)))"

record tail_state =
  tail_trust :: membership_trust
  tail_seqs :: "(string, int) dict"
  tail_v7 :: instance_state
  tail_pb8 :: instance_state
  tail_saw_pb8 :: bool
  tail_api :: "pydict option"
  tail_credentials :: "pydict list"
  tail_policies :: "pydict list"
  tail_changes :: int
  tail_generated_at :: int

text \<open>Every exception of the validation is wrapped.\<close>

definition as_tail_error :: "'a res \<Rightarrow> 'a res" where
  "as_tail_error m = (case m of Inl _ \<Rightarrow> checkpoint_error ''checkpoint tail operation is invalid'' | Inr x \<Rightarrow> Inr x)"

definition tail_dispatch :: "string \<Rightarrow> pydict \<Rightarrow> membership_trust \<Rightarrow> tail_state \<Rightarrow> tail_state res" where
  "tail_dispatch name op before s =
     (if name \<in> membership_ops then
        Inr (if credential_membership_fingerprint (nodes (tail_trust s)) \<noteq> credential_membership_fingerprint (nodes before)
          then s\<lparr>tail_changes := tail_changes s + 1\<rparr> else s)
      else if name \<in> v7_ops then res_bind (apply_v7 op (tail_v7 s)) (\<lambda>i. Inr (s\<lparr>tail_v7 := i\<rparr>))
      else if name \<in> pb8_ops then res_bind (apply_pb8 op (tail_pb8 s)) (\<lambda>i. Inr (s\<lparr>tail_pb8 := i, tail_saw_pb8 := True\<rparr>))
      else if name \<in> api_key_ops then res_bind (api_key_record op) (\<lambda>r. Inr (s\<lparr>tail_api := Some r\<rparr>))
      else if name \<in> v2_credential_ops then Inr (s\<lparr>tail_credentials := tail_credentials s @ [op]\<rparr>)
      else if name \<in> cluster_policy_ops then Inr (s\<lparr>tail_policies := tail_policies s @ [op]\<rparr>)
      else Inr s)"

definition tail_step :: "crypto \<Rightarrow> string \<Rightarrow> string \<Rightarrow> pydict \<Rightarrow> tail_state \<Rightarrow> tail_state res" where
  "tail_step cr cluster cid op s = (let actor = get_str op ''actor'' in
     res_bind (get_int op ''seq'' 0) (\<lambda>seq.
     res_bind (all_ok [
       reject_checkpoint (seq \<noteq> vector_get (tail_seqs s) actor + 1) (''checkpoint tail sequence gap for actor '' @ actor),
       reject_checkpoint (get_str op ''cluster_id'' \<noteq> cluster) ''checkpoint tail belongs to another cluster'',
       reject_checkpoint (get_str op ''base_checkpoint_id'' \<noteq> cid) ''checkpoint tail belongs to a stale checkpoint branch'']) (\<lambda>_.
     res_bind (as_tail_error (validate_operation cr (Some cluster) None (Some (tail_trust s)) [] True True False op)) (\<lambda>t.
     res_bind (item_str op ''op'') (\<lambda>name.
     res_bind (tail_dispatch name op (tail_trust s) (s\<lparr>tail_trust := (case t of None \<Rightarrow> tail_trust s | Some u \<Rightarrow> u)\<rparr>)) (\<lambda>s.
     res_bind (get_int op ''created_at'' 0) (\<lambda>at.
     Inr (s\<lparr>tail_seqs := dict_set actor seq (tail_seqs s), tail_generated_at := max (tail_generated_at s) at\<rparr>))))))))"

text \<open>The state a tail starts from.\<close>

definition tail_start :: "pydict \<Rightarrow> pydict \<Rightarrow> tail_state res" where
  "tail_start active desired =
     res_bind (baseline_vector active) (\<lambda>baseline.
     res_bind (checkpoint_trust active) (\<lambda>trust.
     res_bind (seed_instances desired ''instances'' ''tombstones'') (\<lambda>v7.
     res_bind (seed_instances desired ''pb8_instances'' ''pb8_tombstones'') (\<lambda>pb8.
     res_bind (get_int desired ''generated_at'' 0) (\<lambda>at.
     Inr \<lparr>tail_trust = trust, tail_seqs = baseline, tail_v7 = v7, tail_pb8 = pb8, tail_saw_pb8 = False,
       tail_api = (case py_get desired ''api_keys'' of PDict d \<Rightarrow> Some d | _ \<Rightarrow> None),
       tail_credentials = [], tail_policies = [], tail_changes = 0, tail_generated_at = at\<rparr>)))))"

text \<open>The basis operations of the checkpoint, followed by those of the tail.\<close>

definition with_basis :: "pydict \<Rightarrow> string \<Rightarrow> pydict list \<Rightarrow> pydict list res" where
  "with_basis active field tail =
     res_bind (or_empty (py_get active ''reducer_state'')) (\<lambda>reducer.
     res_bind (get_list reducer field) (\<lambda>vs.
     res_bind (basis_operations (map py_sorted vs)) (\<lambda>basis. Inr (basis @ tail))))"

definition tail_desired :: "pydict \<Rightarrow> pydict \<Rightarrow> tail_state \<Rightarrow> pydict res" where
  "tail_desired active desired s =
     res_bind (mark_conflicts (tail_v7 s)) (\<lambda>v7.
     res_bind (mark_conflicts (tail_pb8 s)) (\<lambda>pb8.
     res_bind (with_basis active ''v2_basis_operations'' (tail_credentials s)) (\<lambda>v2_ops.
     res_bind (with_basis active ''retention_policy_basis_operations'' (tail_policies s)) (\<lambda>policy_ops.
     res_bind (materialize_v2_credentials v2_ops) (\<lambda>v2_state.
     let d1 = dict_set ''tombstones'' (dict_val (tombs (tail_v7 s))) (dict_set ''instances'' (dict_val v7) (dict_update desired v2_state));
         d2 = (if dict_has desired ''pb8_instances'' \<or> dict_has desired ''pb8_tombstones'' \<or> tail_saw_pb8 s
           then dict_set ''pb8_tombstones'' (dict_val (tombs (tail_pb8 s))) (dict_set ''pb8_instances'' (dict_val pb8) d1) else d1);
         d3 = dict_set ''generated_at'' (PInt (tail_generated_at s)) d2;
         d4 = (case tail_api s of None \<Rightarrow> dict_pop ''api_keys'' d3 | Some r \<Rightarrow> dict_set ''api_keys'' (PDict r) d3)
     in if policy_ops = [] then Inr (dict_pop ''retention_policy'' d4)
        else res_bind (materialize_retention_policy policy_ops) (\<lambda>p. Inr (dict_set ''retention_policy'' (PDict p) d4)))))))"

definition tail_nodes :: "pydict \<Rightarrow> nat \<Rightarrow> tail_state \<Rightarrow> pydict res" where
  "tail_nodes cluster_nodes added s =
     res_bind (get_int cluster_nodes ''generation'' 0) (\<lambda>g.
     res_bind (get_int cluster_nodes ''credential_membership_generation'' 0) (\<lambda>m.
     Inr (dict_set ''credential_membership_generation'' (PInt (m + tail_changes s))
       (dict_set ''generation'' (PInt (g + int added)) (dict_set ''nodes'' (dict_val (nodes (tail_trust s))) cluster_nodes)))))"

definition materialize_checkpoint_tail :: "crypto \<Rightarrow> pyval \<Rightarrow> pydict list \<Rightarrow> pydict res" where
  "materialize_checkpoint_tail cr checkpoint operations =
     res_bind (verify_shadow_checkpoint cr None checkpoint) (\<lambda>active.
     res_bind (res_sorted order_key (map (\<lambda>op. dict_of (py_sorted (PDict op))) operations)) (\<lambda>ops.
     let base = dict_of (py_get active ''materialized''); desired = dict_of (py_get base ''desired_state'') in
     res_bind (tail_start active desired) (\<lambda>start.
     res_bind (res_fold (tail_step cr (get_str active ''cluster_id'') (get_str active ''checkpoint_id'')) ops start) (\<lambda>s.
     res_bind (tail_desired active desired s) (\<lambda>d.
     res_bind (tail_nodes (dict_of (py_get base ''cluster_nodes'')) (length ops) s) (\<lambda>n.
     Inr [(''cluster_nodes'', PDict n), (''desired_state'', PDict d), (''state_vector'', vector_val (dict_sorted (tail_seqs s)))]))))))"

section \<open>Loading and rebuilding with or without a checkpoint\<close>

definition materialized_doc :: "materialized \<Rightarrow> pydict" where
  "materialized_doc m = [(''cluster_nodes'', PDict (cluster_nodes_doc m)), (''desired_state'', PDict (desired_state_doc m)),
     (''state_vector'', vector_val (state_vector_doc m))]"

definition rebuild_materialized_state :: "crypto \<Rightarrow> node_state \<Rightarrow> pydict res" where
  "rebuild_materialized_state cr ns =
     res_bind (read_local_identity (history ns)) (\<lambda>_.
     res_bind (read_active cr (checkpoints ns)) (\<lambda>active. case active of
       Some c \<Rightarrow> res_bind (load_checkpoint_tail cr (Some (PDict c)) ns) (materialize_checkpoint_tail cr (PDict c))
     | None \<Rightarrow> res_bind (rebuild_log cr (history ns)) (\<lambda>m. Inr (materialized_doc m))))"

definition load_operations :: "crypto \<Rightarrow> node_state \<Rightarrow> string option \<Rightarrow> pydict list res" where
  "load_operations cr ns expected =
     res_bind (read_active cr (checkpoints ns)) (\<lambda>active. case active of
       Some c \<Rightarrow>
         res_bind (case expected of Some e \<Rightarrow> if e = [] then Inr (local_cluster (checkpoints ns)) else Inr e
           | None \<Rightarrow> Inr (local_cluster (checkpoints ns))) (\<lambda>cluster.
         res_bind (item_str c ''cluster_id'') (\<lambda>own.
         res_bind (reject (own \<noteq> cluster) ''active checkpoint belongs to another cluster'') (\<lambda>_.
         res_bind (load_checkpoint_tail cr (Some (PDict c)) ns) (\<lambda>ops.
         res_bind (materialize_checkpoint_tail cr (PDict c) ops) (\<lambda>_. Inr ops)))))
     | None \<Rightarrow> load_log_operations cr (history ns) expected)"

text \<open>\<open>_load_membership_trust\<close>: membership operations of the tail, on the trust of the checkpoint.\<close>

definition load_node_trust :: "crypto \<Rightarrow> node_state \<Rightarrow> string \<Rightarrow> membership_trust res" where
  "load_node_trust cr ns expected =
     res_bind (read_active cr (checkpoints ns)) (\<lambda>active. case active of
       Some c \<Rightarrow>
         res_bind (item_str c ''cluster_id'') (\<lambda>own.
         res_bind (reject (own \<noteq> expected) ''active checkpoint belongs to another cluster'') (\<lambda>_.
         res_bind (checkpoint_trust c) (\<lambda>t.
         res_bind (load_checkpoint_tail cr (Some (PDict c)) ns) (\<lambda>ops.
         res_fold (\<lambda>op u. res_bind (validate_operation cr (Some expected) None (Some u) [] True False True op) (\<lambda>u'.
           Inr (case u' of None \<Rightarrow> u | Some v \<Rightarrow> v))) (filter is_membership ops) t))))
     | None \<Rightarrow> load_log_trust cr (history ns) expected)"

text \<open>
  The checkpoint as the writing operations of cluster_state.py see it, and the store they work on: with it,
  \<open>load_membership_trust\<close> loads the trust of the node.
\<close>

definition read_checkpoint_info :: "crypto \<Rightarrow> node_state \<Rightarrow> checkpoint_info option res" where
  "read_checkpoint_info cr ns =
     res_bind (checkpoint_status cr (checkpoints ns)) (\<lambda>status.
     if py_get status ''active'' \<noteq> PBool True then Inr None
     else
       res_bind (item_str status ''checkpoint_id'') (\<lambda>i.
       res_bind (item_int status ''checkpoint_epoch'') (\<lambda>epoch.
       res_bind (normalized_vector (py_get status ''checkpoint_baseline'')) (\<lambda>baseline.
       Inr (Some \<lparr>checkpoint_id = i, checkpoint_epoch = epoch, checkpoint_baseline = baseline,
         branch_trust = (\<lambda>expected log. load_node_trust cr (ns\<lparr>history := history ns\<lparr>oplog := log\<rparr>\<rparr>) expected)\<rparr>)))))"

definition node_store :: "crypto \<Rightarrow> node_state \<Rightarrow> cluster_store res" where
  "node_store cr ns = res_bind (read_checkpoint_info cr ns) (\<lambda>c. Inr (history ns\<lparr>active_checkpoint := c\<rparr>))"

lemma inactive_status:
  assumes "checkpoint_status cr st = Inr s" "py_get s ''active'' \<noteq> PBool True"
  shows "read_active cr st = Inr None"
proof -
  from assms(1) obtain c where c: "read_commit st = Inr c" by (auto simp: checkpoint_status_def res_bind_eq_Inr)
  show ?thesis
  proof (cases c)
    case None
    then show ?thesis using c by (simp add: read_active_def)
  next
    case (Some commit)
    from assms(1) obtain tail where "s = (''active'', PBool True) # tail"
      unfolding checkpoint_status_def c Some res_bind_Inr option.case Let_def res_bind_eq_Inr by blast
    with assms(2) show ?thesis by (simp add: py_get_def)
  qed
qed

lemma node_store_trust:
  assumes "node_store cr ns = Inr st"
  shows "load_membership_trust cr st expected = load_node_trust cr ns expected"
proof -
  from assms obtain c where st: "st = history ns\<lparr>active_checkpoint := c\<rparr>" and c: "read_checkpoint_info cr ns = Inr c"
    by (auto simp: node_store_def res_bind_eq_Inr)
  show ?thesis
  proof (cases c)
    case None
    then have "read_active cr (checkpoints ns) = Inr None"
      using c by (auto simp: read_checkpoint_info_def res_bind_eq_Inr split: if_splits intro: inactive_status)
    then show ?thesis
      by (simp add: load_membership_trust_def st None load_node_trust_def load_log_trust_def membership_history_def log_files_def)
  next
    case (Some i)
    then have "branch_trust i expected log = load_node_trust cr (ns\<lparr>history := history ns\<lparr>oplog := log\<rparr>\<rparr>) expected" for log
      using c by (auto simp: read_checkpoint_info_def res_bind_eq_Inr split: if_splits)
    moreover have "ns\<lparr>history := history ns\<lparr>oplog := oplog (history ns)\<rparr>\<rparr> = ns" by (cases ns) simp
    ultimately show ?thesis by (simp add: load_membership_trust_def st Some)
  qed
qed

text \<open>\<open>_membership_trust_after_tail\<close>, the trust a new checkpoint records.\<close>

definition trust_after_tail :: "crypto \<Rightarrow> pydict \<Rightarrow> pydict list \<Rightarrow> membership_trust res" where
  "trust_after_tail cr active operations =
     res_bind (checkpoint_trust active) (\<lambda>t.
     res_bind (item_str active ''cluster_id'') (\<lambda>cluster.
     res_bind (res_sorted order_key operations) (\<lambda>ops.
     res_fold (\<lambda>op u. res_bind (as_tail_error (validate_operation cr (Some cluster) None (Some u) [] True True False op)) (\<lambda>u'.
       Inr (case u' of None \<Rightarrow> u | Some v \<Rightarrow> v))) (filter is_membership ops) t)))"

end
