(* ===== verification/Convergence_Laws.thy ===== *)
theory Convergence_Laws
  imports Load_Laws Checkpoint_Tail
begin

text \<open>
  Nodes that hold the same operation files rebuild the same documents: the order in which
  files are read, and so the replay, is determined by their paths and contents.
\<close>

section \<open>Convergence\<close>

lemma map_of_eq_set:
  "distinct (map fst d) \<Longrightarrow> map_of d k = Some v \<longleftrightarrow> (k, v) \<in> set d"
  by (rule map_of_eq_Some_iff)

lemma set_log_files:
  assumes "store_wf st"
  shows "set (log_files st) = {(a, f, v). stored st a f = Some v \<and> json_stem f \<noteq> None}"
proof -
  have d: "distinct (map fst (oplog st))" "\<And>a fs. (a, fs) \<in> set (oplog st) \<Longrightarrow> distinct (map fst fs)"
    using assms by (auto simp: store_wf_def)
  have "stored st a f = Some v \<longleftrightarrow> (\<exists>fs. (a, fs) \<in> set (oplog st) \<and> (f, v) \<in> set fs)" for a f v
  proof (cases "map_of (oplog st) a")
    case None
    then have "(a, fs) \<notin> set (oplog st)" for fs using d(1) by (metis map_of_eq_Some_iff option.distinct(1))
    with None show ?thesis by (simp add: stored_def dir_files_def)
  next
    case (Some fs)
    then have fs: "(a, fs) \<in> set (oplog st)" by (rule map_of_SomeD)
    have "gs = fs" if "(a, gs) \<in> set (oplog st)" for gs
      using Some that d(1) by (metis map_of_eq_Some_iff option.inject)
    moreover have "stored st a f = Some v \<longleftrightarrow> (f, v) \<in> set fs"
      by (simp add: stored_def dir_files_def Some map_of_eq_Some_iff [OF d(2) [OF fs]])
    ultimately show ?thesis using fs by blast
  qed
  note stored = this
  have "(a, f, v) \<in> set (log_files st) \<longleftrightarrow>
      (\<exists>fs. (a, fs) \<in> set (oplog st) \<and> (f, v) \<in> set fs \<and> json_stem f \<noteq> None)" for a f v
    by (auto simp: log_files_def intro!: bexI [of _ "(a, _)"] rev_image_eqI)
  note files = this
  show ?thesis
  proof (rule set_eqI)
    fix x :: "string \<times> string \<times> pyval"
    obtain a f v where x: "x = (a, f, v)" by (cases x)
    show "x \<in> set (log_files st) \<longleftrightarrow> x \<in> {(a, f, v). stored st a f = Some v \<and> json_stem f \<noteq> None}"
      unfolding x files mem_Collect_eq prod.case stored by blast
  qed
qed

lemma sorted_log_files:
  assumes "store_wf st"
  shows "sorted (map (\<lambda>(d, n, v). (d, n)) (log_files st))"
proof -
  let ?path = "\<lambda>(d :: string, n :: string, v :: pyval). (d, n)"
  have part: "sorted (map ?path (map (\<lambda>(n, v). (d, n, v)) (filter p fs)))"
    if "sorted (map fst fs)" for d p and fs :: "(string, pyval) dict"
    using that by (induction fs) (auto split: prod.splits)
  have "sorted (map ?path (concat (map (\<lambda>(d, fs).
       map (\<lambda>(n, v). (d, n, v)) (filter p (dict_sorted fs))) ds)))"
    if "sorted (map fst ds)" "distinct (map fst ds)" for p and ds :: "(string, (string, pyval) dict) dict"
    using that
  proof (induction ds)
    case (Cons x ds)
    obtain d fs where x: "x = (d, fs)" by (cases x)
    have le: "d < e" if "(e, gs) \<in> set ds" for e gs
      using Cons.prems that by (force simp: x less_le rev_image_eqI)
    have "sorted (map ?path (map (\<lambda>(n, v). (d, n, v)) (filter p (dict_sorted fs))))"
      by (rule part) (simp add: dict_sorted_def)
    moreover have "sorted (map ?path (concat (map (\<lambda>(d, fs). map (\<lambda>(n, v). (d, n, v)) (filter p (dict_sorted fs))) ds)))"
      by (rule Cons.IH) (use Cons.prems in simp_all)
    ultimately show ?case using le by (fastforce simp: x sorted_append)
  qed simp
  from this [of "dict_sorted (oplog st)" "\<lambda>(n, v). json_stem n \<noteq> None"] assms show ?thesis
    by (simp add: log_files_def dict_sorted_def store_wf_def distinct_map inj_on_def)
qed


text \<open>The files in the order of the code are determined by the stored content.\<close>

lemma log_files_cong:
  assumes "store_wf st" and "store_wf st'" and "\<forall>a f. stored st a f = stored st' a f"
  shows "log_files st = log_files st'"
proof -
  let ?path = "\<lambda>(d :: string, n :: string, v :: pyval). (d, n)"
  have s: "set (log_files st) = set (log_files st')"
    by (simp add: set_log_files assms)
  then have "map ?path (log_files st) = map ?path (log_files st')"
    using sorted_log_files log_files_distinct assms(1,2)
    by (intro sorted_distinct_set_unique) simp_all
  moreover have "inj_on ?path (set (log_files st) \<union> set (log_files st'))"
    unfolding s Un_absorb using log_files_distinct [OF assms(2)] by (simp add: distinct_map)
  ultimately show ?thesis by (rule map_inj_on)
qed

lemma load_log_trust_cong:
  "log_files st = log_files st' \<Longrightarrow> load_log_trust cr st c = load_log_trust cr st' c"
  by (simp add: load_log_trust_def membership_history_def)

text \<open>With the trust state given and no network input, validation does not read the store.\<close>

lemma validate_operation_store:
  "validate_operation cr e (Some st) (Some t) ns False lm lk op
     = validate_operation cr e (Some st') (Some t) ns False lm lk op"
  unfolding validate_operation_def validate_branch_def resolve_trust_def option.case simp_thms if_False
  by simp

lemma load_file_store: "load_file cr st e = load_file cr st' e"
  by (simp add: load_file_def fun_eq_iff validate_operation_store [of cr e st _ _ _ _ _ st'] split: pyval.splits)

lemma load_log_operations_alt:
  assumes "c \<noteq> []"
  shows "load_log_operations cr st (Some c) =
     res_bind (load_log_trust cr st c) (\<lambda>t.
     res_bind (res_fold (load_file cr st (Some c)) (log_files st) (t, [])) (\<lambda>(_, ops).
     res_sorted history_key ops))"
proof (cases "oplog st = []")
  case True
  then show ?thesis
    by (simp add: load_log_operations_def load_log_trust_def membership_history_def log_files_def
      dict_sorted_def res_sorted_def)
next
  case False
  with assms show ?thesis by (simp add: load_log_operations_def)
qed

lemma load_log_operations_cong:
  assumes "store_wf st" "store_wf st'" "\<forall>a f. stored st a f = stored st' a f" "c \<noteq> []"
  shows "load_log_operations cr st (Some c) = load_log_operations cr st' (Some c)"
proof -
  have l: "log_files st = log_files st'" by (rule log_files_cong [OF assms(1-3)])
  show ?thesis
    unfolding load_log_operations_alt [OF assms(4)] l load_log_trust_cong [OF l]
      load_file_store [of cr st _ st'] by (rule refl)
qed

lemma read_identity_cluster:
  assumes "read_local_identity st = Inr d"
  obtains c where "cluster_id_file st = Some c" "validate_cluster_id c = Inr ()" "item_str d ''cluster_id'' = Inr c"
proof -
  from assms obtain c n where c: "cluster_id_file st = Some c" "validate_cluster_id c = Inr ()"
    and d: "d = dict_update (node_identity st) [(''cluster_id'', PStr c), (''node_id'', PStr n)]"
    by (auto simp: read_local_identity_def res_bind_eq_Inr split: option.splits)
  have "map_of d ''cluster_id'' = Some (PStr c)"
    unfolding d by (subst map_of_dict_update) simp_all
  then show ?thesis by (intro that [OF c]) (simp add: item_str_Inr)
qed

lemma rebuild_log_cong:
  assumes "store_wf st" and "store_wf st'" and "\<forall>a f. stored st a f = stored st' a f"
    and "cluster_id_file st = cluster_id_file st'"
    and "is_ok (read_local_identity st)" and "is_ok (read_local_identity st')"
  shows "rebuild_log cr st = rebuild_log cr st'"
proof -
  from assms(5,6) obtain d d' where d: "read_local_identity st = Inr d" "read_local_identity st' = Inr d'"
    by (auto simp: is_ok_iff)
  obtain c where c: "cluster_id_file st = Some c"
    "validate_cluster_id c = Inr ()" "item_str d ''cluster_id'' = Inr c"
    by (rule read_identity_cluster [OF d(1)])
  obtain c' where "cluster_id_file st' = Some c'" "item_str d' ''cluster_id'' = Inr c'"
    by (rule read_identity_cluster [OF d(2)])
  with assms(4) c(1) have c': "item_str d' ''cluster_id'' = Inr c" by simp
  have "c \<noteq> []"
  proof
    assume "c = []"
    with c(2) show False by (simp add: validate_cluster_id_def startswith_def cluster_id_prefix_def)
  qed
  from load_log_operations_cong [OF assms(1-3) this, of cr] show ?thesis
    by (simp add: rebuild_log_def d c(3) c')
qed

section \<open>Convergence above a checkpoint\<close>

lemma dict_sorted_cong:
  assumes "distinct (map fst d)" "distinct (map fst d')" "map_of d = map_of d'"
  shows "dict_sorted d = dict_sorted d'"
proof -
  have "set d = set d'" using assms by (metis map_of_inject_set)
  moreover have "distinct d" "distinct d'" using assms(1,2) by (simp_all add: distinct_map)
  ultimately have "mset d = mset d'" by (simp add: set_eq_iff_mset_eq_distinct)
  moreover have "inj_on fst (set d)" using assms(1) by (simp add: distinct_map)
  ultimately show ?thesis unfolding dict_sorted_def by (rule sort_key_perm)
qed

text \<open>The directories that have operation files, with these files in order.\<close>

definition json_dirs :: "cluster_store \<Rightarrow> (string, (string \<times> pyval) list) dict" where
  "json_dirs st = filter (\<lambda>(_, fs). fs \<noteq> []) (map (\<lambda>(a, fs). (a, json_files fs)) (dict_sorted (oplog st)))"

lemma distinct_dir_files: "store_wf st \<Longrightarrow> distinct (map fst (dir_files st a))"
  by (auto simp: store_wf_def dir_files_def split: option.split dest: map_of_SomeD)

lemma set_json_dirs:
  assumes "store_wf st"
  shows "set (json_dirs st) = {(a, fs). fs = json_files (dir_files st a) \<and> fs \<noteq> []}"
proof -
  have d: "distinct (map fst (oplog st))" using assms by (simp add: store_wf_def)
  have "(\<exists>fs. (a, fs) \<in> set (oplog st) \<and> js = json_files fs) \<and> js \<noteq> [] \<longleftrightarrow> js = json_files (dir_files st a) \<and> js \<noteq> []" for a js
  proof (cases "map_of (oplog st) a")
    case None
    then have "(a, fs) \<notin> set (oplog st)" for fs using d by (metis map_of_eq_Some_iff option.distinct(1))
    with None show ?thesis by (simp add: dir_files_def json_files_def dict_sorted_def)
  next
    case (Some fs)
    then have "(a, gs) \<in> set (oplog st) \<longleftrightarrow> gs = fs" for gs using d by (metis map_of_eq_Some_iff option.inject)
    with Some show ?thesis by (simp add: dir_files_def)
  qed
  moreover have "(a, js) \<in> set (json_dirs st) \<longleftrightarrow> (\<exists>fs. (a, fs) \<in> set (oplog st) \<and> js = json_files fs) \<and> js \<noteq> []" for a js
    by (force simp: json_dirs_def)
  ultimately show ?thesis by auto
qed

lemma json_dirs_cong:
  assumes "store_wf st" "store_wf st'" "\<forall>a f. stored st a f = stored st' a f"
  shows "json_dirs st = json_dirs st'"
proof -
  have "json_files (dir_files st a) = json_files (dir_files st' a)" for a
  proof -
    have "map_of (dir_files st a) = map_of (dir_files st' a)" using assms(3) by (simp add: stored_def fun_eq_iff)
    from dict_sorted_cong [OF distinct_dir_files [OF assms(1)] distinct_dir_files [OF assms(2)] this] show ?thesis
      by (simp add: json_files_def)
  qed
  then have "set (json_dirs st) = set (json_dirs st')" by (simp add: set_json_dirs assms)
  moreover have "sorted (map fst (json_dirs s)) \<and> distinct (map fst (json_dirs s))" if "store_wf s" for s
  proof -
    let ?ds = "map (\<lambda>(a, fs). (a, json_files fs)) (dict_sorted (oplog s))"
    have "map fst ?ds = map fst (dict_sorted (oplog s))" by (simp add: o_def case_prod_unfold)
    moreover have "distinct (map fst (dict_sorted (oplog s)))"
      using that by (simp add: store_wf_def dict_sorted_def distinct_map inj_on_def)
    ultimately have "sorted (map fst ?ds)" "distinct (map fst ?ds)" by (simp_all add: dict_sorted_def del: map_map)
    then show ?thesis unfolding json_dirs_def by (intro conjI sorted_filter distinct_map_filter)
  qed
  ultimately show ?thesis using assms(1,2)
    by (metis (no_types, lifting) distinct_map inj_on_def list.set_map map_sorted_distinct_set_unique sup.idem)
qed

lemma tail_above_dirs:
  "tail_above b st = res_bind (res_map (\<lambda>(a, fs). actor_tail a (vector_get b a) (vector_get b a + 1) fs) (json_dirs st))
     (\<lambda>opss. res_sorted order_key (concat opss))"
  unfolding tail_above_def json_dirs_def
  by (subst res_map_nil_filter) (auto simp: res_map_map o_def case_prod_unfold Let_def)

lemma load_checkpoint_tail_cong:
  assumes "store_wf (history ns)" "store_wf (history ns')" "\<forall>a f. stored (history ns) a f = stored (history ns') a f"
    and "local_cluster (checkpoints ns) = local_cluster (checkpoints ns')"
  shows "load_checkpoint_tail cr (Some v) ns = load_checkpoint_tail cr (Some v) ns'"
proof -
  have "tail_above b (history ns) = tail_above b (history ns')" for b
    unfolding tail_above_dirs json_dirs_cong [OF assms(1-3)] ..
  then show ?thesis by (simp add: load_checkpoint_tail_def assms(4) cong: option.case_cong)
qed

text \<open>
  C9: Two nodes of one cluster that hold the same operation files and read the same active checkpoint, or both none,
  rebuild the same documents and load the same membership trust, whatever the order in which the files arrived and whatever
  else the two nodes hold.
\<close>

theorem rebuild_converges:
  assumes "store_wf (history ns)" and "store_wf (history ns')"
    and "\<forall>a f. stored (history ns) a f = stored (history ns') a f"
    and "read_active cr (checkpoints ns) = read_active cr (checkpoints ns')"
    and "local_cluster (checkpoints ns) = local_cluster (checkpoints ns')"
    and "cluster_id_file (history ns) = Some (local_cluster (checkpoints ns))"
    and "cluster_id_file (history ns') = Some (local_cluster (checkpoints ns'))"
    and "is_ok (read_local_identity (history ns))" and "is_ok (read_local_identity (history ns'))"
  shows "rebuild_materialized_state cr ns = rebuild_materialized_state cr ns' \<and>
    load_node_trust cr ns cluster = load_node_trust cr ns' cluster"
proof -
  have "rebuild_log cr (history ns) = rebuild_log cr (history ns')"
    by (rule rebuild_log_cong [OF assms(1-3)]) (use assms(5-9) in simp_all)
  moreover have "load_log_trust cr (history ns) cluster = load_log_trust cr (history ns') cluster"
    by (rule load_log_trust_cong [OF log_files_cong [OF assms(1-3)]])
  moreover note load_checkpoint_tail_cong [OF assms(1-3,5), of cr]
  ultimately show ?thesis
    using assms(8,9) by (auto simp: rebuild_materialized_state_def load_node_trust_def assms(4) is_ok_iff cong: option.case_cong)
qed

text \<open>The demo log as another node received it: the policy first, in a store with other keys.\<close>

definition demo_peer_store :: cluster_store where
  "demo_peer_store = demo_log_store\<lparr>node_id_file := Some node_b, store_keys := \<lparr>signing_private = [], encryption_public_raw = []\<rparr>,
     oplog := [(node_b, []), (node_a, [(file_name 2, PDict demo_retention), (file_name 1, PDict demo_founder)])]\<rparr>"

definition demo_node :: "cluster_store \<Rightarrow> (string, json_file) dict \<Rightarrow> node_state" where
  "demo_node st objects = \<lparr>history = st,
     checkpoints = \<lparr>local_cluster = demo_cluster, checkpoint_objects = objects, commit_file = None\<rparr>\<rparr>"

theorem rebuild_converges_witness:
  "rebuild_materialized_state demo_crypto (demo_node demo_log_store []) =
   rebuild_materialized_state demo_crypto (demo_node demo_peer_store [(''0'', Unreadable)])"
proof (rule rebuild_converges [THEN conjunct1])
  have ne: "file_name 1 \<noteq> file_name 2" by (simp add: file_name_def demo_sequence)
  then show "store_wf (history (demo_node demo_log_store []))" "store_wf (history (demo_node demo_peer_store [(''0'', Unreadable)]))"
    by (simp_all add: demo_node_def store_wf_def demo_log_store_def demo_peer_store_def)
  show "\<forall>a f. stored (history (demo_node demo_log_store [])) a f = stored (history (demo_node demo_peer_store [(''0'', Unreadable)])) a f"
    using ne by (simp add: demo_node_def stored_def dir_files_def demo_log_store_def demo_peer_store_def)
qed (simp_all add: demo_node_def read_active_def read_commit_def read_local_identity_def demo_log_store_def demo_peer_store_def
    demo_store_def demo_cluster_valid)

end
