(* ===== verification/Cmc_Books.thy ===== *)
theory Cmc_Books
  imports Cmc_Authority
begin

text \<open>
  The books of the lease authority: the sums over the unsettled leases that the counters of a journal
  must show (\<open>books_balance\<close>), and that reconciling a domain, applying a terminal settlement
  and expiring leases keep them so.
\<close>

section \<open>Outstanding leases\<close>

text \<open>The leases that still hold a reservation, by lease identifier.\<close>

definition outstanding :: "journal \<Rightarrow> string \<rightharpoonup> lease" where
  "outstanding j = (\<lambda>i. Option.bind (map_of (leases j) i)
     (\<lambda>ls. if terminal ls then None else map_of (requests j) (request_ref ls)))"

lemma outstanding_iff: "outstanding j i = Some l \<longleftrightarrow> (\<exists>ls. map_of (leases j) i = Some ls \<and>
    \<not> terminal ls \<and> map_of (requests j) (request_ref ls) = Some l)"
  by (auto simp: outstanding_def bind_eq_Some_conv)

definition total :: "(lease \<Rightarrow> int) \<Rightarrow> (string \<rightharpoonup> lease) \<Rightarrow> int" where
  "total f m = (\<Sum>i \<in> dom m. f (the (m i)))"

lemma finite_outstanding [simp]: "finite (dom (outstanding j))"
proof (rule finite_subset)
  show "dom (outstanding j) \<subseteq> dom (map_of (leases j))"
    by (auto simp: outstanding_iff)
qed (rule finite_dom_map_of)

lemma total_insert: "finite (dom m) \<Longrightarrow> m i = None \<Longrightarrow> total f (m(i \<mapsto> l)) = total f m + f l"
proof -
  assume m: "finite (dom m)" "m i = None"
  then have "i \<notin> dom m" by auto
  with m(1) show ?thesis by (simp add: total_def add.commute cong: sum.cong_simp) (rule sum.cong, auto)
qed

lemma total_delete: "finite (dom m) \<Longrightarrow> m i = Some l \<Longrightarrow> total f (m(i := None)) = total f m - f l"
proof -
  assume m: "finite (dom m)" "m i = Some l"
  have "total f m = f l + (\<Sum>k \<in> dom m - {i}. f (the (m k)))"
    unfolding total_def using m by (subst sum.remove [of _ i]) auto
  moreover have "total f (m(i := None)) = (\<Sum>k \<in> dom m - {i}. f (the (m k)))"
    unfolding total_def by (rule sum.cong) auto
  ultimately show ?thesis by simp
qed

lemma total_zero: "(\<And>i l. m i = Some l \<Longrightarrow> f l = 0) \<Longrightarrow> total f m = 0"
  unfolding total_def by (rule sum.neutral) auto

lemma total_nonneg: "(\<And>i l. m i = Some l \<Longrightarrow> 0 \<le> f l) \<Longrightarrow> 0 \<le> total f m"
  unfolding total_def by (rule sum_nonneg) auto

lemma total_member:
  assumes "finite (dom m)" "m i = Some l" "\<And>i l. m i = Some l \<Longrightarrow> 0 \<le> f l"
  shows "f l \<le> total f m"
proof -
  have "0 \<le> total f (m(i := None))" by (rule total_nonneg) (use assms(3) in \<open>auto split: if_splits\<close>)
  then show ?thesis using total_delete [OF assms(1,2), of f] by simp
qed

definition on_key :: "string \<Rightarrow> (lease \<Rightarrow> int) \<Rightarrow> lease \<Rightarrow> int" where
  "on_key c f l = (if credential_id l = c then f l else 0)"

definition in_domain :: "string \<Rightarrow> lease \<Rightarrow> int" where
  "in_domain d l = (if lease_domain l = d then 1 else 0)"

section \<open>The books of the journal\<close>

definition bindings_wf :: "journal \<Rightarrow> bool" where
  "bindings_wf j \<longleftrightarrow>
     (\<forall>r l. map_of (requests j) r = Some l \<longrightarrow> 0 \<le> credits_micros l \<and> 1 \<le> request_count l \<and>
        map_of (credential_keys j) (credential_id l) \<noteq> None \<and> map_of (quota_domains j) (lease_domain l) \<noteq> None \<and>
        (\<exists>ls. map_of (leases j) (lease_id l) = Some ls \<and> request_ref ls = r)) \<and>
     (\<forall>i ls. map_of (leases j) i = Some ls \<longrightarrow> (terminal ls \<longleftrightarrow> lease_settlement ls \<noteq> None) \<and>
        (\<exists>l. map_of (requests j) (request_ref ls) = Some l \<and> lease_id l = i))"

definition key_balanced :: "(string \<rightharpoonup> lease) \<Rightarrow> string \<Rightarrow> key_usage \<Rightarrow> bool" where
  "key_balanced m c k \<longleftrightarrow> reserved_credits k = total (on_key c credits_micros) m \<and>
     reserved_requests k = total (on_key c request_count) m \<and> 0 \<le> used_credits k \<and> 0 \<le> used_requests k"

definition domain_balanced :: "(string \<rightharpoonup> lease) \<Rightarrow> string \<Rightarrow> quota_domain \<Rightarrow> bool" where
  "domain_balanced m d q \<longleftrightarrow> concurrent_leases q = total (in_domain d) m \<and>
     0 \<le> day_reserved q \<and> 0 \<le> day_used q \<and> 0 \<le> month_reserved q \<and> 0 \<le> month_used q"

definition books_balance :: "journal \<Rightarrow> bool" where
  "books_balance j \<longleftrightarrow> bindings_wf j \<and>
     (\<forall>c k. map_of (credential_keys j) c = Some k \<longrightarrow> key_balanced (outstanding j) c k) \<and>
     (\<forall>d q. map_of (quota_domains j) d = Some q \<longrightarrow> domain_balanced (outstanding j) d q)"

lemma outstanding_request:
  "bindings_wf j \<Longrightarrow> outstanding j i = Some l \<Longrightarrow> \<exists>r. map_of (requests j) r = Some l \<and> lease_id l = i"
  by (fastforce simp: outstanding_iff bindings_wf_def)

lemma outstanding_bounds:
  assumes "bindings_wf j" "outstanding j i = Some l"
  shows "0 \<le> credits_micros l" "1 \<le> request_count l" "map_of (credential_keys j) (credential_id l) \<noteq> None"
    "map_of (quota_domains j) (lease_domain l) \<noteq> None" "lease_id l = i"
  using outstanding_request [OF assms] assms(1) by (auto simp: bindings_wf_def)

text \<open>Steps that touch neither the leases nor the requests.\<close>

lemma outstanding_simps [simp]:
  "outstanding (j\<lparr>quota_domains := x\<rparr>) = outstanding j"
  "outstanding (j\<lparr>credential_keys := y\<rparr>) = outstanding j"
  "outstanding (j\<lparr>provider_events := z\<rparr>) = outstanding j"
  by (simp_all add: outstanding_def cong: if_cong)

lemma outstanding_lease:
  "outstanding (j\<lparr>leases := dict_set i ls (leases j)\<rparr>) =
     (outstanding j)(i := if terminal ls then None else map_of (requests j) (request_ref ls))"
  by (simp add: outstanding_def fun_eq_iff cong: if_cong)

lemma reconcile_domain_Inr:
  assumes "reconcile_domain d ep now j = Inr j'"
  obtains q q' where "q = (case map_of (quota_domains j) d of None \<Rightarrow> new_domain d ep (utc_date now) | Some q \<Rightarrow> q)"
    "j' = j\<lparr>quota_domains := dict_set d q' (quota_domains j)\<rparr>" "concurrent_leases q' = concurrent_leases q"
    "domain_epoch q' = ep" "day q' = utc_date now" "month q' = (fst (utc_date now), fst (snd (utc_date now)))"
    "if day q = utc_date now then day_reserved q' = day_reserved q \<and> day_used q' = day_used q
     else day_reserved q' = 0 \<and> day_used q' = 0"
    "if month q = (fst (utc_date now), fst (snd (utc_date now)))
     then month_reserved q' = month_reserved q \<and> month_used q' = month_used q
     else month_reserved q' = 0 \<and> month_used q' = 0"
    "minute_requests q' = filter (\<lambda>(at, _). now - 60 < at) (minute_requests q)"
    "provider_counters q' = provider_counters q \<or> provider_counters q' = []"
  using assms unfolding reconcile_domain_def Let_def
  by (auto simp: drop_stale_counters_def roll_day_def roll_month_def split: if_splits option.splits)


text \<open>Reconciling a domain changes no reservation and keeps the books.\<close>

lemma reconcile_domain_balances:
  assumes "reconcile_domain d ep now j = Inr j'" and "books_balance j"
  shows "books_balance j'"
  using assms(1)
proof (rule reconcile_domain_Inr)
  fix q q'
  assume q: "q = (case map_of (quota_domains j) d of None \<Rightarrow> new_domain d ep (utc_date now) | Some q \<Rightarrow> q)"
    and j': "j' = j\<lparr>quota_domains := dict_set d q' (quota_domains j)\<rparr>"
    and c: "concurrent_leases q' = concurrent_leases q"
    and dy: "if day q = utc_date now then day_reserved q' = day_reserved q \<and> day_used q' = day_used q
     else day_reserved q' = 0 \<and> day_used q' = 0"
    and mo: "if month q = (fst (utc_date now), fst (snd (utc_date now)))
     then month_reserved q' = month_reserved q \<and> month_used q' = month_used q
     else month_reserved q' = 0 \<and> month_used q' = 0"
  have o: "outstanding j' = outstanding j" by (simp add: j')
  have b: "domain_balanced (outstanding j) d q"
  proof (cases "map_of (quota_domains j) d")
    case None
    have "total (in_domain d) (outstanding j) = 0"
      by (rule total_zero)
        (use assms(2) None in \<open>auto simp: in_domain_def books_balance_def dest: outstanding_bounds(4)\<close>)
    then show ?thesis by (simp add: q None new_domain_def domain_balanced_def)
  next
    case (Some p)
    then show ?thesis using assms(2) by (simp add: q books_balance_def)
  qed
  then have b': "domain_balanced (outstanding j) d q'"
    using c dy mo by (auto simp: domain_balanced_def split: if_splits)
  have "bindings_wf j'"
    using assms(2) by (auto simp: books_balance_def bindings_wf_def j')
  with b' assms(2) show ?thesis by (auto simp: books_balance_def o j')
qed

text \<open>A terminal lease leaves the outstanding ones; its key and domain follow.\<close>

lemma settle_domain_simps [simp]:
  "concurrent_leases (settle_domain l s q) = max 0 (concurrent_leases q - 1)"
  "day_reserved (settle_domain l s q) = max 0 (day_reserved q - credits_micros l)"
  "month_reserved (settle_domain l s q) = max 0 (month_reserved q - credits_micros l)"
  "day_used (settle_domain l s q) = day_used q + actual_credits_micros s"
  "month_used (settle_domain l s q) = month_used q + actual_credits_micros s"
  by (simp_all add: settle_domain_def Let_def)

lemma apply_terminal_Inr:
  assumes "bindings_wf j" and "map_of (requests j) r = Some l"
  shows "\<exists>j' ls. apply_terminal l s j = Inr j' \<and> map_of (leases j) (lease_id l) = Some ls \<and>
    (if terminal ls then j' = j
     else \<exists>k q. map_of (credential_keys j) (credential_id l) = Some k \<and>
       map_of (quota_domains j) (lease_domain l) = Some q \<and> outstanding j (lease_id l) = Some l \<and>
       outstanding j' = (outstanding j)(lease_id l := None) \<and>
       j' = j\<lparr>credential_keys := dict_set (credential_id l) (settle_key l (actual_credits_micros s) k) (credential_keys j),
         quota_domains := dict_set (lease_domain l) (settle_domain l s q) (quota_domains j),
         leases := dict_set (lease_id l) (ls\<lparr>terminal := True, lease_settlement := Some s\<rparr>) (leases j)\<rparr>)"
proof -
  from assms obtain ls k q where ls: "map_of (leases j) (lease_id l) = Some ls" "request_ref ls = r"
    and k: "map_of (credential_keys j) (credential_id l) = Some k"
    and q: "map_of (quota_domains j) (lease_domain l) = Some q"
    by (fastforce simp: bindings_wf_def)
  show ?thesis
  proof (cases "terminal ls")
    case True
    then show ?thesis by (simp add: apply_terminal_def ls)
  next
    case False
    then show ?thesis
      using ls k q assms(2) by (simp add: apply_terminal_def outstanding_iff) (simp add: outstanding_def fun_eq_iff cong: if_cong)
  qed
qed

lemma key_balanced_delete:
  assumes "finite (dom m)" "m i = Some l" "key_balanced m c k"
  shows "key_balanced (m(i := None)) c (if credential_id l = c
     then k\<lparr>reserved_credits := reserved_credits k - credits_micros l,
       reserved_requests := reserved_requests k - request_count l\<rparr> else k)"
  using assms(3) by (simp add: key_balanced_def total_delete [OF assms(1,2)] on_key_def)

lemma key_balanced_settle:
  assumes "bindings_wf j" "outstanding j i = Some l" "key_balanced (outstanding j) (credential_id l) k" "0 \<le> actual"
  shows "key_balanced ((outstanding j)(i := None)) (credential_id l) (settle_key l actual k)"
proof -
  have nn: "0 \<le> credits_micros l'" "0 \<le> request_count l'" if "outstanding j i' = Some l'" for i' l'
    using outstanding_bounds(1,2) [OF assms(1) that] by linarith+
  have "on_key (credential_id l) credits_micros l \<le> total (on_key (credential_id l) credits_micros) (outstanding j)"
    "on_key (credential_id l) request_count l \<le> total (on_key (credential_id l) request_count) (outstanding j)"
    by (rule total_member [OF finite_outstanding assms(2)], use nn in \<open>simp add: on_key_def\<close>)+
  then have "credits_micros l \<le> reserved_credits k" "request_count l \<le> reserved_requests k"
    using assms(3) by (simp_all add: key_balanced_def on_key_def)
  then show ?thesis
    using assms(3,4) outstanding_bounds(2) [OF assms(1,2)]
    by (simp add: key_balanced_def settle_key_def total_delete [OF finite_outstanding assms(2)] on_key_def)
qed

lemma domain_balanced_settle:
  assumes "bindings_wf j" "outstanding j i = Some l" "domain_balanced (outstanding j) (lease_domain l) q"
    "0 \<le> actual_credits_micros s"
  shows "domain_balanced ((outstanding j)(i := None)) (lease_domain l) (settle_domain l s q)"
proof -
  have "in_domain (lease_domain l) l \<le> total (in_domain (lease_domain l)) (outstanding j)"
    by (rule total_member [OF finite_outstanding assms(2)]) (simp add: in_domain_def)
  then show ?thesis
    using assms(3,4) by (simp add: domain_balanced_def total_delete [OF finite_outstanding assms(2)] in_domain_def)
qed

lemma apply_terminal_balances:
  assumes "books_balance j" and "map_of (requests j) r = Some l" and "0 \<le> actual_credits_micros s"
  obtains j' where "apply_terminal l s j = Inr j'" "books_balance j'" "requests j' = requests j"
proof -
  have wf: "bindings_wf j" using assms(1) by (simp add: books_balance_def)
  obtain j' ls where j': "apply_terminal l s j = Inr j'" "map_of (leases j) (lease_id l) = Some ls"
    and d: "if terminal ls then j' = j
     else \<exists>k q. map_of (credential_keys j) (credential_id l) = Some k \<and>
       map_of (quota_domains j) (lease_domain l) = Some q \<and> outstanding j (lease_id l) = Some l \<and>
       outstanding j' = (outstanding j)(lease_id l := None) \<and>
       j' = j\<lparr>credential_keys := dict_set (credential_id l) (settle_key l (actual_credits_micros s) k) (credential_keys j),
         quota_domains := dict_set (lease_domain l) (settle_domain l s q) (quota_domains j),
         leases := dict_set (lease_id l) (ls\<lparr>terminal := True, lease_settlement := Some s\<rparr>) (leases j)\<rparr>"
    using apply_terminal_Inr [OF wf assms(2)] by blast
  show ?thesis
  proof (cases "terminal ls")
    case True
    with j' d assms(1) show ?thesis by (intro that [of j]) simp_all
  next
    case False
    with d obtain k q where k: "map_of (credential_keys j) (credential_id l) = Some k"
      and q: "map_of (quota_domains j) (lease_domain l) = Some q" and o: "outstanding j (lease_id l) = Some l"
      and o': "outstanding j' = (outstanding j)(lease_id l := None)"
      and eq: "j' = j\<lparr>credential_keys := dict_set (credential_id l) (settle_key l (actual_credits_micros s) k) (credential_keys j),
         quota_domains := dict_set (lease_domain l) (settle_domain l s q) (quota_domains j),
         leases := dict_set (lease_id l) (ls\<lparr>terminal := True, lease_settlement := Some s\<rparr>) (leases j)\<rparr>" by auto
    have kj: "credential_keys j' = dict_set (credential_id l) (settle_key l (actual_credits_micros s) k) (credential_keys j)"
      "quota_domains j' = dict_set (lease_domain l) (settle_domain l s q) (quota_domains j)"
      by (simp_all add: eq)
    have "request_ref ls = r'" if "map_of (requests j) r' = Some la" "lease_id la = lease_id l" for r' la
      using wf j'(2) that unfolding bindings_wf_def by (metis option.inject)
    then have "bindings_wf j'" using wf j'(2) k q by (auto simp: bindings_wf_def eq)
    moreover have "key_balanced (outstanding j') c k'" if "map_of (credential_keys j') c = Some k'" for c k'
    proof (cases "c = credential_id l")
      case True
      have "key_balanced (outstanding j) (credential_id l) k" using assms(1) k by (simp add: books_balance_def)
      from key_balanced_settle [OF wf o this assms(3)] True that show ?thesis by (auto simp: kj o')
    next
      case False
      with that assms(1) show ?thesis
        using key_balanced_delete [OF finite_outstanding o, of c k'] by (simp add: kj o' books_balance_def)
    qed
    moreover have "domain_balanced (outstanding j') d q'" if "map_of (quota_domains j') d = Some q'" for d q'
    proof (cases "d = lease_domain l")
      case True
      have "domain_balanced (outstanding j) (lease_domain l) q" using assms(1) q by (simp add: books_balance_def)
      from domain_balanced_settle [OF wf o this assms(3)] True that show ?thesis by (auto simp: kj o')
    next
      case False
      with that assms(1) show ?thesis
        by (simp add: kj o' books_balance_def domain_balanced_def
          total_delete [OF finite_outstanding o] in_domain_def)
    qed
    ultimately show ?thesis using j' by (intro that [of j']) (simp_all add: books_balance_def, simp add: eq)
  qed
qed

lemma expire_leases_balances:
  assumes "books_balance j"
  obtains j' where "expire_leases now j = Inr j'" "books_balance j'" "requests j' = requests j"
proof -
  have "\<exists>j'. res_fold (expire_lease now) xs u = Inr j' \<and> books_balance j' \<and> requests j' = requests u"
    if "books_balance u" for xs u
    using that
  proof (induction xs arbitrary: u)
    case (Cons x xs)
    obtain i ls where x: "x = (i, ls)" by (cases x)
    have "\<exists>v. expire_lease now x u = Inr v \<and> books_balance v \<and> requests v = requests u"
    proof (cases "terminal ls \<or> map_of (requests u) (request_ref ls) = None")
      case True
      with Cons.prems show ?thesis by (auto simp: x expire_lease_def)
    next
      case False
      then obtain l where l: "map_of (requests u) (request_ref ls) = Some l" by auto
      then have "0 \<le> credits_micros l" using Cons.prems by (auto simp: books_balance_def bindings_wf_def)
      then obtain v where "apply_terminal l \<lparr>settled_lease = i, outcome = ''expired_assumed_used'',
          actual_credits_micros = credits_micros l, status_code = None, settled_at = now\<rparr> u = Inr v"
        "books_balance v" "requests v = requests u"
        using apply_terminal_balances [OF Cons.prems l] by (metis settlement.select_convs(3))
      with False l Cons.prems show ?thesis by (auto simp: x expire_lease_def)
    qed
    then obtain v where v: "expire_lease now x u = Inr v" "books_balance v" "requests v = requests u" by blast
    from Cons.IH [OF v(2)] v show ?case by auto
  qed simp
  from this [OF assms, of "leases j"] show ?thesis using that by (auto simp: expire_leases_def)
qed


section \<open>Considering candidates\<close>

lemma reserved_nonneg:
  assumes "books_balance j" "map_of (credential_keys j) c = Some k"
  shows "0 \<le> reserved_credits k" "0 \<le> reserved_requests k" "0 \<le> used_credits k" "0 \<le> used_requests k"
proof -
  have b: "bindings_wf j" "key_balanced (outstanding j) c k" using assms by (simp_all add: books_balance_def)
  have nn: "0 \<le> credits_micros l" "0 \<le> request_count l" if "outstanding j i = Some l" for i l
    using outstanding_bounds(1,2) [OF b(1) that] by linarith+
  have "0 \<le> total (on_key c credits_micros) (outstanding j)" "0 \<le> total (on_key c request_count) (outstanding j)"
    by (rule total_nonneg, use nn in \<open>simp add: on_key_def\<close>)+
  with b(2) show "0 \<le> reserved_credits k" "0 \<le> reserved_requests k" "0 \<le> used_credits k" "0 \<le> used_requests k"
    by (simp_all add: key_balanced_def)
qed

lemma idle_key_balanced:
  assumes "books_balance j"
    and "map_of (credential_keys j) c = None \<or> (\<exists>k. map_of (credential_keys j) c = Some k \<and> reserved_requests k \<le> 0)"
  shows "key_balanced (outstanding j) c (fresh_key gen)"
proof -
  have wf: "bindings_wf j" using assms(1) by (simp add: books_balance_def)
  have none: "credential_id l \<noteq> c" if l: "outstanding j i = Some l" for i l
  proof
    assume c: "credential_id l = c"
    then obtain k where k: "map_of (credential_keys j) c = Some k" "reserved_requests k \<le> 0"
      using assms(2) outstanding_bounds(3) [OF wf l] by auto
    have "on_key c request_count l \<le> total (on_key c request_count) (outstanding j)"
    proof (rule total_member [OF finite_outstanding l])
      fix i l assume "outstanding j i = Some l"
      from outstanding_bounds(2) [OF wf this] show "0 \<le> on_key c request_count l" by (simp add: on_key_def)
    qed
    moreover have "reserved_requests k = total (on_key c request_count) (outstanding j)"
      using assms(1) k(1) by (simp add: books_balance_def key_balanced_def)
    ultimately show False using k(2) c outstanding_bounds(2) [OF wf l] by (simp add: on_key_def)
  qed
  have "total (on_key c f) (outstanding j) = 0" for f
    by (rule total_zero) (use none in \<open>auto simp: on_key_def\<close>)
  then show ?thesis by (simp add: key_balanced_def fresh_key_def)
qed

lemma set_key_balances:
  assumes "books_balance j" and "key_balanced (outstanding j) c k"
  shows "books_balance (j\<lparr>credential_keys := dict_set c k (credential_keys j)\<rparr>)"
  using assms by (auto simp: books_balance_def bindings_wf_def)

text \<open>What the loop knows of an eligible candidate: its key and domain leave room for the request.\<close>

definition fits :: "authority_config \<Rightarrow> int \<Rightarrow> int \<Rightarrow> int \<Rightarrow> candidate set \<Rightarrow> journal \<Rightarrow> eligible \<Rightarrow> bool" where
  "fits cfg cost n now cs j = (\<lambda>(c, cred, qd, lim). c \<in> cs \<and> cred = candidate_id c \<and> lim = candidate_limits cfg c \<and>
     (\<exists>k q. map_of (credential_keys j) cred = Some k \<and> map_of (quota_domains j) qd = Some q \<and>
        within_limits cfg cost n lim k q \<and> day q = utc_date now \<and>
        month q = (fst (utc_date now), fst (snd (utc_date now))) \<and>
        (\<forall>(at, _) \<in> set (minute_requests q). now - 60 < at)))"

lemma reconcile_fits:
  assumes "reconcile_domain d ep now j = Inr j'" and "fits cfg cost n now cs j e"
  shows "fits cfg cost n now cs j' e"
  using assms(1)
proof (rule reconcile_domain_Inr)
  fix q q'
  assume q: "q = (case map_of (quota_domains j) d of None \<Rightarrow> new_domain d ep (utc_date now) | Some q \<Rightarrow> q)"
    and j': "j' = j\<lparr>quota_domains := dict_set d q' (quota_domains j)\<rparr>"
    and c: "concurrent_leases q' = concurrent_leases q" "day q' = utc_date now"
      "month q' = (fst (utc_date now), fst (snd (utc_date now)))"
    and dy: "if day q = utc_date now then day_reserved q' = day_reserved q \<and> day_used q' = day_used q
     else day_reserved q' = 0 \<and> day_used q' = 0"
    and mo: "if month q = (fst (utc_date now), fst (snd (utc_date now)))
     then month_reserved q' = month_reserved q \<and> month_used q' = month_used q
     else month_reserved q' = 0 \<and> month_used q' = 0"
    and mi: "minute_requests q' = filter (\<lambda>(at, _). now - 60 < at) (minute_requests q)"
    and pr: "provider_counters q' = provider_counters q \<or> provider_counters q' = []"
  obtain x cred qd lim where e: "e = (x, cred, qd, lim)" by (cases e)
  from assms(2) obtain k p where f: "x \<in> cs" "cred = candidate_id x" "lim = candidate_limits cfg x"
    "map_of (credential_keys j) cred = Some k" "map_of (quota_domains j) qd = Some p"
    "within_limits cfg cost n lim k p" "day p = utc_date now"
    "month p = (fst (utc_date now), fst (snd (utc_date now)))"
    "\<forall>(at, _) \<in> set (minute_requests p). now - 60 < at"
    by (auto simp: fits_def e)
  show ?thesis
  proof (cases "qd = d")
    case False
    with f show ?thesis by (auto simp: fits_def e j')
  next
    case True
    then have p: "q = p" using f(5) q by simp
    have "minute_requests q' = minute_requests p" unfolding mi p by (rule filter_True) (use f(9) in auto)
    moreover have "within_limits cfg cost n lim k q'"
      using f(6-8) dy mo c(1) pr calculation by (auto simp: within_limits_def p)
    ultimately show ?thesis using True f c(2,3) by (auto simp: fits_def e j')
  qed
qed

lemma set_key_fits:
  assumes "books_balance j" and "fits cfg cost n now cs j e"
    and "(case map_of (credential_keys j) c of None \<Rightarrow> True
      | Some k \<Rightarrow> k' = k \<or> k' = fresh_key gen)"
  shows "fits cfg cost n now cs (j\<lparr>credential_keys := dict_set c k' (credential_keys j)\<rparr>) e"
proof -
  obtain x cred qd lim where e: "e = (x, cred, qd, lim)" by (cases e)
  from assms(2) obtain k p where f: "x \<in> cs" "cred = candidate_id x" "lim = candidate_limits cfg x"
    "map_of (credential_keys j) cred = Some k" "map_of (quota_domains j) qd = Some p"
    "within_limits cfg cost n lim k p" "day p = utc_date now"
    "month p = (fst (utc_date now), fst (snd (utc_date now)))"
    "\<forall>(at, _) \<in> set (minute_requests p). now - 60 < at"
    by (auto simp: fits_def e)
  show ?thesis
  proof (cases "cred = c")
    case False
    with f show ?thesis by (auto simp: fits_def e)
  next
    case True
    have "within_limits cfg cost n lim k' p"
      using assms(3) f(4,6) True reserved_nonneg [OF assms(1) f(4)]
      by (auto simp: within_limits_def fresh_key_def)
    with True f show ?thesis by (auto simp: fits_def e)
  qed
qed

lemma resolve_candidate_id: "resolve_candidate cfg d epoch c = Inr (cred, gen, qd, ep) \<Longrightarrow> cred = candidate_id c"
  by (auto simp: resolve_candidate_def cmc_identifier_def cmc_bounded_text_def res_bind_eq_Inr split: if_splits)

lemma consider_candidate_step:
  assumes "consider_candidate cfg d epoch cost n now c (j, es) = Inr (j', es')"
    and "books_balance j" and "\<forall>e \<in> set es. fits cfg cost n now cs j e" and "c \<in> cs"
  shows "books_balance j' \<and> requests j' = requests j \<and> leases j' = leases j \<and>
    (\<forall>e \<in> set es'. fits cfg cost n now cs j' e)"
proof (cases "resolve_candidate cfg d epoch c")
  case (Inl e)
  with assms show ?thesis by (simp add: consider_candidate_def)
next
  case (Inr r)
  obtain cred gen qd ep where r: "r = (cred, gen, qd, ep)" by (cases r)
  from assms(1) Inr r obtain j1 where j1: "reconcile_domain qd ep now j = Inr j1"
    and rest: "(let k = (case map_of (credential_keys j1) cred of None \<Rightarrow> fresh_key gen | Some k \<Rightarrow> k) in
          if key_generation k \<noteq> gen \<and> 0 < reserved_requests k
          then Inr (j1\<lparr>credential_keys := dict_set cred k (credential_keys j1)\<rparr>, es)
          else
            let k' = (if key_generation k \<noteq> gen then fresh_key gen else k);
                j2 = j1\<lparr>credential_keys := dict_set cred k' (credential_keys j1)\<rparr>;
                lim = candidate_limits cfg c;
                q = the (map_of (quota_domains j1) qd)
            in Inr (j2, if within_limits cfg cost n lim k' q
                        then es @ [(c, cred, qd, lim)] else es)) = (Inr (j', es') :: (journal \<times> eligible list) res)"
    by (auto simp: consider_candidate_def res_bind_eq_Inr)
  define k where "k = (case map_of (credential_keys j1) cred of None \<Rightarrow> fresh_key gen | Some k \<Rightarrow> k)"
  define k' where "k' = (if key_generation k \<noteq> gen \<and> \<not> 0 < reserved_requests k then fresh_key gen else k)"
  have b1: "books_balance j1" by (rule reconcile_domain_balances [OF j1 assms(2)])
  have frame: "requests j1 = requests j" "leases j1 = leases j"
    using j1 by (auto elim!: reconcile_domain_Inr)
  have f1: "\<forall>e \<in> set es. fits cfg cost n now cs j1 e" using reconcile_fits [OF j1] assms(3) by blast
  have j': "j' = j1\<lparr>credential_keys := dict_set cred k' (credential_keys j1)\<rparr>"
    using rest by (auto simp: Let_def k_def [symmetric] k'_def split: if_splits)
  have kb: "key_balanced (outstanding j1) cred k'"
  proof (cases "map_of (credential_keys j1) cred")
    case None
    then show ?thesis using idle_key_balanced [OF b1, of cred gen] by (simp add: k'_def k_def fresh_key_def)
  next
    case (Some k0)
    then have k: "k = k0" by (simp add: k_def)
    show ?thesis
    proof (cases "key_generation k \<noteq> gen \<and> \<not> 0 < reserved_requests k")
      case True
      then show ?thesis using idle_key_balanced [OF b1, of cred gen] Some k by (simp add: k'_def)
    next
      case False
      then show ?thesis using b1 Some k by (auto simp: k'_def books_balance_def)
    qed
  qed
  have b': "books_balance j'" unfolding j' by (rule set_key_balances [OF b1 kb])
  have "(case map_of (credential_keys j1) cred of None \<Rightarrow> True | Some k0 \<Rightarrow> k' = k0 \<or> k' = fresh_key gen)"
    by (simp add: k'_def k_def split: option.splits)
  then have f': "\<forall>e \<in> set es. fits cfg cost n now cs j' e" unfolding j' using set_key_fits [OF b1] f1 by blast
  have "fits cfg cost n now cs j' e" if e: "e \<in> set es'" "e \<notin> set es" for e
  proof -
    have e': "e = (c, cred, qd, candidate_limits cfg c)"
      and w: "within_limits cfg cost n (candidate_limits cfg c) k' (the (map_of (quota_domains j1) qd))"
      using rest e by (auto simp: Let_def k_def [symmetric] k'_def split: if_splits)
    obtain q where q: "map_of (quota_domains j1) qd = Some q" "day q = utc_date now"
        "month q = (fst (utc_date now), fst (snd (utc_date now)))"
        "\<forall>(at, _) \<in> set (minute_requests q). now - 60 < at"
      using j1 by (rule reconcile_domain_Inr) auto
    then show ?thesis using w assms(4) resolve_candidate_id [OF Inr [unfolded r]]
      by (auto simp: fits_def e' j')
  qed
  with b' f' frame show ?thesis by (auto simp: j')
qed

lemma consider_candidates:
  assumes "res_fold (consider_candidate cfg d epoch cost n now) xs (j, es) = Inr (j', es')"
    and "books_balance j" and "\<forall>e \<in> set es. fits cfg cost n now cs j e" and "set xs \<subseteq> cs"
  shows "books_balance j' \<and> requests j' = requests j \<and> leases j' = leases j \<and>
    (\<forall>e \<in> set es'. fits cfg cost n now cs j' e)"
  using assms
proof (induction xs arbitrary: j es)
  case (Cons c xs)
  from Cons.prems(1) obtain j1 es1 where s: "consider_candidate cfg d epoch cost n now c (j, es) = Inr (j1, es1)"
    "res_fold (consider_candidate cfg d epoch cost n now) xs (j1, es1) = Inr (j', es')"
    by (auto simp: res_bind_eq_Inr)
  from consider_candidate_step [OF s(1) Cons.prems(2,3)] Cons.prems(4)
  have "books_balance j1 \<and> requests j1 = requests j \<and> leases j1 = leases j \<and> (\<forall>e \<in> set es1. fits cfg cost n now cs j1 e)"
    by simp
  with Cons.IH [OF s(2)] Cons.prems(4) show ?case by simp
qed simp

end
