(* ===== verification/Cmc_Errors.thy ===== *)
theory Cmc_Errors
  imports Cmc_Authority
begin

text \<open>
  Computations of cmc_leases.py that raise nothing but \<open>CmcLeaseError\<close>, and the rules that build
  them: a sequence, a loop, a case on an optional value, the argument checks.
\<close>

definition cmc_only :: "'a res \<Rightarrow> bool" where
  "cmc_only m \<longleftrightarrow> (\<forall>e. m = Inl e \<longrightarrow> (\<exists>t. e = CmcLeaseError t))"

lemma cmc_only_simps [simp]: "cmc_only (Inr x)" "cmc_only (Inl (CmcLeaseError t))"
  by (simp_all add: cmc_only_def)

lemma cmc_only_bind: "cmc_only m \<Longrightarrow> (\<And>x. m = Inr x \<Longrightarrow> cmc_only (f x)) \<Longrightarrow> cmc_only (res_bind m f)"
  by (cases m) (auto simp: cmc_only_def)

lemma cmc_only_option:
  "cmc_only a \<Longrightarrow> (\<And>y. m = Some y \<Longrightarrow> cmc_only (f y)) \<Longrightarrow> cmc_only (case m of None \<Rightarrow> a | Some y \<Rightarrow> f y)"
  by (cases m) auto

lemma cmc_only_fold:
  assumes "\<And>x s. cmc_only (f x s)"
  shows "cmc_only (res_fold f xs s)"
  by (induction xs arbitrary: s) (auto intro: cmc_only_bind assms)

lemma cmc_only_res_map: "(\<And>x. x \<in> set xs \<Longrightarrow> cmc_only (f x)) \<Longrightarrow> cmc_only (res_map f xs)"
  by (induction xs) (auto intro!: cmc_only_bind)

lemma cmc_only_all_ok: "(\<And>m. m \<in> set ms \<Longrightarrow> cmc_only m) \<Longrightarrow> cmc_only (all_ok ms)"
  by (induction ms) (auto simp: cmc_only_def all_ok.simps split: sum.splits)

lemma cmc_only_raise_if [simp]: "cmc_only (raise_if c (CmcLeaseError t))"
  by (simp add: cmc_only_def raise_if_def)

lemma cmc_only_checks [simp]:
  "cmc_only (cmc_identifier v f)" "cmc_only (cmc_bounded_text m v f)" "cmc_only (cmc_int i k v f)"
  "cmc_only (cmc_positive_int v f)" "cmc_only (cmc_nonnegative_int v f)"
  "cmc_only (validate_lease_epoch cfg l d ep)" "cmc_only (reconcile_domain x e now j)"
  by (auto simp: cmc_only_def cmc_identifier_def cmc_bounded_text_def cmc_int_def cmc_positive_int_def
    cmc_nonnegative_int_def validate_lease_epoch_def reconcile_domain_def Let_def res_bind_eq_Inl raise_if_def
    all_ok.simps split: pyval.splits sum.splits if_splits option.splits)

lemma cmc_only_consider: "cmc_only (consider_candidate cfg d ep cost n now c p)"
proof -
  obtain j es where p: "p = (j, es)" by (cases p)
  show ?thesis
    unfolding p consider_candidate_def prod.case
    by (auto simp: Let_def raise_if_def split: sum.splits prod.splits intro!: cmc_only_bind)
qed

text \<open>Checked payloads: no field of a document that passes the check holds a secret.\<close>

lemma cmc_only_payload [simp]: "cmc_only (validated_public_payload field v)"
proof (induction field v rule: validated_public_payload.induct)
  case (1 field d)
  have "cmc_only (validated_public_payload (field @ ''.'' @ k) v)" if "(k, v) \<in> set d" "\<not> secret_field k" for k v
    using 1 that by blast
  then show ?case by (auto intro!: cmc_only_bind cmc_only_res_map split: prod.splits)
next
  case (2 field xs)
  then show ?case by (auto intro!: cmc_only_bind cmc_only_res_map)
qed simp_all

fun public_value :: "pyval \<Rightarrow> bool" where
  "public_value (PDict d) \<longleftrightarrow> (\<forall>(k, v) \<in> set d. \<not> secret_field k \<and> public_value v)"
| "public_value (PList xs) \<longleftrightarrow> (\<forall>v \<in> set xs. public_value v)"
| "public_value _ \<longleftrightarrow> True"

lemma res_map_same:
  assumes "res_map f xs = Inr ys" and "\<And>x y. x \<in> set xs \<Longrightarrow> f x = Inr y \<Longrightarrow> y = x \<and> P x"
  shows "ys = xs \<and> (\<forall>x \<in> set xs. P x)"
  using assms
proof (induction xs arbitrary: ys)
  case Nil
  then show ?case by simp
next
  case (Cons x xs)
  from Cons.prems(1) obtain y zs where y: "f x = Inr y" "res_map f xs = Inr zs" "ys = y # zs"
    by (auto simp: res_bind_eq_Inr)
  have "zs = xs \<and> (\<forall>x \<in> set xs. P x)" by (rule Cons.IH [OF y(2)]) (use Cons.prems(2) in auto)
  with y(3) Cons.prems(2) [OF _ y(1)] show ?case by simp
qed

lemma validated_payload_public: "validated_public_payload field v = Inr w \<Longrightarrow> w = v \<and> public_value v"
proof (induction field v arbitrary: w rule: validated_public_payload.induct)
  case (1 field d)
  from 1(2) obtain d' where d': "w = PDict d'" and r: "res_map (\<lambda>(name, item).
       if secret_field name
       then Inl (CmcLeaseError (''mailbox '' @ field @ '' contains forbidden field '' @ name))
       else res_bind (validated_public_payload (field @ ''.'' @ name) item) (\<lambda>v. Inr (name, v))) d = Inr d'"
    by (auto simp: res_bind_eq_Inr)
  have "d' = d \<and> (\<forall>e \<in> set d. \<not> secret_field (fst e) \<and> public_value (snd e))"
    by (rule res_map_same [OF r]) (use 1(1) in \<open>force simp: res_bind_eq_Inr split: prod.splits if_splits\<close>)
  with d' show ?case by auto
next
  case (2 field xs)
  from 2(2) obtain xs' where x: "w = PList xs'" "res_map (validated_public_payload field) xs = Inr xs'"
    by (auto simp: res_bind_eq_Inr)
  have "xs' = xs \<and> (\<forall>v \<in> set xs. public_value v)" by (rule res_map_same [OF x(2)]) (use 2(1) in blast)
  with x(1) show ?case by simp
qed simp_all

lemma cmc_identifier_PStr: "cmc_identifier (PStr s) f = Inr s' \<Longrightarrow> s' = s"
  by (auto simp: cmc_identifier_def cmc_bounded_text_def res_bind_eq_Inr split: if_splits)

end
