(* ===== verification/Cmc_Ops.thy ===== *)
theory Cmc_Ops
  imports Cmc_Books Cmc_Errors
begin

text \<open>
  What each operation of the lease authority does to balanced books: the loop over the candidates, the
  reservation of the chosen one, expiry, and the possible outcomes of a grant and of a settlement.
\<close>

section \<open>Operations\<close>

lemma best_eligible_in: "es \<noteq> [] \<Longrightarrow> best_eligible j es \<in> set es"
proof -
  assume "es \<noteq> []"
  then have "sort_key (eligible_rank j) es \<noteq> []" by (metis set_empty set_sort)
  then have "hd (sort_key (eligible_rank j) es) \<in> set (sort_key (eligible_rank j) es)" by (rule hd_in_set)
  then show ?thesis by (simp add: best_eligible_def)
qed

lemma outstanding_bind:
  assumes "\<And>x ls. map_of (leases j) x = Some ls \<Longrightarrow> request_ref ls \<noteq> r"
  shows "outstanding (j\<lparr>requests := dict_set r l (requests j),
    leases := dict_set i \<lparr>request_ref = r, terminal = False, lease_settlement = None\<rparr> (leases j)\<rparr>)
    = (outstanding j)(i \<mapsto> l)"
proof
  fix x
  show "outstanding (j\<lparr>requests := dict_set r l (requests j),
    leases := dict_set i \<lparr>request_ref = r, terminal = False, lease_settlement = None\<rparr> (leases j)\<rparr>) x
    = ((outstanding j)(i \<mapsto> l)) x"
    using assms [of x] by (cases "map_of (leases j) x") (simp_all add: outstanding_def cong: if_cong)
qed

lemma bind_lease_balances:
  assumes "books_balance j" "map_of (requests j) r = None" "map_of (leases j) fresh = None"
    and "fits cfg cost n now cs j e" "0 \<le> cost" "1 \<le> n" and "bind_lease cfg fresh r to cost n now e j = (l, j')"
  shows "books_balance j' \<and> outstanding j' = (outstanding j)(fresh \<mapsto> l) \<and> map_of (requests j') r = Some l
    \<and> lease_id l = fresh \<and> expires_at l = now + lease_ttl cfg \<and> recipient l = to \<and> credits_micros l = cost
    \<and> (\<forall>r'. r' \<noteq> r \<longrightarrow> map_of (requests j') r' = map_of (requests j) r')
    \<and> (\<forall>i. i \<noteq> fresh \<longrightarrow> map_of (leases j') i = map_of (leases j) i)
    \<and> (\<exists>c \<in> cs. \<exists>k q. candidate_id c = credential_id l \<and> map_of (credential_keys j') (credential_id l) = Some k \<and>
        map_of (quota_domains j') (lease_domain l) = Some q \<and>
        within_limits cfg 0 0 ((candidate_limits cfg c)
          \<lparr>concurrent_leases_limit := concurrent_leases_limit (candidate_limits cfg c) + 1\<rparr>) k
          (q\<lparr>provider_counters := []\<rparr>))"
proof -
  obtain x cred qd lim where e: "e = (x, cred, qd, lim)" by (cases e)
  from assms(4) obtain k q where f: "x \<in> cs" "cred = candidate_id x" "lim = candidate_limits cfg x"
    "map_of (credential_keys j) cred = Some k" "map_of (quota_domains j) qd = Some q"
    "within_limits cfg cost n lim k q" by (auto simp: fits_def e)
  define l0 where "l0 = \<lparr>lease_id = fresh, lease_request = r, credential_id = cred,
           secret_generation = candidate_generation x, lease_domain = qd, lease_epoch = domain_epoch q,
           recipient = to, credits_micros = cost, request_count = n, granted_at = now,
           expires_at = now + lease_ttl cfg\<rparr>"
  have lf: "lease_id l0 = fresh" "credential_id l0 = cred" "lease_domain l0 = qd" "credits_micros l0 = cost"
    "request_count l0 = n" "expires_at l0 = now + lease_ttl cfg" "recipient l0 = to" by (simp_all add: l0_def)
  define k' where "k' = reserve_key cost n k"
  define q' where "q' = reserve_domain cost n now lim q"
  define base where "base = j\<lparr>credential_keys := dict_set cred k' (credential_keys j),
      quota_domains := dict_set qd q' (quota_domains j)\<rparr>"
  have l: "l = l0" and j': "j' = base\<lparr>requests := dict_set r l0 (requests base),
      leases := dict_set fresh \<lparr>request_ref = r, terminal = False, lease_settlement = None\<rparr> (leases base)\<rparr>"
    using assms(7) f(4,5) by (auto simp: bind_lease_def e Let_def l0_def base_def k'_def q'_def)
  have wf: "bindings_wf j" using assms(1) by (simp add: books_balance_def)
  have fr: "request_ref ls \<noteq> r" if "map_of (leases j) i = Some ls" for i ls
    using wf assms(2) that by (fastforce simp: bindings_wf_def)
  have "outstanding j' = (outstanding base)(fresh \<mapsto> l0)"
    unfolding j' by (rule outstanding_bind) (use fr in \<open>auto simp: base_def\<close>)
  then have o: "outstanding j' = (outstanding j)(fresh \<mapsto> l0)" by (simp add: base_def)
  have new: "outstanding j fresh = None" using assms(3) by (simp add: outstanding_def)
  have kq: "credential_keys j' = dict_set cred k' (credential_keys j)" "quota_domains j' = dict_set qd q' (quota_domains j)"
    "requests j' = dict_set r l0 (requests j)"
    "leases j' = dict_set fresh \<lparr>request_ref = r, terminal = False, lease_settlement = None\<rparr> (leases j)"
    by (simp_all add: j' base_def)
  have rl: "lease_id la \<noteq> fresh" if "map_of (requests j) r' = Some la" for r' la
    using wf assms(3) that by (fastforce simp: bindings_wf_def)
  have "bindings_wf j'"
    using wf assms(5,6) fr rl unfolding bindings_wf_def kq by (auto simp: lf)
  moreover have "key_balanced (outstanding j') c kk" if "map_of (credential_keys j') c = Some kk" for c kk
    using that assms(1) f(4) unfolding kq o books_balance_def
    by (auto simp: key_balanced_def total_insert [OF finite_outstanding new] on_key_def lf k'_def reserve_key_def
      split: if_splits)
  moreover have "domain_balanced (outstanding j') d qq" if "map_of (quota_domains j') d = Some qq" for d qq
    using that assms(1,5) f(5) unfolding kq o books_balance_def
    by (auto simp: domain_balanced_def total_insert [OF finite_outstanding new] in_domain_def lf q'_def reserve_domain_def
      split: if_splits)
  ultimately have "books_balance j'" by (simp add: books_balance_def)
  moreover have "within_limits cfg 0 0 (lim\<lparr>concurrent_leases_limit := concurrent_leases_limit lim + 1\<rparr>) k'
      (q'\<lparr>provider_counters := []\<rparr>)"
    using f(6) by (simp add: within_limits_def k'_def q'_def reserve_key_def reserve_domain_def)
  ultimately show ?thesis using o f(1-3) by (auto simp: l lf kq)
qed


section \<open>What is written stays\<close>

definition settlement_of :: "journal \<Rightarrow> string \<Rightarrow> settlement option" where
  "settlement_of j i = Option.bind (map_of (leases j) i) lease_settlement"

definition extends :: "journal \<Rightarrow> journal \<Rightarrow> bool" where
  "extends j j' \<longleftrightarrow> map_of (requests j) \<subseteq>\<^sub>m map_of (requests j') \<and> settlement_of j \<subseteq>\<^sub>m settlement_of j' \<and>
     map_of (provider_events j) \<subseteq>\<^sub>m map_of (provider_events j')"

lemma extends_refl [simp]: "extends j j"
  by (simp add: extends_def)

lemma extends_trans: "extends j j1 \<Longrightarrow> extends j1 j2 \<Longrightarrow> extends j j2"
  unfolding extends_def by (blast intro: map_le_trans)

lemma extends_frame:
  "requests j' = requests j \<Longrightarrow> leases j' = leases j \<Longrightarrow> provider_events j' = provider_events j \<Longrightarrow> extends j j'"
  by (simp add: extends_def settlement_of_def map_le_def)

lemma map_le_SomeD: "m \<subseteq>\<^sub>m m' \<Longrightarrow> m x = Some y \<Longrightarrow> m' x = Some y"
  by (metis domI map_le_def)

lemma reconcile_frame:
  "reconcile_domain d ep now j = Inr j' \<Longrightarrow>
     requests j' = requests j \<and> leases j' = leases j \<and> provider_events j' = provider_events j"
  by (auto simp: reconcile_domain_def Let_def split: if_splits)

lemma consider_frame:
  "consider_candidate cfg d epoch cost n now c (j, es) = Inr (j', es') \<Longrightarrow>
     requests j' = requests j \<and> leases j' = leases j \<and> provider_events j' = provider_events j"
  by (auto simp: consider_candidate_def Let_def res_bind_eq_Inr dest!: reconcile_frame
    split: sum.splits prod.splits if_splits)

lemma consider_candidates_frame:
  "res_fold (consider_candidate cfg d epoch cost n now) xs (j, es) = Inr (j', es') \<Longrightarrow>
     requests j' = requests j \<and> leases j' = leases j \<and> provider_events j' = provider_events j"
proof (induction xs arbitrary: j es)
  case (Cons c xs)
  then obtain j1 es1 where "consider_candidate cfg d epoch cost n now c (j, es) = Inr (j1, es1)"
    "res_fold (consider_candidate cfg d epoch cost n now) xs (j1, es1) = Inr (j', es')"
    by (auto simp: res_bind_eq_Inr)
  with Cons.IH consider_frame show ?case by metis
qed simp

lemma apply_terminal_extends:
  assumes "apply_terminal l s j = Inr j'" "bindings_wf j"
  shows "extends j j' \<and> requests j' = requests j \<and> outstanding j' \<subseteq>\<^sub>m outstanding j \<and>
    outstanding j' (lease_id l) = None"
proof -
  obtain ls where ls: "map_of (leases j) (lease_id l) = Some ls"
    using assms(1) by (auto simp: apply_terminal_def split: option.splits)
  show ?thesis
  proof (cases "terminal ls")
    case True
    with assms(1) ls show ?thesis by (auto simp: apply_terminal_def outstanding_def)
  next
    case False
    then have none: "lease_settlement ls = None" using assms(2) ls by (auto simp: bindings_wf_def)
    obtain ks ds where j': "j' = j\<lparr>credential_keys := ks, quota_domains := ds,
        leases := dict_set (lease_id l) (ls\<lparr>terminal := True, lease_settlement := Some s\<rparr>) (leases j)\<rparr>"
      using assms(1) ls False by (auto simp: apply_terminal_def split: option.splits prod.splits)
    have o: "outstanding j' = (outstanding j)(lease_id l := None)"
      by (simp add: j' outstanding_def fun_eq_iff cong: if_cong)
    have "settlement_of j \<subseteq>\<^sub>m settlement_of j'"
      using ls none by (auto simp: map_le_def settlement_of_def j')
    then show ?thesis using o by (auto simp: extends_def j' map_le_def)
  qed
qed

lemma expire_fold:
  assumes "res_fold (expire_lease now) xs u = Inr v" and "books_balance u"
  shows "extends u v \<and> books_balance v \<and> requests v = requests u \<and> outstanding v \<subseteq>\<^sub>m outstanding u \<and>
    (\<forall>(i, ls) \<in> set xs. \<forall>l. \<not> terminal ls \<longrightarrow> map_of (requests u) (request_ref ls) = Some l \<longrightarrow>
       lease_id l = i \<longrightarrow> outstanding v i \<noteq> None \<longrightarrow> now < expires_at l)"
  using assms
proof (induction xs arbitrary: u)
  case Nil
  then show ?case by simp
next
  case (Cons x xs)
  obtain i ls where x: "x = (i, ls)" by (cases x)
  from Cons.prems(1) obtain w where w: "expire_lease now (i, ls) u = Inr w"
    "res_fold (expire_lease now) xs w = Inr v" by (auto simp: x res_bind_eq_Inr)
  have wf: "bindings_wf u" using Cons.prems(2) by (simp add: books_balance_def)
  have step: "extends u w \<and> books_balance w \<and> requests w = requests u \<and> outstanding w \<subseteq>\<^sub>m outstanding u \<and>
    (\<forall>l. \<not> terminal ls \<longrightarrow> map_of (requests u) (request_ref ls) = Some l \<longrightarrow> lease_id l = i \<longrightarrow>
       outstanding w i \<noteq> None \<longrightarrow> now < expires_at l)"
  proof (cases "terminal ls \<or> map_of (requests u) (request_ref ls) = None")
    case True
    then have "w = u" using w(1) by (auto simp: expire_lease_def split: if_splits)
    with True Cons.prems(2) show ?thesis by auto
  next
    case False
    then obtain l where l: "map_of (requests u) (request_ref ls) = Some l" by auto
    show ?thesis
    proof (cases "now < expires_at l")
      case True
      then have "w = u" using w(1) False l by (simp add: expire_lease_def)
      with True l Cons.prems(2) show ?thesis by auto
    next
      case late: False
      let ?s = "\<lparr>settled_lease = i, outcome = ''expired_assumed_used'',
             actual_credits_micros = credits_micros l, status_code = None, settled_at = now\<rparr>"
      have t: "apply_terminal l ?s u = Inr w" using w(1) False l late by (simp add: expire_lease_def)
      have "0 \<le> credits_micros l" using wf l by (auto simp: bindings_wf_def)
      then have "books_balance w"
        using apply_terminal_balances [OF Cons.prems(2) l, of ?s] t by auto
      then show ?thesis using apply_terminal_extends [OF t wf] l late by auto
    qed
  qed
  then have "books_balance w" by blast
  from Cons.IH [OF w(2) this] step
  have ih: "extends u v" "books_balance v" "requests v = requests u" "outstanding v \<subseteq>\<^sub>m outstanding u"
    "\<forall>(i, ls) \<in> set xs. \<forall>l. \<not> terminal ls \<longrightarrow> map_of (requests u) (request_ref ls) = Some l \<longrightarrow>
       lease_id l = i \<longrightarrow> outstanding v i \<noteq> None \<longrightarrow> now < expires_at l"
    "outstanding v \<subseteq>\<^sub>m outstanding w"
    by (auto intro: extends_trans map_le_trans)
  have "now < expires_at l" if "\<not> terminal ls" "map_of (requests u) (request_ref ls) = Some l" "lease_id l = i"
    "outstanding v i \<noteq> None" for l
  proof -
    have "outstanding w i \<noteq> None" using map_le_SomeD [OF ih(6)] that(4) by blast
    then show ?thesis using step that(1-3) by blast
  qed
  with ih(1-5) show ?case by (auto simp: x)
qed

lemma expire_leases_Inr:
  assumes "expire_leases now j = Inr j'" and "books_balance j"
  shows "extends j j' \<and> books_balance j' \<and> requests j' = requests j \<and> outstanding j' \<subseteq>\<^sub>m outstanding j \<and>
    (\<forall>i l. outstanding j' i = Some l \<longrightarrow> now < expires_at l)"
proof -
  note f = expire_fold [OF assms(1) [unfolded expire_leases_def] assms(2)]
  have wf: "bindings_wf j" using assms(2) by (simp add: books_balance_def)
  have "now < expires_at l" if o: "outstanding j' i = Some l" for i l
  proof -
    have "outstanding j i = Some l" using f o by (blast intro: map_le_SomeD)
    then obtain ls where ls: "map_of (leases j) i = Some ls" "\<not> terminal ls"
      "map_of (requests j) (request_ref ls) = Some l" by (auto simp: outstanding_iff)
    moreover have "lease_id l = i" using wf ls by (fastforce simp: bindings_wf_def)
    ultimately show ?thesis using f o map_of_SomeD [OF ls(1)] by fastforce
  qed
  with f show ?thesis by blast
qed


section \<open>Grants and settlements\<close>

lemma cmc_int_PInt: "cmc_int m kind (PInt i) f = Inr x \<longleftrightarrow> x = i \<and> m \<le> i"
  by (auto simp: cmc_int_def split: if_splits)

lemmas cmc_ints = cmc_positive_int_def cmc_nonnegative_int_def cmc_int_PInt

lemma grant_cases:
  assumes "grant cfg fresh r cs to cost n d ep now j = Inr (res, j')" and "books_balance j"
  obtains (bound) j1 l where "expire_leases now j = Inr j1" "map_of (requests j) r = Some l" "res = Some l" "j' = j1"
      "validate_lease_epoch cfg l d ep = Inr ()"
  | (refused) j1 where "expire_leases now j = Inr j1" "map_of (requests j) r = None" "res = None"
      "books_balance j'" "requests j' = requests j1" "leases j' = leases j1" "provider_events j' = provider_events j1"
  | (granted) j1 j2 e l where "expire_leases now j = Inr j1" "map_of (requests j) r = None" "res = Some l"
      "books_balance j2" "requests j2 = requests j1" "leases j2 = leases j1" "provider_events j2 = provider_events j1"
      "fits cfg cost n now (set cs) j2 e" "bind_lease cfg fresh r to cost n now e j2 = (l, j')"
      "0 \<le> cost" "1 \<le> n" "cost \<le> max_lease_credits_micros cfg" "n \<le> max_lease_requests cfg"
proof -
  from assms(1) obtain r' to' cost' n' j1 where a: "cmc_identifier (PStr r) ''request_id'' = Inr r'"
    "cmc_identifier (PStr to) ''recipient'' = Inr to'" "cmc_nonnegative_int (PInt cost) ''credits_micros'' = Inr cost'"
    "cmc_positive_int (PInt n) ''request_count'' = Inr n'" and e: "expire_leases now j = Inr j1"
    and rest: "(case map_of (requests j1) r' of
       Some l \<Rightarrow> res_bind (validate_lease_epoch cfg l d ep) (\<lambda>_. Inr (Some l, j1))
     | None \<Rightarrow>
         if max_lease_credits_micros cfg < cost' \<or> max_lease_requests cfg < n' then Inr (None, j1)
         else
           res_bind (res_fold (consider_candidate cfg d ep cost' n' now) cs (j1, [])) (\<lambda>(j2, eligible).
           if eligible = [] then Inr (None, j2)
           else let (l, j3) = bind_lease cfg fresh r' to' cost' n' now (best_eligible j2 eligible) j2
                in Inr (Some l, j3))) = Inr (res, j')"
    unfolding grant_def res_bind_eq_Inr by blast
  have eq: "r' = r" "to' = to" "cost' = cost" "n' = n" "0 \<le> cost" "1 \<le> n"
    using a cmc_identifier_PStr by (auto simp: cmc_ints)
  note rest = rest [unfolded eq(1-4)]
  note x = expire_leases_Inr [OF e assms(2)]
  show ?thesis
  proof (cases "map_of (requests j) r")
    case (Some l)
    with rest x show ?thesis by (intro bound [OF e, of l]) (auto simp: eq res_bind_eq_Inr)
  next
    case None
    show ?thesis
    proof (cases "max_lease_credits_micros cfg < cost \<or> max_lease_requests cfg < n")
      case True
      with None rest x show ?thesis by (intro refused [OF e]) (auto simp: eq)
    next
      case False
      with None rest x obtain j2 es where f: "res_fold (consider_candidate cfg d ep cost n now) cs (j1, []) = Inr (j2, es)"
        and r2: "(if es = [] then Inr (None, j2)
           else let (l, j3) = bind_lease cfg fresh r to cost n now (best_eligible j2 es) j2
                in Inr (Some l, j3)) = (Inr (res, j') :: (lease option \<times> journal) res)"
        by (auto simp: eq res_bind_eq_Inr simp del: if_split)
      have c: "books_balance j2 \<and> requests j2 = requests j1 \<and> leases j2 = leases j1 \<and>
          (\<forall>e \<in> set es. fits cfg cost n now (set cs) j2 e)"
        by (rule consider_candidates [OF f]) (use x in auto)
      have p: "provider_events j2 = provider_events j1" using consider_candidates_frame [OF f] by simp
      show ?thesis
      proof (cases "es = []")
        case True
        with r2 c p None show ?thesis by (intro refused [OF e]) auto
      next
        case ne: False
        obtain l j3 where b: "bind_lease cfg fresh r to cost n now (best_eligible j2 es) j2 = (l, j3)" by fastforce
        show ?thesis
        proof (rule granted [OF e None])
          show "fits cfg cost n now (set cs) j2 (best_eligible j2 es)" using c best_eligible_in [OF ne] by blast
          show "bind_lease cfg fresh r to cost n now (best_eligible j2 es) j2 = (l, j')" using r2 ne b by simp
          show "res = Some l" using r2 ne b by simp
        qed (use c p eq False in auto)
      qed
    qed
  qed
qed

lemma settle_cases:
  assumes "settle cfg i result actual code d ep snap now j = Inr (s, j')" and "books_balance j"
  obtains (known) j1 j2 where "expire_leases now j = Inr j1" "settlement_of j1 i = Some s" "books_balance j2"
      "j' = j2" "requests j2 = requests j1" "leases j2 = leases j1" "provider_events j2 = provider_events j1"
  | (settled) j1 j2 j3 l q where "expire_leases now j = Inr j1" "settlement_of j1 i = None" "outstanding j1 i = Some l"
      "books_balance j2" "requests j2 = requests j1" "leases j2 = leases j1" "provider_events j2 = provider_events j1"
      "apply_terminal l s j2 = Inr j3" "map_of (quota_domains j3) (lease_domain l) = Some q" "lease_id l = i"
      "j' = j3\<lparr>quota_domains := dict_set (lease_domain l) (apply_provider_snapshot snap now q) (quota_domains j3)\<rparr>"
      "0 \<le> actual_credits_micros s" "validate_lease_epoch cfg l d ep = Inr ()"
      "actual_credits_micros s = (case actual of None \<Rightarrow> credits_micros l | Some a \<Rightarrow> a)"
proof -
  from assms(1) obtain i' j1 where i: "cmc_identifier (PStr i) ''lease_id'' = Inr i'" and e: "expire_leases now j = Inr j1"
    and rest: "(case map_of (leases j1) i' of
       None \<Rightarrow> Inl (CmcLeaseError ''unknown CMC lease'')
     | Some ls \<Rightarrow> (case map_of (requests j1) (request_ref ls) of
         None \<Rightarrow> Inl (CmcLeaseError ''CMC lease request binding is missing'')
       | Some l \<Rightarrow>
           res_bind (validate_lease_epoch cfg l d ep) (\<lambda>_.
           res_bind (reconcile_domain (lease_domain l) (lease_epoch l) now j1) (\<lambda>j2.
           case lease_settlement ls of
             Some s \<Rightarrow> Inr (s, j2)
           | None \<Rightarrow>
               res_bind (case actual of None \<Rightarrow> Inr (credits_micros l)
                 | Some a \<Rightarrow> cmc_nonnegative_int (PInt a) ''actual_credits_micros'') (\<lambda>amount.
               res_bind (cmc_bounded_text 512 (PStr result) ''outcome'') (\<lambda>result.
               let s = \<lparr>settled_lease = i', outcome = result, actual_credits_micros = amount,
                     status_code = code, settled_at = now\<rparr>
               in res_bind (apply_terminal l s j2) (\<lambda>j3.
                  case map_of (quota_domains j3) (lease_domain l) of
                    None \<Rightarrow> Inl (KeyError (lease_domain l))
                  | Some q \<Rightarrow> Inr (s, j3\<lparr>quota_domains := dict_set (lease_domain l)
                      (apply_provider_snapshot snap now q) (quota_domains j3)\<rparr>)))))))) = Inr (s, j')"
    unfolding settle_def res_bind_eq_Inr by blast
  have i': "i' = i" by (rule cmc_identifier_PStr [OF i])
  note x = expire_leases_Inr [OF e assms(2)]
  have wf: "bindings_wf j1" using x by (simp add: books_balance_def)
  from rest obtain ls where ls: "map_of (leases j1) i = Some ls" by (auto simp: i' split: option.splits)
  then obtain l where l: "map_of (requests j1) (request_ref ls) = Some l" "lease_id l = i"
    using wf by (fastforce simp: bindings_wf_def)
  from rest obtain j2 where ep: "validate_lease_epoch cfg l d ep = Inr ()"
    and r: "reconcile_domain (lease_domain l) (lease_epoch l) now j1 = Inr j2"
    by (auto simp: i' ls l res_bind_eq_Inr)
  note f = reconcile_frame [OF r] reconcile_domain_balances [OF r conjunct1 [OF conjunct2 [OF x]]]
  show ?thesis
  proof (cases "lease_settlement ls")
    case (Some s')
    then show ?thesis
      using rest f ls by (intro known [OF e, of j2]) (auto simp: i' l r ep settlement_of_def)
  next
    case None
    then have nt: "\<not> terminal ls" using wf ls by (auto simp: bindings_wf_def)
    from rest None obtain amount result' j3 where am: "(case actual of None \<Rightarrow> Inr (credits_micros l)
         | Some a \<Rightarrow> cmc_nonnegative_int (PInt a) ''actual_credits_micros'') = Inr amount"
      and s: "s = \<lparr>settled_lease = i, outcome = result', actual_credits_micros = amount, status_code = code, settled_at = now\<rparr>"
      and t: "apply_terminal l s j2 = Inr j3" and q: "(case map_of (quota_domains j3) (lease_domain l) of
                    None \<Rightarrow> Inl (KeyError (lease_domain l))
                  | Some q \<Rightarrow> Inr (s, j3\<lparr>quota_domains := dict_set (lease_domain l)
                      (apply_provider_snapshot snap now q) (quota_domains j3)\<rparr>)) = Inr (s, j')"
      by (auto simp: i' ls l r ep res_bind_eq_Inr Let_def split: option.splits)
    have nn: "0 \<le> credits_micros l" using wf l(1) by (auto simp: bindings_wf_def)
    from q obtain p where p: "map_of (quota_domains j3) (lease_domain l) = Some p"
      "j' = j3\<lparr>quota_domains := dict_set (lease_domain l) (apply_provider_snapshot snap now p) (quota_domains j3)\<rparr>"
      by (auto split: option.splits)
    show ?thesis
      by (rule settled [OF e, of l j2 j3 p])
        (use f ls l nt None am nn t p ep in \<open>auto simp: settlement_of_def outstanding_iff s cmc_ints split: option.splits\<close>)
  qed
qed

end
