(* ===== verification/Bind_Once.thy ===== *)
theory Bind_Once
  imports Pb_Prelude
begin

text \<open>
  The contract of the operations a peer may repeat: the first successful call binds an
  identifier to its result, the binding is never changed, and so every later call with the
  same identifier returns the first result, whatever its other arguments and whatever
  happened in between.
\<close>

locale bind_once =
  fixes lookup :: "'s \<Rightarrow> 'k \<Rightarrow> 'v option"
    and run :: "'k \<Rightarrow> 'a \<Rightarrow> 's \<Rightarrow> ('v \<times> 's) res"
    and step :: "'s \<Rightarrow> 's \<Rightarrow> bool"
    and wf :: "'s \<Rightarrow> bool"
  assumes run_steps: "wf s \<Longrightarrow> run k a s = Inr (v, s') \<Longrightarrow> step s s'"
    and run_binds: "wf s \<Longrightarrow> run k a s = Inr (v, s') \<Longrightarrow> lookup s' k = Some v"
    and step_wf: "wf s \<Longrightarrow> step s s' \<Longrightarrow> wf s'"
    and step_keeps: "wf s \<Longrightarrow> step s s' \<Longrightarrow> lookup s k = Some v \<Longrightarrow> lookup s' k = Some v"
begin

lemma steps_wf: "step\<^sup>*\<^sup>* s s' \<Longrightarrow> wf s \<Longrightarrow> wf s'"
  by (induction rule: rtranclp_induct) (auto intro: step_wf)

lemma steps_keep: "step\<^sup>*\<^sup>* s s' \<Longrightarrow> wf s \<Longrightarrow> lookup s k = Some v \<Longrightarrow> lookup s' k = Some v"
  by (induction rule: rtranclp_induct) (auto intro: step_keeps steps_wf)

lemma bound_run:
  assumes "wf s" and "lookup s k = Some v" and "run k a s = Inr (w, s')"
  shows "w = v"
proof -
  have "lookup s' k = Some v" by (rule step_keeps [OF assms(1) run_steps [OF assms(1,3)] assms(2)])
  with run_binds [OF assms(1,3)] show ?thesis by simp
qed

lemma repeated_run:
  assumes "wf s" and "run k a s = Inr (v, s1)" and "step\<^sup>*\<^sup>* s1 s2" and "run k b s2 = Inr (w, s3)"
  shows "w = v"
proof -
  have wf1: "wf s1" by (rule step_wf [OF assms(1) run_steps [OF assms(1,2)]])
  have "lookup s2 k = Some v" by (rule steps_keep [OF assms(3) wf1 run_binds [OF assms(1,2)]])
  with bound_run [OF steps_wf [OF assms(3) wf1] _ assms(4)] show ?thesis by simp
qed

end

end
