(* ===== verification/Cmc_Laws.thy ===== *)
theory Cmc_Laws
  imports Cmc_Ops Bind_Once Cmc_Errors
begin

text \<open>
  What the lease authority guarantees: reservations are exactly the unsettled leases, a
  grant leaves every budget within its limit, requests, settlements and provider events
  are bound once, and expired leases are charged in full before anything else happens.
\<close>

section \<open>Reachable journals\<close>

text \<open>
  One operation of the authority, under whatever configuration it has at the time.
\<close>

inductive journal_step :: "journal \<Rightarrow> journal \<Rightarrow> bool" where
  step_grant: "grant cfg fresh r cs to cost n d ep now j = Inr (res, j') \<Longrightarrow> map_of (leases j) fresh = None
     \<Longrightarrow> journal_step j j'"
| step_settle: "settle cfg i result actual code d ep snap now j = Inr (s, j') \<Longrightarrow> journal_step j j'"
| step_event: "record_provider_event ev payload now j = Inr (e, j') \<Longrightarrow> journal_step j j'"
| step_status: "authority_status now j = Inr j' \<Longrightarrow> journal_step j j'"

inductive journal_reachable :: "journal \<Rightarrow> bool" where
  reachable_empty: "journal_reachable empty_journal"
| reachable_step: "journal_reachable j \<Longrightarrow> journal_step j j' \<Longrightarrow> journal_reachable j'"

lemma lease_binding:
  "bindings_wf j \<Longrightarrow> map_of (leases j) i = Some ls \<Longrightarrow>
     \<exists>l. map_of (requests j) (request_ref ls) = Some l \<and> lease_id l = i"
  "bindings_wf j \<Longrightarrow> map_of (requests j) r = Some l \<Longrightarrow>
     \<exists>ls. map_of (leases j) (lease_id l) = Some ls \<and> request_ref ls = r"
  by (simp_all add: bindings_wf_def)

lemma outstanding_frame:
  "requests j' = requests j \<Longrightarrow> leases j' = leases j \<Longrightarrow> outstanding j' = outstanding j"
  by (simp add: outstanding_def cong: if_cong)

lemma leases_expire:
  assumes "expire_leases now j = Inr j1" "books_balance j" "map_of (leases j) i = None"
  shows "map_of (leases j1) i = None"
proof (rule ccontr)
  note x = expire_leases_Inr [OF assms(1,2)]
  then have wf: "bindings_wf j1" "bindings_wf j" using assms(2) by (simp_all add: books_balance_def)
  assume "map_of (leases j1) i \<noteq> None"
  then obtain ls where ls: "map_of (leases j1) i = Some ls" by blast
  from lease_binding(1) [OF wf(1) ls] obtain l where l: "map_of (requests j1) (request_ref ls) = Some l" "lease_id l = i"
    by blast
  then have "map_of (requests j) (request_ref ls) = Some l" using x by simp
  from lease_binding(2) [OF wf(2) this] l(2) assms(3) show False by simp
qed

lemma grant_balances:
  assumes "grant cfg fresh r cs to cost n d ep now j = Inr (res, j')" "books_balance j" "map_of (leases j) fresh = None"
  shows "books_balance j' \<and> extends j j'"
  using assms(1,2)
proof (cases rule: grant_cases)
  case (bound j1 l)
  with expire_leases_Inr [OF bound(1) assms(2)] show ?thesis by simp
next
  case (refused j1)
  then show ?thesis using expire_leases_Inr [OF refused(1) assms(2)] extends_trans extends_frame by blast
next
  case (granted j1 j2 e l)
  note x = expire_leases_Inr [OF granted(1) assms(2)]
  have none: "map_of (leases j2) fresh = None" "map_of (requests j2) r = None"
    using leases_expire [OF granted(1) assms(2,3)] granted(2,5,6) x by simp_all
  have b: "books_balance j'" "\<forall>r'. r' \<noteq> r \<longrightarrow> map_of (requests j') r' = map_of (requests j2) r'"
    "\<forall>i. i \<noteq> fresh \<longrightarrow> map_of (leases j') i = map_of (leases j2) i"
    using bind_lease_balances [OF granted(4) none(2,1) granted(8,10,11,9)] by blast+
  have ev: "provider_events j' = provider_events j2"
    using granted(9) by (cases e) (auto simp: bind_lease_def Let_def)
  have "extends j2 j'"
  proof -
    have "map_of (requests j') r' = Some y" if "map_of (requests j2) r' = Some y" for r' y
      using b(2) none that by (cases "r' = r") simp_all
    moreover have "settlement_of j' i = Some y" if "settlement_of j2 i = Some y" for i y
      using b(3) none that by (cases "i = fresh") (simp_all add: settlement_of_def)
    ultimately show ?thesis by (auto simp: extends_def map_le_def ev)
  qed
  with b(1) x extends_frame [OF granted(5-7)] show ?thesis by (blast intro: extends_trans)
qed

lemma apply_provider_snapshot_balanced [simp]:
  "domain_balanced m d (apply_provider_snapshot snap now q) = domain_balanced m d q"
  by (simp add: apply_provider_snapshot_def domain_balanced_def)

lemma settle_balances:
  assumes "settle cfg i result actual code d ep snap now j = Inr (s, j')" "books_balance j"
  shows "books_balance j' \<and> extends j j' \<and> settlement_of j' i = Some s"
  using assms
proof (cases rule: settle_cases)
  case (known j1 j2)
  note x = expire_leases_Inr [OF known(1) assms(2)]
  have "extends j1 j2" by (rule extends_frame [OF known(5-7)])
  with known x show ?thesis by (auto simp: settlement_of_def intro: extends_trans)
next
  case (settled j1 j2 j3 l q)
  note x = expire_leases_Inr [OF settled(1) assms(2)]
  have wf2: "bindings_wf j2" using settled(4) by (simp add: books_balance_def)
  have o: "outstanding j2 i = Some l" using settled(3) outstanding_frame [OF settled(5,6)] by simp
  then obtain r ls where r: "map_of (requests j2) r = Some l" "map_of (leases j2) i = Some ls" "\<not> terminal ls"
    by (auto simp: outstanding_iff)
  have b3: "books_balance j3" using apply_terminal_balances [OF settled(4) r(1) settled(12)] settled(8) by auto
  have e3: "extends j2 j3" using apply_terminal_extends [OF settled(8) wf2] by blast
  have s3: "settlement_of j3 i = Some s"
    using settled(8) r settled(10) by (auto simp: apply_terminal_def settlement_of_def split: option.splits prod.splits)
  have "bindings_wf j'" using b3 settled(9) by (auto simp: books_balance_def bindings_wf_def settled(11))
  then have "books_balance j'" using b3 settled(9) by (auto simp: books_balance_def settled(11))
  moreover have "extends j3 j'" by (rule extends_frame) (simp_all add: settled(11))
  moreover have "settlement_of j' i = Some s" using s3 by (simp add: settlement_of_def settled(11))
  ultimately show ?thesis using x e3 extends_frame [OF settled(5-7)] by (blast intro: extends_trans)
qed

lemma event_balances:
  assumes "record_provider_event ev payload now j = Inr (e, j')" "books_balance j"
  shows "books_balance j' \<and> extends j j' \<and> map_of (provider_events j') ev = Some e"
proof -
  from assms(1) have "map_of (provider_events j) ev = Some e \<and> j' = j \<or>
      map_of (provider_events j) ev = None \<and> j' = j\<lparr>provider_events := dict_set ev e (provider_events j)\<rparr>"
    by (auto simp: record_provider_event_def res_bind_eq_Inr dest!: cmc_identifier_PStr split: option.splits)
  then show ?thesis
    using assms(2) by (auto simp: books_balance_def bindings_wf_def extends_def settlement_of_def map_le_def)
qed

lemma status_balances:
  assumes "authority_status now j = Inr j'" "books_balance j"
  shows "books_balance j' \<and> extends j j' \<and> (\<forall>i l. outstanding j' i = Some l \<longrightarrow> now < expires_at l)"
proof -
  from assms(1) obtain j1 where e: "expire_leases now j = Inr j1"
    and f: "res_fold (\<lambda>(d, q) u. reconcile_domain d (if domain_epoch q = 0 then 1 else domain_epoch q) now u)
       (quota_domains j1) j1 = Inr j'"
    by (auto simp: authority_status_def res_bind_eq_Inr)
  note x = expire_leases_Inr [OF e assms(2)]
  have "books_balance j' \<and> requests j' = requests j1 \<and> leases j' = leases j1 \<and> provider_events j' = provider_events j1"
  proof (rule res_fold_invariant [OF f])
    show "books_balance j1 \<and> requests j1 = requests j1 \<and> leases j1 = leases j1 \<and> provider_events j1 = provider_events j1"
      using x by simp
  next
    fix p u v
    assume u: "books_balance u \<and> requests u = requests j1 \<and> leases u = leases j1 \<and> provider_events u = provider_events j1"
    assume "(case p of (d, q) \<Rightarrow> \<lambda>u. reconcile_domain d (if domain_epoch q = 0 then 1 else domain_epoch q) now u) u = Inr v"
    then obtain d ep where "reconcile_domain d ep now u = Inr v" by (auto split: prod.splits)
    with u reconcile_frame reconcile_domain_balances
    show "books_balance v \<and> requests v = requests j1 \<and> leases v = leases j1 \<and> provider_events v = provider_events j1"
      by metis
  qed
  then have f: "books_balance j'" "requests j' = requests j1" "leases j' = leases j1"
    "provider_events j' = provider_events j1" by simp_all
  have "extends j j'" using x extends_frame [OF f(2-4)] by (blast intro: extends_trans)
  with f(1) x show ?thesis unfolding outstanding_frame [OF f(2,3)] by blast
qed

lemma journal_step_balances: "journal_step j j' \<Longrightarrow> books_balance j \<Longrightarrow> books_balance j' \<and> extends j j'"
  by (erule journal_step.cases)
    (use grant_balances settle_balances event_balances status_balances in metis)+

lemma empty_journal_balances: "books_balance empty_journal"
  by (simp add: books_balance_def bindings_wf_def empty_journal_def)

lemma reachable_balances: "journal_reachable j \<Longrightarrow> books_balance j"
  by (induction rule: journal_reachable.induct) (blast intro: empty_journal_balances dest: journal_step_balances)+


text \<open>
  C12: In every journal the authority can reach, the reserved credits and requests of a key are
  the sums over its outstanding leases, and a domain counts exactly its outstanding leases.
\<close>

theorem reservations_match_outstanding:
  assumes "journal_reachable j"
  shows "(\<forall>c k. map_of (credential_keys j) c = Some k \<longrightarrow>
      reserved_credits k = total (on_key c credits_micros) (outstanding j) \<and>
      reserved_requests k = total (on_key c request_count) (outstanding j)) \<and>
    (\<forall>d q. map_of (quota_domains j) d = Some q \<longrightarrow>
      concurrent_leases q = int (card {i. \<exists>l. outstanding j i = Some l \<and> lease_domain l = d}))"
proof -
  have "total (in_domain d) (outstanding j) = int (card {i. \<exists>l. outstanding j i = Some l \<and> lease_domain l = d})" for d
  proof -
    have "total (in_domain d) (outstanding j) =
        (\<Sum>i \<in> dom (outstanding j). if lease_domain (the (outstanding j i)) = d then 1 else 0)"
      by (simp add: total_def in_domain_def)
    also have "\<dots> = int (card {i \<in> dom (outstanding j). lease_domain (the (outstanding j i)) = d})"
      by (simp add: sum.If_cases Int_def conj_commute)
    also have "{i \<in> dom (outstanding j). lease_domain (the (outstanding j i)) = d}
        = {i. \<exists>l. outstanding j i = Some l \<and> lease_domain l = d}" by auto
    finally show ?thesis .
  qed
  with reachable_balances [OF assms] show ?thesis
    by (simp add: books_balance_def key_balanced_def domain_balanced_def)
qed

text \<open>
  C13: A new grant goes to one of the candidates and leaves its key and its quota domain within
  every limit: credits and requests per key, credits per day and month, requests per
  minute and concurrent leases.
\<close>

theorem grant_respects_limits:
  assumes "journal_reachable j" and "map_of (leases j) fresh = None"
    and "grant cfg fresh r cs to cost n d ep now j = Inr (Some l, j')" and "map_of (requests j) r = None"
  shows "\<exists>c \<in> set cs. \<exists>k q. candidate_id c = credential_id l \<and>
    map_of (credential_keys j') (credential_id l) = Some k \<and> map_of (quota_domains j') (lease_domain l) = Some q \<and>
    reserved_credits k + used_credits k \<le> per_key_credit_limit_micros cfg \<and>
    reserved_requests k + used_requests k \<le> per_key_request_limit cfg \<and>
    day_reserved q + day_used q \<le> daily_credits_limit (candidate_limits cfg c) \<and>
    month_reserved q + month_used q \<le> monthly_credits_limit (candidate_limits cfg c) \<and>
    sum_list (map snd (minute_requests q)) \<le> minute_requests_limit (candidate_limits cfg c) \<and>
    concurrent_leases q \<le> concurrent_leases_limit (candidate_limits cfg c)"
proof -
  note b = reachable_balances [OF assms(1)]
  from assms(3) b show ?thesis
  proof (cases rule: grant_cases)
    case (granted j1 j2 e l')
    have none: "map_of (leases j2) fresh = None" "map_of (requests j2) r = None"
      using leases_expire [OF granted(1) b assms(2)] granted(2,5,6) expire_leases_Inr [OF granted(1) b] by simp_all
    obtain c k q where "c \<in> set cs" "candidate_id c = credential_id l'"
      "map_of (credential_keys j') (credential_id l') = Some k" "map_of (quota_domains j') (lease_domain l') = Some q"
      "within_limits cfg 0 0 ((candidate_limits cfg c)
          \<lparr>concurrent_leases_limit := concurrent_leases_limit (candidate_limits cfg c) + 1\<rparr>) k (q\<lparr>provider_counters := []\<rparr>)"
      using bind_lease_balances [OF granted(4) none(2,1) granted(8,10,11,9)] by auto
    with granted(3) show ?thesis by (auto simp: within_limits_def intro!: bexI [of _ c])
  qed (use assms(4) in simp_all)
qed

text \<open>C14: A successful grant or status leaves no reservation past its expiry.\<close>

theorem no_expired_reservation:
  assumes "journal_reachable j" and "map_of (leases j) fresh = None" and "0 < lease_ttl cfg"
  shows "(\<forall>res j'. grant cfg fresh r cs to cost n d ep now j = Inr (res, j') \<longrightarrow>
      (\<forall>i l. outstanding j' i = Some l \<longrightarrow> now < expires_at l)) \<and>
    (\<forall>j'. authority_status now j = Inr j' \<longrightarrow> (\<forall>i l. outstanding j' i = Some l \<longrightarrow> now < expires_at l))"
proof (intro conjI allI impI)
  note b = reachable_balances [OF assms(1)]
  fix res j' i l
  assume g: "grant cfg fresh r cs to cost n d ep now j = Inr (res, j')" and o: "outstanding j' i = Some l"
  from g b show "now < expires_at l"
  proof (cases rule: grant_cases)
    case (bound j1 l')
    with o expire_leases_Inr [OF bound(1) b] show ?thesis by simp
  next
    case (refused j1)
    with o expire_leases_Inr [OF refused(1) b] outstanding_frame [OF refused(5,6)] show ?thesis by simp
  next
    case (granted j1 j2 e l')
    have none: "map_of (leases j2) fresh = None" "map_of (requests j2) r = None"
      using leases_expire [OF granted(1) b assms(2)] granted(2,5,6) expire_leases_Inr [OF granted(1) b] by simp_all
    have "outstanding j' = (outstanding j2)(fresh \<mapsto> l')" "expires_at l' = now + lease_ttl cfg"
      using bind_lease_balances [OF granted(4) none(2,1) granted(8,10,11,9)] by blast+
    with o expire_leases_Inr [OF granted(1) b] outstanding_frame [OF granted(5,6)] assms(3) show ?thesis
      by (auto split: if_splits)
  qed
next
  fix j' i l
  assume "authority_status now j = Inr j'" "outstanding j' i = Some l"
  with status_balances reachable_balances [OF assms(1)] show "now < expires_at l" by blast
qed

section \<open>Repeated calls\<close>

lemma journal_step_keeps:
  assumes "journal_reachable j" "journal_step j j'"
  shows "settlement_of j i = Some s \<Longrightarrow> settlement_of j' i = Some s"
    and "map_of (requests j) r = Some l \<Longrightarrow> map_of (requests j') r = Some l"
    and "map_of (provider_events j) e = Some v \<Longrightarrow> map_of (provider_events j') e = Some v"
  using journal_step_balances [OF assms(2) reachable_balances [OF assms(1)]]
  by (auto simp: extends_def dest: map_le_SomeD)

interpretation settle_once: bind_once settlement_of
  "\<lambda>i (cfg, result, actual, code, d, ep, snap, now) j. settle cfg i result actual code d ep snap now j"
  journal_step journal_reachable
proof
  fix i a s and j j' :: journal
  assume "journal_reachable j"
    "(case a of (cfg, result, actual, code, d, ep, snap, now) \<Rightarrow>
        \<lambda>j. settle cfg i result actual code d ep snap now j) j = Inr (s, j')"
  then show "journal_step j j'" "settlement_of j' i = Some s"
    using settle_balances reachable_balances by (auto intro: step_settle split: prod.splits)
qed (auto intro: reachable_step journal_step_keeps)

interpretation event_once: bind_once "\<lambda>j. map_of (provider_events j)"
  "\<lambda>e (payload, now) j. record_provider_event e payload now j" journal_step journal_reachable
proof
  fix e a v and j j' :: journal
  assume "journal_reachable j"
    "(case a of (payload, now) \<Rightarrow> \<lambda>j. record_provider_event e payload now j) j = Inr (v, j')"
  then show "journal_step j j'" "map_of (provider_events j') e = Some v"
    using event_balances reachable_balances by (auto intro: step_event split: prod.splits)
qed (auto intro: reachable_step journal_step_keeps)

text \<open>
  C15: A lease is settled once: whatever the authority does afterwards, every later settlement of
  the same lease that succeeds returns the first one.
\<close>

theorem settlement_is_final:
  assumes "journal_reachable j" and "settle cfg i result actual code d ep snap now j = Inr (s, j1)"
    and "journal_step\<^sup>*\<^sup>* j1 j2"
    and "settle cfg' i result' actual' code' d' ep' snap' now' j2 = Inr (s', j3)"
  shows "s' = s"
  by (rule settle_once.repeated_run [of j i "(cfg, result, actual, code, d, ep, snap, now)" s j1 j2
      "(cfg', result', actual', code', d', ep', snap', now')" s' j3])
    (use assms in simp_all)

text \<open>
  A request identifier is bound to one lease: after it was granted, whatever the authority
  does, a repeated grant that succeeds returns the same lease and adds no reservation.
\<close>

theorem grant_is_idempotent:
  assumes "journal_reachable j" and "map_of (leases j) fresh = None"
    and "grant cfg fresh r cs to cost n d ep now j = Inr (Some l, j1)" and "journal_step\<^sup>*\<^sup>* j1 j2"
    and "grant cfg' fresh' r cs' to' cost' n' d' ep' now' j2 = Inr (res, j3)"
  shows "res = Some l \<and> outstanding j3 \<subseteq>\<^sub>m outstanding j2"
proof -
  note b = reachable_balances [OF assms(1)]
  from assms(3) b have l: "map_of (requests j1) r = Some l"
  proof (cases rule: grant_cases)
    case (bound x l')
    with expire_leases_Inr [OF bound(1) b] show ?thesis by simp
  next
    case (granted j1 j2 e l')
    have "map_of (leases j2) fresh = None" "map_of (requests j2) r = None"
      using leases_expire [OF granted(1) b assms(2)] granted(2,5,6) expire_leases_Inr [OF granted(1) b] by simp_all
    then show ?thesis using bind_lease_balances [OF granted(4) _ _ granted(8,10,11,9)] granted(3) by blast
  qed simp
  have r1: "journal_reachable j1"
    by (rule reachable_step [OF assms(1) step_grant [OF assms(3,2)]])
  have r2: "journal_reachable j2" by (rule settle_once.steps_wf [OF assms(4) r1])
  have l2: "map_of (requests j2) r = Some l"
    using assms(4)
  proof (induction rule: rtranclp_induct)
    case base
    show ?case by (rule l)
  next
    case (step y z)
    with journal_step_keeps(2) [OF settle_once.steps_wf [OF step(1) r1] step(2)] show ?case by blast
  qed
  from assms(5) reachable_balances [OF r2] show ?thesis
  proof (cases rule: grant_cases)
    case (bound x l')
    with l2 expire_leases_Inr [OF bound(1) reachable_balances [OF r2]] show ?thesis by simp
  qed (use l2 in simp_all)
qed


section \<open>Errors\<close>

text \<open>
  C16: On a reachable journal no operation fails on a missing key, domain or binding: a grant or a
  settlement that raises raises CmcLeaseError, and expiry never raises.
\<close>

theorem authority_raises_lease_errors:
  assumes "journal_reachable j"
  shows "(\<forall>e. grant cfg fresh r cs to cost n d ep now j = Inl e \<longrightarrow> (\<exists>t. e = CmcLeaseError t)) \<and>
    (\<forall>e. settle cfg i result actual code d ep snap now j = Inl e \<longrightarrow> (\<exists>t. e = CmcLeaseError t)) \<and>
    is_ok (expire_leases now j)"
proof -
  note b = reachable_balances [OF assms]
  obtain j1 where e: "expire_leases now j = Inr j1" using expire_leases_balances [OF b] by blast
  have b1: "books_balance j1" using expire_leases_Inr [OF e b] by blast
  have g: "cmc_only (grant cfg fresh r cs to cost n d ep now j)"
    unfolding grant_def e res_bind_Inr
    by (auto intro!: cmc_only_bind cmc_only_fold cmc_only_consider split: option.splits prod.splits)
  have t: "cmc_only (case map_of (requests j1) (request_ref ls) of
         None \<Rightarrow> Inl (CmcLeaseError ''CMC lease request binding is missing'')
       | Some l \<Rightarrow>
           res_bind (validate_lease_epoch cfg l d ep) (\<lambda>_.
           res_bind (reconcile_domain (lease_domain l) (lease_epoch l) now j1) (\<lambda>j2.
           case lease_settlement ls of
             Some s \<Rightarrow> Inr (s, j2)
           | None \<Rightarrow>
               res_bind (case actual of None \<Rightarrow> Inr (credits_micros l)
                 | Some a \<Rightarrow> cmc_nonnegative_int (PInt a) ''actual_credits_micros'') (\<lambda>amount.
               res_bind (cmc_bounded_text 512 (PStr result) ''outcome'') (\<lambda>result.
               let s = \<lparr>settled_lease = x, outcome = result, actual_credits_micros = amount,
                     status_code = code, settled_at = now\<rparr>
               in res_bind (apply_terminal l s j2) (\<lambda>j3.
                  case map_of (quota_domains j3) (lease_domain l) of
                    None \<Rightarrow> Inl (KeyError (lease_domain l))
                  | Some q \<Rightarrow> Inr (s, j3\<lparr>quota_domains := dict_set (lease_domain l)
                      (apply_provider_snapshot snap now q) (quota_domains j3)\<rparr>)))))))" for ls x
  proof (cases "map_of (requests j1) (request_ref ls)")
    case (Some l)
    have last: "cmc_only (res_bind (apply_terminal l s j2) (\<lambda>j3.
        case map_of (quota_domains j3) (lease_domain l) of None \<Rightarrow> Inl (KeyError (lease_domain l))
        | Some q \<Rightarrow> Inr (s, j3\<lparr>quota_domains := dict_set (lease_domain l)
            (apply_provider_snapshot snap now q) (quota_domains j3)\<rparr>)))"
      if r: "reconcile_domain (lease_domain l) (lease_epoch l) now j1 = Inr j2" and nn: "0 \<le> actual_credits_micros s" for s j2
    proof -
      have "map_of (requests j2) (request_ref ls) = Some l" using Some reconcile_frame [OF r] by simp
      from apply_terminal_balances [OF reconcile_domain_balances [OF r b1] this nn] obtain j3 where
        j3: "apply_terminal l s j2 = Inr j3" "books_balance j3" "requests j3 = requests j2" by blast
      with \<open>map_of (requests j2) (request_ref ls) = Some l\<close>
      have "map_of (quota_domains j3) (lease_domain l) \<noteq> None"
        by (auto simp: books_balance_def bindings_wf_def)
      with j3(1) show ?thesis by auto
    qed
    have nn: "0 \<le> credits_micros l" using b1 Some by (auto simp: books_balance_def bindings_wf_def)
    show ?thesis
      using nn by (auto simp: Some Let_def cmc_ints split: option.splits intro!: cmc_only_bind last)
  qed simp
  have s: "cmc_only (settle cfg i result actual code d ep snap now j)"
    unfolding settle_def e res_bind_Inr
    by (rule cmc_only_bind, simp, rule cmc_only_option, simp, rule t)
  show ?thesis using g s by (simp add: cmc_only_def e)
qed

section \<open>A day of leases\<close>

definition demo_authority :: authority_config where
  "demo_authority = \<lparr>per_key_credit_limit_micros = 100, per_key_request_limit = 100,
     max_lease_credits_micros = 10, max_lease_requests = 1, lease_ttl = 300, minute_request_limit = 100,
     daily_credit_limit_micros = 10, monthly_credit_limit_micros = 100, concurrent_limit = 4,
     authority_epochs = []\<rparr>"

definition demo_candidate :: candidate where
  "demo_candidate = \<lparr>candidate_id = ''k'', candidate_generation = 1, candidate_domain = Some ''d'',
     candidate_epoch = None, minute_limit = None, daily_limit = None, monthly_limit = None,
     candidate_concurrent = None\<rparr>"

definition demo_grant :: "string \<Rightarrow> int \<Rightarrow> journal \<Rightarrow> (lease option \<times> journal) res" where
  "demo_grant i now j = grant demo_authority i i [demo_candidate] ''n'' 6 1 None None now j"

definition demo_settle :: "string \<Rightarrow> int \<Rightarrow> journal \<Rightarrow> (settlement \<times> journal) res" where
  "demo_settle i now j = settle demo_authority i ''success'' (Some 0) None None None [] now j"

definition demo_lease :: "string \<Rightarrow> int \<Rightarrow> lease" where
  "demo_lease i now = \<lparr>lease_id = i, lease_request = i, credential_id = ''k'', secret_generation = 1,
     lease_domain = ''d'', lease_epoch = 1, recipient = ''n'', credits_micros = 6, request_count = 1,
     granted_at = now, expires_at = now + 300\<rparr>"

definition after :: "('a \<times> journal) res \<Rightarrow> journal" where
  "after m = (case m of Inl _ \<Rightarrow> empty_journal | Inr (_, j) \<Rightarrow> j)"

definition demo_j1 :: journal where "demo_j1 = after (demo_grant ''A'' 86390 empty_journal)"
definition demo_j2 :: journal where "demo_j2 = after (demo_grant ''B'' 86410 demo_j1)"
definition demo_j3 :: journal where "demo_j3 = after (demo_settle ''A'' 86420 demo_j2)"
definition demo_j4 :: journal where "demo_j4 = after (demo_grant ''C'' 86430 demo_j3)"

text \<open>A is granted before midnight, B and C after it; A is settled between B and C.\<close>

lemma demo_day:
  "demo_grant ''A'' 86390 empty_journal = Inr (Some (demo_lease ''A'' 86390), demo_j1) \<and>
   demo_grant ''B'' 86410 demo_j1 = Inr (Some (demo_lease ''B'' 86410), demo_j2) \<and>
   demo_settle ''A'' 86420 demo_j2 = Inr (\<lparr>settled_lease = ''A'', outcome = ''success'',
      actual_credits_micros = 0, status_code = None, settled_at = 86420\<rparr>, demo_j3) \<and>
   demo_grant ''C'' 86430 demo_j3 = Inr (Some (demo_lease ''C'' 86430), demo_j4) \<and>
   map_of (leases demo_j1) ''B'' = None \<and> map_of (leases demo_j3) ''C'' = None \<and>
   map_of (requests demo_j1) ''B'' = None"
  by code_simp

lemma demo_reachable:
  "journal_reachable demo_j1" "journal_reachable demo_j2" "journal_reachable demo_j3" "journal_reachable demo_j4"
proof -
  have "journal_step empty_journal demo_j1"
    by (rule step_grant [OF demo_day [THEN conjunct1, unfolded demo_grant_def]]) (simp add: empty_journal_def)
  then show 1: "journal_reachable demo_j1" by (rule reachable_step [OF reachable_empty])
  have "journal_step demo_j1 demo_j2"
    by (rule step_grant) (use demo_day in \<open>auto simp: demo_grant_def\<close>)
  then show 2: "journal_reachable demo_j2" by (rule reachable_step [OF 1])
  have "journal_step demo_j2 demo_j3"
    by (rule step_settle) (use demo_day in \<open>auto simp: demo_settle_def\<close>)
  then show 3: "journal_reachable demo_j3" by (rule reachable_step [OF 2])
  have "journal_step demo_j3 demo_j4"
    by (rule step_grant) (use demo_day in \<open>auto simp: demo_grant_def\<close>)
  then show "journal_reachable demo_j4" by (rule reachable_step [OF 3])
qed

lemma demo_steps: "journal_step\<^sup>*\<^sup>* demo_j2 demo_j4"
proof -
  have "journal_step demo_j2 demo_j3"
    by (rule step_settle) (use demo_day in \<open>auto simp: demo_settle_def\<close>)
  moreover have "journal_step demo_j3 demo_j4"
    by (rule step_grant) (use demo_day in \<open>auto simp: demo_grant_def\<close>)
  ultimately show ?thesis by (meson converse_rtranclp_into_rtranclp rtranclp.rtrancl_refl)
qed

theorem reservations_match_outstanding_witness:
  "reserved_credits (the (map_of (credential_keys demo_j4) ''k'')) = total (on_key ''k'' credits_micros) (outstanding demo_j4)"
proof -
  have "map_of (credential_keys demo_j4) ''k'' \<noteq> None" by code_simp
  then obtain k where "map_of (credential_keys demo_j4) ''k'' = Some k" by blast
  with reservations_match_outstanding [OF demo_reachable(4)] show ?thesis by simp
qed

theorem grant_respects_limits_witness:
  "\<exists>q. map_of (quota_domains demo_j2) ''d'' = Some q \<and> day_reserved q + day_used q \<le> 10"
proof -
  have "grant demo_authority ''B'' ''B'' [demo_candidate] ''n'' 6 1 None None 86410 demo_j1
      = Inr (Some (demo_lease ''B'' 86410), demo_j2)"
    "map_of (leases demo_j1) ''B'' = None" "map_of (requests demo_j1) ''B'' = None"
    using demo_day by (simp_all add: demo_grant_def)
  from grant_respects_limits [OF demo_reachable(1) this(2,1,3)] show ?thesis
    by (auto simp: demo_lease_def candidate_limits_def credits_or_def demo_candidate_def demo_authority_def)
qed

theorem no_expired_reservation_witness:
  "\<nexists>i l. outstanding demo_j2 i = Some l \<and> expires_at l \<le> 86410"
proof -
  have "grant demo_authority ''B'' ''B'' [demo_candidate] ''n'' 6 1 None None 86410 demo_j1
      = Inr (Some (demo_lease ''B'' 86410), demo_j2)" "map_of (leases demo_j1) ''B'' = None"
    using demo_day by (simp_all add: demo_grant_def)
  with no_expired_reservation [OF demo_reachable(1) this(2), of demo_authority "''B''" "[demo_candidate]" "''n''" 6 1 None None 86410]
  show ?thesis by (auto simp: demo_authority_def not_le)
qed

theorem settlement_is_final_witness:
  "\<exists>s j. settle demo_authority ''A'' ''error'' (Some 5) None None None [] 86440 demo_j4 = Inr (s, j) \<and>
     actual_credits_micros s = 0"
proof -
  have "is_ok (settle demo_authority ''A'' ''error'' (Some 5) None None None [] 86440 demo_j4)" by code_simp
  then obtain s j where s: "settle demo_authority ''A'' ''error'' (Some 5) None None None [] 86440 demo_j4 = Inr (s, j)"
    by (auto simp: is_ok_iff)
  have step: "journal_step demo_j3 demo_j4"
    by (rule step_grant) (use demo_day in \<open>auto simp: demo_grant_def\<close>)
  have "settle demo_authority ''A'' ''success'' (Some 0) None None None [] 86420 demo_j2 =
      Inr (\<lparr>settled_lease = ''A'', outcome = ''success'', actual_credits_micros = 0, status_code = None,
        settled_at = 86420\<rparr>, demo_j3)"
    using demo_day by (simp add: demo_settle_def)
  from settlement_is_final [OF demo_reachable(2) this r_into_rtranclp [of journal_step, OF step] s] s
  show ?thesis by auto
qed

theorem grant_is_idempotent_witness:
  "\<exists>j. grant demo_authority ''X'' ''B'' [] ''m'' 1 1 None None 86440 demo_j4 = Inr (Some (demo_lease ''B'' 86410), j)"
proof -
  have "is_ok (grant demo_authority ''X'' ''B'' [] ''m'' 1 1 None None 86440 demo_j4)" by code_simp
  then obtain l j where g: "grant demo_authority ''X'' ''B'' [] ''m'' 1 1 None None 86440 demo_j4 = Inr (l, j)"
    by (auto simp: is_ok_iff)
  have "grant demo_authority ''B'' ''B'' [demo_candidate] ''n'' 6 1 None None 86410 demo_j1
      = Inr (Some (demo_lease ''B'' 86410), demo_j2)" "map_of (leases demo_j1) ''B'' = None"
    using demo_day by (simp_all add: demo_grant_def)
  from grant_is_idempotent [OF demo_reachable(1) this(2,1) demo_steps g] g show ?thesis by simp
qed

theorem authority_raises_lease_errors_witness: "is_ok (expire_leases 90000 demo_j4)"
  using authority_raises_lease_errors [OF demo_reachable(4)] by blast

text \<open>
  A trace on which settling a lease of the previous day lets the authority exceed the daily limit: the terminal accounting
  subtracts the lease's reservation from the counter of the new day, although the roll-over has already reset it.
  On a reachable journal two unsettled leases granted on the current UTC day reserve 12 micro-credits
  against a daily limit of 10, while the day's counters show 6.
\<close>

lemma midnight_overcommit:
  "journal_reachable demo_j4 \<and> outstanding demo_j4 ''B'' = Some (demo_lease ''B'' 86410) \<and>
   outstanding demo_j4 ''C'' = Some (demo_lease ''C'' 86430) \<and>
   utc_date 86410 = utc_date 86430 \<and>
   (\<exists>q. map_of (quota_domains demo_j4) ''d'' = Some q \<and> day q = utc_date 86430 \<and>
     day_reserved q + day_used q = 6) \<and>
   daily_credit_limit_micros demo_authority = 10 \<and>
   credits_micros (demo_lease ''B'' 86410) + credits_micros (demo_lease ''C'' 86430) = 12"
proof -
  have "outstanding demo_j4 ''B'' = Some (demo_lease ''B'' 86410) \<and>
     outstanding demo_j4 ''C'' = Some (demo_lease ''C'' 86430) \<and>
     utc_date 86410 = utc_date 86430 \<and>
     (case map_of (quota_domains demo_j4) ''d'' of None \<Rightarrow> False
      | Some q \<Rightarrow> day q = utc_date 86430 \<and> day_reserved q + day_used q = 6)"
    by code_simp
  then show ?thesis
    using demo_reachable(4) by (auto simp: demo_authority_def demo_lease_def split: option.splits)
qed

end
