(* ===== verification/Mailbox_Laws.thy ===== *)
theory Mailbox_Laws
  imports Cluster_Mailbox Cmc_Errors
begin

text \<open>
  What the mailbox guarantees: garbage collection keeps exactly the live messages, a stored
  message is what later readers get, and it is never replaced while it lives; every operation
  raises only \<open>CmcLeaseError\<close>, and what \<open>get\<close> returns is signed by an active member and holds
  no secret field.
\<close>

section \<open>Valid messages\<close>

definition message_id :: "pydict \<Rightarrow> string" where
  "message_id m = py_str (py_get m ''message_id'')"

definition message_expiry :: "pydict \<Rightarrow> int" where
  "message_expiry m = (case py_int (py_get m ''expires_at'') of Inl _ \<Rightarrow> 0 | Inr t \<Rightarrow> t)"

definition message_recipient :: "pydict \<Rightarrow> string" where
  "message_recipient m = py_str (py_get m ''recipient'')"

lemma cmc_identifier_Inr: "cmc_identifier v f = Inr s \<Longrightarrow> v = PStr s \<and> cmc_identifier (PStr s) g = Inr s"
  by (auto simp: cmc_identifier_def cmc_bounded_text_def res_bind_eq_Inr split: pyval.splits if_splits)

lemma cmc_positive_int_Inr: "cmc_positive_int v f = Inr i \<Longrightarrow> py_int v = Inr i \<and> 1 \<le> i"
  by (auto simp: cmc_positive_int_def cmc_int_def split: pyval.splits sum.splits if_splits)

text \<open>What a valid message is, apart from the time.\<close>

definition sound_message :: "crypto \<Rightarrow> pydict \<Rightarrow> pydict \<Rightarrow> bool" where
  "sound_message cr nodes m \<longleftrightarrow>
     map_of m ''message_id'' = Some (PStr (message_id m)) \<and>
     (\<forall>f. cmc_identifier (PStr (message_id m)) f = Inr (message_id m)) \<and>
     map_of m ''recipient'' = Some (PStr (message_recipient m)) \<and>
     item_int m ''expires_at'' = Inr (message_expiry m) \<and>
     list_all (dict_has m) required_fields \<and>
     public_value (py_get m ''payload'') \<and>
     (\<exists>from. py_get m ''sender'' = PStr from \<and> get_str m ''signer_id'' = from \<and>
        active_member (py_get nodes from) \<and>
        verify_operation cr m (node_signing_key (py_get nodes from)) = Inr ()) \<and>
     active_member (py_get nodes (message_recipient m)) \<and>
     length (json_dumps (PDict m)) \<le> max_message_bytes"

lemma as_cmc_error_Inr: "as_cmc_error m = Inr x \<longleftrightarrow> m = Inr x"
  by (auto simp: as_cmc_error_def split: sum.splits pyexc.splits)

lemma validate_message_Inr:
  assumes "validate_message cr nodes now v = Inr m"
  shows "v = PDict m \<and> sound_message cr nodes m \<and> (\<forall>t. now = Some t \<longrightarrow> t < message_expiry m)"
proof -
  from assms obtain d src to i created expires where
    v: "v = PDict d" "m = d" and req: "list_all (dict_has d) required_fields"
    and from_ok: "cmc_identifier (py_get d ''sender'') ''sender'' = Inr src"
    and to_ok: "cmc_identifier (py_get d ''recipient'') ''recipient'' = Inr to"
    and i_ok: "cmc_identifier (py_get d ''message_id'') ''message_id'' = Inr i"
    and expires: "cmc_positive_int (py_get d ''expires_at'') ''expires_at'' = Inr expires"
    and rest: "\<forall>t. now = Some t \<longrightarrow> t < expires" "is_ok (validated_public_payload ''payload'' (py_get d ''payload''))"
      "get_str d ''signer_id'' = src" "active_member (py_get nodes src)" "active_member (py_get nodes to)"
      "verify_operation cr d (node_signing_key (py_get nodes src)) = Inr ()"
      "length (json_dumps (PDict d)) \<le> max_message_bytes"
    by (auto simp: validate_message_def res_bind_eq_Inr as_cmc_error_Inr not_le not_less
        simp del: json_dumps.simps split: pyval.splits option.splits)
  have has: "\<exists>w. map_of d k = Some w" if "k \<in> set required_fields" for k
    using req that by (auto simp: list_all_iff dict_has_iff)
  from has [of "''message_id''"] have i: "map_of d ''message_id'' = Some (PStr i)"
    using cmc_identifier_Inr [OF i_ok] by (auto simp: required_fields_def py_get_def)
  from has [of "''recipient''"] have to: "map_of d ''recipient'' = Some (PStr to)"
    using cmc_identifier_Inr [OF to_ok] by (auto simp: required_fields_def py_get_def)
  from has [of "''expires_at''"] have x: "item_int d ''expires_at'' = Inr expires" "message_expiry d = expires"
    using cmc_positive_int_Inr [OF expires] by (auto simp: required_fields_def py_get_def item_int_Inr message_expiry_def)
  from rest(2) obtain w where "validated_public_payload ''payload'' (py_get d ''payload'') = Inr w"
    by (auto simp: is_ok_iff)
  then have "public_value (py_get d ''payload'')" by (rule validated_payload_public [THEN conjunct2])
  moreover have "message_id d = i" "message_recipient d = to"
    using i to by (simp_all add: message_id_def message_recipient_def py_get_def)
  moreover have "py_get d ''sender'' = PStr src" using cmc_identifier_Inr [OF from_ok] by blast
  moreover have "cmc_identifier (PStr i) f = Inr i" for f using cmc_identifier_Inr [OF i_ok, of f] by blast
  ultimately show ?thesis
    using v req rest i to x by (simp add: sound_message_def)
qed

text \<open>Validity for a time is validity without one and an expiry after it.\<close>

lemma validate_message_time:
  assumes "validate_message cr nodes now v = Inr m" and "\<forall>t. now' = Some t \<longrightarrow> t < message_expiry m"
  shows "validate_message cr nodes now' v = Inr m"
proof -
  from validate_message_Inr [OF assms(1)] have v: "v = PDict m" and s: "sound_message cr nodes m" by auto
  obtain src to i kind created x where
    f: "list_all (dict_has m) required_fields" "cmc_identifier (py_get m ''sender'') ''sender'' = Inr src"
      "cmc_identifier (py_get m ''recipient'') ''recipient'' = Inr to"
      "cmc_identifier (py_get m ''message_id'') ''message_id'' = Inr i"
      "validate_message_type (get_str m ''message_type'') = Inr kind"
      "cmc_nonnegative_int (py_get m ''created_at'') ''created_at'' = Inr created" "\<not> x \<le> created"
      "is_ok (validated_public_payload ''payload'' (py_get m ''payload''))" "get_str m ''signer_id'' = src"
      "active_member (py_get nodes src)" "active_member (py_get nodes to)" "node_signing_key (py_get nodes src) \<noteq> []"
      "verify_operation cr m (node_signing_key (py_get nodes src)) = Inr ()"
      "\<not> max_message_bytes < length (json_dumps (PDict m))"
    and x: "cmc_positive_int (py_get m ''expires_at'') ''expires_at'' = Inr x"
    using assms(1) unfolding v validate_message_def
    by (auto simp: res_bind_eq_Inr as_cmc_error_Inr simp del: json_dumps.simps split: option.splits)
  from x have "x = message_expiry m"
    using cmc_positive_int_Inr by (force simp: message_expiry_def)
  with assms(2) have "\<not> (case now' of None \<Rightarrow> False | Some t \<Rightarrow> x \<le> t)" by (auto split: option.splits)
  with f x show ?thesis
    unfolding v validate_message_def by (simp add: res_bind_eq_Inr as_cmc_error_Inr del: json_dumps.simps)
qed

lemma read_message_Inr:
  assumes "read_message cr nodes now (i, f) = Inr m"
  shows "f = Json (PDict m) \<and> sound_message cr nodes m \<and> i = message_id m \<and>
    (\<forall>t. now = Some t \<longrightarrow> t < message_expiry m)"
proof -
  from assms obtain v s where f: "f = Json v" "validate_message cr nodes now v = Inr m" and i: "item_str m ''message_id'' = Inr s"
    "cmc_identifier (PStr s) ''message_id'' = Inr i"
    by (auto simp: read_message_def res_bind_eq_Inr split: json_file.splits if_splits)
  from cmc_identifier_Inr [OF i(2)] have "s = i" by blast
  with i(1) validate_message_Inr [OF f(2)] f(1) show ?thesis
    by (auto simp: item_str_Inr message_id_def py_get_def)
qed

lemma read_message_valid:
  assumes "validate_message cr nodes now v = Inr m"
  shows "read_message cr nodes now (message_id m, Json v) = Inr m"
proof -
  from validate_message_Inr [OF assms] have v: "v = PDict m" and s: "sound_message cr nodes m" by auto
  show ?thesis
    using assms s unfolding v sound_message_def by (simp add: read_message_def item_str_def py_item_def)
qed

lemma read_message_time:
  assumes "read_message cr nodes now (i, f) = Inr m" and "\<forall>t. now' = Some t \<longrightarrow> t < message_expiry m"
  shows "read_message cr nodes now' (i, f) = Inr m"
proof -
  from assms(1) obtain v where f: "f = Json v" "validate_message cr nodes now v = Inr m"
    by (auto simp: read_message_def res_bind_eq_Inr split: json_file.splits if_splits)
  from read_message_valid [OF validate_message_time [OF f(2) assms(2)]] read_message_Inr [OF assms(1)] f(1)
  show ?thesis by simp
qed

section \<open>Errors\<close>

lemma canonical_json_error: "canonical_json v = Inl e \<Longrightarrow> \<exists>t. e = ClusterCredentialError t"
proof (induction v arbitrary: e)
  case (PList xs)
  then have "\<exists>e'. res_map canonical_json xs = Inl e' \<and> e = e'" by (auto simp: res_bind_eq_Inl)
  moreover have "res_map canonical_json ys = Inl e \<Longrightarrow> set ys \<subseteq> set xs \<Longrightarrow> \<exists>t. e = ClusterCredentialError t" for ys
    by (induction ys) (use PList.IH in \<open>auto simp: res_bind_eq_Inl\<close>)
  ultimately show ?case by blast
next
  case (PDict d)
  let ?f = "\<lambda>(k, v). res_bind (canonical_json v) (\<lambda>s. Inr (k, json_string k @ '':'' @ s))"
  from PDict.prems have "res_map ?f d = Inl e" by (auto simp: res_bind_eq_Inl)
  moreover have "res_map ?f ys = Inl e \<Longrightarrow> set ys \<subseteq> set d \<Longrightarrow> \<exists>t. e = ClusterCredentialError t" for ys
    by (induction ys) (use PDict.IH in \<open>force simp: res_bind_eq_Inl snds.simps\<close>)+
  ultimately show ?case by blast
qed (auto split: if_splits)

definition credential_only :: "'a res \<Rightarrow> bool" where
  "credential_only m \<longleftrightarrow> (\<forall>e. m = Inl e \<longrightarrow> (\<exists>t. e = ClusterCredentialError t))"

lemma credential_only_bind:
  "credential_only m \<Longrightarrow> (\<And>x. credential_only (f x)) \<Longrightarrow> credential_only (res_bind m f)"
  by (cases m) (auto simp: credential_only_def)

lemma credential_only_checks [simp]:
  "credential_only (Inr x)" "credential_only (Inl (ClusterCredentialError t))" "credential_only (b64decode v f n)"
  "credential_only (raise_if c (ClusterCredentialError t))" "credential_only (validated_text v f)"
  by (auto simp: credential_only_def b64decode_def raise_if_def validated_text_def
      split: pyval.splits option.splits if_splits)

lemma credential_only_bytes [simp]: "credential_only (canonical_operation_bytes op)"
  unfolding credential_only_def canonical_operation_bytes_def using canonical_json_error by blast

lemma credential_only_void: "credential_only m \<Longrightarrow> credential_only (void m)"
  by (auto simp: credential_only_def void_def res_bind_eq_Inl)

lemma credential_only_all_ok: "(\<And>m. m \<in> set ms \<Longrightarrow> credential_only m) \<Longrightarrow> credential_only (all_ok ms)"
  by (induction ms) (auto simp: credential_only_def all_ok.simps split: sum.splits)

lemma verify_operation_error: "credential_only (verify_operation cr op pk)"
  unfolding verify_operation_def validate_signature_metadata_def
  by (intro credential_only_bind credential_only_all_ok) (auto intro: credential_only_void)

lemma cmc_only_verify [simp]: "cmc_only (as_cmc_error (verify_operation cr op pk))"
  using verify_operation_error [of cr op pk]
  by (auto simp: cmc_only_def credential_only_def as_cmc_error_def split: sum.splits pyexc.splits)

lemma cmc_only_void [simp]: "cmc_only m \<Longrightarrow> cmc_only (void m)"
  by (auto simp: cmc_only_def void_def res_bind_eq_Inl)

lemma cmc_only_validate [simp]: "cmc_only (validate_message cr nodes now v)"
proof (cases v)
  case (PDict d)
  have "cmc_only (validate_message_type t)" for t by (simp add: validate_message_type_def)
  then show ?thesis
    unfolding validate_message_def PDict pyval.case
    by (intro cmc_only_bind cmc_only_all_ok) auto
qed (simp_all add: validate_message_def)

text \<open>Only a file that is not UTF-8 makes reading raise anything else.\<close>

lemma cmc_only_read [simp]: "snd entry \<noteq> Undecodable \<Longrightarrow> cmc_only (read_message cr nodes now entry)"
proof -
  assume u: "snd entry \<noteq> Undecodable"
  obtain i f where e: "entry = (i, f)" by (cases entry)
  show ?thesis
  proof (cases f)
    case (Json v)
    have "cmc_only (item_str m ''message_id'')" if "validate_message cr nodes now v = Inr m" for m
      using validate_message_Inr [OF that] by (auto simp: sound_message_def item_str_def py_item_def)
    then show ?thesis unfolding e Json read_message_def prod.case json_file.case
      by (intro cmc_only_bind) auto
  qed (use u in \<open>simp_all add: e read_message_def\<close>)
qed

lemma read_undecodable: "read_message cr nodes now (i, Undecodable) = Inl UnicodeDecodeError"
  by (simp add: read_message_def)

definition legible :: "mailbox \<Rightarrow> bool" where
  "legible box \<longleftrightarrow> Undecodable \<notin> snd ` set (mail_files box)"

lemma cmc_only_acks [simp]: "ack_file box \<noteq> Some Undecodable \<Longrightarrow> cmc_only (read_acks box)"
  by (auto simp: read_acks_def split: option.splits json_file.splits)

section \<open>Garbage collection\<close>

text \<open>A file whose message is valid, has not expired and is not acknowledged by its recipient.\<close>

definition live_file :: "crypto \<Rightarrow> pydict \<Rightarrow> int \<Rightarrow> (string, string list) dict \<Rightarrow> string \<times> json_file \<Rightarrow> bool" where
  "live_file cr nodes now as e = (case read_message cr nodes None e of
     Inl _ \<Rightarrow> False
   | Inr m \<Rightarrow> now < message_expiry m \<and> message_recipient m \<notin> set (ack_nodes as (fst e)))"

lemma sound_fields:
  assumes "sound_message cr nodes m"
  shows "item_str m ''message_id'' = Inr (message_id m)" "item_str m ''recipient'' = Inr (message_recipient m)"
    "item_int m ''expires_at'' = Inr (message_expiry m)"
  using assms by (auto simp: sound_message_def item_str_def py_item_def)

lemma ack_nodes_Nil [simp]: "ack_nodes [] i = []"
  by (simp add: ack_nodes_def)

lemma ack_nodes_set [simp]: "ack_nodes (dict_set k ns as) k = ns"
  by (simp add: ack_nodes_def)

lemma ack_nodes_pop [simp]: "i \<noteq> k \<Longrightarrow> ack_nodes (dict_pop k as) i = ack_nodes as i"
  by (simp add: ack_nodes_def)

text \<open>One step of the loop, for an entry whose acknowledgements are still those that were read.\<close>

lemma collect_file_cases:
  assumes "ack_nodes (kept_acks c) (fst e) = ack_nodes as (fst e)" and "snd e \<noteq> Undecodable"
  shows "\<exists>c'. collect_file cr nodes now e c = Inr c' \<and>
    (if live_file cr nodes now as e
     then kept_files c' = kept_files c \<and> kept_acks c' = kept_acks c \<and> retained c' = fst e # retained c
     else kept_files c' = dict_pop (fst e) (kept_files c) \<and> retained c' = retained c \<and>
       (kept_acks c' = kept_acks c \<or> kept_acks c' = dict_pop (fst e) (kept_acks c))) \<and>
    expired_count c' + acknowledged_count c' + invalid_count c' + length (retained c') =
      Suc (expired_count c + acknowledged_count c + invalid_count c + length (retained c))"
proof -
  obtain i f where e: "e = (i, f)" by (cases e)
  show ?thesis
  proof (cases "read_message cr nodes None e")
    case (Inl x)
    then obtain t where "x = CmcLeaseError t"
      using cmc_only_read [OF assms(2), of cr nodes None] by (auto simp: cmc_only_def)
    with Inl show ?thesis by (simp add: collect_file_def live_file_def)
  next
    case (Inr m)
    with e have "read_message cr nodes None (i, f) = Inr m" by simp
    from read_message_Inr [OF this] have s: "sound_message cr nodes m" and i: "i = message_id m" by auto
    have fe: "fst e = message_id m" by (simp add: e i)
    show ?thesis
      using assms unfolding collect_file_def live_file_def Inr sum.case fe
      by (auto simp: sound_fields [OF s] Let_def)
  qed
qed

lemma collect_fold:
  assumes "distinct (map fst xs)" and "\<forall>e \<in> set xs. ack_nodes (kept_acks c) (fst e) = ack_nodes as (fst e)"
    and "Undecodable \<notin> snd ` set xs"
  shows "\<exists>c'. collect_loop cr nodes now xs c = (Inr (), c') \<and>
    kept_files c' = filter (\<lambda>e. \<forall>x \<in> set xs. fst x = fst e \<longrightarrow> live_file cr nodes now as x) (kept_files c) \<and>
    retained c' = rev (map fst (filter (live_file cr nodes now as) xs)) @ retained c \<and>
    (\<forall>i. (\<forall>x \<in> set xs. fst x = i \<longrightarrow> live_file cr nodes now as x) \<longrightarrow> map_of (kept_acks c') i = map_of (kept_acks c) i) \<and>
    expired_count c' + acknowledged_count c' + invalid_count c' + length (retained c') =
      length xs + expired_count c + acknowledged_count c + invalid_count c + length (retained c)"
  using assms
proof (induction xs arbitrary: c)
  case Nil
  then show ?case by simp
next
  case (Cons e xs)
  from Cons.prems(2,3) have "ack_nodes (kept_acks c) (fst e) = ack_nodes as (fst e)" "snd e \<noteq> Undecodable" by auto
  from collect_file_cases [OF this, of cr nodes now] obtain c1 where c1: "collect_file cr nodes now e c = Inr c1"
    and step: "if live_file cr nodes now as e
       then kept_files c1 = kept_files c \<and> kept_acks c1 = kept_acks c \<and> retained c1 = fst e # retained c
       else kept_files c1 = dict_pop (fst e) (kept_files c) \<and> retained c1 = retained c \<and>
         (kept_acks c1 = kept_acks c \<or> kept_acks c1 = dict_pop (fst e) (kept_acks c))"
    and count: "expired_count c1 + acknowledged_count c1 + invalid_count c1 + length (retained c1) =
      Suc (expired_count c + acknowledged_count c + invalid_count c + length (retained c))" by blast
  have files: "kept_files c1 = filter (\<lambda>x. fst x = fst e \<longrightarrow> live_file cr nodes now as e) (kept_files c)"
    using step by (auto simp: AList.delete_eq intro!: filter_cong split: if_splits)
  have ret: "retained c1 = rev (map fst (filter (live_file cr nodes now as) [e])) @ retained c"
    using step by (auto split: if_splits)
  have acks: "kept_acks c1 = kept_acks c \<or> \<not> live_file cr nodes now as e \<and> kept_acks c1 = dict_pop (fst e) (kept_acks c)"
    using step by (auto split: if_splits)
  have fresh: "fst x \<noteq> fst e" if "x \<in> set xs" for x
  proof
    assume "fst x = fst e"
    with imageI [OF that, of fst] Cons.prems(1) show False by (simp del: image_eqI)
  qed
  have "\<forall>x \<in> set xs. ack_nodes (kept_acks c1) (fst x) = ack_nodes as (fst x)"
    using acks Cons.prems(2) fresh by auto
  moreover have "distinct (map fst xs)" "Undecodable \<notin> snd ` set xs" using Cons.prems(1,3) by simp_all
  ultimately obtain c' where c': "collect_loop cr nodes now xs c1 = (Inr (), c')"
    "kept_files c' = filter (\<lambda>e. \<forall>x \<in> set xs. fst x = fst e \<longrightarrow> live_file cr nodes now as x) (kept_files c1)"
    "retained c' = rev (map fst (filter (live_file cr nodes now as) xs)) @ retained c1"
    "\<forall>i. (\<forall>x \<in> set xs. fst x = i \<longrightarrow> live_file cr nodes now as x) \<longrightarrow> map_of (kept_acks c') i = map_of (kept_acks c1) i"
    "expired_count c' + acknowledged_count c' + invalid_count c' + length (retained c') =
      length xs + expired_count c1 + acknowledged_count c1 + invalid_count c1 + length (retained c1)"
    using Cons.IH by blast
  have "map_of (kept_acks c') i = map_of (kept_acks c) i"
    if "\<forall>x \<in> set (e # xs). fst x = i \<longrightarrow> live_file cr nodes now as x" for i
    using c'(4) acks that by auto
  moreover have "kept_files c' =
      filter (\<lambda>x. \<forall>y \<in> set (e # xs). fst y = fst x \<longrightarrow> live_file cr nodes now as y) (kept_files c)"
    unfolding c'(2) files filter_filter by (rule filter_cong) auto
  moreover have "retained c' = rev (map fst (filter (live_file cr nodes now as) (e # xs))) @ retained c"
    unfolding c'(3) ret by auto
  moreover have "expired_count c' + acknowledged_count c' + invalid_count c' + length (retained c') =
      length (e # xs) + expired_count c + acknowledged_count c + invalid_count c + length (retained c)"
    using c'(5) count by simp
  ultimately show ?case using c1 c'(1) by auto
qed

text \<open>The loop only removes files, and only an undecodable file stops it.\<close>

lemma collect_file_any:
  "(\<exists>c' P. collect_file cr nodes now e c = Inr c' \<and> kept_files c' = filter P (kept_files c) \<and> snd e \<noteq> Undecodable) \<or>
   collect_file cr nodes now e c = Inl UnicodeDecodeError \<and> snd e = Undecodable"
proof (cases "snd e = Undecodable")
  case True
  then show ?thesis by (cases e) (simp add: collect_file_def read_undecodable)
next
  case False
  have f: "\<exists>P. kept_files c = filter P (kept_files c)" "\<exists>P. dict_pop k (kept_files c) = filter P (kept_files c)" for k
    by (rule exI [of _ "\<lambda>_. True"], simp) (auto simp: AList.delete_eq)
  from collect_file_cases [where c = c and cr = cr and nodes = nodes and now = now, OF refl False] obtain c' where c': "collect_file cr nodes now e c = Inr c'"
    "kept_files c' = kept_files c \<or> kept_files c' = dict_pop (fst e) (kept_files c)" by (auto split: if_splits)
  with f False show ?thesis by auto
qed

lemma collect_loop_any:
  "collect_loop cr nodes now xs c = (r, c') \<Longrightarrow> (\<exists>P. kept_files c' = filter P (kept_files c)) \<and>
     (if Undecodable \<in> snd ` set xs then r = Inl UnicodeDecodeError else r = Inr ())"
proof (induction xs arbitrary: c)
  case Nil
  then show ?case by (auto intro!: exI [of _ "\<lambda>_. True"])
next
  case (Cons e xs)
  consider c1 P where "collect_file cr nodes now e c = Inr c1" "kept_files c1 = filter P (kept_files c)" "snd e \<noteq> Undecodable"
    | "collect_file cr nodes now e c = Inl UnicodeDecodeError" "snd e = Undecodable"
    using collect_file_any [of cr nodes now e c] by blast
  then show ?case
  proof cases
    case 1
    with Cons.prems have "collect_loop cr nodes now xs c1 = (r, c')" by simp
    from Cons.IH [OF this] 1 show ?thesis by (auto simp del: filter_filter simp: filter_filter [symmetric]) (auto intro!: exI)
  next
    case 2
    with Cons.prems show ?thesis by (auto intro!: exI [of _ "\<lambda>_. True"])
  qed
qed

lemma read_write_acks [simp]: "read_acks (write_acks as box) = Inr as"
proof -
  have "map py_str (map PStr ns) = ns" for ns by (induction ns) simp_all
  then show ?thesis by (induction as) (auto simp: read_acks_def write_acks_def simp del: map_map)
qed

lemma write_acks_files [simp]: "mail_files (write_acks as box) = mail_files box"
  by (simp add: write_acks_def)

lemma read_acks_files [simp]: "read_acks (box\<lparr>mail_files := fs\<rparr>) = read_acks box"
  by (simp add: read_acks_def)

lemma map_of_filter_keys: "map_of (filter (\<lambda>(k, _). k \<in> R) d) k = (if k \<in> R then map_of d k else None)"
  by (induction d) auto

lemma collect_mail_exact:
  assumes "read_acks box = Inr as" and "distinct (map fst (mail_files box))" and "legible box"
  shows "\<exists>n box' as'. collect_mail cr nodes now box = (Inr n, box') \<and>
    mail_files box' = filter (live_file cr nodes now as) (mail_files box) \<and> read_acks box' = Inr as' \<and>
    (\<forall>i. map_of as' i = (if i \<in> fst ` set (mail_files box') then map_of as i else None)) \<and>
    fst n + fst (snd n) + snd (snd n) + length (mail_files box') = length (mail_files box)"
proof -
  let ?c = "\<lparr>kept_files = mail_files box, kept_acks = as, retained = [], expired_count = 0,
        acknowledged_count = 0, invalid_count = 0\<rparr>"
  have "\<forall>e \<in> set (mail_files box). ack_nodes (kept_acks ?c) (fst e) = ack_nodes as (fst e)" by simp
  from collect_fold [OF assms(2) this assms(3) [unfolded legible_def], of cr nodes now] obtain c where
    c: "collect_loop cr nodes now (mail_files box) ?c = (Inr (), c)"
    and files: "kept_files c =
      filter (\<lambda>e. \<forall>x \<in> set (mail_files box). fst x = fst e \<longrightarrow> live_file cr nodes now as x) (mail_files box)"
    and ret: "retained c = rev (map fst (filter (live_file cr nodes now as) (mail_files box)))"
    and acks: "\<forall>i. (\<forall>x \<in> set (mail_files box). fst x = i \<longrightarrow> live_file cr nodes now as x) \<longrightarrow>
      map_of (kept_acks c) i = map_of as i"
    and count: "expired_count c + acknowledged_count c + invalid_count c + length (retained c) = length (mail_files box)"
    by auto
  have one: "x = e" if "x \<in> set (mail_files box)" "e \<in> set (mail_files box)" "fst x = fst e" for x e
    using assms(2) that by (auto simp: distinct_map inj_on_def)
  have files': "kept_files c = filter (live_file cr nodes now as) (mail_files box)"
    unfolding files by (rule filter_cong) (use one in \<open>blast+\<close>)
  let ?as = "filter (\<lambda>(i, _). i \<in> set (retained c)) (kept_acks c)"
  have "map_of ?as i = (if i \<in> fst ` set (kept_files c) then map_of as i else None)" for i
  proof (cases "i \<in> fst ` set (kept_files c)")
    case True
    then obtain e where e: "e \<in> set (mail_files box)" "live_file cr nodes now as e" "fst e = i"
      by (auto simp: files')
    have "\<forall>x \<in> set (mail_files box). fst x = i \<longrightarrow> live_file cr nodes now as x"
    proof (intro ballI impI)
      fix x
      assume "x \<in> set (mail_files box)" "fst x = i"
      with one [OF this(1) e(1)] e(2,3) show "live_file cr nodes now as x" by simp
    qed
    with acks True show ?thesis by (simp add: map_of_filter_keys ret files')
  qed (simp add: map_of_filter_keys ret files')
  moreover have "expired_count c + acknowledged_count c + invalid_count c + length (kept_files c) = length (mail_files box)"
    using count by (simp add: ret files')
  ultimately show ?thesis
    using files' by (simp add: collect_mail_def assms(1) c)
qed

definition stems_distinct :: "mailbox \<Rightarrow> bool" where
  "stems_distinct box \<longleftrightarrow> distinct (map fst (mail_files box))"

text \<open>What a successful collection leaves behind.\<close>

lemma collect_mail_any:
  assumes "collect_mail cr nodes now box = (r, box')" "read_acks box = Inr as"
  shows "\<exists>P. mail_files box' = filter P (mail_files box)" "is_ok (read_acks box')"
    "if legible box then \<exists>n. r = Inr n else r = Inl UnicodeDecodeError"
proof -
  let ?c = "\<lparr>kept_files = mail_files box, kept_acks = as, retained = [], expired_count = 0,
        acknowledged_count = 0, invalid_count = 0\<rparr>"
  obtain s c where l: "collect_loop cr nodes now (mail_files box) ?c = (s, c)" by fastforce
  from collect_loop_any [OF l] assms show "\<exists>P. mail_files box' = filter P (mail_files box)" "is_ok (read_acks box')"
    "if legible box then \<exists>n. r = Inr n else r = Inl UnicodeDecodeError"
    by (auto simp: collect_mail_def l legible_def split: if_splits)
qed

lemma collect_mail_Inr:
  assumes "collect_mail cr nodes now box = (Inr n, box')" and "stems_distinct box"
  obtains as as' where "legible box" "read_acks box = Inr as" "read_acks box' = Inr as'"
    "mail_files box' = filter (live_file cr nodes now as) (mail_files box)" "stems_distinct box'"
    "\<forall>i. map_of as' i = (if i \<in> fst ` set (mail_files box') then map_of as i else None)"
proof -
  from assms(1) obtain as where as: "read_acks box = Inr as"
    by (auto simp: collect_mail_def split: sum.splits)
  have l: "legible box" using collect_mail_any(3) [OF assms(1) as] by (auto split: if_splits)
  from collect_mail_exact [OF as _ l, of cr nodes now] assms show ?thesis
    using that [OF l as] by (auto simp: stems_distinct_def distinct_map_filter)
qed

lemma collect_mail_ok: "read_acks box = Inr as \<Longrightarrow> stems_distinct box \<Longrightarrow> legible box \<Longrightarrow> is_ok (fst (collect_mail cr nodes now box))"
  using collect_mail_exact [of box as cr nodes now] by (auto simp: stems_distinct_def is_ok_iff)

lemma live_file_acks:
  "ack_nodes as' (fst e) = ack_nodes as (fst e) \<Longrightarrow> live_file cr nodes now as' e = live_file cr nodes now as e"
  by (simp add: live_file_def split: sum.split)

lemma live_fileD:
  assumes "live_file cr nodes now as (i, f)"
  obtains m where "read_message cr nodes None (i, f) = Inr m" "now < message_expiry m"
    "message_recipient m \<notin> set (ack_nodes as i)"
  using assms by (auto simp: live_file_def split: sum.splits)

text \<open>
  C17: Garbage collection succeeds whenever the acknowledgements can be read and every file is UTF-8; it keeps exactly the
  messages that are valid, unexpired and not acknowledged by their recipient, together with their acknowledgements,
  counts every removed file once, and finds nothing to do when repeated at the same time. A file that is not UTF-8 stops it with
  \<open>UnicodeDecodeError\<close>, after which the mailbox holds a part of the files it held.
\<close>

theorem garbage_collection_exact:
  assumes "read_acks box = Inr as" and "stems_distinct box"
  shows "if Undecodable \<in> snd ` set (mail_files box)
    then \<exists>box' P. garbage_collect cr nodes now box = (Inl UnicodeDecodeError, box') \<and> mail_files box' = filter P (mail_files box)
    else \<exists>e a v box' as'. garbage_collect cr nodes now box = (Inr (e, a, v), box') \<and>
      mail_files box' = filter (live_file cr nodes now as) (mail_files box) \<and> read_acks box' = Inr as' \<and>
      (\<forall>i. map_of as' i = (if i \<in> fst ` set (mail_files box') then map_of as i else None)) \<and>
      e + a + v + length (mail_files box') = length (mail_files box) \<and>
      (\<exists>again. garbage_collect cr nodes now box' = (Inr (0, 0, 0), again) \<and> mail_files again = mail_files box')"
proof (cases "legible box")
  case False
  obtain r box' where c: "collect_mail cr nodes now box = (r, box')" by fastforce
  from collect_mail_any [OF this assms(1)] c False show ?thesis by (auto simp: garbage_collect_def legible_def)
next
  case l: True
  from collect_mail_exact [OF assms(1) _ l, of cr nodes now] assms(2) obtain e a v box' as' where
    b: "collect_mail cr nodes now box = (Inr (e, a, v), box')"
      "mail_files box' = filter (live_file cr nodes now as) (mail_files box)" "read_acks box' = Inr as'"
      "\<forall>i. map_of as' i = (if i \<in> fst ` set (mail_files box') then map_of as i else None)"
      "e + a + v + length (mail_files box') = length (mail_files box)"
    by (auto simp: stems_distinct_def)
  have d: "distinct (map fst (mail_files box'))"
    using assms(2) by (simp add: b(2) stems_distinct_def distinct_map_filter)
  have "live_file cr nodes now as' x" if "x \<in> set (mail_files box')" for x
  proof -
    have "map_of as' (fst x) = map_of as (fst x)" using b(4) that by simp
    then have "ack_nodes as' (fst x) = ack_nodes as (fst x)" by (simp add: ack_nodes_def)
    from live_file_acks [OF this] that show ?thesis by (simp add: b(2))
  qed
  then have same: "filter (live_file cr nodes now as') (mail_files box') = mail_files box'" by simp
  have l': "legible box'" using l by (auto simp: legible_def b(2))
  from collect_mail_exact [OF b(3) d l', of cr nodes now] obtain n again where
    "collect_mail cr nodes now box' = (Inr n, again)" "mail_files again = mail_files box'"
    "fst n + fst (snd n) + snd (snd n) + length (mail_files again) = length (mail_files box')"
    unfolding same by blast
  moreover from this have "n = (0, 0, 0)" by (cases n) simp
  ultimately have "garbage_collect cr nodes now box' = (Inr (0, 0, 0), again) \<and> mail_files again = mail_files box'"
    by (simp add: garbage_collect_def)
  with b l show ?thesis by (auto simp: garbage_collect_def legible_def)
qed

section \<open>Reading what was put\<close>

lemma get_live_message:
  assumes "stems_distinct box" and "read_acks box = Inr as" and "map_of (mail_files box) i = Some f"
    and m: "read_message cr nodes None (i, f) = Inr m" and "message_recipient m \<notin> set (ack_nodes as i)"
    and "t1 < message_expiry m" "t2 < message_expiry m" and l: "legible box"
  shows "fst (get_message cr nodes t1 t2 i box) = Inr m"
proof -
  from collect_mail_exact [OF assms(2) assms(1) [unfolded stems_distinct_def] l, of cr nodes t1] obtain n box' where
    c: "collect_mail cr nodes t1 box = (Inr n, box')" and
    files: "mail_files box' = filter (live_file cr nodes t1 as) (mail_files box)" by auto
  have "live_file cr nodes t1 as (i, f)" using m assms(5,6) by (simp add: live_file_def)
  with assms(3) have "(i, f) \<in> set (mail_files box')" by (simp add: files map_of_SomeD)
  moreover have "distinct (map fst (mail_files box'))"
    using assms(1) by (simp add: files stems_distinct_def distinct_map_filter)
  ultimately have "map_of (mail_files box') i = Some f" by simp
  moreover have "cmc_identifier (PStr i) ''message_id'' = Inr i"
    using read_message_Inr [OF m] by (simp add: sound_message_def)
  moreover have "read_message cr nodes (Some t2) (i, f) = Inr m"
    by (rule read_message_time [OF m]) (use assms(7) in simp)
  ultimately show ?thesis by (simp add: get_message_def c)
qed

text \<open>The mailbox holds a message for its recipient, and every member can read it.\<close>

definition holds_mail :: "crypto \<Rightarrow> pydict \<Rightarrow> pydict \<Rightarrow> mailbox \<Rightarrow> bool" where
  "holds_mail cr nodes m box \<longleftrightarrow> stems_distinct box \<and> legible box \<and>
     read_message cr nodes None (message_id m, Json (PDict m)) = Inr m \<and>
     map_of (mail_files box) (message_id m) = Some (Json (PDict m)) \<and>
     (\<exists>as. read_acks box = Inr as \<and> message_recipient m \<notin> set (ack_nodes as (message_id m)))"

lemma holds_collect:
  assumes "holds_mail cr nodes m box" "t < message_expiry m"
  shows "\<exists>n box'. collect_mail cr nodes t box = (Inr n, box') \<and> holds_mail cr nodes m box'"
proof -
  from assms(1) obtain as where h: "stems_distinct box" "legible box" "read_acks box = Inr as"
    "read_message cr nodes None (message_id m, Json (PDict m)) = Inr m"
    "map_of (mail_files box) (message_id m) = Some (Json (PDict m))" "message_recipient m \<notin> set (ack_nodes as (message_id m))"
    by (auto simp: holds_mail_def)
  from collect_mail_exact [OF h(3) h(1) [unfolded stems_distinct_def] h(2), of cr nodes t] obtain n box' as' where
    c: "collect_mail cr nodes t box = (Inr n, box')" "mail_files box' = filter (live_file cr nodes t as) (mail_files box)"
      "read_acks box' = Inr as'" "\<forall>i. map_of as' i = (if i \<in> fst ` set (mail_files box') then map_of as i else None)" by blast
  have d: "stems_distinct box'" using h(1) by (simp add: c(2) stems_distinct_def distinct_map_filter)
  have "live_file cr nodes t as (message_id m, Json (PDict m))" using h(4,6) assms(2) by (simp add: live_file_def)
  with map_of_SomeD [OF h(5)] have m: "(message_id m, Json (PDict m)) \<in> set (mail_files box')" by (simp add: c(2))
  then have "map_of as' (message_id m) = map_of as (message_id m)" using c(4) by (auto simp: image_iff)
  then have "message_recipient m \<notin> set (ack_nodes as' (message_id m))" using h(6) by (simp add: ack_nodes_def)
  moreover have "legible box'" using h(2) by (auto simp: legible_def c(2))
  moreover have "map_of (mail_files box') (message_id m) = Some (Json (PDict m))" using m d by (simp add: stems_distinct_def)
  ultimately have "holds_mail cr nodes m box'" using c(3) d h(4) by (simp add: holds_mail_def)
  with c(1) show ?thesis by blast
qed

lemma holds_get:
  "holds_mail cr nodes m box \<Longrightarrow> t1 < message_expiry m \<Longrightarrow> t2 < message_expiry m \<Longrightarrow>
    fst (get_message cr nodes t1 t2 (message_id m) box) = Inr m"
  by (auto simp: holds_mail_def intro: get_live_message)

text \<open>
  An operation of a member before the message expires; only its recipient's acknowledgement is excluded. The second reading
  of the clock of \<open>put\<close> and the first of the others is that of the garbage collection.
\<close>

inductive quiet_step :: "crypto \<Rightarrow> pydict \<Rightarrow> pydict \<Rightarrow> mailbox \<Rightarrow> mailbox \<Rightarrow> bool" for cr nodes m where
  quiet_put: "t2 < message_expiry m \<Longrightarrow> quiet_step cr nodes m box (snd (put_message cr nodes t1 t2 v box))"
| quiet_get: "t1 < message_expiry m \<Longrightarrow> quiet_step cr nodes m box (snd (get_message cr nodes t1 t2 i box))"
| quiet_index: "t1 < message_expiry m \<Longrightarrow> quiet_step cr nodes m box (snd (index_messages cr nodes t1 t2 box))"
| quiet_ack: "t1 < message_expiry m \<Longrightarrow> t2 < message_expiry m \<Longrightarrow> i = message_id m \<longrightarrow> node \<noteq> message_recipient m \<Longrightarrow>
    quiet_step cr nodes m box (snd (ack_message cr nodes t1 t2 i node box))"
| quiet_collect: "t1 < message_expiry m \<Longrightarrow> quiet_step cr nodes m box (snd (garbage_collect cr nodes t1 box))"

lemma holds_add_ack:
  assumes "holds_mail cr nodes m box" "i = message_id m \<longrightarrow> node \<noteq> message_recipient m"
  shows "\<exists>c box'. add_ack i node box = (Inr c, box') \<and> holds_mail cr nodes m box'"
proof -
  have "message_recipient m \<notin> set (ack_nodes (dict_set i (sort (ack_nodes as i @ [node])) as) (message_id m))"
    if "message_recipient m \<notin> set (ack_nodes as (message_id m))" for as
    using that assms(2) by (cases "i = message_id m") (auto simp: ack_nodes_def split: option.splits)
  with assms(1) show ?thesis by (auto simp: holds_mail_def add_ack_def stems_distinct_def legible_def)
qed

lemma holds_step:
  assumes "quiet_step cr nodes m box box'" "holds_mail cr nodes m box"
  shows "holds_mail cr nodes m box'"
  using assms(1)
proof cases
  case (quiet_put t2 t1 v)
  from holds_collect [OF assms(2) quiet_put(2)] obtain n c where c: "collect_mail cr nodes t2 box = (Inr n, c)" "holds_mail cr nodes m c" by blast
  have "holds_mail cr nodes m (c\<lparr>mail_files := dict_set i (Json (PDict d)) (mail_files c)\<rparr>)" if "map_of (mail_files c) i = None" for i d
    using c(2) that set_dict_set [of i "Json (PDict d)" "mail_files c"] by (auto simp: holds_mail_def stems_distinct_def legible_def)
  with c assms(2) show ?thesis unfolding quiet_put(1) by (auto simp: put_message_def split: sum.split option.split)
next
  case (quiet_get t1 t2 i)
  with holds_collect [OF assms(2) quiet_get(2)] assms(2) show ?thesis by (auto simp: get_message_def split: sum.split option.split)
next
  case (quiet_index t1 t2)
  have "mail_files box \<noteq> []" using assms(2) by (auto simp: holds_mail_def)
  with holds_collect [OF assms(2) quiet_index(2)] quiet_index(1) show ?thesis by (auto simp: index_messages_def)
next
  case (quiet_ack t1 t2 i node)
  from holds_collect [OF assms(2) quiet_ack(2)] obtain n c where c: "collect_mail cr nodes t1 box = (Inr n, c)" "holds_mail cr nodes m c" by blast
  from holds_add_ack [OF c(2) quiet_ack(4)] obtain x d where d: "add_ack i node c = (Inr x, d)" "holds_mail cr nodes m d" by blast
  from holds_collect [OF d(2) quiet_ack(3)] obtain n' f where f: "collect_mail cr nodes t2 d = (Inr n', f)" "holds_mail cr nodes m f" by blast
  from c d f assms(2) quiet_ack(1) show ?thesis
    by (auto simp: ack_message_def res_bind_eq_Inr dest!: cmc_identifier_PStr split: sum.split)
next
  case (quiet_collect t1)
  with holds_collect [OF assms(2) quiet_collect(2)] show ?thesis by (auto simp: garbage_collect_def)
qed

text \<open>
  C18: A message that \<open>put\<close> accepted is stored under its identifier: a new one as it was sent, a repeated one
  equal to the message already there; and until it expires or its recipient acknowledges it, every \<open>get\<close> under the same
  membership returns it, whatever else is put, read, acknowledged and collected under that membership in between.
\<close>

theorem put_then_get:
  assumes "put_message cr nodes t1 t2 v box = (Inr b, box')" and "stems_distinct box"
  shows "\<exists>m. py_eq (PDict m) v \<and> (b \<longrightarrow> PDict m = v) \<and>
    map_of (mail_files box') (message_id m) = Some (Json (PDict m)) \<and>
    (\<forall>later t3 t4. (quiet_step cr nodes m)\<^sup>*\<^sup>* box' later \<and> t3 < message_expiry m \<and> t4 < message_expiry m \<longrightarrow>
       fst (get_message cr nodes t3 t4 (message_id m) later) = Inr m)"
proof -
  have later: "fst (get_message cr nodes t3 t4 (message_id m) later) = Inr m"
    if "holds_mail cr nodes m box'" "(quiet_step cr nodes m)\<^sup>*\<^sup>* box' later" "t3 < message_expiry m" "t4 < message_expiry m" for m later t3 t4
  proof -
    from that(2,1) have "holds_mail cr nodes m later" by (induction rule: rtranclp_induct) (auto intro: holds_step)
    with that(3,4) show ?thesis by (intro holds_get)
  qed
  from assms(1) obtain m n c where m: "validate_message cr nodes (Some t1) v = Inr m"
    and c: "collect_mail cr nodes t2 box = (Inr n, c)"
    and put: "case map_of (mail_files c) (message_id m) of
      Some f \<Rightarrow> b = False \<and> box' = c \<and> (\<exists>old. read_message cr nodes None (message_id m, f) = Inr old \<and> py_eq (PDict old) (PDict m))
    | None \<Rightarrow> b = True \<and> box' = c\<lparr>mail_files := dict_set (message_id m) (Json (PDict m)) (mail_files c)\<rparr>"
    by (auto simp: put_message_def res_bind_eq_Inr item_str_Inr message_id_def py_get_def
        split: sum.splits option.splits if_splits prod.splits)
  from validate_message_Inr [OF m] have v: "v = PDict m" and s: "sound_message cr nodes m" by auto
  obtain as as' where l: "legible box" and as: "read_acks box = Inr as" "read_acks c = Inr as'"
    "mail_files c = filter (live_file cr nodes t2 as) (mail_files box)" "stems_distinct c"
    "\<forall>i. map_of as' i = (if i \<in> fst ` set (mail_files c) then map_of as i else None)"
    by (rule collect_mail_Inr [OF c assms(2)])
  have lc: "legible c" using l by (auto simp: legible_def as(3))
  show ?thesis
  proof (cases "map_of (mail_files c) (message_id m)")
    case None
    then have box': "b" "box' = c\<lparr>mail_files := dict_set (message_id m) (Json (PDict m)) (mail_files c)\<rparr>"
      using put by auto
    have "message_id m \<notin> fst ` set (mail_files c)" using None by (simp add: map_of_eq_None_iff)
    then have "ack_nodes as' (message_id m) = []" by (simp add: ack_nodes_def as(5))
    moreover have "read_message cr nodes None (message_id m, Json (PDict m)) = Inr m"
      using read_message_valid [OF validate_message_time [OF m, of None]] by (simp add: v)
    moreover have "stems_distinct box'" using as(4) by (simp add: box' stems_distinct_def)
    moreover have "map_of (mail_files box') (message_id m) = Some (Json (PDict m))" by (simp add: box')
    moreover have "read_acks box' = Inr as'" using as(2) by (simp add: box')
    moreover have "legible box'"
      using lc set_dict_set [of "message_id m" "Json (PDict m)" "mail_files c"] by (auto simp: box' legible_def)
    ultimately have "holds_mail cr nodes m box'" by (simp add: holds_mail_def)
    with box' v later show ?thesis by (intro exI [of _ m]) auto
  next
    case (Some f)
    then obtain old where old: "\<not> b" "box' = c" "read_message cr nodes None (message_id m, f) = Inr old"
      "py_eq (PDict old) (PDict m)" using put by auto
    from read_message_Inr [OF old(3)] have f: "f = Json (PDict old)" "message_id old = message_id m" by auto
    have "(message_id m, f) \<in> set (mail_files c)" using Some by (rule map_of_SomeD)
    then have live: "live_file cr nodes t2 as (message_id m, f)" "map_of as' (message_id m) = map_of as (message_id m)"
      using as(3) by (auto simp: as(5) image_iff)
    then have "message_recipient old \<notin> set (ack_nodes as' (message_id m))"
      using old(3) by (auto simp: live_file_def ack_nodes_def)
    then have "holds_mail cr nodes old box'" using as(2,4) lc Some old(2,3) f by (auto simp: holds_mail_def)
    with later have "\<forall>later t3 t4. (quiet_step cr nodes old)\<^sup>*\<^sup>* box' later \<and> t3 < message_expiry old \<and> t4 < message_expiry old \<longrightarrow>
       fst (get_message cr nodes t3 t4 (message_id old) later) = Inr old" by blast
    moreover have "map_of (mail_files box') (message_id old) = Some (Json (PDict old))" using Some old(2) f by simp
    ultimately show ?thesis using old(1,4) v by blast
  qed
qed

section \<open>Reachable mailboxes\<close>

text \<open>One operation by any member at any time, under whatever membership it sees.\<close>

inductive mail_step :: "crypto \<Rightarrow> mailbox \<Rightarrow> mailbox \<Rightarrow> bool" for cr where
  step_put: "put_message cr nodes t1 t2 v box = (r, box') \<Longrightarrow> mail_step cr box box'"
| step_get: "get_message cr nodes t1 t2 i box = (m, box') \<Longrightarrow> mail_step cr box box'"
| step_index: "index_messages cr nodes t1 t2 box = (ms, box') \<Longrightarrow> mail_step cr box box'"
| step_ack: "ack_message cr nodes t1 t2 i node box = (r, box') \<Longrightarrow> mail_step cr box box'"
| step_collect: "garbage_collect cr nodes t1 box = (n, box') \<Longrightarrow> mail_step cr box box'"

inductive mail_reachable :: "crypto \<Rightarrow> mailbox \<Rightarrow> bool" for cr where
  mail_empty: "mail_reachable cr \<lparr>mail_files = [], ack_file = None\<rparr>"
| mail_next: "mail_reachable cr box \<Longrightarrow> mail_step cr box box' \<Longrightarrow> mail_reachable cr box'"

text \<open>No operation but \<open>put\<close> adds a file.\<close>

definition shrinks :: "mailbox \<Rightarrow> mailbox \<Rightarrow> bool" where
  "shrinks box box' \<longleftrightarrow> stems_distinct box' \<and> is_ok (read_acks box') \<and>
     length (mail_files box') \<le> length (mail_files box) \<and> set (mail_files box') \<subseteq> set (mail_files box) \<and>
     map_of (mail_files box') \<subseteq>\<^sub>m map_of (mail_files box)"

lemma shrinks_refl: "stems_distinct box \<Longrightarrow> is_ok (read_acks box) \<Longrightarrow> shrinks box box"
  by (simp add: shrinks_def)

lemma shrinks_trans: "shrinks a b \<Longrightarrow> shrinks b c \<Longrightarrow> shrinks a c"
  by (auto simp: shrinks_def intro: map_le_trans)

lemma map_of_filter_le:
  assumes "distinct (map fst xs)"
  shows "map_of (filter P xs) \<subseteq>\<^sub>m map_of xs"
proof (unfold map_le_def, intro ballI)
  fix k
  assume "k \<in> dom (map_of (filter P xs))"
  then obtain v where v: "map_of (filter P xs) k = Some v" by blast
  then have "(k, v) \<in> set xs" by (auto dest: map_of_SomeD)
  with assms v show "map_of (filter P xs) k = map_of xs k" by simp
qed

lemma shrinks_collect:
  assumes "collect_mail cr nodes now box = (r, box')" and "stems_distinct box" and "is_ok (read_acks box)"
  shows "shrinks box box'"
proof -
  from assms(3) obtain as where "read_acks box = Inr as" by (auto simp: is_ok_iff)
  from collect_mail_any [OF assms(1) this] obtain P where p: "mail_files box' = filter P (mail_files box)" "is_ok (read_acks box')" by blast
  have "map_of (mail_files box') \<subseteq>\<^sub>m map_of (mail_files box)"
    using map_of_filter_le assms(2) by (simp add: p(1) stems_distinct_def)
  with p assms(2) show ?thesis by (simp add: shrinks_def stems_distinct_def distinct_map_filter)
qed

lemma shrinks_write_acks: "shrinks a b \<Longrightarrow> shrinks a (write_acks as b)"
  by (simp add: shrinks_def stems_distinct_def)

lemma other_operations_shrink:
  assumes "stems_distinct box" and "is_ok (read_acks box)"
  shows "shrinks box (snd (get_message cr nodes t1 t2 i box))"
    "shrinks box (snd (index_messages cr nodes t1 t2 box))"
    "shrinks box (snd (garbage_collect cr nodes t1 box))"
    "shrinks box (snd (ack_message cr nodes t1 t2 i node box))"
proof -
  note r = shrinks_refl [OF assms]
  note c = shrinks_collect [OF _ assms]
  show "shrinks box (snd (get_message cr nodes t1 t2 i box))"
    using r c by (auto simp: get_message_def split: sum.split option.split prod.split)
  show "shrinks box (snd (index_messages cr nodes t1 t2 box))"
    using r c by (auto simp: index_messages_def split: sum.split prod.split)
  show "shrinks box (snd (garbage_collect cr nodes t1 box))"
    using c by (cases "collect_mail cr nodes t1 box") (simp add: garbage_collect_def)
  have a: "shrinks box (snd (add_ack i' n b))" if "shrinks box b" for i' n b
    using that by (auto simp: add_ack_def shrinks_write_acks split: sum.split)
  have "shrinks box d"
    if "collect_mail cr nodes t1 box = (x, b)" "add_ack i' n b = (ch, b')" "collect_mail cr nodes t2 b' = (y, d)"
    for x b i' n ch b' y d
  proof -
    have b: "shrinks box b'" using a [OF c [OF that(1)], of i' n] that(2) by simp
    then have "stems_distinct b'" "is_ok (read_acks b')" by (simp_all add: shrinks_def)
    from shrinks_trans [OF b shrinks_collect [OF that(3) this]] show ?thesis .
  qed
  moreover have "shrinks box b'" if "collect_mail cr nodes t1 box = (x, b)" "add_ack i' n b = (ch, b')" for x b i' n ch b'
    using a [OF c [OF that(1)], of i' n] that(2) by simp
  ultimately show "shrinks box (snd (ack_message cr nodes t1 t2 i node box))"
    using r c by (auto simp: ack_message_def split: sum.split prod.split)
qed

lemma put_message_cases:
  assumes "put_message cr nodes t1 t2 v box = (r, box')"
  obtains (untouched) e where "r = Inl e" "box' = box"
  | (unchanged) n where "collect_mail cr nodes t2 box = (n, box')"
  | (stored) m n c where "r = Inr True" "validate_message cr nodes (Some t1) v = Inr m"
    "collect_mail cr nodes t2 box = (Inr n, c)" "map_of (mail_files c) (message_id m) = None"
    "length (mail_files c) < max_messages"
    "box' = c\<lparr>mail_files := dict_set (message_id m) (Json (PDict m)) (mail_files c)\<rparr>"
proof (cases "validate_message cr nodes (Some t1) v")
  case (Inl e)
  then show ?thesis using assms untouched by (auto simp: put_message_def)
next
  case (Inr m)
  then have i: "item_str m ''message_id'' = Inr (message_id m)"
    using validate_message_Inr sound_fields(1) by blast
  note p = assms [unfolded put_message_def Inr i res_bind_Inr sum.case prod.case]
  show ?thesis
  proof (cases "collect_mail cr nodes t2 box")
    case c: (Pair x c)
    show ?thesis
    proof (cases x)
      case (Inl e)
      then show ?thesis using p c unchanged by auto
    next
      case x: (Inr n)
      show ?thesis
      proof (cases "map_of (mail_files c) (message_id m)")
        case None
        then show ?thesis
          using p c x Inr unchanged [of "Inr n"] stored [of m n c] by (auto split: if_splits)
      next
        case (Some f)
        then show ?thesis using p c x unchanged [of "Inr n"] by (auto split: if_splits sum.splits)
      qed
    qed
  qed
qed

lemma length_dict_set: "length (dict_set k v d) \<le> Suc (length d)"
  by (induction d) auto

definition mailbox_ok :: "mailbox \<Rightarrow> bool" where
  "mailbox_ok box \<longleftrightarrow> stems_distinct box \<and> legible box \<and> is_ok (read_acks box) \<and> length (mail_files box) \<le> max_messages"

lemma mailbox_ok_shrinks: "mailbox_ok box \<Longrightarrow> shrinks box box' \<Longrightarrow> mailbox_ok box'"
  by (auto simp: mailbox_ok_def shrinks_def legible_def)

lemma mailbox_ok_step:
  assumes "mail_step cr box box'" and ok: "mailbox_ok box"
  shows "mailbox_ok box'"
proof -
  have "stems_distinct box" "is_ok (read_acks box)" using ok by (simp_all add: mailbox_ok_def)
  note others = other_operations_shrink [OF this]
  from assms(1) show ?thesis
  proof cases
  case (step_put nodes t1 t2 v r)
  have d: "stems_distinct box" "is_ok (read_acks box)" using ok by (simp_all add: mailbox_ok_def)
  from step_put show ?thesis
  proof (cases rule: put_message_cases)
    case untouched
    then show ?thesis using ok by simp
  next
    case unchanged
    then show ?thesis using mailbox_ok_shrinks [OF ok shrinks_collect [OF _ d]] by blast
  next
    case (stored m n c)
    from shrinks_collect [OF stored(3) d] ok have c: "stems_distinct c" "is_ok (read_acks c)" "legible c"
      by (auto simp: shrinks_def mailbox_ok_def legible_def)
    moreover have "legible box'"
      using c(3) set_dict_set [of "message_id m" "Json (PDict m)" "mail_files c"] by (auto simp: stored(6) legible_def)
    moreover have "length (mail_files box') \<le> max_messages"
      using stored(5) length_dict_set [of "message_id m" "Json (PDict m)" "mail_files c"] by (simp add: stored(6))
    ultimately show ?thesis by (simp add: mailbox_ok_def stems_distinct_def stored(6))
  qed
next
  case (step_get nodes t1 t2 i m)
  with mailbox_ok_shrinks [OF ok others(1)] show ?thesis by (metis snd_conv)
next
  case (step_index nodes t1 t2 ms)
  with mailbox_ok_shrinks [OF ok others(2)] show ?thesis by (metis snd_conv)
next
  case (step_ack nodes t1 t2 i node r)
  with mailbox_ok_shrinks [OF ok others(4)] show ?thesis by (metis snd_conv)
next
  case (step_collect nodes t1 n)
  with mailbox_ok_shrinks [OF ok others(3)] show ?thesis by (metis snd_conv)
  qed
qed

text \<open>
  C19: However members use it, a mailbox never holds more than the 2000 messages of the limit, one per
  identifier, and its acknowledgements can always be read, so that garbage collection never fails.
\<close>

theorem mailbox_bounded:
  assumes "mail_reachable cr box"
  shows "length (mail_files box) \<le> 2000 \<and> distinct (map fst (mail_files box)) \<and>
    (\<exists>as. read_acks box = Inr as) \<and> is_ok (fst (garbage_collect cr nodes now box))"
proof -
  from assms have ok: "mailbox_ok box"
  proof induction
    case mail_empty
    then show ?case by (simp add: mailbox_ok_def stems_distinct_def read_acks_def legible_def)
  next
    case (mail_next box box')
    then show ?case using mailbox_ok_step by blast
  qed
  then obtain as where "read_acks box = Inr as" by (auto simp: mailbox_ok_def is_ok_iff)
  moreover from this ok have "is_ok (fst (collect_mail cr nodes now box))" by (intro collect_mail_ok) (auto simp: mailbox_ok_def)
  ultimately show ?thesis
    using ok by (auto simp: mailbox_ok_def max_messages_def stems_distinct_def garbage_collect_def is_ok_iff)
qed

text \<open>
  A stored message is never replaced while it lives: \<open>put\<close> leaves every live file as it is, and no
  other operation adds a file or changes one.
\<close>

theorem live_message_immutable:
  assumes "stems_distinct box" and "read_acks box = Inr as" and "legible box"
  shows "(live_file cr nodes t2 as (i, f) \<and> map_of (mail_files box) i = Some f \<longrightarrow>
      map_of (mail_files (snd (put_message cr nodes t1 t2 v box))) i = Some f) \<and>
    map_of (mail_files (snd (get_message cr nodes t1 t2 k box))) \<subseteq>\<^sub>m map_of (mail_files box) \<and>
    map_of (mail_files (snd (index_messages cr nodes t1 t2 box))) \<subseteq>\<^sub>m map_of (mail_files box) \<and>
    map_of (mail_files (snd (ack_message cr nodes t1 t2 k node box))) \<subseteq>\<^sub>m map_of (mail_files box) \<and>
    map_of (mail_files (snd (garbage_collect cr nodes t1 box))) \<subseteq>\<^sub>m map_of (mail_files box)"
proof -
  have "map_of (mail_files (snd (put_message cr nodes t1 t2 v box))) i = Some f"
    if live: "live_file cr nodes t2 as (i, f)" and f: "map_of (mail_files box) i = Some f"
  proof -
    have kept: "map_of (mail_files c) i = Some f" if "collect_mail cr nodes t2 box = (n, c)" for n c
    proof -
      from collect_mail_exact [OF assms(2) _ assms(3), of cr nodes t2] that assms(1) have
        "mail_files c = filter (live_file cr nodes t2 as) (mail_files box)" by (auto simp: stems_distinct_def)
      with live map_of_SomeD [OF f] assms(1) show ?thesis
        by (simp add: stems_distinct_def distinct_map_filter)
    qed
    obtain r box' where p: "put_message cr nodes t1 t2 v box = (r, box')" by (cases "put_message cr nodes t1 t2 v box")
    then show ?thesis
    proof (cases rule: put_message_cases)
      case untouched
      with f p show ?thesis by simp
    next
      case unchanged
      with kept p show ?thesis by simp
    next
      case (stored m n c)
      from kept [OF stored(3)] stored(4,6) p show ?thesis by auto
    qed
  qed
  moreover have "is_ok (read_acks box)" using assms(2) by simp
  note other_operations_shrink [OF assms(1) this]
  ultimately show ?thesis by (auto simp: shrinks_def)
qed

section \<open>Authenticity, acknowledgement and errors\<close>

text \<open>
  C20: Whatever files the mailbox directory holds, a message returned by \<open>get\<close> is the one asked for, is unexpired,
  is addressed to an active member, carries a signature that the key of its active sender verifies, and its payload has no
  secret field at any depth.
\<close>

theorem read_mail_authentic:
  assumes "fst (get_message cr nodes t1 t2 i box) = Inr m"
  shows "message_id m = i \<and> t2 < message_expiry m \<and> public_value (py_get m ''payload'') \<and>
    active_member (py_get nodes (message_recipient m)) \<and>
    (\<exists>src raw sig bytes. py_get m ''sender'' = PStr src \<and> active_member (py_get nodes src) \<and>
       node_signing_key (py_get nodes src) = b64_encode raw \<and> py_get m ''signature'' = PStr (b64_encode sig) \<and>
       canonical_operation_bytes m = Inr bytes \<and> ed25519_valid cr raw sig bytes)"
proof -
  obtain n c k f where c: "collect_mail cr nodes t1 box = (Inr n, c)" and k: "cmc_identifier (PStr i) ''message_id'' = Inr k"
    and f: "read_message cr nodes (Some t2) (k, f) = Inr m"
    using assms by (auto simp: get_message_def split: sum.splits option.splits prod.splits)
  from cmc_identifier_Inr [OF k] have "k = i" by simp
  from read_message_Inr [OF f] have s: "sound_message cr nodes m" "k = message_id m" "t2 < message_expiry m" by auto
  then show ?thesis
    using \<open>k = i\<close> by (auto simp: sound_message_def verify_operation_Inr)
qed

text \<open>
  An acknowledgement by the recipient removes the message; one by any other active member leaves the live message
  where it is and is recorded.
\<close>

theorem ack_by_recipient_removes:
  assumes "stems_distinct box" and "read_acks box = Inr as" and "map_of (mail_files box) (message_id m) = Some (Json (PDict m))"
    and m: "read_message cr nodes None (message_id m, Json (PDict m)) = Inr m"
    and "t1 < message_expiry m" and "t2 < message_expiry m" and un: "message_recipient m \<notin> set (ack_nodes as (message_id m))"
    and node: "active_member (py_get nodes node)" "cmc_identifier (PStr node) ''node_id'' = Inr node"
    and a: "ack_message cr nodes t1 t2 (message_id m) node box = (r, box')" and lg: "legible box"
  shows "(\<exists>changed. r = Inr changed) \<and> map_of (mail_files box') (message_id m) =
      (if node = message_recipient m then None else Some (Json (PDict m))) \<and>
    (node \<noteq> message_recipient m \<longrightarrow> (\<exists>as'. read_acks box' = Inr as' \<and> node \<in> set (ack_nodes as' (message_id m))))"
proof -
  let ?i = "message_id m" and ?f = "Json (PDict m)"
  from collect_mail_exact [OF assms(2) assms(1) [unfolded stems_distinct_def] lg, of cr nodes t1] obtain n1 b1 as1 where
    c1: "collect_mail cr nodes t1 box = (Inr n1, b1)" and
    b1: "mail_files b1 = filter (live_file cr nodes t1 as) (mail_files box)" "read_acks b1 = Inr as1"
      "\<forall>i. map_of as1 i = (if i \<in> fst ` set (mail_files b1) then map_of as i else None)"
    by (auto simp: stems_distinct_def)
  have d1: "stems_distinct b1" using assms(1) by (simp add: b1(1) stems_distinct_def distinct_map_filter)
  have "live_file cr nodes t1 as (?i, ?f)" using m assms(5) un by (simp add: live_file_def)
  with map_of_SomeD [OF assms(3)] have in1: "(?i, ?f) \<in> set (mail_files b1)" by (simp add: b1(1))
  then have f1: "map_of (mail_files b1) ?i = Some ?f" using d1 by (simp add: stems_distinct_def)
  have "map_of as1 ?i = map_of as ?i" using b1(3) in1 by (simp add: rev_image_eqI)
  then have un1: "message_recipient m \<notin> set (ack_nodes as1 ?i)" using un by (simp add: ack_nodes_def)
  obtain changed b2 where add: "add_ack ?i node b1 = (Inr changed, b2)"
    by (cases "node \<in> set (ack_nodes as1 ?i)") (auto simp: add_ack_def b1(2))
  with b1(2) obtain as2 where b2: "mail_files b2 = mail_files b1" "read_acks b2 = Inr as2"
    and acks2: "set (ack_nodes as2 ?i) = insert node (set (ack_nodes as1 ?i))"
    by (cases "node \<in> set (ack_nodes as1 ?i)") (auto simp: add_ack_def insert_absorb)
  have d2: "stems_distinct b2" using d1 b2(1) by (simp add: stems_distinct_def)
  have lg2: "legible b2" using lg by (auto simp: legible_def b1(1) b2(1))
  from collect_mail_exact [OF b2(2) d2 [unfolded stems_distinct_def] lg2, of cr nodes t2] obtain n3 b3 as3 where
    c3: "collect_mail cr nodes t2 b2 = (Inr n3, b3)" and
    b3: "mail_files b3 = filter (live_file cr nodes t2 as2) (mail_files b2)" "read_acks b3 = Inr as3"
      "\<forall>i. map_of as3 i = (if i \<in> fst ` set (mail_files b3) then map_of as2 i else None)"
    by (auto simp: stems_distinct_def)
  have live: "live_file cr nodes t2 as2 (?i, ?f) \<longleftrightarrow> node \<noteq> message_recipient m"
    using m assms(6) un1 by (auto simp: live_file_def acks2)
  have id: "cmc_identifier (PStr ?i) ''message_id'' = Inr ?i"
    using read_message_Inr [OF m] by (simp add: sound_message_def)
  have res: "r = Inr changed" "box' = b3"
    using a by (simp_all add: ack_message_def id node c1 dict_has_iff f1 add c3)
  have f3: "map_of (mail_files b3) ?i = (if node = message_recipient m then None else Some ?f)"
  proof (cases "node = message_recipient m")
    case True
    have "(?i, g) \<notin> set (mail_files b3)" for g
    proof
      assume g: "(?i, g) \<in> set (mail_files b3)"
      then have "map_of (mail_files b2) ?i = Some g" using d2 by (simp add: b3(1) stems_distinct_def)
      with g live True show False by (simp add: b3(1) b2(1) f1)
    qed
    then show ?thesis using True by (auto simp: map_of_eq_None_iff)
  next
    case False
    then have "(?i, ?f) \<in> set (mail_files b3)" using live in1 by (simp add: b3(1) b2(1))
    moreover have "distinct (map fst (mail_files b3))" using d2 by (simp add: b3(1) stems_distinct_def distinct_map_filter)
    ultimately show ?thesis using False by simp
  qed
  have "node \<in> set (ack_nodes as3 ?i)" if "node \<noteq> message_recipient m"
  proof -
    have "(?i, ?f) \<in> set (mail_files b3)" using f3 that by (simp add: map_of_SomeD)
    then have "map_of as3 ?i = map_of as2 ?i" using b3(3) by (simp add: rev_image_eqI)
    then show ?thesis using acks2 by (simp add: ack_nodes_def)
  qed
  with f3 b3(2) res show ?thesis by blast
qed

lemma cmc_only_item: "sound_message cr nodes m \<Longrightarrow> k \<in> set required_fields \<Longrightarrow> cmc_only (py_item m k)"
  by (auto simp: sound_message_def list_all_iff dict_has_iff py_item_def)

lemma cmc_only_collect_file: "snd e \<noteq> Undecodable \<Longrightarrow> cmc_only (collect_file cr nodes now e c)"
  using collect_file_any [of cr nodes now e c] by auto

lemma cmc_only_collect:
  assumes "legible box" "ack_file box \<noteq> Some Undecodable"
  shows "cmc_only (fst (collect_mail cr nodes now box))"
proof (cases "read_acks box")
  case (Inl e)
  then show ?thesis using cmc_only_acks [OF assms(2)] by (simp add: collect_mail_def cmc_only_def)
next
  case (Inr as)
  obtain r box' where c: "collect_mail cr nodes now box = (r, box')" by fastforce
  from collect_mail_any(3) [OF c Inr] assms(1) c show ?thesis by auto
qed

lemma fst_collect: "cmc_only (fst (collect_mail cr nodes now box)) \<Longrightarrow> (\<And>n b. collect_mail cr nodes now box = (Inr n, b) \<Longrightarrow> cmc_only (fst (f b))) \<Longrightarrow>
    cmc_only (fst (case collect_mail cr nodes now box of (Inl e, b) \<Rightarrow> (Inl e, b) | (Inr _, b) \<Rightarrow> f b))"
  by (cases "collect_mail cr nodes now box") (auto simp: cmc_only_def split: sum.split)

lemma collected_legible:
  assumes "collect_mail cr nodes now box = (Inr n, b)" "legible box"
  shows "legible b \<and> is_ok (read_acks b) \<and> ack_file b \<noteq> Some Undecodable"
proof -
  from assms(1) obtain as where "read_acks box = Inr as" by (auto simp: collect_mail_def split: sum.splits)
  from collect_mail_any [OF assms(1) this] assms(2) show ?thesis
    by (auto simp: legible_def is_ok_iff read_acks_def split: option.splits json_file.splits)
qed

lemma cmc_only_outcome:
  assumes "cmc_only m" and "\<And>x. m = Inr x \<Longrightarrow> cmc_only (fst (f x))"
  shows "cmc_only (fst (case m of Inl e \<Rightarrow> (Inl e, b) | Inr x \<Rightarrow> f x))"
  using assms by (cases m) (auto simp: cmc_only_def)

lemma legible_file: "legible b \<Longrightarrow> map_of (mail_files b) i = Some f \<Longrightarrow> f \<noteq> Undecodable"
  by (drule map_of_SomeD) (force simp: legible_def)

text \<open>
  As long as every file is UTF-8, no operation of the mailbox raises anything but \<open>CmcLeaseError\<close>: malformed, foreign or badly
  signed messages never surface as another exception.
\<close>

theorem mailbox_raises_lease_errors:
  assumes "legible box" "ack_file box \<noteq> Some Undecodable"
  shows "cmc_only (fst (put_message cr nodes t1 t2 v box)) \<and> cmc_only (fst (get_message cr nodes t1 t2 i box)) \<and>
   cmc_only (fst (index_messages cr nodes t1 t2 box)) \<and> cmc_only (fst (ack_message cr nodes t1 t2 i node box)) \<and>
   cmc_only (fst (garbage_collect cr nodes t1 box))"
proof (intro conjI)
  note c = cmc_only_collect [OF assms] and l = collected_legible [OF _ assms(1)]
  have stored: "cmc_only (read_message cr nodes now (i, f))" if "map_of (mail_files b) i = Some f" "legible b" for i f b now
    using cmc_only_read legible_file [OF that(2,1)] by simp
  have fields: "cmc_only (index_entry m)" if "read_message cr nodes now f = Inr m" for m now f
  proof -
    have "sound_message cr nodes m" using read_message_Inr that by (cases f) blast
    then show ?thesis
      unfolding index_entry_def by (intro cmc_only_res_map cmc_only_bind cmc_only_item)
        (auto simp: index_fields_def required_fields_def)
  qed
  have "cmc_only (res_bind (validate_message cr nodes (Some t1) v) (\<lambda>m. res_bind (item_str m ''message_id'') (\<lambda>i. Inr (m, i))))"
    by (intro cmc_only_bind) (auto dest!: validate_message_Inr simp: sound_fields)
  then show "cmc_only (fst (put_message cr nodes t1 t2 v box))"
    unfolding put_message_def
    by (rule cmc_only_outcome) (auto intro!: fst_collect cmc_only_outcome c stored dest!: l split: option.split)
  show "cmc_only (fst (get_message cr nodes t1 t2 i box))"
    unfolding get_message_def by (auto intro!: cmc_only_outcome fst_collect c stored dest!: l split: option.split)
  have "cmc_only (res_map (\<lambda>f. res_bind (read_message cr nodes (Some t2) f) index_entry) (sort_key (\<lambda>(i, _). i @ ''.json'') (mail_files b)))"
    if "legible b" for b
    using that by (intro cmc_only_res_map cmc_only_bind fields) (auto simp: legible_def image_iff)
  then show "cmc_only (fst (index_messages cr nodes t1 t2 box))"
    unfolding index_messages_def by (auto intro!: fst_collect c dest!: l)
  show "cmc_only (fst (garbage_collect cr nodes t1 box))"
    unfolding garbage_collect_def by (rule c)
  have "cmc_only (fst (case add_ack i n b of (Inl e, c) \<Rightarrow> (Inl e, c)
      | (Inr changed, c) \<Rightarrow> (case collect_mail cr nodes t2 c of (Inl e, d) \<Rightarrow> (Inl e, d) | (Inr _, d) \<Rightarrow> (Inr changed, d))))"
    if b: "legible b" "is_ok (read_acks b)" "ack_file b \<noteq> Some Undecodable" for i n b
  proof -
    from b(2) obtain as where "read_acks b = Inr as" by (auto simp: is_ok_iff)
    then obtain x d where a: "add_ack i n b = (Inr x, d)" "d = b \<or> (\<exists>as'. d = write_acks as' b)"
      by (cases "n \<in> set (ack_nodes as i)") (auto simp: add_ack_def)
    then have "legible d" "ack_file d \<noteq> Some Undecodable" using b by (auto simp: legible_def write_acks_def)
    from cmc_only_collect [OF this] show ?thesis unfolding a(1) by (auto intro!: fst_collect)
  qed
  then show "cmc_only (fst (ack_message cr nodes t1 t2 i node box))"
    unfolding ack_message_def by (intro cmc_only_outcome cmc_only_bind) (auto intro!: fst_collect c dest!: l)
qed

end
