(* ===== verification/Mailbox_Demo.thy ===== *)
theory Mailbox_Demo
  imports Mailbox_Laws Demo_Cluster
begin

text \<open>
  A mailbox with one message from the member a to the member b, on which the properties of the
  mailbox are applied. The signature scheme is that of the demonstration cluster.
\<close>

section \<open>A message\<close>

definition demo_members :: pydict where
  "demo_members = [(''a'', PDict [(''signing_public_key'', PStr (demo_pk CHR ''K''))]), (''b'', PDict [])]"

definition demo_mail :: pydict where
  "demo_mail = [(''sender'', PStr ''a''), (''recipient'', PStr ''b''), (''message_id'', PStr ''m''),
     (''message_type'', PStr ''CMC_LEASE_ACK''), (''created_at'', PInt 10), (''expires_at'', PInt 100),
     (''payload'', PDict [(''message_id'', PStr ''x'')]), (''signer_id'', PStr ''a''),
     (''signing_key_id'', PStr ''ed25519:K''), (''signature_version'', PInt 1),
     (''signature_algorithm'', PStr ''Ed25519''), (''signature'', PStr demo_sig)]"

lemma demo_mail_verifies: "verify_operation demo_crypto demo_mail (demo_pk CHR ''K'') = Inr ()"
proof (rule demo_verify)
  show "is_ok (validated_text (py_get demo_mail ''signer_id'') ''signer_id'')" by code_simp
qed (simp_all add: demo_mail_def demo_simps max_safe_integer_def)

text \<open>A bound of the length of a JSON text that needs no sorting.\<close>

fun json_bound :: "pyval \<Rightarrow> nat" where
  "json_bound (PInt i) = length (int_str i)"
| "json_bound (PStr s) = 2 + 6 * length s"
| "json_bound (PList xs) = 2 + sum_list (map (\<lambda>v. Suc (json_bound v)) xs)"
| "json_bound (PDict d) = 2 + sum_list (map (\<lambda>(k, v). Suc (3 + 6 * length k + json_bound v)) d)"
| "json_bound _ = 5"

lemma length_ascii_string: "length (ascii_string s) \<le> 2 + 6 * length s"
proof -
  have "length (ascii_char c) \<le> 6" for c by (simp add: ascii_char_def json_char_def Let_def)
  then have "length (concat (map ascii_char s)) \<le> 6 * length s"
    by (induction s) (auto simp: add_mono)
  then show ?thesis by (simp add: ascii_string_def)
qed

lemma length_join_with: "length (join_with [c] ss) \<le> sum_list (map (\<lambda>s. Suc (length s)) ss)"
  by (induction "[c]" ss rule: join_with.induct) auto

lemma sum_list_sort_key: "sum_list (map f (sort_key k xs)) = (sum_list (map f xs) :: nat)"
  by (metis mset_map mset_sort sum_mset_sum_list)

lemma json_dumps_bound: "length (json_dumps v) \<le> json_bound v"
proof (induction v rule: json_dumps.induct)
  case (5 xs)
  have "sum_list (map (\<lambda>s. Suc (length s)) (map json_dumps xs)) \<le> sum_list (map (\<lambda>v. Suc (json_bound v)) xs)"
    using 5 by (auto simp: o_def intro!: sum_list_mono)
  with length_join_with [of "CHR '',''" "map json_dumps xs"] show ?case by simp
next
  case (6 d)
  let ?f = "\<lambda>(k, v). (k, ascii_string k @ '':'' @ json_dumps v)"
  have "length (join_with '','' (map snd (sort_key fst (map ?f d)))) \<le>
      sum_list (map (\<lambda>s. Suc (length s)) (map snd (sort_key fst (map ?f d))))"
    by (rule length_join_with)
  also have "\<dots> = sum_list (map (\<lambda>e. Suc (length (snd e))) (map ?f d))"
    unfolding map_map o_def sum_list_sort_key ..
  also have "\<dots> \<le> sum_list (map (\<lambda>(k, v). Suc (3 + 6 * length k + json_bound v)) d)"
    unfolding map_map o_def
  proof (rule sum_list_mono)
    fix e
    assume e: "e \<in> set d"
    obtain k v where kv: "e = (k, v)" by (cases e)
    have "length (json_dumps v) \<le> json_bound v" using 6 e kv by blast
    with length_ascii_string [of k] kv
    show "Suc (length (snd (?f e))) \<le> (case e of (k, v) \<Rightarrow> Suc (3 + 6 * length k + json_bound v))" by simp
  qed
  finally show ?case by simp
qed (simp_all add: length_ascii_string [simplified])

lemma length_b64_encode: "length (b64_encode s) \<le> 4 * length s"
proof (induction s rule: b64_encode.induct)
  case (4 a b c rest)
  then have "length (b64_encode rest) \<le> 4 * length rest" by blast
  then show ?case by (simp add: Let_def)
qed (simp_all add: Let_def)

lemma demo_sig_length: "length demo_sig \<le> 256"
  using length_b64_encode [of "replicate 64 CHR ''s''"] by (simp add: demo_sig_def)

lemma demo_mail_size: "length (json_dumps (PDict demo_mail)) \<le> max_message_bytes"
proof -
  have "length (int_str 10) = 2" "length (int_str 100) = 3" "length (int_str 1) = 1" by code_simp+
  then have "json_bound (PDict demo_mail) \<le> 6000"
    using demo_sig_length by (simp add: demo_mail_def)
  with json_dumps_bound [of "PDict demo_mail"] show ?thesis by (simp add: max_message_bytes_def del: json_dumps.simps json_bound.simps)
qed

lemma demo_mail_checks:
  "cmc_identifier (PStr ''a'') f = Inr ''a''" "cmc_identifier (PStr ''b'') f = Inr ''b''" "cmc_identifier (PStr ''m'') f = Inr ''m''"
  "active_member (py_get demo_members ''a'')" "active_member (py_get demo_members ''b'')"
  "node_signing_key (py_get demo_members ''a'') = demo_pk CHR ''K''" "demo_pk CHR ''K'' \<noteq> []"
  "is_ok (validated_public_payload ''payload'' (PDict [(''message_id'', PStr ''x'')]))"
  "validate_message_type ''CMC_LEASE_ACK'' = Inr ''CMC_LEASE_ACK''"
  "cmc_nonnegative_int (PInt 10) f = Inr 10" "cmc_positive_int (PInt 100) f = Inr 100"
  by (simp_all add: cmc_identifier_def cmc_bounded_text_def utf8_length_def has_control_def char_ord_def is_ok_iff
    active_member_def demo_members_def py_get_def py_get_or_def node_signing_key_def get_str_def py_or_def
    secret_field_def Let_def) (code_simp+)

lemma demo_mail_valid: "t < 100 \<Longrightarrow> validate_message demo_crypto demo_members (Some t) (PDict demo_mail) = Inr demo_mail"
  using demo_mail_verifies demo_mail_size demo_mail_checks
  by (simp add: validate_message_def demo_mail_def required_fields_def dict_has_def py_get_def get_str_def py_or_def
    res_bind_eq_Inr as_cmc_error_Inr del: json_dumps.simps)

section \<open>A mailbox\<close>

definition no_mail :: mailbox where
  "no_mail = \<lparr>mail_files = [], ack_file = None\<rparr>"

definition demo_box :: mailbox where
  "demo_box = snd (put_message demo_crypto demo_members 20 20 (PDict demo_mail) no_mail)"

lemma demo_message [simp]: "message_id demo_mail = ''m''" "message_expiry demo_mail = 100" "message_recipient demo_mail = ''b''"
  by (simp_all add: demo_mail_def message_id_def message_expiry_def message_recipient_def py_get_def)

lemma demo_put: "put_message demo_crypto demo_members 20 20 (PDict demo_mail) no_mail = (Inr True, demo_box)"
proof -
  have "item_str demo_mail ''message_id'' = Inr ''m''" by (simp add: demo_mail_def item_str_def py_item_def)
  then show ?thesis
    by (simp add: demo_box_def put_message_def demo_mail_valid collect_mail_def no_mail_def read_acks_def write_acks_def
      max_messages_def)
qed

lemma demo_box_files [simp]: "mail_files demo_box = [(''m'', Json (PDict demo_mail))]"
proof -
  have "item_str demo_mail ''message_id'' = Inr ''m''" by (simp add: demo_mail_def item_str_def py_item_def)
  then show ?thesis
    by (simp add: demo_box_def put_message_def demo_mail_valid collect_mail_def no_mail_def read_acks_def write_acks_def
      max_messages_def)
qed

lemma demo_box_acks [simp]: "read_acks demo_box = Inr []"
proof -
  have "item_str demo_mail ''message_id'' = Inr ''m''" by (simp add: demo_mail_def item_str_def py_item_def)
  then show ?thesis
    by (simp add: demo_box_def put_message_def demo_mail_valid collect_mail_def no_mail_def read_acks_def write_acks_def
      max_messages_def)
qed

lemma demo_box_distinct [simp]: "stems_distinct demo_box" "stems_distinct no_mail"
  by (simp_all add: stems_distinct_def no_mail_def)

lemma demo_box_legible [simp]: "legible demo_box" "legible no_mail"
  by (simp_all add: legible_def no_mail_def)

lemma demo_read: "read_message demo_crypto demo_members None (''m'', Json (PDict demo_mail)) = Inr demo_mail"
proof -
  have "validate_message demo_crypto demo_members None (PDict demo_mail) = Inr demo_mail"
    by (rule validate_message_time [OF demo_mail_valid [of 20]]) simp_all
  from read_message_valid [OF this] show ?thesis by simp
qed

lemma demo_live: "live_file demo_crypto demo_members 30 [] (''m'', Json (PDict demo_mail))"
  by (simp add: live_file_def demo_read ack_nodes_def)

section \<open>Witnesses\<close>

definition demo_dirty :: mailbox where
  "demo_dirty = demo_box\<lparr>mail_files := (''z'', Unreadable) # mail_files demo_box\<rparr>"

theorem garbage_collection_exact_witness:
  "\<exists>n box'. garbage_collect demo_crypto demo_members 30 demo_dirty = (Inr n, box') \<and>
     mail_files box' = [(''m'', Json (PDict demo_mail))]"
proof -
  have "read_acks demo_dirty = Inr []" by (simp add: demo_dirty_def)
  moreover have "stems_distinct demo_dirty" by (simp add: demo_dirty_def stems_distinct_def)
  moreover have "Undecodable \<notin> snd ` set (mail_files demo_dirty)" by (simp add: demo_dirty_def)
  moreover have "\<not> live_file demo_crypto demo_members 30 [] (''z'', Unreadable)"
    by (simp add: live_file_def read_message_def)
  then have "filter (live_file demo_crypto demo_members 30 []) (mail_files demo_dirty) = [(''m'', Json (PDict demo_mail))]"
    using demo_live by (simp add: demo_dirty_def)
  ultimately show ?thesis
    using garbage_collection_exact [of demo_dirty "[]" demo_crypto demo_members 30] by auto
qed

text \<open>Between the put and the get, a acknowledges the message that is for b, and the garbage is collected.\<close>

definition demo_later :: mailbox where
  "demo_later = snd (garbage_collect demo_crypto demo_members 35 (snd (ack_message demo_crypto demo_members 30 30 ''m'' ''a'' demo_box)))"

theorem put_then_get_witness: "fst (get_message demo_crypto demo_members 40 50 ''m'' demo_later) = Inr demo_mail"
proof -
  from put_then_get [OF demo_put demo_box_distinct(2)] obtain m where m: "PDict m = PDict demo_mail"
    "\<And>later t3 t4. (quiet_step demo_crypto demo_members m)\<^sup>*\<^sup>* demo_box later \<Longrightarrow> t3 < message_expiry m \<Longrightarrow>
       t4 < message_expiry m \<Longrightarrow> fst (get_message demo_crypto demo_members t3 t4 (message_id m) later) = Inr m" by blast
  have "quiet_step demo_crypto demo_members demo_mail demo_box (snd (ack_message demo_crypto demo_members 30 30 ''m'' ''a'' demo_box))"
    by (rule quiet_ack) simp_all
  moreover have "quiet_step demo_crypto demo_members demo_mail (snd (ack_message demo_crypto demo_members 30 30 ''m'' ''a'' demo_box)) demo_later"
    unfolding demo_later_def by (rule quiet_collect) simp
  ultimately have "(quiet_step demo_crypto demo_members demo_mail)\<^sup>*\<^sup>* demo_box demo_later" by (meson converse_rtranclp_into_rtranclp r_into_rtranclp)
  with m show ?thesis by simp
qed

theorem mailbox_bounded_witness: "is_ok (fst (garbage_collect demo_crypto [] 200 demo_box))"
proof -
  have "mail_step demo_crypto no_mail demo_box" by (rule step_put [OF demo_put])
  moreover have "mail_reachable demo_crypto no_mail" using mail_empty by (simp add: no_mail_def)
  ultimately have "mail_reachable demo_crypto demo_box" by (blast intro: mail_next)
  then show ?thesis by (rule mailbox_bounded [THEN conjunct2, THEN conjunct2, THEN conjunct2])
qed

theorem live_message_immutable_witness:
  "\<forall>v. map_of (mail_files (snd (put_message demo_crypto demo_members 30 30 v demo_box))) ''m'' = Some (Json (PDict demo_mail))"
proof
  fix v
  show "map_of (mail_files (snd (put_message demo_crypto demo_members 30 30 v demo_box))) ''m'' = Some (Json (PDict demo_mail))"
    using live_message_immutable [of demo_box "[]" demo_crypto demo_members 30 "''m''" "Json (PDict demo_mail)" 30 v] demo_live
    by simp
qed

theorem read_mail_authentic_witness:
  "\<exists>raw sig bytes. demo_pk CHR ''K'' = b64_encode raw \<and> canonical_operation_bytes demo_mail = Inr bytes \<and>
     ed25519_valid demo_crypto raw sig bytes"
proof -
  have "put_message demo_crypto demo_members 20 20 (PDict demo_mail) no_mail = (Inr True, demo_box)" by (rule demo_put)
  have "fst (get_message demo_crypto demo_members 40 50 ''m'' demo_box) = Inr demo_mail"
    by (rule get_live_message [where as = "[]", OF _ _ _ demo_read]) simp_all
  from read_mail_authentic [OF this] show ?thesis
    using demo_mail_checks(6) by (auto simp: demo_mail_def py_get_def)
qed

theorem ack_by_recipient_removes_witness:
  "map_of (mail_files (snd (ack_message demo_crypto demo_members 30 30 ''m'' ''b'' demo_box))) ''m'' = None"
proof -
  obtain r box' where a: "ack_message demo_crypto demo_members 30 30 (message_id demo_mail) ''b'' demo_box = (r, box')"
    by (cases "ack_message demo_crypto demo_members 30 30 (message_id demo_mail) ''b'' demo_box")
  have "active_member (py_get demo_members ''b'')" "cmc_identifier (PStr ''b'') ''node_id'' = Inr ''b''"
    by (simp_all add: demo_mail_checks)
  from ack_by_recipient_removes [OF _ _ _ _ _ _ _ this a, of "[]"] demo_read a show ?thesis
    by simp
qed

end
