(* ===== verification/Task_Queue.thy ===== *)
theory Task_Queue
  imports Py_Value
begin

text \<open>
  The job queue of the market-data worker (task_queue.py): one JSON file per job in the
  directories pending, running, done and failed under \<open>_tasks\<close>. Every operation holds the
  queue lock from start to end, so it is one step; the readings of the clock within one
  operation are the argument \<open>now\<close>. The file \<open>X.json\<close> of a directory is the pair of the
  directory and the stem \<open>X\<close>.
\<close>

section \<open>Directories\<close>

datatype job_state = Pending | Running | Done | Failed

text \<open>The order in which \<open>list_jobs\<close> and \<open>get_job_by_id\<close> search the directories.\<close>

fun state_rank :: "job_state \<Rightarrow> nat" where
  "state_rank Pending = 0"
| "state_rank Running = 1"
| "state_rank Done = 2"
| "state_rank Failed = 3"

lemma state_rank_inject [simp]: "state_rank s = state_rank t \<longleftrightarrow> s = t"
  by (cases s; cases t) simp_all

instantiation job_state :: linorder
begin

definition less_eq_job_state :: "job_state \<Rightarrow> job_state \<Rightarrow> bool" where
  "less_eq_job_state s t \<longleftrightarrow> state_rank s \<le> state_rank t"

definition less_job_state :: "job_state \<Rightarrow> job_state \<Rightarrow> bool" where
  "less_job_state s t \<longleftrightarrow> state_rank s < state_rank t"

instance
  by standard (auto simp: less_eq_job_state_def less_job_state_def)

end

definition all_states :: "job_state list" where
  "all_states = [Pending, Running, Done, Failed]"

fun state_name :: "job_state \<Rightarrow> string" where
  "state_name Pending = ''pending''"
| "state_name Running = ''running''"
| "state_name Done = ''done''"
| "state_name Failed = ''failed''"

text \<open>\<open>get_task_state_dir\<close>; a name without a directory has no files.\<close>

definition state_dir :: "string \<Rightarrow> job_state option" where
  "state_dir s = find (\<lambda>t. state_name t = str_lower (str_strip s)) all_states"

type_synonym job_path = "job_state \<times> string"

record task_queue =
  tasks_root :: string
  job_files :: "(job_path, json_file) dict"
  job_logs :: "string list"
  worker_pid_file :: "string option"

definition job_path_text :: "task_queue \<Rightarrow> job_path \<Rightarrow> string" where
  "job_path_text q = (\<lambda>(s, i). tasks_root q @ ''/'' @ state_name s @ ''/'' @ i @ ''.json'')"

definition dir_stems :: "task_queue \<Rightarrow> job_state \<Rightarrow> string list" where
  "dir_stems q s = map (snd \<circ> fst) (filter (\<lambda>((t, _), _). t = s) (job_files q))"

text \<open>\<open>_iter_job_paths\<close>: directory by directory, each by file name from last to first.\<close>

definition job_paths :: "task_queue \<Rightarrow> job_state list \<Rightarrow> job_path list" where
  "job_paths q ss = concat (map (\<lambda>s. map (Pair s) (rev (sort_key (\<lambda>i. i @ ''.json'') (dir_stems q s)))) ss)"

definition find_job :: "task_queue \<Rightarrow> job_state list \<Rightarrow> string \<Rightarrow> job_path option" where
  "find_job q ss jid = find (\<lambda>p. snd p = jid) (job_paths q ss)"

section \<open>Single files\<close>

definition write_job :: "job_path \<Rightarrow> pydict \<Rightarrow> task_queue \<Rightarrow> task_queue" where
  "write_job p d q = q\<lparr>job_files := dict_set p (Json (PDict d)) (job_files q)\<rparr>"

text \<open>\<open>update_job_file\<close>; the mutations the code passes never raise on a dictionary.\<close>

definition update_job_file :: "job_path \<Rightarrow> (pydict \<Rightarrow> pydict) \<Rightarrow> int \<Rightarrow> task_queue \<Rightarrow> task_queue" where
  "update_job_file p mutate now q = (case map_of (job_files q) p of
     Some (Json (PDict d)) \<Rightarrow> write_job p (dict_set ''updated_ts'' (PInt now) (mutate d)) q
   | _ \<Rightarrow> q)"

text \<open>\<open>move_job_file\<close>: \<open>os.replace\<close> overwrites a file of that name in the new directory.\<close>

definition move_job_file :: "job_path \<Rightarrow> job_state \<Rightarrow> task_queue \<Rightarrow> task_queue res" where
  "move_job_file p dst q = (case map_of (job_files q) p of
     None \<Rightarrow> Inl FileNotFoundError
   | Some f \<Rightarrow> Inr (q\<lparr>job_files := dict_set (dst, snd p) f (dict_pop p (job_files q))\<rparr>))"

section \<open>Enqueueing\<close>

definition job_id :: "int \<Rightarrow> string \<Rightarrow> string" where
  "job_id now hex = int_str now @ ''-'' @ take 10 hex"

definition new_job :: "string \<Rightarrow> string \<Rightarrow> pyval \<Rightarrow> string \<Rightarrow> string \<Rightarrow> int \<Rightarrow> pydict \<Rightarrow> pydict" where
  "new_job jid job_type payload exchange status now extra =
     [(''id'', PStr jid), (''type'', PStr (str_strip job_type)),
      (''exchange'', PStr (str_lower (str_strip exchange))), (''created_ts'', PInt now), (''updated_ts'', PInt now),
      (''payload'', py_or payload (PDict [])), (''status'', PStr status), (''progress'', PDict []),
      (''error'', PStr [])] @ extra"

definition enqueue_job :: "string \<Rightarrow> string \<Rightarrow> pyval \<Rightarrow> string \<Rightarrow> int \<Rightarrow> task_queue \<Rightarrow> string \<times> task_queue" where
  "enqueue_job hex job_type payload exchange now q =
     (let jid = job_id now hex
      in (jid, write_job (Pending, jid) (new_job jid job_type payload exchange ''pending'' now []) q))"

definition enqueue_running_job :: "string \<Rightarrow> string \<Rightarrow> pyval \<Rightarrow> string \<Rightarrow> bool \<Rightarrow> int \<Rightarrow> task_queue \<Rightarrow> string \<times> task_queue" where
  "enqueue_running_job hex job_type payload exchange manual now q =
     (let jid = job_id now hex
      in (jid, write_job (Running, jid) (new_job jid job_type payload exchange ''running'' now
           [(''manual_parallel'', PBool manual), (''run_requested'', PBool False), (''run_requested_ts'', PInt 0)]) q))"

text \<open>The job of a file that carries the dedupe key, if its file can be read.\<close>

definition has_dedupe_key :: "task_queue \<Rightarrow> string \<Rightarrow> job_path \<Rightarrow> bool" where
  "has_dedupe_key q key p = (case map_of (job_files q) p of
     Some (Json (PDict d)) \<Rightarrow> get_str d ''dedupe_key'' = key
   | _ \<Rightarrow> False)"

text \<open>The search for such a job; a file that is not UTF-8 ends it with an exception.\<close>

fun find_dedupe :: "task_queue \<Rightarrow> string \<Rightarrow> job_path list \<Rightarrow> job_path option res" where
  "find_dedupe q key [] = Inr None"
| "find_dedupe q key (p # ps) =
     (if map_of (job_files q) p = Some Undecodable then Inl UnicodeDecodeError
      else if has_dedupe_key q key p then Inr (Some p)
      else find_dedupe q key ps)"

definition job_dict :: "task_queue \<Rightarrow> job_path \<Rightarrow> pydict" where
  "job_dict q p = (case map_of (job_files q) p of Some (Json (PDict d)) \<Rightarrow> d | _ \<Rightarrow> [])"

text \<open>The result is the job identifier, the path and whether a job was created.\<close>

definition enqueue_unique_job :: "string \<Rightarrow> string \<Rightarrow> pyval \<Rightarrow> string \<Rightarrow> string \<Rightarrow> string list \<Rightarrow> int
    \<Rightarrow> task_queue \<Rightarrow> (string \<times> string \<times> bool) res \<times> task_queue" where
  "enqueue_unique_job hex job_type payload exchange dedupe_key states now q =
     (let key = str_strip dedupe_key;
          allowed = map (\<lambda>s. the (find (\<lambda>t. state_name t = s) all_states))
            (filter (\<lambda>s. s \<in> state_name ` set all_states) states)
      in if key = [] then (Inl (ValueError ''dedupe_key is required''), q)
         else if allowed = [] then (Inl (ValueError ''At least one valid dedupe state is required''), q)
         else (case find_dedupe q key (job_paths q allowed) of
             Inl e \<Rightarrow> (Inl e, q)
           | Inr (Some p) \<Rightarrow> (Inr (py_str (py_or (py_get (job_dict q p) ''id'') (PStr (snd p))), job_path_text q p, False), q)
           | Inr None \<Rightarrow>
               let jid = job_id now hex
               in (Inr (jid, job_path_text q (Pending, jid), True),
                   write_job (Pending, jid) (new_job jid job_type payload exchange ''pending'' now
                     [(''dedupe_key'', PStr key)]) q)))"

section \<open>Reading\<close>

definition limit_reached :: "int \<Rightarrow> 'a list \<Rightarrow> bool" where
  "limit_reached limit out \<longleftrightarrow> limit \<noteq> 0 \<and> limit \<le> int (length out)"

fun list_loop :: "task_queue \<Rightarrow> string list \<Rightarrow> int \<Rightarrow> job_path list \<Rightarrow> pydict list \<Rightarrow> pydict list" where
  "list_loop q types limit [] out = out"
| "list_loop q types limit (p # ps) out = (case map_of (job_files q) p of
     Some (Json v) \<Rightarrow>
       if is_dict v \<and> types \<noteq> [] \<and> str_lower (str_strip (get_str (dict_of v) ''type'')) \<notin> set types
       then list_loop q types limit ps out
       else
         let out' = (if is_dict v then out @ [dict_set ''_path'' (PStr (job_path_text q p)) (dict_of v)] else out)
         in if limit_reached limit out' then out' else list_loop q types limit ps out'
   | _ \<Rightarrow> list_loop q types limit ps out)"

definition named_dirs :: "string list \<Rightarrow> job_state list" where
  "named_dirs states = concat (map (\<lambda>s. case state_dir s of None \<Rightarrow> [] | Some t \<Rightarrow> [t]) states)"

definition list_jobs :: "string list \<Rightarrow> int \<Rightarrow> string list \<Rightarrow> task_queue \<Rightarrow> pydict list" where
  "list_jobs states limit job_types q =
     (let allowed = filter (\<lambda>t. t \<noteq> []) (map (str_lower \<circ> str_strip) job_types);
          dirs = (if states = [] then all_states else named_dirs states)
      in list_loop q allowed limit (job_paths q dirs) [])"

definition valid_job_id :: "string \<Rightarrow> bool" where
  "valid_job_id raw \<longleftrightarrow> \<not> has_control raw \<and> (let jid = str_strip raw in
     jid \<noteq> [] \<and> jid \<notin> {''.'', ''..''} \<and> CHR ''/'' \<notin> set jid \<and> char_of (92 :: nat) \<notin> set jid)"

definition job_at :: "task_queue \<Rightarrow> string \<Rightarrow> job_state \<Rightarrow> pydict option" where
  "job_at q jid s = (case map_of (job_files q) (s, jid) of
     Some (Json (PDict d)) \<Rightarrow>
       if str_strip (py_str (py_get_or d ''id'' (PStr []))) = jid
       then Some (dict_set ''_path'' (PStr (job_path_text q (s, jid))) d) else None
   | _ \<Rightarrow> None)"

definition get_job_by_id :: "string \<Rightarrow> task_queue \<Rightarrow> pydict option" where
  "get_job_by_id raw q =
     (if valid_job_id raw
      then Option.bind (find (\<lambda>s. job_at q (str_strip raw) s \<noteq> None) all_states) (job_at q (str_strip raw))
      else None)"

section \<open>Transitions\<close>

text \<open>\<open>str(o.get("status") or "").strip().lower()\<close>\<close>

definition job_status :: "pydict \<Rightarrow> string" where
  "job_status d = str_lower (str_strip (get_str d ''status''))"

definition text_or :: "string \<Rightarrow> string \<Rightarrow> string" where
  "text_or a b = (if a = [] then b else a)"

definition mark_cancelling :: "string \<Rightarrow> pydict \<Rightarrow> pydict" where
  "mark_cancelling reason d =
     (let d1 = dict_set ''cancel_requested'' (PBool True) d;
          d2 = (if job_status d1 \<in> {''pending'', ''running''} then dict_set ''status'' (PStr ''cancelling'') d1 else d1)
      in dict_set ''progress'' (PDict (dict_set ''cancel_reason'' (PStr (text_or reason ''cancel requested''))
           (dict_of (py_get d2 ''progress'')))) d2)"

definition request_cancel_job :: "string \<Rightarrow> string \<Rightarrow> int \<Rightarrow> task_queue \<Rightarrow> bool \<times> task_queue" where
  "request_cancel_job raw reason now q = (let jid = str_strip raw in
     if jid = [] then (False, q)
     else (case find_job q [Pending, Running] jid of
         None \<Rightarrow> (False, q)
       | Some p \<Rightarrow> (True, update_job_file p (mark_cancelling reason) now q)))"

definition request_run_job :: "string \<Rightarrow> int \<Rightarrow> task_queue \<Rightarrow> bool res \<times> task_queue" where
  "request_run_job raw now q = (let jid = str_strip raw in
     if jid = [] then (Inr False, q)
     else (case find_job q [Pending] jid of
         None \<Rightarrow> (Inr False, q)
       | Some p \<Rightarrow> (case map_of (job_files q) p of
           Some (Json v) \<Rightarrow>
             if \<not> is_dict v then (Inl AttributeError, q)
             else if job_status (dict_of v) \<noteq> ''pending'' then (Inr False, q)
             else (Inr True, update_job_file p (\<lambda>d. dict_update d
               [(''run_requested'', PBool True), (''run_requested_ts'', PInt now)]) now q)
         | _ \<Rightarrow> (Inr False, q))))"

definition moved :: "task_queue \<Rightarrow> task_queue res \<Rightarrow> bool \<times> task_queue" where
  "moved q m = (case m of Inl _ \<Rightarrow> (False, q) | Inr q' \<Rightarrow> (True, q'))"

definition mark_failed :: "string \<Rightarrow> pydict \<Rightarrow> pydict" where
  "mark_failed err d = dict_update d [(''status'', PStr ''failed''), (''error'', PStr (text_or err ''cancelled'')),
     (''cancel_requested'', PBool True)]"

definition force_fail_job :: "string \<Rightarrow> string \<Rightarrow> int \<Rightarrow> task_queue \<Rightarrow> bool \<times> task_queue" where
  "force_fail_job raw err now q = (let jid = str_strip raw in
     if jid = [] then (False, q)
     else (case find_job q [Pending, Running] jid of
         None \<Rightarrow> (False, q)
       | Some p \<Rightarrow> (let q' = update_job_file p (mark_failed err) now q in moved q' (move_job_file p Failed q'))))"

definition reset_job :: "pydict \<Rightarrow> pydict" where
  "reset_job d = dict_update d [(''status'', PStr ''pending''), (''error'', PStr []), (''cancel_requested'', PBool False),
     (''run_requested'', PBool False), (''run_requested_ts'', PInt 0), (''progress'', PDict [])]"

definition retry_failed_job :: "string \<Rightarrow> int \<Rightarrow> task_queue \<Rightarrow> bool \<times> task_queue" where
  "retry_failed_job raw now q = (let jid = str_strip raw in
     if jid = [] then (False, q)
     else (case find_job q [Failed] jid of
         None \<Rightarrow> (False, q)
       | Some p \<Rightarrow> (let q' = update_job_file p reset_job now q in moved q' (move_job_file p Pending q'))))"

definition requeue_done_job :: "string \<Rightarrow> string \<Rightarrow> int \<Rightarrow> task_queue \<Rightarrow> bool res \<times> task_queue" where
  "requeue_done_job raw hex now q = (let jid = str_strip raw in
     if jid = [] then (Inr False, q)
     else (case find_job q [Done] jid of
         None \<Rightarrow> (Inr False, q)
       | Some p \<Rightarrow> (case map_of (job_files q) p of
           Some (Json v) \<Rightarrow>
             if \<not> is_dict v then (Inl AttributeError, q)
             else
               let d = dict_of v; payload = (if is_dict (py_get d ''payload'') then py_get d ''payload'' else PDict []);
                   job_type = str_strip (get_str d ''type''); exchange = str_strip (get_str d ''exchange'')
               in if job_type = [] then (Inr False, q)
                  else (Inr True, snd (enqueue_job hex job_type payload exchange now q))
         | _ \<Rightarrow> (Inr False, q))))"

definition delete_job :: "string \<Rightarrow> string list \<Rightarrow> task_queue \<Rightarrow> bool \<times> task_queue" where
  "delete_job raw states q = (let jid = str_strip raw in
     if jid = [] then (False, q)
     else (case find_job q (if states = [] then [Pending, Done, Failed] else named_dirs states) jid of
         None \<Rightarrow> (False, q)
       | Some p \<Rightarrow> (True, q\<lparr>job_files := dict_pop p (job_files q), job_logs := removeAll jid (job_logs q)\<rparr>)))"

definition delete_jobs_by_ids :: "string list \<Rightarrow> string list \<Rightarrow> task_queue \<Rightarrow> nat \<times> task_queue" where
  "delete_jobs_by_ids ids states q =
     fold (\<lambda>jid (n, q). let (deleted, q') = delete_job jid states q in (if deleted then n + 1 else n, q'))
       (filter (\<lambda>i. i \<noteq> []) (map str_strip ids)) (0, q)"

section \<open>The worker's process identifier\<close>

text \<open>\<open>alive\<close> is whether a signal 0 reaches the process.\<close>

definition is_pid_running :: "(int \<Rightarrow> bool) \<Rightarrow> int \<Rightarrow> bool" where
  "is_pid_running alive pid \<longleftrightarrow> 1 < pid \<and> alive pid"

definition read_worker_pid :: "task_queue \<Rightarrow> int option" where
  "read_worker_pid q = Option.bind (worker_pid_file q) (\<lambda>t. int_of_string 10 (str_strip t))"

definition write_worker_pid :: "int \<Rightarrow> task_queue \<Rightarrow> task_queue" where
  "write_worker_pid pid q = q\<lparr>worker_pid_file := Some (int_str pid)\<rparr>"

definition clear_worker_pid :: "task_queue \<Rightarrow> task_queue" where
  "clear_worker_pid q = q\<lparr>worker_pid_file := None\<rparr>"

end
