(* ===== verification/Task_Worker.thy ===== *)
theory Task_Worker
  imports Task_Queue
begin

text \<open>
  How the worker takes jobs through the queue (task_worker.py): recovery of abandoned jobs,
  the scheduling pass of the main loop, the manual start of one job, and the two halves of
  \<open>_run_job\<close> around the work itself. The code takes the queue lock for each recovery, update and
  move and releases it in between; the definitions here run these sections one after the other
  without interference, and Task_Laws has the interleaving of sections with those of other
  processes (\<open>queue_step\<close>). The outcome of the work, the process table and the modification
  times of the files are arguments.
\<close>

text \<open>\<open>_load_job\<close>, whose callers treat an empty dictionary like a missing one.\<close>

definition load_job :: "job_path \<Rightarrow> task_queue \<Rightarrow> pydict" where
  "load_job p q = job_dict q p"

definition cancel_requested :: "job_path \<Rightarrow> task_queue \<Rightarrow> bool" where
  "cancel_requested p q \<longleftrightarrow> truthy (py_get (load_job p q) ''cancel_requested'')"

definition job_type :: "pydict \<Rightarrow> string" where
  "job_type d = str_strip (get_str d ''type'')"

section \<open>Recovery of abandoned jobs\<close>

definition recovered_fields :: "bool \<Rightarrow> int \<Rightarrow> pydict" where
  "recovered_fields cancelled now = [
     (''status'', PStr (if cancelled then ''failed'' else ''pending'')),
     (''error'', PStr (if cancelled then ''cancelled'' else ''requeued after worker exit'')),
     (''worker_pid'', PInt 0), (''run_started_ts'', PInt 0), (''finished_ts'', PInt (if cancelled then now else 0)),
     (''manual_parallel'', PBool False), (''run_requested'', PBool False), (''run_requested_ts'', PInt 0)]"

text \<open>Whether a running job counts as abandoned; an unreadable one never does.\<close>

definition abandoned :: "int \<Rightarrow> int \<Rightarrow> (int \<Rightarrow> bool) \<Rightarrow> int \<Rightarrow> pydict \<Rightarrow> bool" where
  "abandoned max_age now alive mtime d = (case get_int d ''worker_pid'' 0 of
     Inl _ \<Rightarrow> False
   | Inr wpid \<Rightarrow> \<not> (0 < wpid \<and> is_pid_running alive wpid) \<and>
       (if 0 < wpid then 60 else max 60 max_age) \<le> now - mtime)"

definition requeue_stale_job :: "int \<Rightarrow> int \<Rightarrow> (int \<Rightarrow> bool) \<Rightarrow> (string \<Rightarrow> int) \<Rightarrow> string \<Rightarrow> task_queue \<Rightarrow> task_queue" where
  "requeue_stale_job max_age now alive mtime i q = (case map_of (job_files q) (Running, i) of
     Some (Json (PDict d)) \<Rightarrow>
       if abandoned max_age now alive (mtime i) d
       then
         let cancelled = truthy (py_get d ''cancel_requested'');
             q' = update_job_file (Running, i) (\<lambda>d. dict_update d (recovered_fields cancelled now)) now q
         in snd (moved q' (move_job_file (Running, i) (if cancelled then Failed else Pending) q'))
       else q
   | _ \<Rightarrow> q)"

definition requeue_stale_running_jobs :: "int \<Rightarrow> int \<Rightarrow> (int \<Rightarrow> bool) \<Rightarrow> (string \<Rightarrow> int) \<Rightarrow> task_queue \<Rightarrow> task_queue" where
  "requeue_stale_running_jobs max_age now alive mtime q =
     fold (requeue_stale_job max_age now alive mtime) (sort_key (\<lambda>i. i @ ''.json'') (dir_stems q Running)) q"

section \<open>Running one job\<close>

text \<open>
  The first half of \<open>_run_job\<close> by process \<open>pid\<close>: the result is whether the work is done at all.
\<close>

definition begin_run :: "int \<Rightarrow> int \<Rightarrow> job_path \<Rightarrow> task_queue \<Rightarrow> bool res \<times> task_queue" where
  "begin_run pid now p q =
     (let fail = (\<lambda>q. case move_job_file p Failed q of Inl e \<Rightarrow> (Inl e, q) | Inr q' \<Rightarrow> (Inr False, q'))
      in if load_job p q = [] then fail q
         else if cancel_requested p q
         then fail (update_job_file p (\<lambda>d. dict_update d [(''status'', PStr ''failed''), (''error'', PStr ''cancelled''),
           (''run_requested'', PBool False), (''run_requested_ts'', PInt 0)]) now q)
         else (Inr True, update_job_file p (\<lambda>d. dict_update d [(''status'', PStr ''running''), (''error'', PStr []),
           (''worker_pid'', PInt pid), (''run_started_ts'', PInt now), (''finished_ts'', PInt 0)]) now q))"

definition done_fields :: "int \<Rightarrow> pydict" where
  "done_fields now = [(''status'', PStr ''done''), (''run_requested'', PBool False), (''run_requested_ts'', PInt 0),
     (''finished_ts'', PInt now)]"

definition requeued_fields :: pydict where
  "requeued_fields = [(''status'', PStr ''pending''), (''error'', PStr ''worker stopped; requeued''), (''worker_pid'', PInt 0),
     (''run_started_ts'', PInt 0), (''finished_ts'', PInt 0), (''manual_parallel'', PBool False),
     (''run_requested'', PBool False), (''run_requested_ts'', PInt 0)]"

definition error_fields :: "string \<Rightarrow> int \<Rightarrow> pydict" where
  "error_fields err now = [(''status'', PStr ''failed''), (''error'', PStr err), (''run_requested'', PBool False),
     (''run_requested_ts'', PInt 0), (''finished_ts'', PInt now)]"

text \<open>The handler of an exception with text \<open>err\<close>; \<open>stop\<close> is the worker's stop flag.\<close>

definition fail_run :: "bool \<Rightarrow> string \<Rightarrow> int \<Rightarrow> job_path \<Rightarrow> task_queue \<Rightarrow> unit res \<times> task_queue" where
  "fail_run stop err now p q =
     (let cancelled = cancel_requested p q in
      if stop \<and> dict_has (job_files q) p \<and> \<not> cancelled
      then (let q' = update_job_file p (\<lambda>d. dict_update d requeued_fields) now q
            in (Inr (), snd (moved q' (move_job_file p Pending q'))))
      else
        let q' = update_job_file p (\<lambda>d. dict_update d (error_fields (if cancelled then ''cancelled'' else err) now)) now q
        in (case move_job_file p Failed q' of Inl e \<Rightarrow> (Inl e, q') | Inr q'' \<Rightarrow> (Inr (), q'')))"

text \<open>
  The second half: \<open>outcome\<close> is the text of the exception the work raised, if any. When the
  file has gone, the final move raises in its turn.
\<close>

definition end_run :: "bool \<Rightarrow> string option \<Rightarrow> int \<Rightarrow> job_path \<Rightarrow> task_queue \<Rightarrow> unit res \<times> task_queue" where
  "end_run stop outcome now p q = (case outcome of
     Some err \<Rightarrow> fail_run stop err now p q
   | None \<Rightarrow>
       let q' = update_job_file p (\<lambda>d. dict_update d (done_fields now)) now q
       in (case move_job_file p Done q' of
            Inl _ \<Rightarrow> fail_run stop ''No such file or directory'' now p q'
          | Inr q'' \<Rightarrow> (Inr (), q'')))"

section \<open>Starting jobs\<close>

text \<open>Running jobs of a type, and those of them started with manual priority.\<close>

definition running_jobs :: "task_queue \<Rightarrow> string \<Rightarrow> pydict list" where
  "running_jobs q t = filter (\<lambda>d. d \<noteq> [] \<and> job_type d = t) (map (\<lambda>i. load_job (Running, i) q) (dir_stems q Running))"

definition manual_jobs :: "task_queue \<Rightarrow> string \<Rightarrow> pydict list" where
  "manual_jobs q t = filter (\<lambda>d. truthy (py_get d ''manual_parallel'')) (running_jobs q t)"

text \<open>
  \<open>start_pending_job\<close>; \<open>launched\<close> is whether the process could be spawned. The result holds the
  success flag and the message.
\<close>

definition start_pending_job :: "bool \<Rightarrow> int \<Rightarrow> (int \<Rightarrow> bool) \<Rightarrow> (string \<Rightarrow> int) \<Rightarrow> string \<Rightarrow> task_queue
    \<Rightarrow> (bool \<times> string) \<times> task_queue" where
  "start_pending_job launched now alive mtime raw q = (let jid = str_strip raw in
     if jid = [] then ((False, ''Job ID is empty''), q)
     else
       let q1 = requeue_stale_running_jobs 60 now alive mtime q; p = (Pending, jid); d = load_job p q1; t = job_type d in
       if d = [] \<or> job_status d \<noteq> ''pending'' then ((False, ''Job not found or not in pending state''), q1)
       else if t = [] then ((False, ''Job type is missing''), q1)
       else if 2 \<le> length (running_jobs q1 t) \<or> 1 \<le> length (manual_jobs q1 t)
       then ((False, ''Another manual '' @ t @ '' job is already running''), q1)
       else
         let q2 = update_job_file p (\<lambda>d. dict_update d [(''status'', PStr ''pending''), (''error'', PStr []),
               (''run_requested'', PBool False), (''run_requested_ts'', PInt 0)]) now q1
         in (case move_job_file p Running q2 of
              Inl _ \<Rightarrow> ((False, ''Failed to prepare job start''), q2)
            | Inr q3 \<Rightarrow>
                let r = (Running, jid);
                    q4 = update_job_file r (\<lambda>d. dict_update d [(''status'', PStr ''running''), (''error'', PStr []),
                      (''manual_parallel'', PBool True), (''run_requested'', PBool False), (''run_requested_ts'', PInt 0)]) now q3
                in if launched then ((True, []), q4)
                   else
                     let q5 = update_job_file r (\<lambda>d. dict_update d [(''status'', PStr ''pending''),
                           (''manual_parallel'', PBool False), (''run_requested'', PBool False), (''run_requested_ts'', PInt 0)]) now q4
                     in ((False, ''Failed to launch manual runner''), snd (moved q5 (move_job_file r Pending q5)))))"

text \<open>A pending job as the main loop sees it: stem, contents, whether it has manual priority, and since when.\<close>

record queued_job =
  queued_stem :: string
  queued_dict :: pydict
  manual_run :: bool
  requested_ts :: int

definition read_queued :: "task_queue \<Rightarrow> string \<Rightarrow> queued_job list res" where
  "read_queued q i = (let d = load_job (Pending, i) q; manual = truthy (py_get d ''run_requested'') \<and> job_status d = ''pending'' in
     if d = [] then Inr []
     else res_bind (if manual then get_int d ''run_requested_ts'' 0 else Inr 0) (\<lambda>ts.
       Inr [\<lparr>queued_stem = i, queued_dict = d, manual_run = manual, requested_ts = ts\<rparr>]))"

text \<open>Manual jobs first, oldest request first; then the others by file name.\<close>

definition queue_rank :: "queued_job \<Rightarrow> nat \<times> int \<times> string" where
  "queue_rank j = (if manual_run j then (0, requested_ts j, []) else (1, 0, queued_stem j @ ''.json''))"

definition queued_jobs :: "task_queue \<Rightarrow> queued_job list res" where
  "queued_jobs q = res_bind (res_map (read_queued q) (dir_stems q Pending)) (\<lambda>js. Inr (sort_key queue_rank (concat js)))"

type_synonym slot_counts = "string \<Rightarrow> nat \<times> nat"

text \<open>One pending job of the pass: the running and manual jobs of its type decide.\<close>

definition start_queued :: "queued_job \<Rightarrow> task_queue \<times> slot_counts \<times> string list \<Rightarrow> task_queue \<times> slot_counts \<times> string list" where
  "start_queued j = (\<lambda>(q, counts, started). let t = job_type (queued_dict j); (running, manual) = counts t in
     if t = [] then (q, counts, started)
     else if (if manual_run j then 2 \<le> running \<or> 1 \<le> manual else 1 \<le> running) then (q, counts, started)
     else (case move_job_file (Pending, queued_stem j) Running q of
         Inl _ \<Rightarrow> (q, counts, started)
       | Inr q' \<Rightarrow> (q', counts(t := (running + 1, manual + (if manual_run j then 1 else 0))), started @ [queued_stem j])))"

text \<open>
  One turn of the main loop: recovery, then the pass over the pending jobs, of which it sees the
  first \<open>seen\<close> before the stop flag is set. The result lists the jobs whose threads are started.
\<close>

definition worker_pass :: "nat \<Rightarrow> int \<Rightarrow> (int \<Rightarrow> bool) \<Rightarrow> (string \<Rightarrow> int) \<Rightarrow> task_queue \<Rightarrow> string list res \<times> task_queue" where
  "worker_pass seen now alive mtime q =
     (let q1 = requeue_stale_running_jobs 60 now alive mtime q;
          counts = (\<lambda>t. (length (running_jobs q1 t), length (manual_jobs q1 t)))
      in (case queued_jobs q1 of
           Inl e \<Rightarrow> (Inl e, q1)
         | Inr jobs \<Rightarrow> (case fold start_queued (take seen jobs) (q1, counts, []) of
             (q2, _, started) \<Rightarrow> (Inr started, q2))))"

end
