(* ===== verification/Task_Laws.thy ===== *)
theory Task_Laws
  imports Task_Worker
begin

text \<open>
  What the job queue guarantees. Its directories represent a map from job identifiers to a
  state and a file (\<open>jobs\<close>); every operation of the queue and of the worker is a simple
  operation on that map, no job is lost or duplicated, and the scheduling pass keeps its
  slots.
\<close>

section \<open>The map of jobs\<close>

definition jobs :: "task_queue \<Rightarrow> string \<rightharpoonup> job_state \<times> json_file" where
  "jobs q = map_of (map (\<lambda>((s, i), f). (i, (s, f))) (job_files q))"

definition jobs_unique :: "task_queue \<Rightarrow> bool" where
  "jobs_unique q \<longleftrightarrow> distinct (map (snd \<circ> fst) (job_files q))"

lemma jobs_unique_files: "jobs_unique q \<Longrightarrow> distinct (map fst (job_files q))"
  unfolding jobs_unique_def by (metis distinct_map map_map)

lemma jobs_iff:
  assumes "jobs_unique q"
  shows "jobs q i = Some (s, f) \<longleftrightarrow> map_of (job_files q) (s, i) = Some f"
proof -
  have d: "distinct (map fst (map (\<lambda>((s, i), f). (i, (s, f))) (job_files q)))"
    using assms by (simp add: jobs_unique_def o_def case_prod_unfold)
  have "jobs q i = Some (s, f) \<longleftrightarrow> (i, (s, f)) \<in> set (map (\<lambda>((s, i), f). (i, (s, f))) (job_files q))"
    unfolding jobs_def by (rule map_of_eq_Some_iff [OF d])
  also have "\<dots> \<longleftrightarrow> ((s, i), f) \<in> set (job_files q)" by force
  also have "\<dots> \<longleftrightarrow> map_of (job_files q) (s, i) = Some f"
    by (rule map_of_eq_Some_iff [OF jobs_unique_files [OF assms], symmetric])
  finally show ?thesis .
qed

lemma jobs_None:
  assumes "jobs_unique q" and "jobs q i = None"
  shows "map_of (job_files q) (s, i) = None"
  using jobs_iff [OF assms(1), of i s] assms(2) by (cases "map_of (job_files q) (s, i)") auto

lemma jobs_other_state:
  assumes "jobs_unique q" and "jobs q i = Some (s, f)" and "t \<noteq> s"
  shows "map_of (job_files q) (t, i) = None"
  using jobs_iff [OF assms(1), of i t] assms(2,3) by (cases "map_of (job_files q) (t, i)") auto

text \<open>Two maps to pairs that agree on every pair are equal.\<close>

lemma option_pair_eqI: "(\<And>s f. a = Some (s, f) \<longleftrightarrow> b = Some (s, f)) \<Longrightarrow> a = b"
  by (metis option.exhaust surj_pair)

text \<open>Setting a file keeps the map one, if no other directory holds a file of that name.\<close>

lemma jobs_unique_set:
  assumes "jobs_unique q" and "\<forall>t. t \<noteq> s \<longrightarrow> map_of (job_files q) (t, i) = None"
  shows "jobs_unique (q\<lparr>job_files := dict_set (s, i) f (job_files q)\<rparr>)"
proof -
  have "distinct (map (snd \<circ> fst) (dict_set (s, i) f fs))"
    if "distinct (map (snd \<circ> fst) fs)" "\<forall>t g. t \<noteq> s \<longrightarrow> ((t, i), g) \<notin> set fs" for fs :: "(job_path, json_file) dict"
    using that
  proof (induction fs)
    case Nil
    then show ?case by simp
  next
    case (Cons e fs)
    obtain t k g where e: "e = ((t, k), g)" by (cases e) auto
    have sub: "snd (fst x) \<in> insert i ((snd \<circ> fst) ` set fs)" if "x \<in> set (dict_set (s, i) f fs)" for x
      using set_dict_set [of "(s, i)" f fs] that by auto
    show ?case
    proof (cases "(t, k) = (s, i)")
      case True
      then show ?thesis using Cons.prems by (simp add: e)
    next
      case False
      then have "k \<noteq> i" using Cons.prems(2) by (auto simp: e)
      then have "k \<notin> (snd \<circ> fst) ` set (dict_set (s, i) f fs)"
        using sub Cons.prems(1) by (auto simp: e)
      with False Cons show ?thesis by (auto simp: e)
    qed
  qed
  moreover have "((t, i), g) \<notin> set (job_files q)" if "t \<noteq> s" for t g
    using assms(2) that weak_map_of_SomeI [of "(t, i)" g "job_files q"] by auto
  ultimately show ?thesis using assms(1) by (simp add: jobs_unique_def)
qed

lemma jobs_set:
  assumes "jobs_unique q" and "\<forall>t. t \<noteq> s \<longrightarrow> map_of (job_files q) (t, i) = None"
  shows "jobs (q\<lparr>job_files := dict_set (s, i) f (job_files q)\<rparr>) = (jobs q)(i \<mapsto> (s, f))"
proof
  fix k
  note u = jobs_unique_set [OF assms]
  show "jobs (q\<lparr>job_files := dict_set (s, i) f (job_files q)\<rparr>) k = ((jobs q)(i \<mapsto> (s, f))) k"
  proof (rule option_pair_eqI)
    fix t g
    show "jobs (q\<lparr>job_files := dict_set (s, i) f (job_files q)\<rparr>) k = Some (t, g) \<longleftrightarrow>
        ((jobs q)(i \<mapsto> (s, f))) k = Some (t, g)"
      using assms(2) by (auto simp: jobs_iff [OF u] jobs_iff [OF assms(1)])
  qed
qed

lemma jobs_unique_pop: "jobs_unique q \<Longrightarrow> jobs_unique (q\<lparr>job_files := dict_pop p (job_files q)\<rparr>)"
  by (simp add: jobs_unique_def AList.delete_eq distinct_map_filter)

lemma jobs_pop:
  assumes "jobs_unique q" and "map_of (job_files q) (s, i) = Some f"
  shows "jobs (q\<lparr>job_files := dict_pop (s, i) (job_files q)\<rparr>) = (jobs q)(i := None)"
proof
  fix k
  note u = jobs_unique_pop [OF assms(1), of "(s, i)"]
  have si: "jobs q i = Some (s, f)" using assms by (simp add: jobs_iff)
  show "jobs (q\<lparr>job_files := dict_pop (s, i) (job_files q)\<rparr>) k = ((jobs q)(i := None)) k"
  proof (rule option_pair_eqI)
    fix t g
    show "jobs (q\<lparr>job_files := dict_pop (s, i) (job_files q)\<rparr>) k = Some (t, g) \<longleftrightarrow> ((jobs q)(i := None)) k = Some (t, g)"
      using jobs_other_state [OF assms(1) si, of t] by (auto simp: jobs_iff [OF u] jobs_iff [OF assms(1)])
  qed
qed

section \<open>Operations on the map\<close>

definition update_job :: "string \<Rightarrow> (pydict \<Rightarrow> pydict) \<Rightarrow> int \<Rightarrow> (string \<rightharpoonup> job_state \<times> json_file) \<Rightarrow> (string \<rightharpoonup> job_state \<times> json_file)" where
  "update_job i mutate now m = (case m i of
     Some (s, Json (PDict d)) \<Rightarrow> m(i \<mapsto> (s, Json (PDict (dict_set ''updated_ts'' (PInt now) (mutate d)))))
   | _ \<Rightarrow> m)"

definition move_job :: "string \<Rightarrow> job_state \<Rightarrow> (string \<rightharpoonup> job_state \<times> json_file) \<Rightarrow> (string \<rightharpoonup> job_state \<times> json_file)" where
  "move_job i dst m = (case m i of None \<Rightarrow> m | Some (_, f) \<Rightarrow> m(i \<mapsto> (dst, f)))"

definition in_states :: "job_state set \<Rightarrow> string \<Rightarrow> (string \<rightharpoonup> job_state \<times> json_file) \<Rightarrow> bool" where
  "in_states ss i m \<longleftrightarrow> (\<exists>s f. m i = Some (s, f) \<and> s \<in> ss)"

lemma move_job_dom [simp]: "dom (move_job i s m) = dom m"
  by (auto simp: move_job_def split: option.splits)

lemma update_job_dom [simp]: "dom (update_job i g now m) = dom m"
  by (auto simp: update_job_def split: option.splits json_file.splits pyval.splits)

lemma update_refines:
  assumes "jobs_unique q" and "jobs q i = Some (s, f)"
  shows "jobs (update_job_file (s, i) g now q) = update_job i g now (jobs q) \<and> jobs_unique (update_job_file (s, i) g now q)"
proof -
  have f: "map_of (job_files q) (s, i) = Some f" using assms by (simp add: jobs_iff)
  have o: "\<forall>t. t \<noteq> s \<longrightarrow> map_of (job_files q) (t, i) = None" using jobs_other_state [OF assms] by blast
  show ?thesis
    using assms jobs_set [OF assms(1) o] jobs_unique_set [OF assms(1) o]
    by (simp add: update_job_file_def update_job_def f write_job_def split: json_file.split pyval.split)
qed

lemma move_refines:
  assumes "jobs_unique q" and "jobs q i = Some (s, f)"
  shows "\<exists>q'. move_job_file (s, i) dst q = Inr q' \<and> jobs q' = move_job i dst (jobs q) \<and> jobs_unique q'"
proof -
  have f: "map_of (job_files q) (s, i) = Some f" using assms by (simp add: jobs_iff)
  let ?q = "q\<lparr>job_files := dict_pop (s, i) (job_files q)\<rparr>"
  have u: "jobs_unique ?q" by (rule jobs_unique_pop [OF assms(1)])
  have j: "jobs ?q = (jobs q)(i := None)" by (rule jobs_pop [OF assms(1) f])
  then have "jobs ?q i = None" by simp
  then have o: "\<forall>t. t \<noteq> dst \<longrightarrow> map_of (job_files ?q) (t, i) = None" using jobs_None [OF u] by blast
  show ?thesis
    using jobs_set [OF u o, of f] jobs_unique_set [OF u o, of f] assms(2) j
    by (simp add: move_job_file_def f move_job_def)
qed

lemma dir_stems_iff: "i \<in> set (dir_stems q s) \<longleftrightarrow> map_of (job_files q) (s, i) \<noteq> None"
  by (force simp: dir_stems_def map_of_eq_None_iff image_iff)

lemma job_paths_iff: "p \<in> set (job_paths q ss) \<longleftrightarrow> fst p \<in> set ss \<and> map_of (job_files q) p \<noteq> None"
  by (cases p) (auto simp: job_paths_def dir_stems_iff image_iff)

lemma find_job_None: "find_job q ss i = None \<longleftrightarrow> (\<forall>s \<in> set ss. map_of (job_files q) (s, i) = None)"
  by (force simp: find_job_def find_None_iff job_paths_iff)

lemma find_job_Some: "find_job q ss i = Some p \<Longrightarrow> snd p = i \<and> fst p \<in> set ss \<and> map_of (job_files q) p \<noteq> None"
  unfolding find_job_def find_Some_iff by (metis job_paths_iff nth_mem)

lemma find_job_jobs:
  assumes "jobs_unique q"
  shows "find_job q ss i = (case jobs q i of None \<Rightarrow> None | Some (s, _) \<Rightarrow> if s \<in> set ss then Some (s, i) else None)"
proof (cases "find_job q ss i")
  case None
  then have "\<not> in_states (set ss) i (jobs q)"
    using jobs_iff [OF assms, of i] by (auto simp: find_job_None in_states_def)
  with None show ?thesis by (auto simp: in_states_def split: option.splits)
next
  case (Some p)
  from find_job_Some [OF Some] obtain s f where p: "p = (s, i)" "s \<in> set ss" "map_of (job_files q) (s, i) = Some f"
    by (cases p) auto
  then have "jobs q i = Some (s, f)" by (simp add: jobs_iff [OF assms])
  with Some p show ?thesis by simp
qed

text \<open>Finding a job and changing its file, as an operation on the map.\<close>

lemma find_update_refines:
  assumes "jobs_unique q" and "find_job q ss i = Some p"
  shows "in_states (set ss) i (jobs q) \<and> jobs (update_job_file p g now q) = update_job i g now (jobs q) \<and>
    jobs_unique (update_job_file p g now q)"
proof -
  from assms(2) obtain s f where p: "p = (s, i)" "jobs q i = Some (s, f)" "s \<in> set ss"
    by (auto simp: find_job_jobs [OF assms(1)] split: option.splits if_splits)
  with update_refines [OF assms(1) p(2)] show ?thesis by (auto simp: in_states_def)
qed

lemma find_update_move_refines:
  assumes "jobs_unique q" and "find_job q ss i = Some p"
  shows "\<exists>q'. move_job_file p dst (update_job_file p g now q) = Inr q' \<and>
    jobs q' = move_job i dst (update_job i g now (jobs q)) \<and> jobs_unique q'"
proof -
  from assms(2) obtain s f where p: "p = (s, i)" "jobs q i = Some (s, f)"
    by (auto simp: find_job_jobs [OF assms(1)] split: option.splits if_splits)
  note u = update_refines [OF assms(1) p(2), of g now]
  have "\<exists>f'. update_job i g now (jobs q) i = Some (s, f')"
    using p(2) by (auto simp: update_job_def split: json_file.split pyval.split)
  then obtain f' where "jobs (update_job_file (s, i) g now q) i = Some (s, f')" using u by auto
  from move_refines [OF conjunct2 [OF u] this, of dst] u show ?thesis by (auto simp: p(1))
qed

lemma find_job_missing: "jobs_unique q \<Longrightarrow> find_job q ss i = None \<Longrightarrow> \<not> in_states (set ss) i (jobs q)"
  by (auto simp: find_job_jobs in_states_def)

lemma write_fresh_refines:
  assumes "jobs_unique q" and "jobs q i = None"
  shows "jobs (write_job (s, i) d q) = (jobs q)(i \<mapsto> (s, Json (PDict d))) \<and> jobs_unique (write_job (s, i) d q)"
  using jobs_set [OF assms(1)] jobs_unique_set [OF assms(1)] jobs_None [OF assms] by (simp add: write_job_def)

text \<open>
  C21: The four job directories implement a map from job identifiers to a state and a file. Under the invariant that an
  identifier has one file, which every operation keeps, cancelling is an update of a waiting or running job, failing is an update
  and a move to failed, retrying one to pending, deleting removes an entry that is not running, and enqueueing under
  a fresh identifier adds one pending entry; anything else leaves the map as it is and returns False.
\<close>

theorem queue_refines_map:
  assumes u: "jobs_unique q" and "str_strip raw = i" "i \<noteq> []" and fresh: "jobs q (job_id now hex) = None"
  shows "(case request_cancel_job raw reason now q of (ok, q') \<Rightarrow> jobs_unique q' \<and> ok = in_states {Pending, Running} i (jobs q) \<and>
      jobs q' = (if ok then update_job i (mark_cancelling reason) now (jobs q) else jobs q)) \<and>
    (case force_fail_job raw err now q of (ok, q') \<Rightarrow> jobs_unique q' \<and> ok = in_states {Pending, Running} i (jobs q) \<and>
      jobs q' = (if ok then move_job i Failed (update_job i (mark_failed err) now (jobs q)) else jobs q)) \<and>
    (case retry_failed_job raw now q of (ok, q') \<Rightarrow> jobs_unique q' \<and> ok = in_states {Failed} i (jobs q) \<and>
      jobs q' = (if ok then move_job i Pending (update_job i reset_job now (jobs q)) else jobs q)) \<and>
    (case delete_job raw [] q of (ok, q') \<Rightarrow> jobs_unique q' \<and> ok = in_states {Pending, Done, Failed} i (jobs q) \<and>
      jobs q' = (if ok then (jobs q)(i := None) else jobs q)) \<and>
    (case enqueue_job hex kind payload exchange now q of (jid, q') \<Rightarrow> jobs_unique q' \<and> jid = job_id now hex \<and>
      jobs q' = (jobs q)(jid \<mapsto> (Pending, Json (PDict (new_job jid kind payload exchange ''pending'' now [])))))"
proof (intro conjI)
  note i = assms(2,3)
  show "case request_cancel_job raw reason now q of (ok, q') \<Rightarrow> jobs_unique q' \<and> ok = in_states {Pending, Running} i (jobs q) \<and>
      jobs q' = (if ok then update_job i (mark_cancelling reason) now (jobs q) else jobs q)"
    using find_update_refines [OF u, of "[Pending, Running]" i] find_job_missing [OF u, of "[Pending, Running]" i] u
    by (auto simp: request_cancel_job_def i split: option.split)
  show "case force_fail_job raw err now q of (ok, q') \<Rightarrow> jobs_unique q' \<and> ok = in_states {Pending, Running} i (jobs q) \<and>
      jobs q' = (if ok then move_job i Failed (update_job i (mark_failed err) now (jobs q)) else jobs q)"
  proof (cases "find_job q [Pending, Running] i")
    case None
    with find_job_missing [OF u None] u show ?thesis by (simp add: force_fail_job_def i)
  next
    case (Some p)
    from find_update_move_refines [OF u Some, of Failed "mark_failed err" now] find_update_refines [OF u Some] Some
    show ?thesis by (auto simp: force_fail_job_def i moved_def)
  qed
  show "case retry_failed_job raw now q of (ok, q') \<Rightarrow> jobs_unique q' \<and> ok = in_states {Failed} i (jobs q) \<and>
      jobs q' = (if ok then move_job i Pending (update_job i reset_job now (jobs q)) else jobs q)"
  proof (cases "find_job q [Failed] i")
    case None
    with find_job_missing [OF u None] u show ?thesis by (simp add: retry_failed_job_def i)
  next
    case (Some p)
    from find_update_move_refines [OF u Some, of Pending reset_job now] find_update_refines [OF u Some] Some
    show ?thesis by (auto simp: retry_failed_job_def i moved_def)
  qed
  show "case delete_job raw [] q of (ok, q') \<Rightarrow> jobs_unique q' \<and> ok = in_states {Pending, Done, Failed} i (jobs q) \<and>
      jobs q' = (if ok then (jobs q)(i := None) else jobs q)"
  proof (cases "find_job q [Pending, Done, Failed] i")
    case None
    with find_job_missing [OF u None] u show ?thesis by (simp add: delete_job_def i)
  next
    case (Some p)
    then obtain s f where p: "p = (s, i)" "jobs q i = Some (s, f)" "s \<in> {Pending, Done, Failed}"
      by (auto simp: find_job_jobs [OF u] split: option.splits if_splits)
    then have "map_of (job_files q) (s, i) = Some f" by (simp add: jobs_iff [OF u])
    from jobs_pop [OF u this] jobs_unique_pop [OF u, of "(s, i)"] p Some show ?thesis
      by (auto simp: delete_job_def i in_states_def jobs_def jobs_unique_def)
  qed
  show "case enqueue_job hex kind payload exchange now q of (jid, q') \<Rightarrow> jobs_unique q' \<and> jid = job_id now hex \<and>
      jobs q' = (jobs q)(jid \<mapsto> (Pending, Json (PDict (new_job jid kind payload exchange ''pending'' now []))))"
    using write_fresh_refines [OF u fresh] by (simp add: enqueue_job_def Let_def)
qed

section \<open>No job is lost\<close>

text \<open>A transition that keeps every identifier, with one file each.\<close>

definition keeps_jobs :: "task_queue \<Rightarrow> task_queue \<Rightarrow> bool" where
  "keeps_jobs q q' \<longleftrightarrow> (jobs_unique q \<longrightarrow> jobs_unique q' \<and> dom (jobs q') = dom (jobs q))"

lemma keeps_refl [simp]: "keeps_jobs q q"
  by (simp add: keeps_jobs_def)

lemma keeps_trans: "keeps_jobs a b \<Longrightarrow> keeps_jobs b c \<Longrightarrow> keeps_jobs a c"
  by (simp add: keeps_jobs_def)

lemma keeps_update [simp]: "keeps_jobs q (update_job_file p g now q)"
proof (cases "map_of (job_files q) p")
  case None
  then show ?thesis by (simp add: update_job_file_def)
next
  case (Some f)
  obtain s i where p: "p = (s, i)" by (cases p)
  show ?thesis
    unfolding keeps_jobs_def p using update_refines [of q i s f g now] Some by (auto simp: p jobs_iff)
qed

lemma keeps_move: "move_job_file p dst q = Inr q' \<Longrightarrow> keeps_jobs q q'"
proof -
  assume m: "move_job_file p dst q = Inr q'"
  obtain s i where p: "p = (s, i)" by (cases p)
  from m obtain f where f: "map_of (job_files q) (s, i) = Some f"
    by (auto simp: move_job_file_def p split: option.splits)
  show ?thesis
    unfolding keeps_jobs_def using move_refines [of q i s f dst] m f by (auto simp: p jobs_iff)
qed

lemma keeps_moved: "keeps_jobs a q \<Longrightarrow> keeps_jobs a (snd (moved q (move_job_file p dst q)))"
  by (auto simp: moved_def split: sum.split dest: keeps_move intro: keeps_trans)

lemma keeps_update_moved:
  "keeps_jobs q (snd (let q' = update_job_file p g now q in moved q' (move_job_file p dst q')))"
  unfolding Let_def by (rule keeps_moved) simp

lemma keeps_queue_operations:
  "keeps_jobs q (snd (request_cancel_job raw reason now q))"
  "keeps_jobs q (snd (request_run_job raw now q))"
  "keeps_jobs q (snd (force_fail_job raw err now q))"
  "keeps_jobs q (snd (retry_failed_job raw now q))"
  using keeps_update_moved [unfolded Let_def]
  by (auto simp: request_cancel_job_def request_run_job_def force_fail_job_def retry_failed_job_def Let_def
      split: option.split json_file.split)

lemma keeps_requeue_stale_job: "keeps_jobs q (requeue_stale_job max_age now alive mtime i q)"
  unfolding requeue_stale_job_def Let_def
  by (auto split: option.split json_file.split pyval.split intro: keeps_moved)

lemma keeps_requeue_stale: "keeps_jobs q (requeue_stale_running_jobs max_age now alive mtime q)"
proof -
  have "keeps_jobs q (fold (requeue_stale_job max_age now alive mtime) is q)" for "is"
    by (induction "is" arbitrary: q) (auto intro: keeps_trans keeps_requeue_stale_job)
  then show ?thesis by (simp add: requeue_stale_running_jobs_def)
qed

text \<open>
  One section under the queue lock, on whatever the queue has become: an operation of the API is one section, and what a
  worker does consists of recoveries, updates of one file and moves of one file, on paths and with contents it may have read
  long before. The set holds the identifier the section deletes. New identifiers are fresh.
\<close>

inductive queue_step :: "string set \<Rightarrow> task_queue \<Rightarrow> task_queue \<Rightarrow> bool" where
  step_enqueue: "jobs q (job_id now hex) = None \<Longrightarrow> queue_step {} q (snd (enqueue_job hex kind payload exchange now q))"
| step_enqueue_running: "jobs q (job_id now hex) = None \<Longrightarrow>
    queue_step {} q (snd (enqueue_running_job hex kind payload exchange manual now q))"
| step_enqueue_unique: "jobs q (job_id now hex) = None \<Longrightarrow>
    queue_step {} q (snd (enqueue_unique_job hex kind payload exchange key states now q))"
| step_requeue_done: "jobs q (job_id now hex) = None \<Longrightarrow> queue_step {} q (snd (requeue_done_job raw hex now q))"
| step_cancel: "queue_step {} q (snd (request_cancel_job raw reason now q))"
| step_request_run: "queue_step {} q (snd (request_run_job raw now q))"
| step_fail: "queue_step {} q (snd (force_fail_job raw err now q))"
| step_retry: "queue_step {} q (snd (retry_failed_job raw now q))"
| step_delete: "queue_step {str_strip raw} q (snd (delete_job raw states q))"
| step_recover: "queue_step {} q (requeue_stale_running_jobs max_age now alive mtime q)"
| step_update: "queue_step {} q (update_job_file p g now q)"
| step_move: "move_job_file p dst q = Inr q' \<Longrightarrow> queue_step {} q q'"

inductive queue_reachable :: "task_queue \<Rightarrow> bool" where
  queue_empty: "job_files q = [] \<Longrightarrow> queue_reachable q"
| queue_next: "queue_reachable q \<Longrightarrow> queue_step del q q' \<Longrightarrow> queue_reachable q'"

lemma write_fresh_keeps:
  "jobs_unique q \<Longrightarrow> jobs q i = None \<Longrightarrow> jobs_unique (write_job (s, i) d q) \<and> dom (jobs q) \<subseteq> dom (jobs (write_job (s, i) d q))"
  using write_fresh_refines [of q i s d] by auto

lemma delete_job_keeps:
  assumes "jobs_unique q"
  shows "jobs_unique (snd (delete_job raw states q)) \<and> dom (jobs q) - {str_strip raw} \<subseteq> dom (jobs (snd (delete_job raw states q)))"
proof (cases "str_strip raw = [] \<or> find_job q (if states = [] then [Pending, Done, Failed] else named_dirs states) (str_strip raw) = None")
  case True
  then have "delete_job raw states q = (False, q)" by (auto simp: delete_job_def Let_def)
  then show ?thesis using assms by simp
next
  case False
  then obtain p where f: "find_job q (if states = [] then [Pending, Done, Failed] else named_dirs states) (str_strip raw) = Some p"
    and i: "str_strip raw \<noteq> []" by blast
  from find_job_Some [OF f] obtain s g where p: "p = (s, str_strip raw)" "map_of (job_files q) (s, str_strip raw) = Some g"
    by (cases p) auto
  have "jobs (q\<lparr>job_files := dict_pop p (job_files q), job_logs := l\<rparr>) = (jobs q)(str_strip raw := None)" for l
    using jobs_pop [OF assms p(2)] by (simp add: jobs_def p(1))
  moreover have "jobs_unique (q\<lparr>job_files := dict_pop p (job_files q), job_logs := l\<rparr>)" for l
    using jobs_unique_pop [OF assms, of p] by (simp add: jobs_unique_def)
  moreover have "delete_job raw states q =
      (True, q\<lparr>job_files := dict_pop p (job_files q), job_logs := removeAll (str_strip raw) (job_logs q)\<rparr>)"
    using f i by (simp add: delete_job_def Let_def)
  ultimately show ?thesis by auto
qed

lemma queue_step_keeps:
  assumes "queue_step del q q'" and u: "jobs_unique q"
  shows "jobs_unique q' \<and> dom (jobs q) - del \<subseteq> dom (jobs q')"
proof -
  have k: "jobs_unique x \<and> dom (jobs q) - {} \<subseteq> dom (jobs x)" if "keeps_jobs q x" for x
    using that u by (simp add: keeps_jobs_def)
  note w = write_fresh_keeps [OF u]
  from assms(1) show ?thesis
  proof cases
    case (step_enqueue now hex kind payload exchange)
    then show ?thesis using w by (auto simp: enqueue_job_def Let_def)
  next
    case (step_enqueue_running now hex kind payload exchange manual)
    then show ?thesis using w by (auto simp: enqueue_running_job_def Let_def)
  next
    case (step_enqueue_unique now hex kind payload exchange key states)
    then show ?thesis using w u by (auto simp: enqueue_unique_job_def Let_def split: option.split sum.split)
  next
    case (step_requeue_done now hex raw)
    then show ?thesis using w u
      by (auto simp: requeue_done_job_def enqueue_job_def Let_def split: option.split json_file.split)
  next
    case (step_delete raw states)
    then show ?thesis using delete_job_keeps [OF u] by simp
  next
    case step_recover
    then show ?thesis using k keeps_requeue_stale by simp
  next
    case step_update
    then show ?thesis using k keeps_update by simp
  next
    case step_move
    then show ?thesis using k keeps_move by blast
  qed (use k keeps_queue_operations in simp_all)
qed

text \<open>What a worker does, when nobody interferes, as a sequence of such sections.\<close>

definition in_sections :: "task_queue \<Rightarrow> task_queue \<Rightarrow> bool" where
  "in_sections = (queue_step {})\<^sup>*\<^sup>*"

lemma sections_refl [simp]: "in_sections q q"
  by (simp add: in_sections_def)

lemma sections_trans: "in_sections a b \<Longrightarrow> in_sections b c \<Longrightarrow> in_sections a c"
  unfolding in_sections_def by (rule rtranclp_trans)

lemma sections_step: "in_sections a q \<Longrightarrow> queue_step {} q q' \<Longrightarrow> in_sections a q'"
  unfolding in_sections_def by (rule rtranclp.rtrancl_into_rtrancl)

lemma sections_update: "in_sections a q \<Longrightarrow> in_sections a (update_job_file p g now q)"
  by (rule sections_step) (assumption, rule step_update)

lemma sections_move: "move_job_file p dst q = Inr q' \<Longrightarrow> in_sections a q \<Longrightarrow> in_sections a q'"
  by (rule sections_step) (assumption, rule step_move)

lemma sections_recover: "in_sections q (requeue_stale_running_jobs max_age now alive mtime q)"
  unfolding in_sections_def by (rule r_into_rtranclp) (rule step_recover)

lemma sections_moved: "in_sections a q \<Longrightarrow> in_sections a (snd (moved q (move_job_file p dst q)))"
  by (auto simp: moved_def split: sum.split intro: sections_move)

lemma sections_begin_run: "in_sections q (snd (begin_run pid now p q))"
  unfolding begin_run_def Let_def
  by (auto split: sum.split intro!: sections_update elim!: sections_move)

lemma sections_fail_run: "in_sections a q \<Longrightarrow> in_sections a (snd (fail_run stop err now p q))"
  unfolding fail_run_def Let_def
  by (auto split: sum.split intro: sections_update sections_moved elim!: sections_move)

lemma sections_end_run: "in_sections q (snd (end_run stop outcome now p q))"
  unfolding end_run_def Let_def
  by (auto split: option.split sum.split intro!: sections_update sections_fail_run elim!: sections_move)

lemma sections_start_pending: "in_sections q (snd (start_pending_job launched now alive mtime raw q))"
  unfolding start_pending_job_def Let_def
  by (auto split: sum.split intro!: sections_update sections_moved sections_recover elim!: sections_move)

lemma sections_pass_loop: "in_sections a q \<Longrightarrow> in_sections a (fst (fold start_queued js (q, counts, started)))"
proof (induction js arbitrary: q counts started)
  case Nil
  then show ?case by simp
next
  case (Cons j js)
  obtain q' c' s' where st: "start_queued j (q, counts, started) = (q', c', s')" by (metis prod_cases3)
  have "in_sections a q'"
    using Cons.prems st by (auto simp: start_queued_def Let_def split: prod.splits sum.splits if_splits elim!: sections_move)
  with Cons.IH [of q' c' s'] show ?case by (simp add: st)
qed

lemma sections_worker_pass: "in_sections q (snd (worker_pass seen now alive mtime q))"
proof -
  note r = sections_recover [of q 60 now alive mtime]
  have "in_sections q q2" if "fold start_queued js (requeue_stale_running_jobs 60 now alive mtime q, counts, started) = (q2, c, ss)"
    for js counts started q2 c ss
    using sections_pass_loop [OF r, of js counts started] that by (metis fst_conv)
  with r show ?thesis by (auto simp: worker_pass_def Let_def split: sum.split prod.split)
qed

text \<open>
  C22: No job is lost or duplicated: in whatever order the API and any number of workers hold the queue lock, every identifier
  has one file in one directory, and a section under the lock removes at most the identifier it was asked to delete. What the
  worker does (its pass over the queue, the manual start of a job, both ends of a run) consists of sections that delete nothing.
\<close>

theorem no_job_lost:
  assumes "queue_reachable q" and "queue_step del q q'"
  shows "jobs_unique q' \<and> dom (jobs q) - del \<subseteq> dom (jobs q') \<and>
    (queue_step {})\<^sup>*\<^sup>* q (snd (worker_pass seen now alive mtime q)) \<and>
    (queue_step {})\<^sup>*\<^sup>* q (snd (start_pending_job launched now alive mtime raw q)) \<and>
    (queue_step {})\<^sup>*\<^sup>* q (snd (begin_run pid now p q)) \<and> (queue_step {})\<^sup>*\<^sup>* q (snd (end_run stop outcome now p q))"
proof -
  from assms(1) have "jobs_unique q"
  proof induction
    case (queue_empty q)
    then show ?case by (simp add: jobs_unique_def)
  next
    case (queue_next q del q')
    then show ?case using queue_step_keeps by blast
  qed
  from queue_step_keeps [OF assms(2) this]
    sections_worker_pass [unfolded in_sections_def] sections_start_pending [unfolded in_sections_def]
    sections_begin_run [unfolded in_sections_def] sections_end_run [unfolded in_sections_def]
  show ?thesis by (intro conjI) simp_all
qed

end
