(* ===== verification/Task_Slots.thy ===== *)
theory Task_Slots
  imports Task_Laws
begin

text \<open>
  The slots of the scheduling pass: at most two jobs of a type run at once, a regular job starts
  only when none of its type runs and only if it is the first of its type in the queue.
\<close>

section \<open>Running jobs of a type\<close>

definition running_ids :: "(string \<rightharpoonup> job_state \<times> json_file) \<Rightarrow> string \<Rightarrow> string set" where
  "running_ids m t = {i. \<exists>d. m i = Some (Running, Json (PDict d)) \<and> d \<noteq> [] \<and> job_type d = t}"

lemma finite_jobs: "finite (dom (jobs q))"
  by (simp add: jobs_def finite_dom_map_of)

lemma finite_running_ids [simp]: "finite (running_ids (jobs q) t)"
  by (rule finite_subset [OF _ finite_jobs [of q]]) (auto simp: running_ids_def)

lemma load_job_iff: "d \<noteq> [] \<Longrightarrow> load_job p q = d \<longleftrightarrow> map_of (job_files q) p = Some (Json (PDict d))"
  by (auto simp: load_job_def job_dict_def split: option.splits json_file.splits pyval.splits)

lemma distinct_dir_stems:
  assumes "jobs_unique q"
  shows "distinct (dir_stems q s)"
proof -
  have "distinct (map (snd \<circ> fst) (filter P (job_files q)))" for P
    using assms by (simp add: jobs_unique_def distinct_map_filter)
  then show ?thesis by (simp add: dir_stems_def)
qed

lemma running_count:
  assumes "jobs_unique q"
  shows "length (running_jobs q t) = card (running_ids (jobs q) t)"
proof -
  let ?P = "\<lambda>i. load_job (Running, i) q \<noteq> [] \<and> job_type (load_job (Running, i) q) = t"
  have "length (running_jobs q t) = length (filter ?P (dir_stems q Running))"
    by (simp add: running_jobs_def filter_map o_def)
  also have "\<dots> = card (set (filter ?P (dir_stems q Running)))"
    by (rule distinct_card [OF distinct_filter [OF distinct_dir_stems [OF assms]], symmetric])
  also have "set (filter ?P (dir_stems q Running)) = running_ids (jobs q) t"
  proof -
    have P: "?P i \<longleftrightarrow> i \<in> running_ids (jobs q) t" for i
    proof
      assume "?P i"
      with load_job_iff [of "load_job (Running, i) q" "(Running, i)" q] show "i \<in> running_ids (jobs q) t"
        by (auto simp: running_ids_def jobs_iff [OF assms])
    next
      assume "i \<in> running_ids (jobs q) t"
      then obtain d where d: "map_of (job_files q) (Running, i) = Some (Json (PDict d))" "d \<noteq> []" "job_type d = t"
        by (auto simp: running_ids_def jobs_iff [OF assms])
      with load_job_iff [of d "(Running, i)" q] show "?P i" by simp
    qed
    have "i \<in> set (dir_stems q Running)" if "i \<in> running_ids (jobs q) t" for i
      using that by (auto simp: running_ids_def jobs_iff [OF assms] dir_stems_iff)
    then show ?thesis unfolding set_filter P by blast
  qed
  finally show ?thesis .
qed

lemma running_ids_move_out:
  "s \<noteq> Running \<Longrightarrow> running_ids (move_job i s m) t \<subseteq> running_ids m t"
  by (auto simp: running_ids_def move_job_def split: option.splits if_splits)

lemma running_ids_update_move_out:
  "s \<noteq> Running \<Longrightarrow> running_ids (move_job i s (update_job i g now m)) t \<subseteq> running_ids m t"
  by (auto simp: running_ids_def move_job_def update_job_def split: option.splits if_splits json_file.splits pyval.splits)

text \<open>Recovery only takes jobs out of running.\<close>

lemma requeue_stale_job_running:
  assumes "jobs_unique q"
  shows "jobs_unique (requeue_stale_job max_age now alive mtime i q) \<and>
    running_ids (jobs (requeue_stale_job max_age now alive mtime i q)) t \<subseteq> running_ids (jobs q) t"
proof (cases "\<exists>d. map_of (job_files q) (Running, i) = Some (Json (PDict d)) \<and> abandoned max_age now alive (mtime i) d")
  case False
  then have "requeue_stale_job max_age now alive mtime i q = q"
    by (auto simp: requeue_stale_job_def split: option.split json_file.split pyval.split)
  with assms show ?thesis by simp
next
  case True
  then obtain d where d: "map_of (job_files q) (Running, i) = Some (Json (PDict d))" "abandoned max_age now alive (mtime i) d"
    by blast
  define dst where "dst = (if truthy (py_get d ''cancel_requested'') then Failed else Pending)"
  define g where "g = (\<lambda>d'. dict_update d' (recovered_fields (truthy (py_get d ''cancel_requested'')) now))"
  have find: "find_job q [Running] i = Some (Running, i)"
    using d(1) by (simp add: find_job_jobs [OF assms] jobs_iff [OF assms, symmetric])
  from find_update_move_refines [OF assms this, of dst g now] obtain q' where
    q': "move_job_file (Running, i) dst (update_job_file (Running, i) g now q) = Inr q'"
      "jobs q' = move_job i dst (update_job i g now (jobs q))" "jobs_unique q'" by blast
  have "requeue_stale_job max_age now alive mtime i q = q'"
    using d q'(1) by (simp add: requeue_stale_job_def Let_def dst_def g_def moved_def)
  moreover have "dst \<noteq> Running" by (simp add: dst_def)
  ultimately show ?thesis using q'(2,3) running_ids_update_move_out by simp
qed

lemma requeue_stale_running:
  assumes "jobs_unique q"
  shows "jobs_unique (requeue_stale_running_jobs max_age now alive mtime q) \<and>
    running_ids (jobs (requeue_stale_running_jobs max_age now alive mtime q)) t \<subseteq> running_ids (jobs q) t"
proof -
  have "jobs_unique (fold (requeue_stale_job max_age now alive mtime) is q) \<and>
      running_ids (jobs (fold (requeue_stale_job max_age now alive mtime) is q)) t \<subseteq> running_ids (jobs q) t" for "is"
    using assms
  proof (induction "is" arbitrary: q)
    case Nil
    then show ?case by simp
  next
    case (Cons i "is")
    from requeue_stale_job_running [OF Cons.prems] Cons.IH show ?case by fastforce
  qed
  then show ?thesis by (simp add: requeue_stale_running_jobs_def)
qed

section \<open>The pass\<close>

text \<open>The jobs still to be considered are pending with the contents that were read.\<close>

definition queued_ok :: "task_queue \<Rightarrow> queued_job list \<Rightarrow> bool" where
  "queued_ok q js \<longleftrightarrow> distinct (map queued_stem js) \<and>
     (\<forall>j \<in> set js. queued_dict j \<noteq> [] \<and> jobs q (queued_stem j) = Some (Pending, Json (PDict (queued_dict j))))"

definition counts_ok :: "task_queue \<Rightarrow> slot_counts \<Rightarrow> bool" where
  "counts_ok q counts \<longleftrightarrow> (\<forall>t. t \<noteq> [] \<longrightarrow> fst (counts t) = card (running_ids (jobs q) t))"

definition blocked :: "slot_counts \<Rightarrow> queued_job \<Rightarrow> bool" where
  "blocked counts j \<longleftrightarrow> (let t = job_type (queued_dict j); (running, manual) = counts t in
     t = [] \<or> (if manual_run j then 2 \<le> running \<or> 1 \<le> manual else 1 \<le> running))"

text \<open>A job that is not blocked is moved, and takes one slot of its type.\<close>

lemma start_queued_cases:
  assumes "jobs_unique q" and "queued_ok q (j # js)" and "counts_ok q counts"
  shows "if blocked counts j then start_queued j (q, counts, started) = (q, counts, started)
    else \<exists>q' counts'. start_queued j (q, counts, started) = (q', counts', started @ [queued_stem j]) \<and>
      jobs_unique q' \<and> queued_ok q' js \<and> counts_ok q' counts' \<and>
      (\<forall>t. running_ids (jobs q') t =
        (if t = job_type (queued_dict j) then insert (queued_stem j) (running_ids (jobs q) t) else running_ids (jobs q) t)) \<and>
      queued_stem j \<notin> running_ids (jobs q) (job_type (queued_dict j))"
proof (cases "blocked counts j")
  case True
  then show ?thesis by (auto simp: blocked_def start_queued_def Let_def split: prod.splits)
next
  case False
  let ?i = "queued_stem j" and ?d = "queued_dict j"
  have p: "jobs q ?i = Some (Pending, Json (PDict ?d))" "?d \<noteq> []" using assms(2) by (simp_all add: queued_ok_def)
  from move_refines [OF assms(1) p(1), of Running] obtain q' where
    q': "move_job_file (Pending, ?i) Running q = Inr q'" "jobs_unique q'"
      "jobs q' = (jobs q)(?i \<mapsto> (Running, Json (PDict ?d)))"
    by (auto simp: move_job_def p(1))
  obtain r m where rm: "counts (job_type ?d) = (r, m)" by (cases "counts (job_type ?d)")
  define counts' where "counts' = counts(job_type ?d := (r + 1, m + (if manual_run j then 1 else 0)))"
  have ids: "running_ids (jobs q') t = (if t = job_type ?d then insert ?i (running_ids (jobs q) t) else running_ids (jobs q) t)" for t
    using p by (auto simp: running_ids_def q'(3))
  have new: "?i \<notin> running_ids (jobs q) (job_type ?d)" using p by (simp add: running_ids_def)
  have "counts_ok q' counts'"
    using assms(3) new rm by (auto simp: counts_ok_def counts'_def ids dest: spec [of _ "job_type ?d"])
  moreover have "queued_ok q' js" using assms(2) by (auto simp: queued_ok_def q'(3) image_iff)
  moreover have "start_queued j (q, counts, started) = (q', counts', started @ [?i])"
    using False q'(1) rm by (auto simp: blocked_def start_queued_def Let_def counts'_def)
  ultimately show ?thesis using False q'(2) ids new by auto
qed

text \<open>
  The whole pass: the slots that are taken, the order in which regular jobs of a type start, and that a type
  without a running job gets one.
\<close>

definition regular_of :: "string \<Rightarrow> queued_job \<Rightarrow> bool" where
  "regular_of t j \<longleftrightarrow> \<not> manual_run j \<and> job_type (queued_dict j) = t"

definition pass_result :: "string \<Rightarrow> task_queue \<Rightarrow> queued_job list \<Rightarrow> task_queue \<Rightarrow> string list \<Rightarrow> bool" where
  "pass_result t q js q' new \<longleftrightarrow> set new \<subseteq> queued_stem ` set js \<and>
     card (running_ids (jobs q') t) \<le> max 2 (card (running_ids (jobs q) t)) \<and>
     running_ids (jobs q) t \<subseteq> running_ids (jobs q') t \<and>
     (\<forall>pre j post. js = pre @ j # post \<and> queued_stem j \<in> set new \<and> regular_of t j \<longrightarrow>
        running_ids (jobs q) t = {} \<and> (\<forall>i \<in> set pre. \<not> regular_of t i)) \<and>
     ((\<exists>j \<in> set js. regular_of t j) \<longrightarrow> running_ids (jobs q') t \<noteq> {})"

lemma pass_resultD:
  assumes "pass_result t q js q' new"
  shows "set new \<subseteq> queued_stem ` set js" "card (running_ids (jobs q') t) \<le> max 2 (card (running_ids (jobs q) t))"
    "running_ids (jobs q) t \<subseteq> running_ids (jobs q') t"
    "js = pre @ j # post \<Longrightarrow> queued_stem j \<in> set new \<Longrightarrow> regular_of t j \<Longrightarrow>
       running_ids (jobs q) t = {} \<and> (\<forall>i \<in> set pre. \<not> regular_of t i)"
    "\<exists>j \<in> set js. regular_of t j \<Longrightarrow> running_ids (jobs q') t \<noteq> {}"
  using assms unfolding pass_result_def by blast+

lemma pass_result_blocked:
  assumes r: "pass_result t q js q' new" and "queued_stem j \<notin> queued_stem ` set js"
    and busy: "regular_of t j \<Longrightarrow> running_ids (jobs q) t \<noteq> {}"
  shows "pass_result t q (j # js) q' new"
proof -
  have "running_ids (jobs q) t = {} \<and> (\<forall>i \<in> set pre. \<not> regular_of t i)"
    if split: "j # js = pre @ k # post" and k: "queued_stem k \<in> set new" "regular_of t k" for pre k post
  proof (cases pre)
    case Nil
    with split k(1) pass_resultD(1) [OF r] have "queued_stem j \<in> queued_stem ` set js" by auto
    with assms(2) show ?thesis by simp
  next
    case (Cons p pre')
    with split have js: "js = pre' @ k # post" "p = j" by simp_all
    from pass_resultD(4) [OF r js(1) k] busy Cons js(2) show ?thesis by auto
  qed
  moreover have "running_ids (jobs q') t \<noteq> {}" if "\<exists>k \<in> set (j # js). regular_of t k"
    using that busy pass_resultD(3,5) [OF r] by auto
  moreover have "set new \<subseteq> queued_stem ` set (j # js)" using pass_resultD(1) [OF r] by auto
  ultimately show ?thesis unfolding pass_result_def using pass_resultD(2,3) [OF r] by blast
qed

lemma pass_result_started:
  assumes r: "pass_result t q1 js q' new" and dist: "queued_stem j \<notin> queued_stem ` set js"
    and ids: "running_ids (jobs q1) t =
      (if t = job_type (queued_dict j) then insert (queued_stem j) (running_ids (jobs q) t) else running_ids (jobs q) t)"
    and few: "t = job_type (queued_dict j) \<Longrightarrow> card (running_ids (jobs q) t) < 2"
      "regular_of t j \<Longrightarrow> running_ids (jobs q) t = {}"
  shows "pass_result t q (j # js) q' (queued_stem j # new)"
proof -
  have "card (running_ids (jobs q1) t) \<le> max 2 (card (running_ids (jobs q) t))"
    using ids few(1) by (auto simp: card_insert_if)
  moreover have "running_ids (jobs q) t = {} \<and> (\<forall>i \<in> set pre. \<not> regular_of t i)"
    if split: "j # js = pre @ k # post" and k: "queued_stem k \<in> set (queued_stem j # new)" "regular_of t k" for pre k post
  proof (cases pre)
    case Nil
    with split k few(2) show ?thesis by auto
  next
    case (Cons p pre')
    with split have js: "js = pre' @ k # post" "p = j" by simp_all
    then have "queued_stem k \<noteq> queued_stem j" using dist by auto
    then have "queued_stem k \<in> set new" using k(1) by simp
    from pass_resultD(4) [OF r js(1) this k(2)]
    have a: "running_ids (jobs q1) t = {}" "\<forall>i \<in> set pre'. \<not> regular_of t i" by simp_all
    then have "job_type (queued_dict j) \<noteq> t" using ids by auto
    with a ids Cons js show ?thesis by (auto simp: regular_of_def)
  qed
  moreover have "running_ids (jobs q') t \<noteq> {}" if "\<exists>k \<in> set (j # js). regular_of t k"
    using pass_resultD(3,5) [OF r] ids that by (auto simp: regular_of_def)
  moreover have "running_ids (jobs q) t \<subseteq> running_ids (jobs q') t" using ids pass_resultD(3) [OF r] by auto
  moreover have "set (queued_stem j # new) \<subseteq> queued_stem ` set (j # js)" using pass_resultD(1) [OF r] by auto
  ultimately show ?thesis unfolding pass_result_def using pass_resultD(2) [OF r] by (auto simp del: set_append)
qed

lemma pass_loop:
  assumes "jobs_unique q" and "queued_ok q js" and "counts_ok q counts" and "t \<noteq> []"
  shows "\<exists>q' counts' new. fold start_queued js (q, counts, started) = (q', counts', started @ new) \<and>
    jobs_unique q' \<and> pass_result t q js q' new"
  using assms(1-3)
proof (induction js arbitrary: q counts started)
  case Nil
  then show ?case by (simp add: pass_result_def)
next
  case (Cons j js)
  note step = start_queued_cases [OF Cons.prems, of started]
  have dist: "queued_stem j \<notin> queued_stem ` set js" using Cons.prems(2) by (simp add: queued_ok_def)
  have counts: "fst (counts t) = card (running_ids (jobs q) t)" using Cons.prems(3) assms(4) by (simp add: counts_ok_def)
  show ?case
  proof (cases "blocked counts j")
    case True
    have "queued_ok q js" using Cons.prems(2) by (simp add: queued_ok_def)
    from Cons.IH [OF Cons.prems(1) this Cons.prems(3), of started] obtain q' counts' new where
      ih: "fold start_queued js (q, counts, started) = (q', counts', started @ new)" "jobs_unique q'" "pass_result t q js q' new"
      by blast
    have "0 < card (running_ids (jobs q) t)" if "regular_of t j"
      using True that counts assms(4) by (auto simp: blocked_def regular_of_def Let_def split: prod.splits)
    then have "running_ids (jobs q) t \<noteq> {}" if "regular_of t j" using that by auto
    from pass_result_blocked [OF ih(3) dist this] ih(1,2) step True show ?thesis by auto
  next
    case False
    with step obtain q1 counts1 where
      st: "start_queued j (q, counts, started) = (q1, counts1, started @ [queued_stem j])" "jobs_unique q1" "queued_ok q1 js"
        "counts_ok q1 counts1"
      and ids: "running_ids (jobs q1) t =
        (if t = job_type (queued_dict j) then insert (queued_stem j) (running_ids (jobs q) t) else running_ids (jobs q) t)"
      by auto
    from Cons.IH [OF st(2-4), of "started @ [queued_stem j]"] obtain q' counts' new where
      ih: "fold start_queued js (q1, counts1, started @ [queued_stem j]) = (q', counts', (started @ [queued_stem j]) @ new)"
        "jobs_unique q'" "pass_result t q1 js q' new" by blast
    have "card (running_ids (jobs q) t) < 2" if "t = job_type (queued_dict j)"
      using False counts that by (auto simp: blocked_def Let_def split: prod.splits if_splits)
    moreover have "card (running_ids (jobs q) t) = 0" if "regular_of t j"
      using False that unfolding counts [symmetric] by (auto simp: blocked_def regular_of_def Let_def split: prod.splits)
    ultimately have "pass_result t q (j # js) q' (queued_stem j # new)"
      using pass_result_started [OF ih(3) dist ids] by simp
    with ih(1,2) st(1) show ?thesis by auto
  qed
qed


section \<open>The queue the pass sees\<close>

definition wants_manual :: "pydict \<Rightarrow> bool" where
  "wants_manual d \<longleftrightarrow> truthy (py_get d ''run_requested'') \<and> job_status d = ''pending''"

lemma read_queued_Inr:
  assumes "read_queued q i = Inr js"
  shows "js = (if load_job (Pending, i) q = [] then [] else js) \<and>
    (load_job (Pending, i) q \<noteq> [] \<longrightarrow> (\<exists>ts. js = [\<lparr>queued_stem = i, queued_dict = load_job (Pending, i) q,
      manual_run = wants_manual (load_job (Pending, i) q), requested_ts = ts\<rparr>]))"
  using assms by (auto simp: read_queued_def Let_def res_bind_eq_Inr wants_manual_def split: if_splits)

text \<open>The readings, in the order of the directory: one entry for each readable file.\<close>

lemma read_all_queued:
  assumes "res_map (read_queued q) is = Inr js" and "distinct is"
  shows "distinct (map queued_stem (concat js)) \<and> (\<forall>i. i \<in> set is \<and> load_job (Pending, i) q \<noteq> [] \<longleftrightarrow>
      (\<exists>j \<in> set (concat js). queued_stem j = i)) \<and>
    (\<forall>j \<in> set (concat js). queued_dict j = load_job (Pending, queued_stem j) q \<and> manual_run j = wants_manual (queued_dict j))"
  using assms
proof (induction "is" arbitrary: js)
  case Nil
  then show ?case by simp
next
  case (Cons i "is")
  from Cons.prems(1) obtain j js' where js: "js = j # js'" "read_queued q i = Inr j" "res_map (read_queued q) is = Inr js'"
    by (auto simp: res_bind_eq_Inr)
  have ih: "distinct (map queued_stem (concat js'))"
    "\<And>k. k \<in> set is \<and> load_job (Pending, k) q \<noteq> [] \<longleftrightarrow> (\<exists>j \<in> set (concat js'). queued_stem j = k)"
    "\<And>j. j \<in> set (concat js') \<Longrightarrow> queued_dict j = load_job (Pending, queued_stem j) q \<and> manual_run j = wants_manual (queued_dict j)"
    using Cons.IH [OF js(3) conjunct2 [OF Cons.prems(2) [unfolded distinct.simps]]] by blast+
  have fresh: "i \<notin> queued_stem ` set (concat js')" using ih(2) [of i] Cons.prems(2) by auto
  show ?case
  proof (cases "load_job (Pending, i) q = []")
    case True
    with read_queued_Inr [OF js(2)] have "j = []" by simp
    then show ?thesis unfolding js(1) using ih True by auto
  next
    case False
    with read_queued_Inr [OF js(2)] obtain ts where j: "j = [\<lparr>queued_stem = i, queued_dict = load_job (Pending, i) q,
      manual_run = wants_manual (load_job (Pending, i) q), requested_ts = ts\<rparr>]" by blast
    have "k \<in> set (i # is) \<and> load_job (Pending, k) q \<noteq> [] \<longleftrightarrow> (\<exists>j \<in> set (concat js). queued_stem j = k)" for k
      using ih(2) [of k] False by (auto simp: js(1) j)
    moreover have "distinct (map queued_stem (concat js))" using ih(1) fresh by (simp add: js(1) j)
    moreover have "queued_dict j = load_job (Pending, queued_stem j) q \<and> manual_run j = wants_manual (queued_dict j)"
      if "j \<in> set (concat js)" for j using that ih(3) by (auto simp: js(1) j)
    ultimately show ?thesis by blast
  qed
qed

lemma queued_jobs_Inr:
  assumes "queued_jobs q = Inr js" and "jobs_unique q"
  shows "queued_ok q js" "sorted (map queue_rank js)"
    "load_job (Pending, i) q \<noteq> [] \<Longrightarrow> \<exists>j \<in> set js. queued_stem j = i"
    "j \<in> set js \<Longrightarrow> queued_dict j = load_job (Pending, queued_stem j) q \<and> manual_run j = wants_manual (queued_dict j)"
proof -
  from assms(1) obtain yss where y: "res_map (read_queued q) (dir_stems q Pending) = Inr yss" "js = sort_key queue_rank (concat yss)"
    by (auto simp: queued_jobs_def res_bind_eq_Inr)
  have r: "distinct (map queued_stem (concat yss))"
    "\<And>i. i \<in> set (dir_stems q Pending) \<and> load_job (Pending, i) q \<noteq> [] \<longleftrightarrow> (\<exists>j \<in> set js. queued_stem j = i)"
    "\<And>j. j \<in> set js \<Longrightarrow> queued_dict j = load_job (Pending, queued_stem j) q \<and> manual_run j = wants_manual (queued_dict j)"
    using read_all_queued [OF y(1) distinct_dir_stems [OF assms(2)]] unfolding y(2) set_sort by blast+
  have "mset (map queued_stem js) = mset (map queued_stem (concat yss))"
    by (simp add: y(2))
  then have d: "distinct (map queued_stem js)" using r(1) by (rule mset_eq_imp_distinct_iff [THEN iffD2])
  have mem: "load_job (Pending, i) q \<noteq> [] \<Longrightarrow> i \<in> set (dir_stems q Pending)" for i
    by (auto simp: dir_stems_iff load_job_def job_dict_def split: option.splits)
  show "sorted (map queue_rank js)" by (simp add: y(2))
  show "load_job (Pending, i) q \<noteq> [] \<Longrightarrow> \<exists>j \<in> set js. queued_stem j = i" for i using r(2) mem by blast
  show "j \<in> set js \<Longrightarrow> queued_dict j = load_job (Pending, queued_stem j) q \<and> manual_run j = wants_manual (queued_dict j)" for j
    using r(3) by blast
  have "queued_dict j \<noteq> [] \<and> jobs q (queued_stem j) = Some (Pending, Json (PDict (queued_dict j)))" if j: "j \<in> set js" for j
  proof -
    have "load_job (Pending, queued_stem j) q \<noteq> []" using r(2) [of "queued_stem j"] j by blast
    moreover have "queued_dict j = load_job (Pending, queued_stem j) q" using r(3) [OF j] by simp
    ultimately show ?thesis using load_job_iff [of "queued_dict j" "(Pending, queued_stem j)" q] by (simp add: jobs_iff [OF assms(2)])
  qed
  with d show "queued_ok q js" by (simp add: queued_ok_def)
qed


section \<open>One turn of the main loop\<close>

text \<open>What the pass does to the queue it recovered.\<close>

definition recovered_queue :: "int \<Rightarrow> (int \<Rightarrow> bool) \<Rightarrow> (string \<Rightarrow> int) \<Rightarrow> task_queue \<Rightarrow> task_queue" where
  "recovered_queue now alive mtime q = requeue_stale_running_jobs 60 now alive mtime q"

lemma queued_ok_take: "queued_ok q js \<Longrightarrow> queued_ok q (take n js)"
  by (auto simp: queued_ok_def simp flip: take_map dest: in_set_takeD)

lemma worker_pass_result:
  assumes "jobs_unique q" and "worker_pass seen now alive mtime q = (Inr started, q')" and "t \<noteq> []"
  obtains js where "queued_jobs (recovered_queue now alive mtime q) = Inr js" "jobs_unique q'"
    "pass_result t (recovered_queue now alive mtime q) (take seen js) q' started"
proof -
  let ?q1 = "recovered_queue now alive mtime q"
  let ?c = "\<lambda>t. (length (running_jobs ?q1 t), length (manual_jobs ?q1 t))"
  have u: "jobs_unique ?q1" using requeue_stale_running [OF assms(1)] by (simp add: recovered_queue_def)
  obtain js where js: "queued_jobs ?q1 = Inr js"
    using assms(2) by (auto simp: worker_pass_def recovered_queue_def Let_def split: sum.splits)
  have "counts_ok ?q1 ?c" by (simp add: counts_ok_def running_count [OF u])
  from pass_loop [OF u queued_ok_take [OF queued_jobs_Inr(1) [OF js u]] this assms(3), of seen "[]"]
  obtain q2 c new where p: "fold start_queued (take seen js) (?q1, ?c, []) = (q2, c, new)" "jobs_unique q2"
    "pass_result t ?q1 (take seen js) q2 new" by auto
  have "q' = q2" "started = new"
    using assms(2) js p(1) by (simp_all add: worker_pass_def recovered_queue_def Let_def)
  with js p(2,3) that show ?thesis by blast
qed

text \<open>
  C23: Slots: a pass of the worker never takes the running jobs of a type above two, or above what was running
  before; recovery first can only lower that number.
\<close>

theorem worker_pass_slots:
  assumes "jobs_unique q" and "worker_pass seen now alive mtime q = (Inr started, q')" and "t \<noteq> []"
  shows "length (running_jobs q' t) \<le> max 2 (length (running_jobs q t))"
proof -
  from worker_pass_result [OF assms] obtain js where r: "jobs_unique q'"
    "pass_result t (recovered_queue now alive mtime q) (take seen js) q' started" by blast
  have "running_ids (jobs (recovered_queue now alive mtime q)) t \<subseteq> running_ids (jobs q) t"
    using requeue_stale_running [OF assms(1)] by (simp add: recovered_queue_def)
  then have "card (running_ids (jobs (recovered_queue now alive mtime q)) t) \<le> card (running_ids (jobs q) t)"
    by (simp add: card_mono)
  with pass_resultD(2) [OF r(2)] show ?thesis by (simp add: running_count r(1) assms(1))
qed

text \<open>
  Order: a job without manual priority is started only when no job of its type was running after recovery, and
  it precedes by file name every other such job of its type.
\<close>

theorem worker_pass_fifo:
  assumes "jobs_unique q" and "worker_pass seen now alive mtime q = (Inr started, q')"
    and "i \<in> set started"
    and "load_job (Pending, i) (recovered_queue now alive mtime q) = d" and "\<not> wants_manual d" and "job_type d \<noteq> []"
    and "load_job (Pending, k) (recovered_queue now alive mtime q) = d'" and "d' \<noteq> []" and "\<not> wants_manual d'"
    and "job_type d' = job_type d"
  shows "running_jobs (recovered_queue now alive mtime q) (job_type d) = [] \<and> i @ ''.json'' \<le> k @ ''.json''"
proof -
  let ?q1 = "recovered_queue now alive mtime q" and ?t = "job_type d"
  have u: "jobs_unique ?q1" using requeue_stale_running [OF assms(1)] by (simp add: recovered_queue_def)
  from worker_pass_result [OF assms(1,2,6)] obtain js where js: "queued_jobs ?q1 = Inr js"
    "pass_result ?t ?q1 (take seen js) q' started" by blast
  note qj = queued_jobs_Inr [OF js(1) u]
  from pass_resultD(1) [OF js(2)] assms(3) obtain j where j: "j \<in> set (take seen js)" "queued_stem j = i" by auto
  from split_list [OF j(1)] obtain pre post where split: "take seen js = pre @ j # post" by blast
  have jd: "queued_dict j = d" "\<not> manual_run j"
    using qj(4) [OF in_set_takeD [OF j(1)]] j(2) assms(4,5) by auto
  have "queued_stem j \<in> set started" "regular_of ?t j" using assms(3) j(2) jd by (simp_all add: regular_of_def)
  from pass_resultD(4) [OF js(2) split this]
  have none: "running_ids (jobs ?q1) ?t = {}" and pre: "\<forall>i \<in> set pre. \<not> regular_of ?t i" by simp_all
  from qj(3) [of k] assms(7,8) obtain m where m: "m \<in> set js" "queued_stem m = k" by auto
  have md: "queued_dict m = d'" "\<not> manual_run m" using qj(4) [OF m(1)] m(2) assms(7,9) by auto
  have reg: "regular_of ?t m" using md assms(10) by (simp add: regular_of_def)
  have all: "js = pre @ j # post @ drop seen js"
    using split by (metis append.assoc append_Cons append_take_drop_id)
  then have sorted: "sorted (map queue_rank (pre @ j # post @ drop seen js))" using qj(2) by simp
  have "m \<notin> set pre" using pre reg by blast
  with m(1) all have "m = j \<or> m \<in> set (post @ drop seen js)" by (metis Un_iff set_ConsD set_append)
  with sorted have "queue_rank j \<le> queue_rank m" by (auto simp: sorted_append)
  then have "i @ ''.json'' \<le> k @ ''.json''" using j(2) m(2) jd(2) md(2) by (auto simp: queue_rank_def less_eq_prod_def)
  moreover have "running_jobs ?q1 ?t = []" using running_count [OF u, of ?t] none by simp
  ultimately show ?thesis by simp
qed

lemma empty_get_str: "str_strip (get_str [] k) = []"
  by (simp add: get_str_def py_or_def py_get_def str_strip_def strip_by_def)

text \<open>
  Work conservation: after a pass that sees every pending file, a type with a waiting job that asks for no manual
  priority has a running job.
\<close>

theorem worker_pass_progress:
  assumes "jobs_unique q" and "worker_pass seen now alive mtime q = (Inr started, q')"
    and "length (dir_stems (recovered_queue now alive mtime q) Pending) \<le> seen"
    and "load_job (Pending, i) (recovered_queue now alive mtime q) = d" and "\<not> wants_manual d" and "job_type d \<noteq> []"
  shows "running_jobs q' (job_type d) \<noteq> []"
proof -
  let ?q1 = "recovered_queue now alive mtime q" and ?t = "job_type d"
  have u: "jobs_unique ?q1" using requeue_stale_running [OF assms(1)] by (simp add: recovered_queue_def)
  from worker_pass_result [OF assms(1,2,6)] obtain js where js: "queued_jobs ?q1 = Inr js" "jobs_unique q'"
    "pass_result ?t ?q1 (take seen js) q' started" by blast
  note qj = queued_jobs_Inr [OF js(1) u]
  have "d \<noteq> []" using assms(6) by (auto simp: job_type_def empty_get_str)
  with qj(3) [of i] assms(4) obtain j where j: "j \<in> set js" "queued_stem j = i" by auto
  have jd: "regular_of ?t j" using qj(4) [OF j(1)] j(2) assms(4,5) by (auto simp: regular_of_def)
  have stems: "set (map queued_stem js) \<subseteq> set (dir_stems ?q1 Pending)"
    using qj(1) by (auto simp: queued_ok_def dir_stems_iff jobs_iff [OF u])
  have "length js = card (set (map queued_stem js))"
    using qj(1) by (metis distinct_card length_map queued_ok_def)
  also have "\<dots> \<le> card (set (dir_stems ?q1 Pending))" by (rule card_mono [OF finite_set stems])
  also have "\<dots> \<le> seen" using card_length le_trans assms(3) by blast
  finally have "take seen js = js" by simp
  with pass_resultD(5) [OF js(3)] j(1) jd have "running_ids (jobs q') ?t \<noteq> {}" by auto
  then show ?thesis using running_count [OF js(2), of ?t] by (metis card_0_eq finite_running_ids list.size(3))
qed

end
