(* ===== verification/Task_Demo.thy ===== *)
theory Task_Demo
  imports Task_Slots
begin

text \<open>
  Cancellation and deduplication of jobs, and the properties of the queue at concrete queues.
\<close>

section \<open>Cancellation\<close>

lemma truthy_cancel_mark:
  "truthy (py_get (dict_set ''updated_ts'' (PInt now) (mark_cancelling reason d)) ''cancel_requested'')"
  by (simp add: mark_cancelling_def Let_def py_get_def)

lemma load_job_jobs:
  assumes "jobs_unique q" and "jobs q i = Some (s, Json (PDict d))"
  shows "load_job (s, i) q = d"
  using assms by (simp add: load_job_def job_dict_def jobs_iff)

text \<open>Marking a job and moving it, when its file can be read.\<close>

lemma update_move_readable:
  assumes "jobs_unique q" and "jobs q i = Some (s, Json (PDict d))"
  shows "\<exists>q'. move_job_file (s, i) dst (update_job_file (s, i) g now q) = Inr q' \<and>
    jobs q' i = Some (dst, Json (PDict (dict_set ''updated_ts'' (PInt now) (g d)))) \<and> jobs_unique q'"
proof -
  from update_refines [OF assms, of g now] assms(2)
  have "jobs (update_job_file (s, i) g now q) i = Some (s, Json (PDict (dict_set ''updated_ts'' (PInt now) (g d))))"
    "jobs_unique (update_job_file (s, i) g now q)" by (simp_all add: update_job_def)
  from move_refines [OF this(2,1), of dst] this(1) show ?thesis by (auto simp: move_job_def)
qed

text \<open>
  C24: A cancelled job never completes as anything but cancelled: once the request is recorded, a worker that takes
  the job up refuses to run it, and work that is interrupted ends it, whether or not the worker is being stopped; in both
  cases the job is failed with the error cancelled.
\<close>

theorem cancelled_job_fails:
  assumes u: "jobs_unique q" and j: "jobs q i = Some (s, Json (PDict d))" and "s \<in> {Pending, Running}"
    and "str_strip raw = i" and "i \<noteq> []" and "request_cancel_job raw reason now q = (ok, q1)"
  shows "ok \<and>
    (case begin_run pid now1 (s, i) q1 of (r, q2) \<Rightarrow> r = Inr False \<and>
      (\<exists>d2. jobs q2 i = Some (Failed, Json (PDict d2)) \<and> py_get d2 ''error'' = PStr ''cancelled'')) \<and>
    (case end_run stop (Some err) now2 (s, i) q1 of (r, q3) \<Rightarrow> r = Inr () \<and>
      (\<exists>d3. jobs q3 i = Some (Failed, Json (PDict d3)) \<and> py_get d3 ''error'' = PStr ''cancelled''))"
proof -
  let ?d1 = "dict_set ''updated_ts'' (PInt now) (mark_cancelling reason d)"
  have "find_job q [Pending, Running] i = Some (s, i)" using assms(3) by (simp add: find_job_jobs [OF u] j)
  then have q1: "ok" "q1 = update_job_file (s, i) (mark_cancelling reason) now q"
    using assms(4-6) by (simp_all add: request_cancel_job_def Let_def)
  from update_refines [OF u j, of "mark_cancelling reason" now] j
  have u1: "jobs_unique q1" and j1: "jobs q1 i = Some (s, Json (PDict ?d1))" by (simp_all add: q1(2) update_job_def)
  note l = load_job_jobs [OF u1 j1]
  have c: "cancel_requested (s, i) q1" unfolding cancel_requested_def l by (rule truthy_cancel_mark)
  have ne: "?d1 \<noteq> []" using c by (auto simp: cancel_requested_def l py_get_def)
  show ?thesis
  proof (intro conjI)
    show ok by (rule q1(1))
    show "case begin_run pid now1 (s, i) q1 of (r, q2) \<Rightarrow> r = Inr False \<and>
        (\<exists>d2. jobs q2 i = Some (Failed, Json (PDict d2)) \<and> py_get d2 ''error'' = PStr ''cancelled'')"
      using update_move_readable [OF u1 j1, of Failed "\<lambda>d. dict_update d [(''status'', PStr ''failed''),
          (''error'', PStr ''cancelled''), (''run_requested'', PBool False), (''run_requested_ts'', PInt 0)]" now1]
      by (auto simp: begin_run_def Let_def l c ne py_get_def dict_update_def)
    show "case end_run stop (Some err) now2 (s, i) q1 of (r, q3) \<Rightarrow> r = Inr () \<and>
        (\<exists>d3. jobs q3 i = Some (Failed, Json (PDict d3)) \<and> py_get d3 ''error'' = PStr ''cancelled'')"
      using update_move_readable [OF u1 j1, of Failed "\<lambda>d. dict_update d (error_fields ''cancelled'' now2)" now2]
      by (auto simp: end_run_def fail_run_def Let_def c error_fields_def py_get_def dict_update_def)
  qed
qed

section \<open>Deduplication\<close>

lemma find_unique:
  assumes "x \<in> set xs" and "P x" and "\<And>y. y \<in> set xs \<Longrightarrow> P y \<Longrightarrow> y = x"
  shows "find P xs = Some x"
proof (cases "find P xs")
  case None
  with assms(1,2) show ?thesis by (auto simp: find_None_iff)
next
  case (Some y)
  then have "y \<in> set xs" "P y" by (auto simp: find_Some_iff)
  with assms(3) Some show ?thesis by simp
qed

text \<open>The operation with its key and directories named.\<close>

definition dedupe_dirs :: "string list \<Rightarrow> job_state list" where
  "dedupe_dirs states = map (\<lambda>s. the (find (\<lambda>t. state_name t = s) all_states))
     (filter (\<lambda>s. s \<in> state_name ` set all_states) states)"

definition keyed_job :: "string \<Rightarrow> string \<Rightarrow> pyval \<Rightarrow> string \<Rightarrow> int \<Rightarrow> string \<Rightarrow> pydict" where
  "keyed_job jid kind payload exchange now k =
     new_job jid kind payload exchange ''pending'' now [(''dedupe_key'', PStr k)]"

lemma enqueue_unique_Inr:
  "enqueue_unique_job hex kind payload exchange key states now q = (Inr r, q1) \<longleftrightarrow>
     str_strip key \<noteq> [] \<and> dedupe_dirs states \<noteq> [] \<and>
     (case find_dedupe q (str_strip key) (job_paths q (dedupe_dirs states)) of
        Inl _ \<Rightarrow> False
      | Inr (Some p) \<Rightarrow> r = (py_str (py_or (py_get (job_dict q p) ''id'') (PStr (snd p))), job_path_text q p, False) \<and> q1 = q
      | Inr None \<Rightarrow> r = (job_id now hex, job_path_text q (Pending, job_id now hex), True) \<and>
          q1 = write_job (Pending, job_id now hex) (keyed_job (job_id now hex) kind payload exchange now (str_strip key)) q)"
  unfolding enqueue_unique_job_def Let_def dedupe_dirs_def [symmetric] keyed_job_def
  by (auto split: option.splits sum.splits)

lemma find_dedupe_None:
  "find_dedupe q key ps = Inr None \<longleftrightarrow> (\<forall>p \<in> set ps. map_of (job_files q) p \<noteq> Some Undecodable \<and> \<not> has_dedupe_key q key p)"
  by (induction ps) auto

lemma find_dedupe_find:
  "\<forall>p \<in> set ps. map_of (job_files q) p \<noteq> Some Undecodable \<Longrightarrow> find_dedupe q key ps = Inr (find (has_dedupe_key q key) ps)"
  by (induction ps) auto

text \<open>
  C25: Enqueueing under a dedupe key is idempotent: repeated with the same key and states, whatever the payload of
  the repetition, it returns the identifier and the file of the first call, creates nothing and leaves the queue as it
  is, provided a new job, being pending, is among the states that are compared.
\<close>

theorem enqueue_unique_idempotent:
  assumes u: "jobs_unique q" and fresh: "jobs q (job_id now hex) = None" and pending: "''pending'' \<in> set states"
    and first: "enqueue_unique_job hex kind payload exchange key states now q = (Inr (i, path, created), q1)"
  shows "enqueue_unique_job hex2 kind2 payload2 exchange2 key states now2 q1 = (Inr (i, path, False), q1)"
proof (cases created)
  case False
  with first show ?thesis unfolding enqueue_unique_Inr by (auto split: option.splits sum.splits)
next
  case True
  define k where "k = str_strip key"
  define jid where "jid = job_id now hex"
  define d where "d = keyed_job jid kind payload exchange now k"
  have "Pending = the (find (\<lambda>t. state_name t = ''pending'') all_states)" "''pending'' \<in> state_name ` set all_states"
    by (simp_all add: all_states_def)
  then have P: "Pending \<in> set (dedupe_dirs states)"
    unfolding dedupe_dirs_def set_map set_filter using pending by (blast intro: image_eqI)
  have f: "k \<noteq> []" "dedupe_dirs states \<noteq> []" "find_dedupe q k (job_paths q (dedupe_dirs states)) = Inr None"
    and q1: "i = jid" "path = job_path_text q (Pending, jid)" "q1 = write_job (Pending, jid) d q"
    using first True unfolding enqueue_unique_Inr by (auto simp: k_def jid_def d_def split: option.splits sum.splits)
  have new: "map_of (job_files q1) (Pending, jid) = Some (Json (PDict d))" by (simp add: q1(3) write_job_def)
  have old: "p \<noteq> (Pending, jid) \<Longrightarrow> map_of (job_files q1) p = map_of (job_files q) p" for p
    by (simp add: q1(3) write_job_def)
  have "get_str d ''dedupe_key'' = k" by (simp add: d_def keyed_job_def new_job_def py_get_def get_str_def py_or_def f(1))
  then have has: "has_dedupe_key q1 k (Pending, jid)" by (simp add: has_dedupe_key_def new)
  have mem: "(Pending, jid) \<in> set (job_paths q1 (dedupe_dirs states))" using P by (simp add: job_paths_iff new)
  have only: "p = (Pending, jid)" if "p \<in> set (job_paths q1 (dedupe_dirs states))" "has_dedupe_key q1 k p" for p
  proof (rule ccontr)
    assume n: "p \<noteq> (Pending, jid)"
    then have "p \<in> set (job_paths q (dedupe_dirs states))" "has_dedupe_key q k p"
      using that by (simp_all add: job_paths_iff old has_dedupe_key_def)
    with f(3) show False unfolding find_dedupe_None by blast
  qed
  have "map_of (job_files q1) p \<noteq> Some Undecodable" if "p \<in> set (job_paths q1 (dedupe_dirs states))" for p
  proof (cases "p = (Pending, jid)")
    case False
    then have "p \<in> set (job_paths q (dedupe_dirs states))" using that by (simp add: job_paths_iff old)
    with f(3) False show ?thesis by (simp add: find_dedupe_None old)
  qed (simp add: new)
  note legible = this
  have id: "py_str (py_or (py_get (job_dict q1 (Pending, jid)) ''id'') (PStr jid)) = jid"
    by (simp add: job_dict_def new d_def keyed_job_def new_job_def py_get_def py_or_def)
  show ?thesis
    using find_unique [of _ _ "has_dedupe_key q1 k", OF mem has only] find_dedupe_find [of _ q1 k] legible f id q1
    unfolding enqueue_unique_Inr k_def [symmetric] by (simp add: job_path_text_def write_job_def)
qed


section \<open>A concrete queue\<close>

definition demo_job :: "string \<Rightarrow> string \<Rightarrow> pydict" where
  "demo_job i status = new_job i ''sync'' (PDict []) ''binance'' status 100 []"

definition demo_tasks :: task_queue where
  "demo_tasks = \<lparr>tasks_root = ''_tasks'', job_files = [((Pending, ''2''), Json (PDict (demo_job ''2'' ''pending''))),
     ((Pending, ''1''), Json (PDict (demo_job ''1'' ''pending''))), ((Failed, ''0''), Json (PDict (demo_job ''0'' ''failed'')))],
     job_logs = [], worker_pid_file = None\<rparr>"

lemma demo_tasks_unique: "jobs_unique demo_tasks"
  by (simp add: jobs_unique_def demo_tasks_def)

lemma demo_tasks_jobs:
  "jobs demo_tasks ''1'' = Some (Pending, Json (PDict (demo_job ''1'' ''pending'')))"
  "jobs demo_tasks (job_id 200 ''ab'') = None"
  by (simp_all add: jobs_def demo_tasks_def job_id_def int_str_def) 

theorem queue_refines_map_witness:
  "case retry_failed_job '' 0 '' 200 demo_tasks of (ok, q') \<Rightarrow> jobs_unique q' \<and> ok = in_states {Failed} ''0'' (jobs demo_tasks) \<and>
    jobs q' = (if ok then move_job ''0'' Pending (update_job ''0'' reset_job 200 (jobs demo_tasks)) else jobs demo_tasks)"
proof -
  have "str_strip '' 0 '' = ''0''" by code_simp
  from queue_refines_map [OF demo_tasks_unique this _ demo_tasks_jobs(2)] show ?thesis by simp
qed

theorem cancelled_job_fails_witness:
  "fst (begin_run 7 300 (Pending, ''1'') (snd (request_cancel_job ''1'' ''stop'' 200 demo_tasks))) = Inr False"
proof -
  obtain ok q1 where r: "request_cancel_job ''1'' ''stop'' 200 demo_tasks = (ok, q1)" by (cases "request_cancel_job ''1'' ''stop'' 200 demo_tasks")
  have "str_strip ''1'' = ''1''" by code_simp
  from cancelled_job_fails [OF demo_tasks_unique demo_tasks_jobs(1) _ this _ r, of 7 300 True "''stopped''" 400] show ?thesis
    by (auto simp: r split: prod.splits)
qed

theorem enqueue_unique_idempotent_witness:
  "\<exists>q1. enqueue_unique_job ''ab'' ''sync'' (PDict []) ''binance'' ''k'' [''pending''] 200 demo_tasks =
       (Inr (job_id 200 ''ab'', job_path_text demo_tasks (Pending, job_id 200 ''ab''), True), q1) \<and>
     enqueue_unique_job ''cd'' ''sync'' PNone ''binance'' ''k'' [''pending''] 201 q1 =
       (Inr (job_id 200 ''ab'', job_path_text demo_tasks (Pending, job_id 200 ''ab''), False), q1)"
proof -
  have "dedupe_dirs [''pending''] = [Pending]" by (simp add: dedupe_dirs_def all_states_def)
  moreover have "str_strip ''k'' = ''k''" by code_simp
  moreover have "find_dedupe demo_tasks ''k'' (job_paths demo_tasks [Pending]) = Inr None"
    unfolding find_dedupe_None Ball_def job_paths_iff
    by (auto simp: has_dedupe_key_def demo_tasks_def demo_job_def new_job_def get_str_def py_get_def py_or_def split: if_splits)
  ultimately have first: "enqueue_unique_job ''ab'' ''sync'' (PDict []) ''binance'' ''k'' [''pending''] 200 demo_tasks =
      (Inr (job_id 200 ''ab'', job_path_text demo_tasks (Pending, job_id 200 ''ab''), True),
       write_job (Pending, job_id 200 ''ab'') (keyed_job (job_id 200 ''ab'') ''sync'' (PDict []) ''binance'' 200 ''k'') demo_tasks)"
    unfolding enqueue_unique_Inr by simp
  from enqueue_unique_idempotent [OF demo_tasks_unique demo_tasks_jobs(2) _ first] first show ?thesis by auto
qed


text \<open>A pass over it: both waiting jobs have one type, and the one with the smaller name gets the slot.\<close>

definition demo_pass :: "string list res \<times> task_queue" where
  "demo_pass = worker_pass 2 200 (\<lambda>_. False) (\<lambda>_. 0) demo_tasks"

lemma demo_pass_started: "fst demo_pass = Inr [''1'']"
  by code_simp

lemma demo_pass_eq: "worker_pass 2 200 (\<lambda>_. False) (\<lambda>_. 0) demo_tasks = (Inr [''1''], snd demo_pass)"
  using demo_pass_started by (metis demo_pass_def prod.collapse)

lemma demo_recovered: "recovered_queue 200 (\<lambda>_. False) (\<lambda>_. 0) demo_tasks = demo_tasks"
  by code_simp

text \<open>A job that was enqueued, taken up by a worker, and finished between two sections of another one.\<close>

theorem no_job_lost_witness:
  "\<exists>q q'. queue_reachable q \<and> map_of (job_files q) (Running, ''9-ab'') \<noteq> None \<and> move_job_file (Running, ''9-ab'') Done q = Inr q' \<and>
    jobs_unique q' \<and> ''9-ab'' \<in> dom (jobs q')"
proof -
  let ?q0 = "demo_tasks\<lparr>job_files := []\<rparr>"
  let ?q1 = "snd (enqueue_job ''ab'' ''sync'' PNone ''x'' 9 ?q0)"
  have i: "job_id 9 ''ab'' = ''9-ab''" by code_simp
  have "jobs ?q0 (job_id 9 ''ab'') = None" by (simp add: jobs_def)
  from queue_next [OF queue_empty step_enqueue [OF this]] have r1: "queue_reachable ?q1" by simp
  have f1: "map_of (job_files ?q1) (Pending, ''9-ab'') \<noteq> None" by (simp add: enqueue_job_def Let_def i write_job_def)
  then obtain q2 where m2: "move_job_file (Pending, ''9-ab'') Running ?q1 = Inr q2"
    by (auto simp: move_job_file_def simp del: not_None_eq split: option.split)
  have r2: "queue_reachable q2" by (rule queue_next [OF r1 step_move [OF m2]])
  have f2: "map_of (job_files q2) (Running, ''9-ab'') \<noteq> None" using m2 by (auto simp: move_job_file_def split: option.splits)
  then obtain q3 where m3: "move_job_file (Running, ''9-ab'') Done q2 = Inr q3"
    by (auto simp: move_job_file_def simp del: not_None_eq split: option.split)
  note l = no_job_lost [OF r2 step_move [OF m3]]
  have u3: "jobs_unique q3" using l by blast
  have "map_of (job_files q3) (Done, ''9-ab'') \<noteq> None" using m3 by (auto simp: move_job_file_def split: option.splits)
  then have "''9-ab'' \<in> dom (jobs q3)" using u3 by (simp only: domIff not_None_eq jobs_iff split_paired_Ex) blast
  with r2 f2 m3 u3 show ?thesis by blast
qed

theorem worker_pass_slots_witness:
  "length (running_jobs (snd demo_pass) ''sync'') \<le> max 2 (length (running_jobs demo_tasks ''sync''))"
  using worker_pass_slots [OF demo_tasks_unique demo_pass_eq, of "''sync''"] by simp

lemma demo_pending:
  "load_job (Pending, ''1'') (recovered_queue 200 (\<lambda>_. False) (\<lambda>_. 0) demo_tasks) = demo_job ''1'' ''pending''"
  "load_job (Pending, ''2'') (recovered_queue 200 (\<lambda>_. False) (\<lambda>_. 0) demo_tasks) = demo_job ''2'' ''pending''"
  unfolding demo_recovered by (simp_all add: load_job_def job_dict_def demo_tasks_def)

lemma demo_job_facts:
  "job_type (demo_job i st) = ''sync''" "\<not> wants_manual (demo_job i st)" "demo_job i st \<noteq> []"
proof -
  have "str_strip ''sync'' = ''sync''" "str_strip ''sync'' \<noteq> []" by code_simp+
  then show "job_type (demo_job i st) = ''sync''"
    by (simp add: job_type_def demo_job_def new_job_def get_str_def py_get_def py_or_def)
qed (simp_all add: wants_manual_def demo_job_def new_job_def py_get_def)

theorem worker_pass_fifo_witness:
  "running_jobs demo_tasks ''sync'' = [] \<and> ''1'' @ ''.json'' \<le> ''2'' @ ''.json''"
  using worker_pass_fifo [OF demo_tasks_unique demo_pass_eq _ demo_pending(1) _ _ demo_pending(2)]
  by (simp add: demo_job_facts demo_recovered)

theorem worker_pass_progress_witness:
  "running_jobs (snd demo_pass) ''sync'' \<noteq> []"
proof -
  have "length (dir_stems (recovered_queue 200 (\<lambda>_. False) (\<lambda>_. 0) demo_tasks) Pending) \<le> 2"
    unfolding demo_recovered by (simp add: dir_stems_def demo_tasks_def)
  from worker_pass_progress [OF demo_tasks_unique demo_pass_eq this demo_pending(1)] show ?thesis by (simp add: demo_job_facts)
qed


text \<open>
  Retrying a failed job does not look at its dedupe key, so it can leave two waiting jobs with one key: a job is
  enqueued, failed, enqueued again under the key, and the failed one is retried.
\<close>

definition dedupe_run :: task_queue where
  "dedupe_run =
     (let enqueue = (\<lambda>hex now q. snd (enqueue_unique_job hex ''sync'' (PDict []) ''x'' ''k'' [''pending'', ''running''] now q));
          q1 = enqueue ''ab'' 1 (demo_tasks\<lparr>job_files := []\<rparr>);
          q2 = snd (force_fail_job ''1-ab'' ''stopped'' 2 q1)
      in snd (retry_failed_job ''1-ab'' 4 (enqueue ''cd'' 3 q2)))"

lemma retry_breaks_dedupe:
  "filter (has_dedupe_key dedupe_run ''k'') (job_paths dedupe_run [Pending]) = [(Pending, ''3-cd''), (Pending, ''1-ab'')]"
  by code_simp

end
