(* ===== verification/Checkpoint_Prune.thy ===== *)
theory Checkpoint_Prune
  imports Checkpoint_Tail
begin

text \<open>
  Deleting the history below a committed checkpoint (cluster_checkpoint.py): the candidates and
  \<open>prune_operation_history\<close> with its journal. The journal file is read as it was written. A function that raises after it
  has changed files returns the changed store beside the exception. Sizes and times of files come
  from the file system, an argument. The report file is the returned report.
\<close>

record file_info =
  modified_at :: "string \<Rightarrow> string \<Rightarrow> int"
  file_size :: "string \<Rightarrow> string \<Rightarrow> int"
  object_size :: "string \<Rightarrow> int"

section \<open>Candidates\<close>

record prune_candidate =
  cand_actor :: string
  cand_seq :: int
  cand_op_id :: string
  cand_op :: string
  cand_created :: int
  cand_seen :: int
  cand_size :: int
  cand_file :: string

definition cand_path :: "prune_candidate \<Rightarrow> string" where
  "cand_path c = ''oplog/'' @ cand_actor c @ ''/'' @ cand_file c"

definition candidate_doc :: "prune_candidate \<Rightarrow> pyval" where
  "candidate_doc c = PDict [(''actor'', PStr (cand_actor c)), (''seq'', PInt (cand_seq c)), (''op_id'', PStr (cand_op_id c)),
     (''op'', PStr (cand_op c)), (''created_at'', PInt (cand_created c)), (''first_seen_at'', PInt (cand_seen c)),
     (''size'', PInt (cand_size c)), (''path'', PStr (cand_path c))]"

definition candidate_at :: "file_info \<Rightarrow> bool \<Rightarrow> (string, int) dict \<Rightarrow> int \<Rightarrow> string \<times> string \<times> pyval \<Rightarrow> prune_candidate list res" where
  "candidate_at fi require_age baseline cutoff = (\<lambda>(actor, name, v). case file_seq name of
     None \<Rightarrow> checkpoint_error ''oplog operation is unreadable during retention scan''
   | Some seq \<Rightarrow>
       res_bind (if is_dict v then get_int (dict_of v) ''created_at'' 0 else Inr 0) (\<lambda>created.
       if seq \<le> vector_get baseline actor \<and> created < cutoff \<and> (modified_at fi actor name < cutoff \<or> \<not> require_age)
       then if is_dict v
         then Inr [\<lparr>cand_actor = actor, cand_seq = seq, cand_op_id = get_str (dict_of v) ''op_id'', cand_op = get_str (dict_of v) ''op'',
           cand_created = created, cand_seen = modified_at fi actor name, cand_size = file_size fi actor name, cand_file = name\<rparr>]
         else Inl AttributeError
       else Inr []))"

definition prune_candidates :: "file_info \<Rightarrow> bool \<Rightarrow> (string, int) dict \<Rightarrow> int \<Rightarrow> cluster_store \<Rightarrow> prune_candidate list res" where
  "prune_candidates fi require_age baseline cutoff st =
     res_bind (res_map (candidate_at fi require_age baseline cutoff) (log_files st)) (\<lambda>cs. Inr (concat cs))"

section \<open>The state of pruning\<close>

record prune_journal =
  journal_phase :: string
  journal_checkpoint :: string
  journal_previous :: string
  journal_cutoff :: int
  journal_baseline :: "(string, int) dict"
  journal_digest :: string
  journal_candidates :: "prune_candidate list"
  journal_completed :: "string set"
  journal_created_at :: int

record prune_state =
  prune_node :: node_state
  journal_file :: "prune_journal option"
  quarantines :: "(string, int \<times> int) dict"

section \<open>The evaluation\<close>

text \<open>What the run is based on; nothing is changed before it is complete.\<close>

record prune_plan =
  plan_policy :: pydict
  plan_active :: "pydict option"
  plan_blockers :: "string list"
  plan_previous :: string
  plan_safe :: "(string, int) dict"
  plan_cutoff :: int
  plan_candidates :: "prune_candidate list"

definition policy_blockers :: "pydict \<Rightarrow> string list" where
  "policy_blockers policy = blocker_if (is_True (py_get policy ''conflicted'')) ''retention_policy_conflicted''
     @ blocker_if (get_str policy ''mode'' = ''report_only'') ''retention_mode_report_only''"

definition active_blockers :: "pydict \<Rightarrow> pydict \<Rightarrow> pydict \<Rightarrow> string list res" where
  "active_blockers policy materialized active =
     res_bind (normalized_vector (py_get materialized ''state_vector'')) (\<lambda>vector.
     res_bind (baseline_vector active) (\<lambda>baseline.
     res_bind (retention_policy (py_get active ''materialized'')) (\<lambda>own.
     res_bind (build_migration_seal (PDict materialized)) (\<lambda>seal.
     res_bind (get_list seal ''blockers'') (\<lambda>items.
     Inr (blocker_if (py_get (dict_of (py_get active ''migration_seal'')) ''status'' \<noteq> PStr ''sealed'') ''checkpoint_migration_seal_blocked''
       @ blocker_if (vector \<noteq> baseline) ''uncommitted_checkpoint_tail''
       @ blocker_if (\<not> py_eq (PDict own) (PDict policy)) ''checkpoint_policy_stale''
       @ (if py_get seal ''status'' \<noteq> PStr ''sealed'' then map (\<lambda>v. ''migration_seal:'' @ py_str v) items else [])))))))"

text \<open>The identifier of the predecessor, its baseline, and the blocker when it cannot be read.\<close>

definition predecessor :: "crypto \<Rightarrow> checkpoint_store \<Rightarrow> (string \<times> (string, int) dict \<times> string list) res" where
  "predecessor cr st =
     res_bind (read_commit st) (\<lambda>commit.
     let cid = get_str (case commit of None \<Rightarrow> [] | Some c \<Rightarrow> c) ''previous_checkpoint_id''
     in case res_bind (read_checkpoint_object cr st cid) baseline_vector of
       Inr b \<Rightarrow> Inr (cid, b, [])
     | Inl (ClusterCheckpointError m) \<Rightarrow> Inr (cid, [], [''previous_checkpoint:'' @ m])
     | Inl e \<Rightarrow> Inl e)"

definition plan_prune :: "crypto \<Rightarrow> file_info \<Rightarrow> int \<Rightarrow> node_state \<Rightarrow> prune_plan res" where
  "plan_prune cr fi now ns =
     res_bind (rebuild_materialized_state cr ns) (\<lambda>materialized.
     res_bind (retention_policy (PDict materialized)) (\<lambda>policy.
     res_bind (read_active cr (checkpoints ns)) (\<lambda>active.
     res_bind (case active of None \<Rightarrow> Inr [''checkpoint_missing''] | Some c \<Rightarrow> active_blockers policy materialized c) (\<lambda>blockers.
     res_bind (if active = None then Inr ([], [], []) else predecessor cr (checkpoints ns)) (\<lambda>(previous, safe, missing).
     res_bind (get_int policy ''history_days'' 7) (\<lambda>days.
     res_bind (prune_candidates fi False safe (now - days * 24 * 60 * 60) (history ns)) (\<lambda>candidates.
     Inr \<lparr>plan_policy = policy, plan_active = active, plan_blockers = policy_blockers policy @ blockers @ missing,
       plan_previous = previous, plan_safe = safe, plan_cutoff = now - days * 24 * 60 * 60, plan_candidates = candidates\<rparr>)))))))"

definition candidates_digest :: "crypto \<Rightarrow> prune_candidate list \<Rightarrow> string" where
  "candidates_digest cr cs = sha256_json cr (PList (map candidate_doc cs))"

definition total_size :: "file_info \<Rightarrow> cluster_store \<Rightarrow> int" where
  "total_size fi st = sum_list (map (\<lambda>(actor, name, _). file_size fi actor name) (log_files st))"

definition active_id :: "prune_plan \<Rightarrow> string" where
  "active_id plan = get_str (case plan_active plan of None \<Rightarrow> [] | Some c \<Rightarrow> c) ''checkpoint_id''"

definition prune_report :: "crypto \<Rightarrow> file_info \<Rightarrow> int \<Rightarrow> bool \<Rightarrow> cluster_store \<Rightarrow> prune_plan \<Rightarrow> pydict res" where
  "prune_report cr fi now dry st plan =
     res_bind (get_int (plan_policy plan) ''history_days'' 7) (\<lambda>days.
     let eligible = sum_list (map cand_size (plan_candidates plan)); found = plan_candidates plan; blocked = plan_blockers plan \<noteq> [] in
     Inr [(''schema_version'', PInt 1), (''status'', PStr (if blocked then ''blocked'' else ''ready'')),
       (''mode'', PStr (py_str (py_or (py_get (plan_policy plan) ''mode'') (PStr ''report_only'')))), (''history_days'', PInt days),
       (''evaluated_at'', PInt now), (''history_cutoff'', PInt (plan_cutoff plan)), (''checkpoint_id'', PStr (active_id plan)),
       (''previous_checkpoint_id'', PStr (plan_previous plan)), (''safe_baseline'', vector_val (plan_safe plan)),
       (''candidate_digest'', PStr (candidates_digest cr found)), (''eligible_operations'', PInt (int (length found))),
       (''eligible_bytes'', PInt eligible), (''retained_operations'', PInt (int (length (log_files st)) - int (length found))),
       (''retained_bytes'', PInt (total_size fi st - eligible)), (''blockers'', PList (map PStr (sort (remdups (plan_blockers plan))))),
       (''dry_run'', PBool (dry \<or> blocked)), (''deleted_operations'', PInt 0), (''deleted_bytes'', PInt 0)])"

section \<open>The journal and the deletions\<close>

definition new_journal :: "crypto \<Rightarrow> int \<Rightarrow> prune_plan \<Rightarrow> prune_journal" where
  "new_journal cr now plan = \<lparr>journal_phase = ''planned'', journal_checkpoint = active_id plan, journal_previous = plan_previous plan,
     journal_cutoff = plan_cutoff plan, journal_baseline = plan_safe plan, journal_digest = candidates_digest cr (plan_candidates plan),
     journal_candidates = plan_candidates plan, journal_completed = {}, journal_created_at = now\<rparr>"

definition open_journal :: "crypto \<Rightarrow> int \<Rightarrow> prune_plan \<Rightarrow> prune_journal option \<Rightarrow> prune_journal res" where
  "open_journal cr now plan old = (case old of
     Some j \<Rightarrow>
       if journal_phase j = ''complete'' then Inr (new_journal cr now plan)
       else res_bind (reject_checkpoint (journal_checkpoint j \<noteq> active_id plan
           \<or> journal_digest j \<noteq> candidates_digest cr (journal_candidates j) \<or> journal_baseline j \<noteq> plan_safe plan)
         ''incomplete prune journal does not match active checkpoint'') (\<lambda>_. Inr j)
   | None \<Rightarrow> Inr (new_journal cr now plan))"

definition file_present :: "cluster_store \<Rightarrow> prune_candidate \<Rightarrow> bool" where
  "file_present st c \<longleftrightarrow> stored st (cand_actor c) (cand_file c) \<noteq> None"

definition delete_file :: "prune_candidate \<Rightarrow> cluster_store \<Rightarrow> cluster_store" where
  "delete_file c st = st\<lparr>oplog := map (\<lambda>(actor, fs). (actor, if actor = cand_actor c then dict_pop (cand_file c) fs else fs)) (oplog st)\<rparr>"

text \<open>
  The loop over the candidates: the exception of the iteration that stopped it, the journal as last
  written, the log, the completed paths and the bytes deleted. \<open>i\<close> counts from one.
\<close>

fun prune_loop :: "(string, int) dict \<Rightarrow> int \<Rightarrow> prune_candidate list \<Rightarrow> prune_journal \<Rightarrow> string set \<Rightarrow> int \<Rightarrow> cluster_store
    \<Rightarrow> unit res \<times> prune_journal \<times> string set \<times> int \<times> cluster_store" where
  "prune_loop safe i [] j completed bytes st = (Inr (), j, completed, bytes, st)"
| "prune_loop safe i (c # cs) j completed bytes st =
     (if cand_path c \<in> completed then prune_loop safe (i + 1) cs j completed bytes st
      else if file_present st c \<and> vector_get safe (cand_actor c) < cand_seq c
      then (checkpoint_error ''prune candidate exceeds safe baseline'', j, completed, bytes, st)
      else
        let completed' = insert (cand_path c) completed;
            j' = (if i mod 100 = 0 then j\<lparr>journal_completed := completed'\<rparr> else j)
        in if file_present st c then prune_loop safe (i + 1) cs j' completed' (bytes + cand_size c) (delete_file c st)
           else prune_loop safe (i + 1) cs j' completed' bytes st)"

definition remove_empty_dirs :: "cluster_store \<Rightarrow> cluster_store" where
  "remove_empty_dirs st = st\<lparr>oplog := filter (\<lambda>(_, fs). fs \<noteq> []) (oplog st)\<rparr>"

definition prune_quarantines :: "int \<Rightarrow> (string, int \<times> int) dict \<Rightarrow> (string, int \<times> int) dict" where
  "prune_quarantines cutoff qs = filter (\<lambda>(_, (modified, _)). cutoff \<le> modified) qs"

definition object_digest :: "string \<Rightarrow> string" where
  "object_digest stem = takeWhile (\<lambda>c. c \<noteq> CHR ''.'') stem"

definition keep_digests :: "string list \<Rightarrow> string list" where
  "keep_digests ids = map object_stem (filter is_sha256 ids)"

definition prune_objects :: "string list \<Rightarrow> checkpoint_store \<Rightarrow> checkpoint_store" where
  "prune_objects ids st = st\<lparr>checkpoint_objects := filter (\<lambda>(stem, _). object_digest stem \<in> set (keep_digests ids)) (checkpoint_objects st)\<rparr>"

section \<open>The whole function\<close>

text \<open>After the deletions: the state must still be that of the checkpoint, then old copies go.\<close>

definition finish_prune :: "crypto \<Rightarrow> file_info \<Rightarrow> prune_plan \<Rightarrow> pydict \<Rightarrow> prune_journal \<Rightarrow> string set \<Rightarrow> int \<Rightarrow> prune_state \<Rightarrow> pydict res \<times> prune_state" where
  "finish_prune cr fi plan report j completed bytes ps =
     (let ns = prune_node ps; active = (case plan_active plan of None \<Rightarrow> [] | Some c \<Rightarrow> c) in
      case res_bind (rebuild_materialized_state cr ns) (\<lambda>m.
          reject_checkpoint (\<not> py_eq (PDict m) (py_get active ''materialized'')) ''post-prune checkpoint reconstruction mismatch'') of
        Inl e \<Rightarrow> (Inl e, ps)
      | Inr _ \<Rightarrow>
          let qs = prune_quarantines (plan_cutoff plan) (quarantines ps); old = checkpoints ns;
              new = prune_objects [active_id plan, plan_previous plan] old;
              gone = filter (\<lambda>(q, _). q \<notin> set (map fst qs)) (quarantines ps);
              dropped = filter (\<lambda>(stem, _). stem \<notin> set (map fst (checkpoint_objects new))) (checkpoint_objects old)
          in (Inr (dict_update report [(''status'', PStr ''complete''), (''dry_run'', PBool False),
                (''deleted_operations'', PInt (int (card completed))), (''deleted_bytes'', PInt bytes),
                (''deleted_quarantines'', PInt (int (length gone))),
                (''deleted_quarantine_bytes'', PInt (sum_list (map (\<lambda>(_, (_, size)). size) gone))),
                (''deleted_checkpoint_objects'', PInt (int (length dropped))),
                (''deleted_checkpoint_bytes'', PInt (sum_list (map (\<lambda>(stem, _). object_size fi stem) dropped)))]),
              ps\<lparr>prune_node := ns\<lparr>checkpoints := new\<rparr>, quarantines := qs,
                 journal_file := Some (j\<lparr>journal_phase := ''complete'', journal_completed := completed\<rparr>)\<rparr>))"

definition run_prune :: "crypto \<Rightarrow> file_info \<Rightarrow> prune_plan \<Rightarrow> pydict \<Rightarrow> prune_journal \<Rightarrow> prune_state \<Rightarrow> pydict res \<times> prune_state" where
  "run_prune cr fi plan report j0 ps =
     (let j = j0\<lparr>journal_phase := ''pruning''\<rparr>; ns = prune_node ps in
      case prune_loop (plan_safe plan) 1 (journal_candidates j) j (journal_completed j) 0 (history ns) of
        (Inl e, j', _, _, st) \<Rightarrow> (Inl e, ps\<lparr>prune_node := ns\<lparr>history := st\<rparr>, journal_file := Some j'\<rparr>)
      | (Inr _, _, completed, bytes, st) \<Rightarrow>
          finish_prune cr fi plan report j completed bytes
            (ps\<lparr>prune_node := ns\<lparr>history := remove_empty_dirs st\<rparr>,
                journal_file := Some (j\<lparr>journal_phase := ''pruned'', journal_completed := completed\<rparr>)\<rparr>))"

definition prune_operation_history :: "crypto \<Rightarrow> file_info \<Rightarrow> int \<Rightarrow> bool \<Rightarrow> prune_state \<Rightarrow> pydict res \<times> prune_state" where
  "prune_operation_history cr fi now dry ps =
     (case res_bind (void (strict_nonnegative_int (PInt now) ''now'')) (\<lambda>_.
        res_bind (plan_prune cr fi now (prune_node ps)) (\<lambda>plan.
        res_bind (prune_report cr fi now dry (history (prune_node ps)) plan) (\<lambda>report. Inr (plan, report)))) of
        Inl e \<Rightarrow> (Inl e, ps)
      | Inr (plan, report) \<Rightarrow>
          if plan_blockers plan \<noteq> [] \<or> dry \<or> plan_candidates plan = [] then (Inr report, ps)
          else (case open_journal cr now plan (journal_file ps) of
              Inl e \<Rightarrow> (Inl e, ps)
            | Inr j \<Rightarrow> run_prune cr fi plan report j ps))"

end
