(* ===== verification/Checkpoint_Facts.thy ===== *)
theory Checkpoint_Facts
  imports Checkpoint_Commit
begin

text \<open>
  Facts on which the laws of checkpoints rest: sorting the entries of a JSON value changes
  neither its texts nor its lookups, and a verified checkpoint verifies again to itself.
\<close>

section \<open>Sorted values\<close>

lemma insort_key_map: "insort_key f (h x) (map h xs) = map h (insort_key (\<lambda>x. f (h x)) x xs)"
  by (induction xs) simp_all

lemma sort_key_map: "sort_key f (map h xs) = map h (sort_key (\<lambda>x. f (h x)) xs)"
  by (induction xs) (simp_all add: insort_key_map)

lemma sort_key_sorted: "sorted (map f xs) \<Longrightarrow> sort_key f xs = xs"
  by (rule sort_key_id_if_sorted)

lemma sort_key_twice: "sort_key f (sort_key f xs) = sort_key f xs"
  by (simp add: sort_key_sorted)

definition on_values :: "('v \<Rightarrow> 'w) \<Rightarrow> ('k \<times> 'v) list \<Rightarrow> ('k \<times> 'w) list" where
  "on_values h d = map (\<lambda>(k, v). (k, h v)) d"

lemma on_values_sorted: "sort_key fst (on_values h d) = on_values h (sort_key fst d)"
  unfolding on_values_def sort_key_map by (simp add: o_def case_prod_unfold)

lemma on_values_comp: "on_values h (on_values g d) = on_values (h \<circ> g) d"
  by (simp add: on_values_def o_def case_prod_unfold)

lemma on_values_cong: "(\<And>k v. (k, v) \<in> set d \<Longrightarrow> h v = g v) \<Longrightarrow> on_values h d = on_values g d"
  by (auto simp: on_values_def)

lemma map_of_on_values: "map_of (on_values h d) k = map_option h (map_of d k)"
  by (induction d) (auto simp: on_values_def)

lemma map_of_sort_key: "map_of (sort_key fst d) = map_of d"
proof
  fix k
  have "map_of xs k = map_of (filter (\<lambda>p. fst p = k) xs) k" for xs :: "('a \<times> 'b) list"
    by (induction xs) auto
  moreover have "filter (\<lambda>p. fst p = k) (sort_key fst d) = filter (\<lambda>p. fst p = k) d"
    by (rule sort_key_stable)
  ultimately show "map_of (sort_key fst d) k = map_of d k" by metis
qed

lemma py_sorted_PDict: "py_sorted (PDict d) = PDict (sort_key fst (on_values py_sorted d))"
  by (simp add: on_values_def)

lemma py_sorted_get: "py_get (dict_of (py_sorted (PDict d))) k = py_sorted (py_get d k)"
  unfolding py_sorted_PDict dict_of.simps py_get_def map_of_sort_key map_of_on_values
  by (simp split: option.split)

lemma is_dict_py_sorted [simp]: "is_dict (py_sorted v) \<longleftrightarrow> is_dict v"
  by (cases v) simp_all

lemma in_values: "(k, v) \<in> set d \<Longrightarrow> v \<in> snd ` set d"
  by force

text \<open>A function that is unchanged by sorting below is unchanged by sorting a dictionary.\<close>

lemma sorted_entries:
  assumes "\<And>k v. (k, v) \<in> set d \<Longrightarrow> h (py_sorted v) = h v"
  shows "sort_key fst (on_values h (sort_key fst (on_values py_sorted d))) = sort_key fst (on_values h d)"
proof -
  have "sort_key fst (on_values h (sort_key fst (on_values py_sorted d))) = sort_key fst (on_values (h \<circ> py_sorted) d)"
    by (simp add: on_values_sorted [symmetric] on_values_comp sort_key_sorted)
  also have "on_values (h \<circ> py_sorted) d = on_values h d" by (rule on_values_cong) (simp add: assms)
  finally show ?thesis .
qed

lemma py_sorted_idem [simp]: "py_sorted (py_sorted v) = py_sorted v"
proof (induction v)
  case (PDict d)
  have "py_sorted (py_sorted w) = py_sorted w" if "(k, w) \<in> set d" for k w
    using PDict [of "(k, w)" w] that by simp
  from sorted_entries [of d py_sorted, OF this] show ?case by (simp only: py_sorted_PDict)
qed simp_all

lemma py_normal_sorted [simp]: "py_normal (py_sorted v) = py_normal v"
proof (induction v)
  case (PDict d)
  have "py_normal (py_sorted w) = py_normal w" if "(k, w) \<in> set d" for k w
    using PDict [of "(k, w)" w] that by simp
  from sorted_entries [of d py_normal, OF this] show ?case
    by (simp only: py_sorted_PDict) (simp add: on_values_def)
qed simp_all

lemma py_eq_sorted [simp]: "py_eq (py_sorted v) w \<longleftrightarrow> py_eq v w" "py_eq w (py_sorted v) \<longleftrightarrow> py_eq w v"
  by (simp_all add: py_eq_def)

lemma map_sort_on_values: "map g (sort_key fst (on_values h d)) = map (\<lambda>(k, v). g (k, h v)) (sort_key fst d)"
  unfolding on_values_sorted by (simp add: on_values_def o_def case_prod_unfold)

lemma json_dumps_sorted [simp]: "json_dumps (py_sorted v) = json_dumps v"
proof (induction v)
  case (PDict d)
  let ?h = "\<lambda>(k, v). ascii_string k @ '':'' @ json_dumps v"
  have dump: "json_dumps (PDict e) = ''{'' @ join_with '','' (map ?h (sort_key fst e)) @ ''}''" for e
  proof -
    have "map snd (sort_key fst (map (\<lambda>(k, v). (k, ascii_string k @ '':'' @ json_dumps v)) e)) = map ?h (sort_key fst e)"
      unfolding sort_key_map by (simp add: o_def case_prod_unfold)
    then show ?thesis by simp
  qed
  have "map ?h (sort_key fst (sort_key fst (on_values py_sorted d))) = map (\<lambda>(k, v). ?h (k, py_sorted v)) (sort_key fst d)"
    unfolding sort_key_twice map_sort_on_values by simp
  also have "\<dots> = map ?h (sort_key fst d)" using PDict by (intro map_cong) force+
  finally show ?case unfolding py_sorted_PDict dump by simp
qed (simp_all cong: map_cong)

lemma sha256_json_sorted [simp]: "sha256_json cr (py_sorted v) = sha256_json cr v"
  by (simp add: sha256_json_def)


section \<open>Verified checkpoints\<close>

lemma reject_checkpoint_Inr [simp]: "reject_checkpoint c m = Inr () \<longleftrightarrow> \<not> c"
  by (simp add: reject_checkpoint_def)

text \<open>What verification establishes for the sorted value \<open>clean\<close>, its vector and its blob references.\<close>

definition checkpoint_holds :: "crypto \<Rightarrow> string option \<Rightarrow> pydict \<Rightarrow> (string, int) dict \<Rightarrow> pydict \<Rightarrow> bool" where
  "checkpoint_holds cr expected_cluster clean baseline blobs \<longleftrightarrow>
     (let cluster = get_str clean ''cluster_id''; part = py_get clean; materialized = dict_of (part ''materialized'') in
      py_eq (part ''schema_version'') (PInt 2) \<and> part ''kind'' = PStr ''shadow'' \<and> cluster \<noteq> [] \<and>
      (case expected_cluster of None \<Rightarrow> True | Some c \<Rightarrow> c = [] \<or> cluster = c) \<and>
      list_all (\<lambda>k. is_dict (part k)) [''materialized'', ''membership_trust'', ''migration_seal'', ''reducer_state''] \<and>
      normalized_vector (py_get materialized ''state_vector'') = Inr baseline \<and>
      section_cluster materialized ''cluster_nodes'' = Inr cluster \<and>
      section_cluster materialized ''desired_state'' = Inr cluster \<and>
      verify_hashes cr cluster baseline blobs clean = Inr () \<and> verify_times clean = Inr ())"

lemma verify_shadow_Inr:
  "verify_shadow_checkpoint cr ex v = Inr c \<longleftrightarrow> is_dict v \<and>
     (\<exists>baseline blobs. normalized_vector (py_get (dict_of (py_sorted v)) ''baseline_vector'') = Inr baseline \<and>
        normalized_blob_refs (py_get (dict_of (py_sorted v)) ''blob_refs'') = Inr blobs \<and>
        checkpoint_holds cr ex (dict_of (py_sorted v)) baseline blobs \<and>
        c = dict_set ''blob_refs'' (PDict blobs) (dict_set ''baseline_vector'' (vector_val baseline) (dict_of (py_sorted v))))"
  unfolding verify_shadow_checkpoint_def checkpoint_holds_def Let_def res_bind_eq_Inr
  by (auto split: option.splits)

text \<open>The conditions only look at other fields.\<close>

lemma checkpoint_holds_cong:
  assumes "\<And>k. k \<noteq> ''baseline_vector'' \<Longrightarrow> k \<noteq> ''blob_refs'' \<Longrightarrow> py_get c k = py_get d k"
  shows "checkpoint_holds cr ex c baseline blobs \<longleftrightarrow> checkpoint_holds cr ex d baseline blobs"
  unfolding checkpoint_holds_def verify_hashes_def verify_times_def Let_def get_str_def by (cases ex) (simp_all add: assms)

lemma dict_set_same: "map_of d k = Some v \<Longrightarrow> dict_set k v d = d"
  by (induction d) auto

lemma dict_set_twice: "dict_set k v (dict_set k w d) = dict_set k v d"
  by (induction d) auto

lemma dict_set_commute:
  "k \<noteq> l \<Longrightarrow> map_of d k \<noteq> None \<Longrightarrow> map_of d l \<noteq> None \<Longrightarrow> dict_set k v (dict_set l w d) = dict_set l w (dict_set k v d)"
  by (induction d) auto

lemma on_values_set: "on_values h (dict_set k v d) = dict_set k (h v) (on_values h d)"
  by (induction d) (auto simp: on_values_def)

lemma keys_dict_set: "map_of d k \<noteq> None \<Longrightarrow> map fst (dict_set k v d) = map fst d"
  by (induction d) auto

lemma normalized_vector_sorted:
  assumes "normalized_vector v = Inr b"
  shows "\<exists>d. v = PDict d \<and> sorted (map fst b) \<and> list_all (\<lambda>(_, n). 1 \<le> n) b"
proof -
  from assms obtain d where v: "v = PDict d"
    and r: "res_map (\<lambda>(actor, s). res_bind (strict_positive_int s ''state vector sequence'') (\<lambda>n. Inr (actor, n))) (dict_sorted d) = Inr b"
    by (auto simp: normalized_vector_def checkpoint_error_def split: pyval.splits)
  have "list_all2 (\<lambda>x y. fst y = fst x \<and> 1 \<le> snd y) (dict_sorted d) b"
    by (rule list_all2_mono [OF res_map_Inr_map [OF r]])
      (auto simp: res_bind_eq_Inr strict_positive_int_def strict_int_def checkpoint_error_def split: pyval.splits if_splits)
  then have "map fst b = map fst (dict_sorted d)" "list_all (\<lambda>(_, n). 1 \<le> n) b"
    by (auto simp: list_all2_conv_all_nth list_all_length intro: nth_equalityI)
  then show ?thesis using v by (simp add: dict_sorted_def)
qed

lemma normalized_vector_val:
  assumes "normalized_vector v = Inr b"
  shows "normalized_vector (vector_val b) = Inr b" "py_sorted (vector_val b) = vector_val b"
proof -
  note s = normalized_vector_sorted [OF assms]
  then have srt: "sort_key fst (map (\<lambda>(a, n). (a, PInt n)) b) = map (\<lambda>(a, n). (a, PInt n)) b"
    by (intro sort_key_sorted) (simp add: o_def case_prod_unfold)
  have "res_map (\<lambda>(a, s). res_bind (strict_positive_int s f) (\<lambda>n. Inr (a, n))) (map (\<lambda>(a, n). (a, PInt n)) e) = Inr e"
    if "list_all (\<lambda>(_, n). 1 \<le> n) e" for e :: "(string, int) dict" and f
    using that by (induction e) (auto simp: strict_positive_int_def strict_int_def)
  with s srt show "normalized_vector (vector_val b) = Inr b"
    by (simp add: normalized_vector_def vector_val_def dict_sorted_def)
  have "on_values py_sorted (map (\<lambda>(a, n). (a, PInt n)) b) = map (\<lambda>(a, n). (a, PInt n)) b"
    by (simp add: on_values_def o_def case_prod_unfold)
  with srt show "py_sorted (vector_val b) = vector_val b" by (simp only: vector_val_def py_sorted_PDict)
qed

lemma blob_hashes_Inr:
  assumes "blob_hashes d kind = Inr r"
  shows "\<exists>items. py_get d kind = PList items \<and> r = (kind, PList items) \<and> (\<forall>v \<in> set items. is_str v)"
  using assms by (auto simp: blob_hashes_def checkpoint_error_def split: pyval.splits if_splits)

lemma sorted_strings: "\<forall>v \<in> set items. is_str v \<Longrightarrow> py_sorted (PList items) = PList items"
proof -
  assume a: "\<forall>v \<in> set items. is_str v"
  have "py_sorted v = v" if "v \<in> set items" for v
    using bspec [OF a that] by (cases v) simp_all
  then show ?thesis by (simp add: map_idI)
qed

text \<open>The references are listed by kind, whatever the order of the dictionary they came in.\<close>

lemma normalized_blob_refs_val:
  assumes "normalized_blob_refs v = Inr refs"
  shows "normalized_blob_refs (py_sorted (PDict refs)) = Inr refs"
proof -
  from assms obtain d where r: "res_map (blob_hashes d) blob_kinds = Inr refs" and v: "v = PDict d"
    by (auto simp: normalized_blob_refs_def checkpoint_error_def res_bind_eq_Inr split: pyval.splits if_splits)
  then obtain r1 r2 r3 where rs: "blob_hashes d ''config'' = Inr r1" "blob_hashes d ''secret'' = Inr r2"
      "blob_hashes d ''sealed'' = Inr r3" "refs = [r1, r2, r3]"
    by (auto simp: blob_kinds_def res_bind_eq_Inr)
  from blob_hashes_Inr [OF rs(1)] blob_hashes_Inr [OF rs(2)] blob_hashes_Inr [OF rs(3)] obtain i1 i2 i3 where
    i: "r1 = (''config'', PList i1)" "r2 = (''secret'', PList i2)" "r3 = (''sealed'', PList i3)"
    "py_get d ''config'' = PList i1" "py_get d ''secret'' = PList i2" "py_get d ''sealed'' = PList i3"
    and str: "\<forall>v \<in> set i1. is_str v" "\<forall>v \<in> set i2. is_str v" "\<forall>v \<in> set i3. is_str v"
    by blast
  obtain e where e: "py_sorted (PDict refs) = PDict e" by simp
  have "py_get refs ''config'' = PList i1" "py_get refs ''secret'' = PList i2" "py_get refs ''sealed'' = PList i3"
    by (simp_all add: rs(4) i(1-3) py_get_def)
  then have "\<forall>kind \<in> set blob_kinds. py_get e kind = py_get d kind"
    using py_sorted_get [of refs] sorted_strings [OF str(1)] sorted_strings [OF str(2)] sorted_strings [OF str(3)]
    unfolding e dict_of.simps by (simp add: i(4-6) blob_kinds_def del: py_sorted.simps)
  then have same: "blob_hashes e kind = blob_hashes d kind" if "kind \<in> set blob_kinds" for kind
    using that by (simp add: blob_hashes_def)
  have "res_map (blob_hashes e) blob_kinds = res_map (blob_hashes d) blob_kinds" by (rule res_map_cong) (simp_all add: same)
  then have "res_map (blob_hashes e) blob_kinds = Inr refs" using r by simp
  moreover have "set (map fst e) = set blob_kinds"
  proof -
    have "set (map fst e) = set (map fst refs)" using e by (force simp: py_sorted_PDict on_values_def)
    then show ?thesis by (simp add: rs(4) i(1-3) blob_kinds_def)
  qed
  ultimately show ?thesis unfolding e by (simp add: normalized_blob_refs_def)
qed

text \<open>A verified checkpoint verifies to itself.\<close>

lemma verified_checkpoint_fixed:
  assumes "verify_shadow_checkpoint cr ex v = Inr c"
  shows "verify_shadow_checkpoint cr ex (PDict c) = Inr c" "verify_shadow_checkpoint cr None (PDict c) = Inr c"
proof -
  from assms obtain d baseline blobs where v: "v = PDict d"
    and b: "normalized_vector (py_get (dict_of (py_sorted v)) ''baseline_vector'') = Inr baseline"
    and r: "normalized_blob_refs (py_get (dict_of (py_sorted v)) ''blob_refs'') = Inr blobs"
    and h: "checkpoint_holds cr ex (dict_of (py_sorted v)) baseline blobs"
    and c: "c = dict_set ''blob_refs'' (PDict blobs) (dict_set ''baseline_vector'' (vector_val baseline) (dict_of (py_sorted v)))"
    unfolding verify_shadow_Inr by (metis dict_of.cases is_dict.simps)
  define s where "s = dict_of (py_sorted v)"
  define e where "e = dict_of (py_sorted (PDict c))"
  have present: "map_of s ''baseline_vector'' \<noteq> None" "map_of s ''blob_refs'' \<noteq> None"
    using b r by (auto simp: s_def py_get_def normalized_vector_def normalized_blob_refs_def checkpoint_error_def split: option.splits)
  have "sorted (map fst c)" using present unfolding c s_def [symmetric] by (simp add: keys_dict_set) (simp add: s_def v py_sorted_PDict)
  then have e: "e = on_values py_sorted c" unfolding e_def py_sorted_PDict by (simp add: sort_key_sorted on_values_def o_def case_prod_unfold)
  have s: "on_values py_sorted s = s"
  proof -
    have "on_values py_sorted s = on_values id s" by (rule on_values_cong) (auto simp: s_def v on_values_def)
    then show ?thesis by (simp add: on_values_def)
  qed
  have "e = dict_set ''blob_refs'' (py_sorted (PDict blobs)) (dict_set ''baseline_vector'' (vector_val baseline) s)"
    unfolding e c s_def [symmetric] on_values_set s normalized_vector_val(2) [OF b] by (rule refl)
  then have e: "e = dict_set ''blob_refs'' (py_sorted (PDict blobs)) c"
    by (simp add: c s_def [symmetric])
  have get: "py_get e k = py_get s k" if "k \<noteq> ''baseline_vector''" "k \<noteq> ''blob_refs''" for k
    using that by (simp add: e c s_def)
  have h': "checkpoint_holds cr ex e baseline blobs" using h checkpoint_holds_cong [of e s] get by (simp add: s_def)
  have eb: "py_get e ''baseline_vector'' = vector_val baseline" "py_get e ''blob_refs'' = py_sorted (PDict blobs)"
    by (simp_all add: e c del: py_sorted.simps)
  have "map_of c ''blob_refs'' = Some (PDict blobs)" "map_of c ''baseline_vector'' = Some (vector_val baseline)" by (simp_all add: c)
  then have "c = dict_set ''blob_refs'' (PDict blobs) (dict_set ''baseline_vector'' (vector_val baseline) e)"
    unfolding e by (simp add: dict_set_same dict_set_commute dict_set_twice)
  note parts = eb normalized_vector_val(1) [OF b] normalized_blob_refs_val [OF r] this
  show "verify_shadow_checkpoint cr ex (PDict c) = Inr c"
    using h' parts unfolding verify_shadow_Inr e_def [symmetric] by auto
  have "checkpoint_holds cr None e baseline blobs" using h' by (simp add: checkpoint_holds_def Let_def)
  then show "verify_shadow_checkpoint cr None (PDict c) = Inr c"
    using parts unfolding verify_shadow_Inr e_def [symmetric] by auto
qed

end
