(* ===== verification/Checkpoint_Laws.thy ===== *)
theory Checkpoint_Laws
  imports Checkpoint_Facts
begin

text \<open>
  What a committed checkpoint guarantees: every active replica of the state it holds has signed
  that very checkpoint; activation publishes the object it verified and never moves a node's
  baseline backwards.
\<close>

section \<open>Equality with known values\<close>

lemma py_eq_get:
  assumes "py_eq (PDict d) (PDict e)"
  shows "py_eq (py_get d k) (py_get e k)"
proof -
  have "sort_key fst (on_values py_normal d) = sort_key fst (on_values py_normal e)"
    using assms by (simp add: py_eq_def on_values_def)
  then have "map_of (on_values py_normal d) k = map_of (on_values py_normal e) k"
    using map_of_sort_key [of "on_values py_normal d"] map_of_sort_key [of "on_values py_normal e"] by simp
  then show ?thesis by (auto simp: map_of_on_values py_get_def py_eq_def split: option.splits)
qed

lemma py_eq_strings: "py_eq v (PList (map PStr xs)) \<Longrightarrow> v = PList (map PStr xs)"
proof -
  assume "py_eq v (PList (map PStr xs))"
  then have n: "py_normal v = PList (map PStr xs)" by (simp add: py_eq_def o_def)
  then obtain ws where v: "v = PList ws" by (cases v) (auto split: if_splits)
  have "ws = map PStr xs" if "map py_normal ws = map PStr xs"
    using that by (induction ws arbitrary: xs) (auto simp: Cons_eq_map_conv)
  with n v show ?thesis by simp
qed

lemma as_checkpoint_error_Inr [simp]: "as_checkpoint_error m = Inr x \<longleftrightarrow> m = Inr x"
  by (cases m) (auto simp: as_checkpoint_error_def split: pyexc.splits)

lemma expect_fields_Inr: "expect_fields what d expected = Inr () \<longleftrightarrow> (\<forall>e \<in> set expected. matches d e)"
  by (auto simp: expect_fields_def all_ok_iff)

section \<open>The type of verified checkpoints\<close>

text \<open>What every reader of a checkpoint relies on: its parts are objects, its hashes are theirs, its vectors agree.\<close>

definition checkpoint_wf :: "crypto \<Rightarrow> pydict \<Rightarrow> bool" where
  "checkpoint_wf cr c \<longleftrightarrow> (let part = py_get c in
     (\<forall>k \<in> set [''materialized'', ''membership_trust'', ''migration_seal'', ''reducer_state'']. is_dict (part k)) \<and>
     part ''state_hash'' = PStr (sha256_json cr (part ''materialized'')) \<and>
     part ''membership_hash'' = PStr (sha256_json cr (part ''membership_trust'')) \<and>
     part ''reducer_hash'' = PStr (sha256_json cr (part ''reducer_state'')) \<and>
     (\<exists>baseline. part ''baseline_vector'' = vector_val baseline \<and> list_all (\<lambda>(_, n). 1 \<le> n) baseline \<and>
        normalized_vector (py_get (dict_of (part ''materialized'')) ''state_vector'') = Inr baseline))"

text \<open>
  C32: Verification is a type check: a checkpoint that verifies is well-formed, its form is canonical (it verifies to
  itself, without any change), and when a cluster was expected it belongs to that cluster.
\<close>

theorem verified_checkpoint_wf:
  assumes "verify_shadow_checkpoint cr ex v = Inr c"
  shows "checkpoint_wf cr c \<and> verify_shadow_checkpoint cr ex (PDict c) = Inr c \<and>
    (\<forall>cluster. ex = Some cluster \<longrightarrow> cluster = [] \<or> get_str c ''cluster_id'' = cluster)"
proof -
  from assms obtain baseline blobs where h: "checkpoint_holds cr ex (dict_of (py_sorted v)) baseline blobs"
    and n: "normalized_vector (py_get (dict_of (py_sorted v)) ''baseline_vector'') = Inr baseline"
    and c: "c = dict_set ''blob_refs'' (PDict blobs) (dict_set ''baseline_vector'' (vector_val baseline) (dict_of (py_sorted v)))"
    unfolding verify_shadow_Inr by blast
  have get: "py_get c k = py_get (dict_of (py_sorted v)) k" if "k \<noteq> ''baseline_vector''" "k \<noteq> ''blob_refs''" for k
    using that by (simp add: c)
  have b: "py_get c ''baseline_vector'' = vector_val baseline" by (simp add: c)
  from normalized_vector_sorted [OF n] have pos: "list_all (\<lambda>(_, n). 1 \<le> n) baseline" by blast
  from h have d: "\<forall>k \<in> set [''materialized'', ''membership_trust'', ''migration_seal'', ''reducer_state'']. is_dict (py_get c k)"
    and vh: "verify_hashes cr (get_str (dict_of (py_sorted v)) ''cluster_id'') baseline blobs (dict_of (py_sorted v)) = Inr ()"
    and v: "normalized_vector (py_get (dict_of (py_get c ''materialized'')) ''state_vector'') = Inr baseline"
    and e: "\<forall>cluster. ex = Some cluster \<longrightarrow> cluster = [] \<or> get_str c ''cluster_id'' = cluster"
    by (auto simp: checkpoint_holds_def Let_def get get_str_def)
  from vh have hs: "py_get c ''state_hash'' = PStr (sha256_json cr (py_get c ''materialized''))"
    "py_get c ''membership_hash'' = PStr (sha256_json cr (py_get c ''membership_trust''))"
    "py_get c ''reducer_hash'' = PStr (sha256_json cr (py_get c ''reducer_state''))"
    unfolding verify_hashes_def Let_def res_bind_eq_Inr by (auto simp: get)
  show ?thesis using verified_checkpoint_fixed(1) [OF assms] d hs b pos v e by (auto simp: checkpoint_wf_def Let_def)
qed

section \<open>What was signed\<close>

text \<open>The document carries a valid signature with the key the checkpoint's membership has for the node.\<close>

definition signed_by :: "crypto \<Rightarrow> pydict \<Rightarrow> string \<Rightarrow> pydict \<Rightarrow> bool" where
  "signed_by cr clean node doc \<longleftrightarrow> (\<exists>key. control_key clean node = Inr key \<and> verify_operation cr doc key = Inr ())"

lemma verify_control_Inr: "verify_control cr clean doc node = Inr () \<Longrightarrow> signed_by cr clean node doc"
  by (auto simp: verify_control_def signed_by_def res_bind_eq_Inr)

text \<open>The active nodes of the state a checkpoint holds.\<close>

definition active_ids :: "pydict \<Rightarrow> string list" where
  "active_ids clean = map fst (active_nodes (dict_of (py_get (dict_of (py_get (dict_of
     (py_get clean ''materialized'')) ''cluster_nodes'')) ''nodes'')))"

lemma seal_active_ids:
  assumes "build_migration_seal m = Inr seal"
  shows "py_get seal ''active_node_ids'' = PList (map PStr (sort (map fst (active_nodes (dict_of (py_get (dict_of
    (py_get (dict_of m) ''cluster_nodes'')) ''nodes''))))))"
  using assms unfolding build_migration_seal_def Let_def res_bind_eq_Inr by (auto simp: py_get_def)

lemma verified_parts:
  assumes "verify_shadow_checkpoint cr ex v = Inr c"
  obtains seal cid where "build_migration_seal (py_get c ''materialized'') = Inr seal"
    "py_eq (py_get c ''migration_seal'') (PDict seal)" "is_dict (py_get c ''migration_seal'')"
    "py_get c ''checkpoint_id'' = PStr (sha256_json cr cid)"
proof -
  from assms obtain baseline blobs where h: "checkpoint_holds cr ex (dict_of (py_sorted v)) baseline blobs"
    and c: "c = dict_set ''blob_refs'' (PDict blobs) (dict_set ''baseline_vector'' (vector_val baseline) (dict_of (py_sorted v)))"
    unfolding verify_shadow_Inr by blast
  have get: "py_get c k = py_get (dict_of (py_sorted v)) k" if "k \<noteq> ''baseline_vector''" "k \<noteq> ''blob_refs''" for k
    using that by (simp add: c)
  from h have "is_dict (py_get c ''migration_seal'')"
    and vh: "verify_hashes cr (get_str (dict_of (py_sorted v)) ''cluster_id'') baseline blobs (dict_of (py_sorted v)) = Inr ()"
    by (simp_all add: checkpoint_holds_def Let_def get)
  with that show ?thesis unfolding verify_hashes_def Let_def res_bind_eq_Inr by (auto simp: get)
qed

lemma seal_ids:
  assumes "verify_shadow_checkpoint cr ex v = Inr c"
  shows "py_get (dict_of (py_get c ''migration_seal'')) ''active_node_ids'' = PList (map PStr (sort (active_ids c)))"
proof -
  from verified_parts [OF assms] obtain seal cid where s: "build_migration_seal (py_get c ''materialized'') = Inr seal"
    "py_eq (py_get c ''migration_seal'') (PDict seal)" "is_dict (py_get c ''migration_seal'')" by metis
  obtain d where d: "py_get c ''migration_seal'' = PDict d" using s(3) by (cases "py_get c ''migration_seal''") simp_all
  from py_eq_get [OF s(2) [unfolded d], of "''active_node_ids''"] show ?thesis
    unfolding seal_active_ids [OF s(1)] active_ids_def d dict_of.simps by (rule py_eq_strings)
qed

lemma required_ids_eq:
  assumes "verify_shadow_checkpoint cr ex v = Inr c"
  shows "required_ids c = Inr (map PStr (sort (active_ids c)))"
  by (simp add: required_ids_def get_list_def seal_ids [OF assms] py_or_def)

text \<open>What a verified proposal says.\<close>

lemma verify_proposal_Inr:
  assumes clean: "verify_shadow_checkpoint cr None cp = Inr clean" and "verify_proposal cr cp proposal now = Inr p"
  shows "py_get p ''required_node_ids'' = PList (map PStr (sort (active_ids clean))) \<and>
    p = dict_of (py_sorted proposal) \<and> is_dict proposal \<and>
    (\<exists>coordinator. coordinator_id clean = Inr coordinator \<and> signed_by cr clean coordinator p)"
proof -
  from assms obtain fields coordinator where p: "p = dict_of (py_sorted proposal)" "is_dict proposal"
    and f: "coordinator_id clean = Inr coordinator" "proposal_fields clean coordinator = Inr fields"
      "expect_fields ''checkpoint proposal'' p fields = Inr ()" "verify_control cr clean p coordinator = Inr ()"
    unfolding verify_proposal_def Let_def res_bind_eq_Inr by auto
  from f(2) have "(''required_node_ids'', PList (map PStr (sort (active_ids clean)))) \<in> set fields"
    unfolding proposal_fields_def res_bind_eq_Inr required_ids_eq [OF clean] by auto
  with f(3) have "matches p (''required_node_ids'', PList (map PStr (sort (active_ids clean))))" by (simp add: expect_fields_Inr)
  then have "py_get p ''required_node_ids'' = PList (map PStr (sort (active_ids clean)))"
    by (auto simp: matches_def intro: py_eq_strings)
  with p f verify_control_Inr show ?thesis by blast
qed

text \<open>The acknowledgement of a node: signed by it, for this checkpoint and this proposal.\<close>

definition acknowledges :: "crypto \<Rightarrow> pydict \<Rightarrow> string \<Rightarrow> string \<Rightarrow> pyval \<Rightarrow> bool" where
  "acknowledges cr clean pid node ack \<longleftrightarrow> (let a = dict_of (py_sorted ack) in
     get_str a ''node_id'' = node \<and> py_get a ''kind'' = PStr ''PBCLUSTER_CHECKPOINT_ACK'' \<and>
     py_get a ''checkpoint_id'' = py_get clean ''checkpoint_id'' \<and> py_get a ''proposal_id'' = PStr pid \<and>
     py_eq (py_get a ''baseline_vector'') (py_get clean ''baseline_vector'') \<and> signed_by cr clean node a)"

lemma verified_id:
  assumes "verify_shadow_checkpoint cr ex v = Inr c"
  shows "\<exists>j. py_get c ''checkpoint_id'' = PStr (sha256_json cr j)"
  using verified_parts [OF assms] by metis

lemma verify_ack_Inr:
  assumes clean: "verify_shadow_checkpoint cr None (PDict clean) = Inr clean"
    and p: "verify_proposal cr (PDict clean) (PDict p) now = Inr p"
    and "verify_ack cr (PDict clean) (PDict p) now ack = Inr a"
  shows "acknowledges cr clean (py_str (py_get p ''proposal_id'')) (get_str a ''node_id'') ack \<and> is_required p (get_str a ''node_id'')"
proof -
  from assms(3) obtain fields expires where a: "a = dict_of (py_sorted ack)" and req: "is_required p (get_str a ''node_id'')"
    and k: "py_get a ''kind'' = PStr ''PBCLUSTER_CHECKPOINT_ACK''"
    and f: "ack_fields clean p expires = Inr fields" "expect_fields ''checkpoint ACK'' a (fields @ [(''signer_id'', PStr (get_str a ''node_id''))]) = Inr ()"
      "verify_control cr clean a (get_str a ''node_id'') = Inr ()"
    by (auto simp: verify_ack_def Let_def clean p res_bind_eq_Inr)
  from verified_id [OF clean] obtain j where j: "py_get clean ''checkpoint_id'' = PStr (sha256_json cr j)" by blast
  from f(1) obtain cluster pid cid baseline where fs: "item_str p ''proposal_id'' = Inr pid" "item_str clean ''checkpoint_id'' = Inr cid"
    "py_item clean ''baseline_vector'' = Inr (PDict baseline)"
    "fields = [(''cluster_id'', PStr cluster), (''proposal_id'', PStr pid), (''checkpoint_id'', PStr cid),
       (''baseline_vector'', PDict baseline), (''expires_at'', PInt expires)]"
    unfolding ack_fields_def res_bind_eq_Inr by (auto elim!: py_dict.elims)
  from fs(1) have pid: "pid = py_str (py_get p ''proposal_id'')" by (auto simp: item_str_Inr py_get_def)
  from fs(2) j have cid: "PStr cid = py_get clean ''checkpoint_id''" by (auto simp: item_str_Inr py_get_def)
  from fs(3) have b: "py_get clean ''baseline_vector'' = PDict baseline" by (rule py_item_get)
  from f(2) have "py_get a ''proposal_id'' = PStr pid" "py_get a ''checkpoint_id'' = PStr cid"
    "py_eq (py_get a ''baseline_vector'') (PDict baseline)"
    unfolding expect_fields_Inr fs(4) by (simp_all add: matches_def)
  with k req verify_control_Inr [OF f(3)] show ?thesis
    unfolding acknowledges_def Let_def a [symmetric] pid [symmetric] cid [symmetric] b by simp
qed


section \<open>Commit proofs\<close>

text \<open>A proof that the coordinator signed and that holds an acknowledgement of every active node.\<close>

definition fully_acknowledged :: "crypto \<Rightarrow> pydict \<Rightarrow> pydict \<Rightarrow> bool" where
  "fully_acknowledged cr clean proof \<longleftrightarrow>
     (\<exists>coordinator. coordinator_id clean = Inr coordinator \<and> signed_by cr clean coordinator proof) \<and>
     (\<exists>pid. \<forall>node \<in> set (active_ids clean). \<exists>ack \<in> set (list_of (py_get proof ''acknowledgements'')).
        acknowledges cr clean pid node ack)"

lemma verify_proposal_again:
  assumes "verify_shadow_checkpoint cr None cp = Inr clean" and "verify_proposal cr cp v now = Inr p"
  shows "verify_proposal cr cp (PDict p) now = Inr p"
proof -
  from verify_proposal_Inr [OF assms] have p: "p = dict_of (py_sorted v)" "is_dict v" by simp_all
  then have "PDict p = py_sorted v" by (cases v) simp_all
  then have "py_sorted (PDict p) = PDict p" by (metis py_sorted_idem)
  with assms(2) p show ?thesis unfolding verify_proposal_def Let_def by simp
qed

text \<open>The nodes whose acknowledgements were verified; an empty name is never required.\<close>

lemma acknowledging_nodes_Inr:
  assumes clean: "verify_shadow_checkpoint cr None (PDict clean) = Inr clean"
    and p: "verify_proposal cr (PDict clean) (PDict p) now = Inr p"
    and "acknowledging_nodes cr clean p now v = Inr ns" and "[] \<notin> set (active_ids clean)" and "node \<in> set ns"
  shows "\<exists>ack \<in> set (list_of v). acknowledges cr clean (py_str (py_get p ''proposal_id'')) node ack"
proof -
  obtain acks where acks: "v = PList acks"
    "res_map (\<lambda>ack. res_bind (verify_ack cr (PDict clean) (PDict p) now ack) (\<lambda>a. item_str a ''node_id'')) acks = Inr ns"
    using assms(3) by (auto simp: acknowledging_nodes_def checkpoint_error_def split: pyval.splits)
  from res_map_Inr_map [OF acks(2)] assms(5) obtain ack a where a: "ack \<in> set acks"
    "verify_ack cr (PDict clean) (PDict p) now ack = Inr a" "item_str a ''node_id'' = Inr node"
    by (auto simp: list_all2_conv_all_nth in_set_conv_nth res_bind_eq_Inr) metis
  note r = verify_ack_Inr [OF clean p a(2)]
  have "PStr (get_str a ''node_id'') \<in> set (list_of (py_get p ''required_node_ids''))"
    using r by (simp add: is_required_def)
  then have "get_str a ''node_id'' \<in> set (active_ids clean)"
    using verify_proposal_Inr [OF clean p] by auto
  then have "get_str a ''node_id'' \<noteq> []" using assms(4) by metis
  then have "truthy (py_get a ''node_id'')" by (auto simp: get_str_def py_or_def split: if_splits)
  then have "get_str a ''node_id'' = node"
    using a(3) by (auto simp: item_str_Inr get_str_def py_get_def py_or_def)
  with r a(1) acks(1) show ?thesis by auto
qed

lemma commit_proof_acknowledged:
  assumes clean: "verify_shadow_checkpoint cr None cp = Inr clean" and "verify_commit_proof cr anchor cp commit_proof = Inr proof"
    and "[] \<notin> set (active_ids clean)"
  shows "fully_acknowledged cr clean proof"
proof -
  note again = verified_checkpoint_fixed(2) [OF clean]
  from assms obtain now p coordinator ns where
    p: "verify_proposal cr (PDict clean) (py_or (py_get proof ''proposal'') (PDict [])) now = Inr p"
    and c: "coordinator_id clean = Inr coordinator" "verify_control cr clean proof coordinator = Inr ()"
    and ns: "acknowledging_nodes cr clean p now (py_get proof ''acknowledgements'') = Inr ns"
      "map PStr (sort ns) = list_of (py_get p ''required_node_ids'')"
    unfolding verify_commit_proof_def Let_def res_bind_eq_Inr by auto
  have "map PStr (sort ns) = map PStr (sort (active_ids clean))" using ns(2) verify_proposal_Inr [OF again p, THEN conjunct1] by simp
  then have "sort ns = sort (active_ids clean)" by (simp add: inj_on_def inj_map_eq_map)
  then have "set ns = set (active_ids clean)" by (metis set_sort)
  with acknowledging_nodes_Inr [OF again verify_proposal_again [OF again p] ns(1) assms(3)] c verify_control_Inr
  show ?thesis unfolding fully_acknowledged_def by blast
qed

lemma read_copies_verified:
  "read_copies cr st cid stems = Inr c \<Longrightarrow> verify_shadow_checkpoint cr None (PDict c) = Inr c"
proof (induction stems)
  case Nil
  then show ?case by (simp add: checkpoint_error_def)
next
  case (Cons stem stems)
  then show ?case
    by (auto simp: res_bind_eq_Inr split: option.splits json_file.splits sum.splits pyexc.splits dest: verified_checkpoint_fixed(2))
qed

lemma read_committed_Inr:
  "read_committed cr st commit = Inr c \<Longrightarrow> read_current cr st commit = Inr c \<or> read_previous cr st commit = Inr c"
  by (auto simp: read_committed_def Let_def checkpoint_error_def split: sum.splits pyexc.splits if_splits)

text \<open>
  C26: A node only ever works from a checkpoint that the cluster committed: whatever the files of its store hold, the
  checkpoint it reads as active comes with a proof that is signed by the elected coordinator and holds, for every
  active replica of the state in the checkpoint, an acknowledgement of this very checkpoint signed by that replica.
\<close>

theorem active_checkpoint_acknowledged:
  assumes "read_active cr st = Inr (Some c)" and "[] \<notin> set (active_ids c)"
  shows "\<exists>proof. fully_acknowledged cr c proof"
proof -
  from assms(1) obtain commit where "read_current cr st commit = Inr c \<or> read_previous cr st commit = Inr c"
    unfolding read_active_def res_bind_eq_Inr by (auto simp: res_bind_eq_Inr split: option.splits dest: read_committed_Inr)
  then obtain cid v pf where "read_checkpoint_object cr st cid = Inr c" and pf: "verify_commit_proof cr None (PDict c) v = Inr pf"
    unfolding read_current_def read_previous_def res_bind_eq_Inr by blast
  then have "verify_shadow_checkpoint cr None (PDict c) = Inr c"
    by (auto simp: read_checkpoint_object_def checkpoint_error_def simp del: read_copies.simps split: if_splits
        intro: read_copies_verified)
  from commit_proof_acknowledged [OF this pf assms(2)] show ?thesis by blast
qed


section \<open>Activation\<close>

text \<open>The epoch and the baseline a node's pointer names.\<close>

definition pointer :: "checkpoint_store \<Rightarrow> (int \<times> (string, int) dict) option" where
  "pointer st = (case read_commit st of
     Inr (Some c) \<Rightarrow>
       (case (get_int c ''epoch'' 0, normalized_vector (py_or (py_get c ''baseline_vector'') (PDict []))) of
          (Inr e, Inr b) \<Rightarrow> Some (e, b) | _ \<Rightarrow> None)
   | _ \<Rightarrow> None)"

lemma pointer_cong: "commit_file st = commit_file st' \<Longrightarrow> pointer st = pointer st'"
  by (simp add: pointer_def read_commit_def)

lemma not_back:
  assumes "\<not> moves_back old new" and "normalized_vector v = Inr new"
  shows "vector_get old a \<le> vector_get new a"
proof (cases "map_of old a")
  case None
  from normalized_vector_sorted [OF assms(2)] have "\<forall>n. (a, n) \<in> set new \<longrightarrow> 1 \<le> n" by (auto simp: list_all_iff)
  then have "0 \<le> vector_get new a" by (auto simp: vector_get_def dest: map_of_SomeD split: option.split)
  then show ?thesis by (simp add: None vector_get_def)
next
  case (Some n)
  then have "(a, n) \<in> set old" by (rule map_of_SomeD)
  with assms(1) have "n \<le> vector_get new a" by (force simp: moves_back_def)
  then show ?thesis by (simp add: Some vector_get_def)
qed

text \<open>What was checked, and the pointer that results.\<close>

lemma prepare_activation_Inr:
  assumes "prepare_activation cr cp v now ok st = Inr (commit, clean)"
  shows "verify_shadow_checkpoint cr (Some (local_cluster st)) cp = Inr clean"
    "\<exists>pf epoch old baseline cid previous pp t. verify_commit_proof cr None (PDict clean) v = Inr pf \<and>
       (\<forall>e0 b0. pointer st = Some (e0, b0) \<longrightarrow> e0 = epoch \<and> b0 = old) \<and> \<not> moves_back old baseline \<and>
       normalized_vector (py_get clean ''baseline_vector'') = Inr baseline \<and> item_str clean ''checkpoint_id'' = Inr cid \<and>
       commit = pointer_record cr (local_cluster st) (epoch + 1) cid previous pp baseline t pf"
proof -
  from assms show "verify_shadow_checkpoint cr (Some (local_cluster st)) cp = Inr clean"
    unfolding prepare_activation_def Let_def by (auto simp: res_bind_eq_Inr)
  from assms obtain pf current epoch old_b baseline cid previous pp t where r:
    "verify_commit_proof cr None (PDict clean) v = Inr pf" "read_commit st = Inr current"
    "get_int (case current of None \<Rightarrow> [] | Some c \<Rightarrow> c) ''epoch'' 0 = Inr epoch"
    "normalized_vector (py_or (py_get (case current of None \<Rightarrow> [] | Some c \<Rightarrow> c) ''baseline_vector'') (PDict [])) = Inr old_b"
    "\<not> moves_back old_b baseline" "res_bind (py_item clean ''baseline_vector'') normalized_vector = Inr baseline"
    "item_str clean ''checkpoint_id'' = Inr cid"
    "commit = pointer_record cr (local_cluster st) (epoch + 1) cid previous pp baseline t pf"
    unfolding prepare_activation_def Let_def by (auto simp: res_bind_eq_Inr)
  have "normalized_vector (py_get clean ''baseline_vector'') = Inr baseline" using r(6) by (auto simp: res_bind_eq_Inr dest: py_item_get)
  moreover have "\<forall>e0 b0. pointer st = Some (e0, b0) \<longrightarrow> e0 = epoch \<and> b0 = old_b"
    using r(2-4) by (cases current) (auto simp: pointer_def)
  ultimately show "\<exists>pf epoch old baseline cid previous pp t. verify_commit_proof cr None (PDict clean) v = Inr pf \<and>
       (\<forall>e0 b0. pointer st = Some (e0, b0) \<longrightarrow> e0 = epoch \<and> b0 = old) \<and> \<not> moves_back old baseline \<and>
       normalized_vector (py_get clean ''baseline_vector'') = Inr baseline \<and> item_str clean ''checkpoint_id'' = Inr cid \<and>
       commit = pointer_record cr (local_cluster st) (epoch + 1) cid previous pp baseline t pf"
    using r(1,5,7,8) by blast
qed

lemma sha256_json_nonempty: "sha256_json cr v \<noteq> []"
  by (simp add: sha256_json_def)

lemma pointer_record_get:
  fixes cr cluster epoch cid previous pp baseline now pf
  defines "r \<equiv> pointer_record cr cluster epoch cid previous pp baseline now pf"
  shows "py_get r ''schema_version'' = PInt 1" "py_get r ''cluster_id'' = PStr cluster" "py_get r ''epoch'' = PInt epoch"
    "py_get r ''current_checkpoint_id'' = PStr cid" "py_get r ''previous_checkpoint_id'' = PStr previous"
    "py_get r ''baseline_vector'' = vector_val baseline" "py_get r ''commit_proof'' = PDict pf"
    "get_str r ''commit_id'' = sha256_json cr (PDict (dict_pop ''commit_id'' r))"
  by (simp_all add: r_def pointer_record_def Let_def py_get_def get_str_def py_or_def sha256_json_nonempty)

text \<open>A step writes the pointer it prepared, or leaves the pointer alone.\<close>

lemma write_object_pointer: "write_object cr v st = (r, st') \<Longrightarrow> commit_file st' = commit_file st"
  by (auto simp: write_object_def write_copy_def checkpoint_error_def res_bind_eq_Inr
      split: sum.splits prod.splits option.splits json_file.splits)

lemma activate_pointer:
  assumes "activate_checkpoint cr cp v now ok st = (r, st')"
  shows "commit_file st' = commit_file st \<or>
    (\<exists>commit clean. prepare_activation cr cp v now ok st = Inr (commit, clean) \<and> commit_file st' = Some (Json (PDict commit)))"
  using assms by (auto simp: activate_checkpoint_def Let_def split: sum.splits prod.splits dest: write_object_pointer)

lemma activate_step:
  assumes "activate_checkpoint cr cp v now ok st = (r, st')" and "pointer st = Some (e, b)"
  shows "\<exists>e' b'. pointer st' = Some (e', b') \<and> e \<le> e' \<and> (\<forall>a. vector_get b a \<le> vector_get b' a) \<and>
    (e' = e \<longrightarrow> commit_file st' = commit_file st)"
  using activate_pointer [OF assms(1)]
proof
  assume "commit_file st' = commit_file st"
  with assms(2) pointer_cong [OF this] show ?thesis by simp
next
  assume "\<exists>commit clean. prepare_activation cr cp v now ok st = Inr (commit, clean) \<and> commit_file st' = Some (Json (PDict commit))"
  then obtain commit clean where p: "prepare_activation cr cp v now ok st = Inr (commit, clean)"
    and f: "commit_file st' = Some (Json (PDict commit))" by blast
  from prepare_activation_Inr(2) [OF p] obtain pf epoch old baseline cid previous pp t where
    old: "pointer st = Some (e0, b0) \<Longrightarrow> e0 = epoch \<and> b0 = old" and nb: "\<not> moves_back old baseline"
    and n: "normalized_vector (py_get clean ''baseline_vector'') = Inr baseline"
    and c: "commit = pointer_record cr (local_cluster st) (epoch + 1) cid previous pp baseline t pf" for e0 b0
    by blast
  have "py_or (vector_val baseline) (PDict []) = vector_val baseline" by (simp add: py_or_def vector_val_def)
  then have "pointer st' = Some (epoch + 1, baseline)"
    using normalized_vector_val(1) [OF n] by (simp add: pointer_def read_commit_def f c pointer_record_get get_int_def py_or_def)
  with old [OF assms(2)] not_back [OF nb n] show ?thesis by simp
qed

inductive activations :: "crypto \<Rightarrow> checkpoint_store \<Rightarrow> checkpoint_store \<Rightarrow> bool" for cr where
  activations_refl: "activations cr st st"
| activations_step: "activations cr st st1 \<Longrightarrow> activate_checkpoint cr cp v now ok st1 = (r, st2) \<Longrightarrow> activations cr st st2"

text \<open>
  C27: Through any sequence of activations, successful or not, the epoch a node's pointer names never falls and no
  actor's baseline moves backwards; as long as the epoch is the same, so is the pointer.
\<close>

theorem activation_monotone:
  assumes "activations cr st st'" and "pointer st = Some (e, b)"
  shows "\<exists>e' b'. pointer st' = Some (e', b') \<and> e \<le> e' \<and> (\<forall>a. vector_get b a \<le> vector_get b' a) \<and>
    (e' = e \<longrightarrow> commit_file st' = commit_file st)"
  using assms
proof induction
  case activations_refl
  then show ?case by simp
next
  case (activations_step st st1 cp v now ok r st2)
  then obtain e1 b1 where 1: "pointer st1 = Some (e1, b1)" "e \<le> e1" "\<forall>a. vector_get b a \<le> vector_get b1 a"
    "e1 = e \<longrightarrow> commit_file st1 = commit_file st" by blast
  from activate_step [OF activations_step.hyps(2) 1(1)] obtain e2 b2 where
    2: "pointer st2 = Some (e2, b2)" "e1 \<le> e2" "\<forall>a. vector_get b1 a \<le> vector_get b2 a"
    "e2 = e1 \<longrightarrow> commit_file st2 = commit_file st1" by blast
  from 1 2 show ?case by (auto intro: order_trans)
qed


section \<open>Publication\<close>

text \<open>SHA-256 in hexadecimal: 64 lowercase digits.\<close>

definition sha256_hex_ok :: "crypto \<Rightarrow> bool" where
  "sha256_hex_ok cr \<longleftrightarrow> (\<forall>s. length (sha256_hex cr s) = 64 \<and> set (sha256_hex cr s) \<subseteq> set ''0123456789abcdef'')"

lemma is_sha256_json: "sha256_hex_ok cr \<Longrightarrow> is_sha256 (sha256_json cr v)"
  by (simp add: sha256_hex_ok_def is_sha256_def sha256_json_def startswith_def)

lemma verify_commit_proof_again:
  assumes "verify_commit_proof cr anchor cp v = Inr pf"
  shows "verify_commit_proof cr anchor cp (PDict pf) = Inr pf" "truthy (PDict pf)"
proof -
  from assms have pf: "pf = dict_of (py_sorted v)" "is_dict v" "py_get pf ''kind'' = PStr ''PBCLUSTER_CHECKPOINT_COMMIT''"
    unfolding verify_commit_proof_def Let_def by (auto simp: res_bind_eq_Inr)
  then have "PDict pf = py_sorted v" by (cases v) simp_all
  then have ps: "py_sorted (PDict pf) = py_sorted v" by (metis py_sorted_idem)
  have "verify_commit_proof cr anchor cp (PDict pf) = verify_commit_proof cr anchor cp v"
    by (simp only: verify_commit_proof_def ps is_dict.simps pf(2))
  with assms show "verify_commit_proof cr anchor cp (PDict pf) = Inr pf" by simp
  from pf(3) show "truthy (PDict pf)" by (auto simp: py_get_def)
qed

lemma backup_stem_other: "backup_stem cid \<noteq> object_stem cid"
  by (simp add: backup_stem_def)

text \<open>
  Publication: when everything that is checked beforehand holds and the node has no copy of the object yet, the
  activation succeeds, the object is stored twice, and it is the checkpoint the node reads as active from then on.
\<close>

theorem activation_publishes:
  assumes sha: "sha256_hex_ok cr" and prep: "prepare_activation cr cp v now ok st = Inr (commit, clean)"
    and id: "item_str clean ''checkpoint_id'' = Inr cid"
    and fresh: "map_of (checkpoint_objects st) (object_stem cid) = None" "map_of (checkpoint_objects st) (backup_stem cid) = None"
  shows "\<exists>st'. activate_checkpoint cr cp v now ok st = (Inr commit, st') \<and> read_active cr st' = Inr (Some clean) \<and>
    map_of (checkpoint_objects st') (object_stem cid) = Some (Json (PDict clean)) \<and>
    map_of (checkpoint_objects st') (backup_stem cid) = Some (Json (PDict clean))"
proof -
  note p = prepare_activation_Inr [OF prep]
  note fixed = verified_checkpoint_fixed [OF p(1)]
  from p(2) id obtain pf epoch baseline previous pp t where pf: "verify_commit_proof cr None (PDict clean) v = Inr pf"
    and n: "normalized_vector (py_get clean ''baseline_vector'') = Inr baseline"
    and c: "commit = pointer_record cr (local_cluster st) (epoch + 1) cid previous pp baseline t pf"
    by (metis old.sum.inject(2))
  from verified_id [OF p(1)] obtain j where j: "py_get clean ''checkpoint_id'' = PStr (sha256_json cr j)" by blast
  then have cid: "cid = sha256_json cr j" "get_str clean ''checkpoint_id'' = cid"
    using id by (auto simp: item_str_Inr py_get_def split: option.splits)
  define st1 where "st1 = st\<lparr>checkpoint_objects := dict_set (backup_stem cid) (Json (PDict clean))
    (dict_set (object_stem cid) (Json (PDict clean)) (checkpoint_objects st))\<rparr>"
  define st2 where "st2 = st1\<lparr>commit_file := Some (Json (PDict commit))\<rparr>"
  have w: "write_object cr (PDict clean) st = (Inr (), st1)"
    using fresh backup_stem_other [of cid] by (simp add: write_object_def fixed(1) id write_copy_def st1_def)
  have st2: "map_of (checkpoint_objects st2) (object_stem cid) = Some (Json (PDict clean))"
    "map_of (checkpoint_objects st2) (backup_stem cid) = Some (Json (PDict clean))" "local_cluster st2 = local_cluster st"
    using backup_stem_other [of cid] by (simp_all add: st2_def st1_def)
  have "read_checkpoint_object cr st2 cid = Inr clean"
    using is_sha256_json [OF sha, of j] by (simp add: read_checkpoint_object_def cid(1) [symmetric] st2 fixed(1) cid(2) reject_checkpoint_def)
  moreover have "py_eq (vector_val baseline) (py_get clean ''baseline_vector'')"
  proof -
    from p(1) obtain b where b: "py_get clean ''baseline_vector'' = vector_val b" and nb: "normalized_vector (vector_val b) = Inr b"
      unfolding verify_shadow_Inr using normalized_vector_val(1) by auto
    with n show ?thesis by simp
  qed
  ultimately have cur: "read_current cr st2 commit = Inr clean"
    using verify_commit_proof_again [OF pf] normalized_vector_val(1) [OF n]
    by (simp add: read_current_def c pointer_record_get get_str_def cid py_or_def sha256_json_def reject_checkpoint_def)
  have rc: "read_commit st2 = Inr (Some commit)"
    by (simp add: read_commit_def st2_def c pointer_record_get)
  have "read_active cr st2 = Inr (Some clean)"
    unfolding read_active_def rc using cur pointer_record_get(8) [of cr "local_cluster st" "epoch + 1" cid previous pp baseline t pf]
    by (simp add: st2(3) read_committed_def c [symmetric] reject_checkpoint_def)
       (simp add: c pointer_record_get get_str_def py_or_def)
  then show ?thesis using prep w st2 by (auto simp: activate_checkpoint_def st2_def)
qed

end
