(* ===== verification/Prune_Laws.thy ===== *)
theory Prune_Laws
  imports Checkpoint_Prune Checkpoint_Laws Convergence_Laws
begin

text \<open>
  Pruning deletes only what every replica has committed twice, and a node cannot tell that it
  happened: the state it rebuilds, the trust it loads and its active checkpoint stay the same.
\<close>

section \<open>Listing after a deletion\<close>

lemma sort_key_keep_keys:
  "sort_key fst (map (\<lambda>(a, x). (a, h a x)) d) = map (\<lambda>(a, x). (a, h a x)) (sort_key fst d)"
proof (induction d)
  case (Cons p d)
  have "insort_key fst (a, h a x) (map (\<lambda>(a, x). (a, h a x)) l) = map (\<lambda>(a, x). (a, h a x)) (insort_key fst (a, x) l)" for a x l
    by (induction l) auto
  with Cons show ?case by (cases p) simp
qed simp

lemma delete_filter: "dict_pop k d = filter (\<lambda>(l, _). l \<noteq> k) d"
  by (induction d) auto

lemma json_files_pop: "json_files (dict_pop name fs) = filter (\<lambda>(l, _). l \<noteq> name) (json_files fs)"
  unfolding json_files_def dict_sorted_def delete_filter filter_sort [symmetric] filter_filter
  by (simp add: case_prod_unfold conj_commute)

lemma actor_tail_skip:
  assumes "file_seq name = Some s" "s \<le> base"
  shows "actor_tail actor base e (filter (\<lambda>(l, _). l \<noteq> name) fs) = actor_tail actor base e fs"
proof (induction fs arbitrary: e)
  case (Cons f fs)
  obtain l v where f: "f = (l, v)" by force
  show ?case
  proof (cases "l = name")
    case True
    then show ?thesis using Cons.IH assms by (simp add: f)
  next
    case False
    then show ?thesis using Cons.IH by (simp add: f split: option.split)
  qed
qed simp

lemma tail_above_delete:
  assumes "file_seq (cand_file c) = Some s" "s \<le> vector_get b (cand_actor c)"
  shows "tail_above b (delete_file c st) = tail_above b st"
proof -
  have "actor_tail a (vector_get b a) (vector_get b a + 1) (json_files (if a = cand_actor c then dict_pop (cand_file c) fs else fs)) =
      actor_tail a (vector_get b a) (vector_get b a + 1) (json_files fs)" for a fs
    using assms by (simp add: json_files_pop actor_tail_skip)
  moreover have "dict_sorted (oplog (delete_file c st)) =
      map (\<lambda>(a, fs). (a, if a = cand_actor c then dict_pop (cand_file c) fs else fs)) (dict_sorted (oplog st))"
    unfolding dict_sorted_def sort_key_keep_keys [symmetric] by (simp add: delete_file_def)
  ultimately show ?thesis by (simp add: tail_above_def res_map_map o_def case_prod_unfold Let_def)
qed

lemma tail_above_empty_dirs: "tail_above b (remove_empty_dirs st) = tail_above b st"
proof -
  have "dict_sorted (filter (\<lambda>(_, fs). fs \<noteq> []) d) = filter (\<lambda>(_, fs). fs \<noteq> []) (dict_sorted d)" for d :: "(string, (string, pyval) dict) dict"
    unfolding dict_sorted_def filter_sort ..
  then show ?thesis unfolding tail_above_def remove_empty_dirs_def
    by (simp add: res_map_nil_filter json_files_def dict_sorted_def case_prod_unfold Let_def)
qed

section \<open>Deletions\<close>

text \<open>Files at or below the baseline \<open>b\<close> that satisfy \<open>P\<close> are deleted, one after the other.\<close>

inductive deletions :: "(prune_candidate \<Rightarrow> bool) \<Rightarrow> (string, int) dict \<Rightarrow> cluster_store \<Rightarrow> cluster_store \<Rightarrow> bool" for P b where
  deletions_refl: "deletions P b st st"
| deletions_step: "deletions P b st st1 \<Longrightarrow> P c \<Longrightarrow> file_seq (cand_file c) = Some s \<Longrightarrow> s \<le> vector_get b (cand_actor c)
    \<Longrightarrow> deletions P b st (delete_file c st1)"

lemma deletions_trans: "deletions P b st1 st2 \<Longrightarrow> deletions P b st0 st1 \<Longrightarrow> deletions P b st0 st2"
  by (induction rule: deletions.induct) (auto intro: deletions.intros)

lemma stored_delete_file: "stored (delete_file c st) a f = (if a = cand_actor c \<and> f = cand_file c then None else stored st a f)"
proof -
  have "map_of (map (\<lambda>(a, fs). (a, h a fs)) d) a = map_option (h a) (map_of d a)" for h :: "string \<Rightarrow> (string, pyval) dict \<Rightarrow> (string, pyval) dict" and d
    by (induction d) auto
  then show ?thesis by (simp add: stored_def dir_files_def delete_file_def split: option.split)
qed

lemma stored_empty_dirs: "distinct (map fst (oplog st)) \<Longrightarrow> stored (remove_empty_dirs st) a f = stored st a f"
proof -
  assume d: "distinct (map fst (oplog st))"
  have "map_of (filter (\<lambda>(_, fs). fs \<noteq> []) l) a = (case map_of l a of Some [] \<Rightarrow> None | x \<Rightarrow> x)"
    if "distinct (map fst l)" for l :: "(string, (string, pyval) dict) dict"
    using that by (induction l) (auto split: list.splits option.splits dest: map_of_SomeD simp: map_of_eq_None_iff image_iff)
  from this [OF d] show ?thesis
    by (simp add: stored_def dir_files_def remove_empty_dirs_def split: option.split list.split)
qed

lemma identity_oplog: "read_local_identity (st\<lparr>oplog := l\<rparr>) = read_local_identity st"
  by (simp add: read_local_identity_def split: option.split)

lemma deletions_facts:
  assumes "deletions P b st st'"
  shows "tail_above b' st' = tail_above b' st \<or> \<not> (\<forall>a. vector_get b a \<le> vector_get b' a)"
    "read_local_identity st' = read_local_identity st" "map fst (oplog st') = map fst (oplog st)"
    "stored st' a f = stored st a f \<or> stored st' a f = None \<and>
      (\<exists>c s. P c \<and> cand_actor c = a \<and> cand_file c = f \<and> file_seq f = Some s \<and> s \<le> vector_get b a)"
  using assms
proof (induction rule: deletions.induct)
  case (deletions_step st st1 c s)
  { case 1 from deletions_step show ?case by (metis tail_above_delete order_trans) }
  { case 2 from deletions_step show ?case by (simp add: identity_oplog delete_file_def) }
  { case 3 from deletions_step show ?case by (simp add: delete_file_def o_def case_prod_unfold) }
  { case 4 from deletions_step show ?case by (auto simp: stored_delete_file) }
qed simp_all

section \<open>What a run changes\<close>

text \<open>The candidates a journal lists are files with the sequence number it states.\<close>

definition well_named :: "prune_candidate list \<Rightarrow> bool" where
  "well_named cs \<longleftrightarrow> (\<forall>c \<in> set cs. file_seq (cand_file c) = Some (cand_seq c))"

definition journal_ok :: "prune_state \<Rightarrow> bool" where
  "journal_ok ps \<longleftrightarrow> (case journal_file ps of None \<Rightarrow> True | Some j \<Rightarrow> well_named (journal_candidates j))"

lemma prune_candidates_from:
  assumes "prune_candidates fi req b cutoff st = Inr cs" "c \<in> set cs"
  shows "file_seq (cand_file c) = Some (cand_seq c) \<and> cand_seq c \<le> vector_get b (cand_actor c) \<and> cand_created c < cutoff \<and>
    (\<exists>d. (cand_actor c, cand_file c, PDict d) \<in> set (log_files st) \<and> get_int d ''created_at'' 0 = Inr (cand_created c))"
proof -
  from assms obtain css l where m: "res_map (candidate_at fi req b cutoff) (log_files st) = Inr css" and l: "l \<in> set css" "c \<in> set l"
    by (auto simp: prune_candidates_def res_bind_eq_Inr)
  from l(1) obtain i where i: "i < length css" "l = css ! i" by (metis in_set_conv_nth)
  with res_map_Inr_map [OF m] have "log_files st ! i \<in> set (log_files st)" "candidate_at fi req b cutoff (log_files st ! i) = Inr l"
    by (simp_all add: list_all2_conv_all_nth)
  with l(2) obtain a f v where "(a, f, v) \<in> set (log_files st)" "candidate_at fi req b cutoff (a, f, v) = Inr l" "c \<in> set l"
    by (metis prod_cases3)
  then show ?thesis
    by (auto simp: candidate_at_def res_bind_eq_Inr checkpoint_error_def split: option.splits if_splits pyval.splits elim!: is_dict.elims)
qed

lemma candidates_well_named: "prune_candidates fi req b cutoff st = Inr cs \<Longrightarrow> well_named cs"
  by (auto simp: well_named_def dest: prune_candidates_from)

lemma prune_loop_effect:
  assumes "prune_loop safe i cs j done n st = (r, j', done', n', st')" "well_named cs"
  shows "deletions (\<lambda>c. c \<in> set cs) safe st st' \<and> journal_candidates j' = journal_candidates j"
proof -
  have "deletions (\<lambda>c. c \<in> C) safe st st' \<and> journal_candidates j' = journal_candidates j"
    if "set cs \<subseteq> C" for C
    using assms that
  proof (induction safe i cs j "done" n st rule: prune_loop.induct)
    case (2 safe i c cs j "done" n st)
    have wn: "well_named cs" "file_seq (cand_file c) = Some (cand_seq c)" using 2(5) by (auto simp: well_named_def)
    show ?case
    proof (cases "cand_path c \<in> done")
      case True
      then show ?thesis using 2 wn by simp
    next
      case new: False
      let ?j = "if i mod 100 = 0 then j\<lparr>journal_completed := insert (cand_path c) done\<rparr> else j"
      show ?thesis
      proof (cases "file_present st c")
        case True
        show ?thesis
        proof (cases "vector_get safe (cand_actor c) < cand_seq c")
          case False
          then have "deletions (\<lambda>c. c \<in> C) safe st (delete_file c st)"
            using 2(6) wn by (intro deletions_step [OF deletions_refl]) auto
          moreover have "prune_loop safe (i + 1) cs ?j (insert (cand_path c) done) (n + cand_size c) (delete_file c st) = (r, j', done', n', st')"
            using 2(4) True new False by (simp add: Let_def)
          ultimately show ?thesis using 2(2) [OF new _ refl refl True] True False wn 2(6) deletions_trans by fastforce
        qed (use True new 2(4) in \<open>auto intro: deletions_refl\<close>)
      next
        case False
        then have "prune_loop safe (i + 1) cs ?j (insert (cand_path c) done) n st = (r, j', done', n', st')"
          using 2(4) new by (simp add: Let_def)
        then show ?thesis using 2(3) [OF new _ refl refl False] False wn 2(6) by fastforce
      qed
    qed
  qed (auto intro: deletions_refl)
  then show ?thesis by blast
qed

lemma open_journal_cases:
  assumes "open_journal cr now plan old = Inr j"
  shows "j = new_journal cr now plan \<or> old = Some j \<and> journal_phase j \<noteq> ''complete''"
  using assms by (auto simp: open_journal_def res_bind_eq_Inr split: option.splits if_splits)

lemma finish_prune_effect:
  assumes "finish_prune cr fi plan report j done n ps = (r, ps')"
  shows "history (prune_node ps') = history (prune_node ps) \<and>
    (checkpoints (prune_node ps') = checkpoints (prune_node ps) \<or>
     checkpoints (prune_node ps') = prune_objects [active_id plan, plan_previous plan] (checkpoints (prune_node ps))) \<and>
    (journal_file ps' = journal_file ps \<or> (\<exists>j'. journal_file ps' = Some j' \<and> journal_candidates j' = journal_candidates j))"
  using assms by (auto simp: finish_prune_def Let_def split: sum.splits)

text \<open>Every run either leaves the node alone or deletes candidates of its journal below the predecessor's baseline.\<close>

lemma prune_effect:
  assumes "prune_operation_history cr fi now dry ps = (r, ps')" "journal_ok ps"
  obtains (same) "ps' = ps"
  | (run) plan j st where "plan_prune cr fi now (prune_node ps) = Inr plan" "plan_blockers plan = []"
      "open_journal cr now plan (journal_file ps) = Inr j" "well_named (journal_candidates j)" "journal_ok ps'"
      "deletions (\<lambda>c. c \<in> set (journal_candidates j)) (plan_safe plan) (history (prune_node ps)) st"
      "history (prune_node ps') = st \<or> history (prune_node ps') = remove_empty_dirs st"
      "checkpoints (prune_node ps') = checkpoints (prune_node ps) \<or>
       checkpoints (prune_node ps') = prune_objects [active_id plan, plan_previous plan] (checkpoints (prune_node ps))"
proof (cases "ps' = ps")
  case False
  with assms(1) obtain plan report j where p: "plan_prune cr fi now (prune_node ps) = Inr plan" "plan_blockers plan = []"
    and j: "open_journal cr now plan (journal_file ps) = Inr j" and r: "run_prune cr fi plan report j ps = (r, ps')"
    by (auto simp: prune_operation_history_def res_bind_eq_Inr split: sum.splits if_splits prod.splits)
  have "well_named (plan_candidates plan)" using p(1) candidates_well_named by (auto simp: plan_prune_def res_bind_eq_Inr split: prod.splits)
  then have wn: "well_named (journal_candidates j)"
    using open_journal_cases [OF j] assms(2) by (auto simp: new_journal_def journal_ok_def)
  let ?j = "j\<lparr>journal_phase := ''pruning''\<rparr>"
  obtain r1 j1 done1 n1 st1 where l: "prune_loop (plan_safe plan) 1 (journal_candidates j) ?j (journal_completed j) 0 (history (prune_node ps)) = (r1, j1, done1, n1, st1)"
    by (metis prod.exhaust)
  note e = prune_loop_effect [OF l wn]
  show ?thesis
  proof (cases r1)
    case (Inl x)
    then have ps': "ps' = ps\<lparr>prune_node := prune_node ps\<lparr>history := st1\<rparr>, journal_file := Some j1\<rparr>"
      using r l by (simp add: run_prune_def Let_def)
    show ?thesis by (rule run [OF p j wn _ e [THEN conjunct1]]) (use e wn in \<open>simp_all add: ps' journal_ok_def\<close>)
  next
    case (Inr u)
    let ?ps = "ps\<lparr>prune_node := prune_node ps\<lparr>history := remove_empty_dirs st1\<rparr>,
      journal_file := Some (?j\<lparr>journal_phase := ''pruned'', journal_completed := done1\<rparr>)\<rparr>"
    have "finish_prune cr fi plan report ?j done1 n1 ?ps = (r, ps')" using r l Inr by (simp add: run_prune_def Let_def)
    note f = finish_prune_effect [OF this]
    show ?thesis by (rule run [OF p j wn _ e [THEN conjunct1]]) (use f wn in \<open>auto simp: journal_ok_def\<close>)
  qed
qed (rule same)

section \<open>The active checkpoint survives\<close>

lemma digest_of_stem:
  assumes "is_sha256 cid"
  shows "object_digest (object_stem cid) = object_stem cid" "object_digest (backup_stem cid) = object_stem cid"
proof -
  from assms have stem: "object_stem cid = drop 7 cid" and hex: "set (drop 7 cid) \<subseteq> set ''0123456789abcdef''"
    by (simp_all add: is_sha256_def object_stem_def)
  then have "\<forall>x \<in> set (object_stem cid). x \<noteq> CHR ''.''" by auto
  then show "object_digest (object_stem cid) = object_stem cid" "object_digest (backup_stem cid) = object_stem cid"
    by (simp_all add: object_digest_def backup_stem_def takeWhile_append2 takeWhile_eq_all_conv)
qed

lemma read_copies_same:
  assumes "\<forall>stem \<in> set stems. map_of (checkpoint_objects st') stem = map_of (checkpoint_objects st) stem" "local_cluster st' = local_cluster st"
  shows "read_copies cr st' cid stems = read_copies cr st cid stems"
  using assms(1)
proof (induction stems)
  case (Cons stem stems)
  then have "read_copies cr st' cid stems = read_copies cr st cid stems"
    "map_of (checkpoint_objects st') stem = map_of (checkpoint_objects st) stem" by simp_all
  then show ?case unfolding read_copies.simps assms(2) by presburger
qed simp

lemma read_copies_gone:
  "\<forall>stem \<in> set stems. map_of (checkpoint_objects st) stem = None \<Longrightarrow>
    read_copies cr st cid stems = checkpoint_error ''checkpoint object and backup are unavailable''"
  by (induction stems) simp_all

lemma pruned_object:
  "map_of (checkpoint_objects (prune_objects ids st)) stem =
      (if object_digest stem \<in> set (keep_digests ids) then map_of (checkpoint_objects st) stem else None)"
proof -
  have "map_of (filter (\<lambda>(k, _). P k) d) k = (if P k then map_of d k else None)" for P :: "string \<Rightarrow> bool" and d :: "(string, json_file) dict" and k
    by (induction d) auto
  then show ?thesis by (simp add: prune_objects_def)
qed

lemma read_object_pruned:
  "read_checkpoint_object cr (prune_objects ids st) cid =
     (if is_sha256 cid \<and> object_stem cid \<notin> set (keep_digests ids)
      then checkpoint_error ''checkpoint object and backup are unavailable'' else read_checkpoint_object cr st cid)"
proof (cases "is_sha256 cid")
  case True
  note stems = digest_of_stem [OF True]
  show ?thesis
  proof (cases "object_stem cid \<in> set (keep_digests ids)")
    case True
    then have "read_copies cr (prune_objects ids st) cid [object_stem cid, backup_stem cid] = read_copies cr st cid [object_stem cid, backup_stem cid]"
      by (intro read_copies_same) (simp_all add: pruned_object stems, simp add: prune_objects_def)
    with True show ?thesis by (simp add: read_checkpoint_object_def del: read_copies.simps)
  next
    case False
    then have "read_copies cr (prune_objects ids st) cid [object_stem cid, backup_stem cid] = checkpoint_error ''checkpoint object and backup are unavailable''"
      by (intro read_copies_gone) (simp add: pruned_object stems)
    with False \<open>is_sha256 cid\<close> show ?thesis by (simp add: read_checkpoint_object_def del: read_copies.simps)
  qed
qed (simp add: read_checkpoint_object_def)

lemma read_object_kept: "cid \<in> set ids \<Longrightarrow> read_checkpoint_object cr (prune_objects ids st) cid = read_checkpoint_object cr st cid"
  by (auto simp: read_object_pruned keep_digests_def)

lemma read_copies_id: "read_copies cr st cid stems = Inr c \<Longrightarrow> get_str c ''checkpoint_id'' = cid"
  by (induction stems) (auto simp: checkpoint_error_def res_bind_eq_Inr split: option.splits json_file.splits sum.splits pyexc.splits)

lemma read_object_id:
  "read_checkpoint_object cr st cid = Inr c \<Longrightarrow> get_str c ''checkpoint_id'' = cid \<and> is_sha256 cid"
  by (auto simp: read_checkpoint_object_def checkpoint_error_def simp del: read_copies.simps split: if_splits dest: read_copies_id)

lemma read_active_pruned:
  assumes a: "read_active cr st = Inr (Some c)" and commit: "read_commit st = Inr (Some commit)"
    and ids: "get_str c ''checkpoint_id'' \<in> set ids" "get_str commit ''previous_checkpoint_id'' \<in> set ids"
  shows "read_active cr (prune_objects ids st) = Inr (Some c)"
proof -
  let ?st = "prune_objects ids st"
  from a commit have r: "read_committed cr st commit = Inr c"
    and ok: "all_ok [reject_checkpoint (get_str commit ''cluster_id'' \<noteq> local_cluster st) ''checkpoint commit belongs to another cluster'',
      reject_checkpoint (get_str commit ''commit_id'' \<noteq> sha256_json cr (PDict (dict_pop ''commit_id'' commit)))
        ''checkpoint commit hash mismatch''] = Inr ()"
    by (auto simp: read_active_def res_bind_eq_Inr)
  note kept = read_object_kept [of _ ids cr st]
  have "read_committed cr ?st commit = Inr c"
  proof (cases "read_current cr st commit")
    case (Inr c')
    then have "c' = c" using r by (simp add: read_committed_def)
    moreover from Inr obtain o1 where "read_checkpoint_object cr st (get_str commit ''current_checkpoint_id'') = Inr o1" "o1 = c'"
      by (auto simp: read_current_def res_bind_eq_Inr)
    ultimately have "get_str commit ''current_checkpoint_id'' \<in> set ids" using read_object_id ids(1) by metis
    then have "read_current cr ?st commit = Inr c" using Inr \<open>c' = c\<close> by (simp add: read_current_def kept)
    then show ?thesis by (simp add: read_committed_def)
  next
    case (Inl e)
    with r obtain m where e: "e = ClusterCheckpointError m" and p: "get_str commit ''previous_checkpoint_id'' \<noteq> []"
        "get_str commit ''previous_checkpoint_id'' \<noteq> get_str commit ''current_checkpoint_id''" "read_previous cr st commit = Inr c"
      by (auto simp: read_committed_def Let_def checkpoint_error_def split: pyexc.splits if_splits sum.splits)
    have "read_previous cr ?st commit = Inr c" using p(3) by (simp add: read_previous_def kept [OF ids(2)])
    moreover have "\<exists>m. read_current cr ?st commit = Inl (ClusterCheckpointError m)"
      using Inl e by (auto simp: read_current_def read_object_pruned checkpoint_error_def)
    ultimately show ?thesis using p by (auto simp: read_committed_def)
  qed
  moreover have "read_commit ?st = read_commit st" "local_cluster ?st = local_cluster st"
    by (simp_all add: prune_objects_def read_commit_def)
  ultimately show ?thesis using ok commit by (simp add: read_active_def reject_checkpoint_def)
qed

section \<open>Safety\<close>

text \<open>What a node reads of its history: with an active checkpoint, only the identity and the tail matter.\<close>

lemma node_views:
  assumes active: "read_active cr (checkpoints ns) = Inr (Some c)" "read_active cr (checkpoints ns') = Inr (Some c)"
    and cl: "local_cluster (checkpoints ns') = local_cluster (checkpoints ns)"
    and id: "read_local_identity (history ns') = read_local_identity (history ns)"
    and tl: "\<And>b. baseline_vector c = Inr b \<Longrightarrow> tail_above b (history ns') = tail_above b (history ns)"
    and v: "verify_shadow_checkpoint cr (Some (local_cluster (checkpoints ns))) (PDict c) = Inr c"
  shows "rebuild_materialized_state cr ns' = rebuild_materialized_state cr ns \<and> load_node_trust cr ns' cluster = load_node_trust cr ns cluster \<and>
    load_operations cr ns' expected = load_operations cr ns expected"
proof -
  have "load_checkpoint_tail cr (Some (PDict c)) ns' = load_checkpoint_tail cr (Some (PDict c)) ns"
    using tl by (cases "baseline_vector c") (simp_all add: load_checkpoint_tail_def cl v)
  then show ?thesis by (simp add: rebuild_materialized_state_def load_node_trust_def load_operations_def active id cl split: option.split)
qed


section \<open>What is deleted\<close>

text \<open>The checkpoint before the active one, as the pointer names it, and the baseline it holds.\<close>

definition safe_baseline :: "crypto \<Rightarrow> checkpoint_store \<Rightarrow> (string, int) dict option" where
  "safe_baseline cr st = (case read_commit st of
     Inr (Some commit) \<Rightarrow>
       (case res_bind (read_checkpoint_object cr st (get_str commit ''previous_checkpoint_id'')) baseline_vector of
          Inr b \<Rightarrow> Some b | Inl _ \<Rightarrow> None)
   | _ \<Rightarrow> None)"

lemma safe_baseline_pruned:
  assumes "read_commit st = Inr (Some commit)" "get_str commit ''previous_checkpoint_id'' \<in> set ids"
  shows "safe_baseline cr (prune_objects ids st) = safe_baseline cr st"
proof -
  have "read_commit (prune_objects ids st) = read_commit st" by (simp add: prune_objects_def read_commit_def)
  then show ?thesis by (simp add: safe_baseline_def assms(1) read_object_kept [OF assms(2)])
qed

lemma plan_prune_Inr:
  assumes "plan_prune cr fi now ns = Inr plan" "plan_blockers plan = []"
  obtains c commit where "read_active cr (checkpoints ns) = Inr (Some c)" "active_id plan = get_str c ''checkpoint_id''"
    "read_commit (checkpoints ns) = Inr (Some commit)" "plan_previous plan = get_str commit ''previous_checkpoint_id''"
    "safe_baseline cr (checkpoints ns) = Some (plan_safe plan)"
    "prune_candidates fi False (plan_safe plan) (plan_cutoff plan) (history ns) = Inr (plan_candidates plan)"
    "is_ok (baseline_vector c)"
proof -
  from assms obtain c where c: "read_active cr (checkpoints ns) = Inr (Some c)"
    by (auto simp: plan_prune_def res_bind_eq_Inr split: option.splits)
  then obtain commit where commit: "read_commit (checkpoints ns) = Inr (Some commit)"
    by (auto simp: read_active_def res_bind_eq_Inr split: option.splits)
  show ?thesis
    by (rule that [of c commit]) (use assms c commit in \<open>auto simp: plan_prune_def res_bind_eq_Inr active_id_def predecessor_def
      safe_baseline_def active_blockers_def is_ok_iff Let_def split: sum.splits pyexc.splits\<close>)
qed

text \<open>The journal of a run that was interrupted; a complete one is that of an earlier run.\<close>

definition resumed_journal :: "prune_state \<Rightarrow> prune_journal option" where
  "resumed_journal ps = (case journal_file ps of
     None \<Rightarrow> None | Some j \<Rightarrow> if journal_phase j = ''complete'' then None else Some j)"

text \<open>
  C28: Pruning only ever deletes operations that the cluster no longer needs: a file of the log that a run removes is at or
  below the baseline of the checkpoint before the active one, which the node can still read, the run was not a dry run and
  nothing blocked it. The operation is older than the retention period, or the run resumes an interrupted one of the same
  checkpoint and baseline whose journal lists the file.
\<close>

theorem prune_safe:
  assumes "prune_operation_history cr fi now dry ps = (r, ps')" "journal_ok ps" "store_wf (history (prune_node ps))"
    and "stored (history (prune_node ps')) a f \<noteq> stored (history (prune_node ps)) a f"
  shows "dry = False \<and> stored (history (prune_node ps')) a f = None \<and>
    (\<exists>plan s. plan_prune cr fi now (prune_node ps) = Inr plan \<and> plan_blockers plan = [] \<and>
       safe_baseline cr (checkpoints (prune_node ps)) = Some (plan_safe plan) \<and> file_seq f = Some s \<and> s \<le> vector_get (plan_safe plan) a \<and>
       (case resumed_journal ps of
          None \<Rightarrow> \<exists>d t. stored (history (prune_node ps)) a f = Some (PDict d) \<and> get_int d ''created_at'' 0 = Inr t \<and> t < plan_cutoff plan
        | Some j \<Rightarrow> journal_checkpoint j = active_id plan \<and> journal_baseline j = plan_safe plan \<and>
            (\<exists>c \<in> set (journal_candidates j). cand_actor c = a \<and> cand_file c = f)))"
  using assms(1,2)
proof (cases rule: prune_effect)
  case same
  with assms(4) show ?thesis by simp
next
  case (run plan j st)
  have safe: "safe_baseline cr (checkpoints (prune_node ps)) = Some (plan_safe plan)"
    and cs: "prune_candidates fi False (plan_safe plan) (plan_cutoff plan) (history (prune_node ps)) = Inr (plan_candidates plan)"
    using plan_prune_Inr [OF run(1,2)] by metis+
  have d: "distinct (map fst (oplog st))" using deletions_facts(3) [OF run(6)] assms(3) by (simp add: store_wf_def)
  have "stored (history (prune_node ps')) a f = stored st a f" using run(7) stored_empty_dirs [OF d] by auto
  with deletions_facts(4) [OF run(6), of a f] assms(4) obtain c s where c: "stored (history (prune_node ps')) a f = None"
    "c \<in> set (journal_candidates j)" "cand_actor c = a" "cand_file c = f" "file_seq f = Some s" "s \<le> vector_get (plan_safe plan) a" by auto
  moreover have "\<exists>d t. stored (history (prune_node ps)) a f = Some (PDict d) \<and> get_int d ''created_at'' 0 = Inr t \<and> t < plan_cutoff plan"
    if "resumed_journal ps = None"
  proof -
    have "c \<in> set (plan_candidates plan)"
      using c(2) run(3) that by (auto simp: open_journal_def new_journal_def resumed_journal_def split: option.splits if_splits)
    with prune_candidates_from [OF cs] c(3,4) show ?thesis by (fastforce simp: set_log_files [OF assms(3)])
  qed
  moreover have "journal_checkpoint i = active_id plan \<and> journal_baseline i = plan_safe plan \<and>
      (\<exists>c \<in> set (journal_candidates i). cand_actor c = a \<and> cand_file c = f)" if "resumed_journal ps = Some i" for i
    using c(2-4) run(3) that
    by (auto simp: open_journal_def resumed_journal_def res_bind_eq_Inr reject_checkpoint_def checkpoint_error_def split: option.splits if_splits)
  moreover have "dry = False"
    using assms(1,4) by (auto simp: prune_operation_history_def split: sum.splits prod.splits if_splits)
  ultimately show ?thesis using run(1,2) safe by (intro conjI exI [of _ plan] exI [of _ s]) (auto split: option.split)
qed

section \<open>What stays the same\<close>

text \<open>The baseline below which a node may forget is one the active checkpoint covers.\<close>

definition chain_ok :: "crypto \<Rightarrow> checkpoint_store \<Rightarrow> bool" where
  "chain_ok cr st = (case (safe_baseline cr st, read_active cr st) of
     (Some old, Inr (Some c)) \<Rightarrow> (case baseline_vector c of Inr new \<Rightarrow> \<not> moves_back old new | Inl _ \<Rightarrow> True)
   | _ \<Rightarrow> True)"

lemma read_copies_fixed:
  "read_copies cr st cid stems = Inr c \<Longrightarrow> verify_shadow_checkpoint cr (Some (local_cluster st)) (PDict c) = Inr c"
  by (induction stems) (auto simp: checkpoint_error_def res_bind_eq_Inr reject_checkpoint_def split: option.splits json_file.splits sum.splits pyexc.splits if_splits
    dest: verified_checkpoint_fixed)

lemma read_active_fixed:
  assumes "read_active cr st = Inr (Some c)"
  shows "verify_shadow_checkpoint cr (Some (local_cluster st)) (PDict c) = Inr c"
proof -
  from assms obtain commit where "read_committed cr st commit = Inr c" by (auto simp: read_active_def res_bind_eq_Inr split: option.splits)
  then obtain cid where "read_checkpoint_object cr st cid = Inr c"
    by (auto simp: read_committed_def read_current_def read_previous_def Let_def checkpoint_error_def res_bind_eq_Inr
      split: sum.splits pyexc.splits if_splits)
  then show ?thesis
    by (auto simp: read_checkpoint_object_def checkpoint_error_def simp del: read_copies.simps split: if_splits dest: read_copies_fixed)
qed

text \<open>
  C29: A node cannot tell that its log was pruned: however the run ends, also when it raises between two deletions, the
  state the node rebuilds, the trust and the operations it loads and its active checkpoint are those of before the run.
\<close>

theorem prune_invisible:
  assumes "prune_operation_history cr fi now dry ps = (r, ps')" "journal_ok ps" "chain_ok cr (checkpoints (prune_node ps))"
  shows "rebuild_materialized_state cr (prune_node ps') = rebuild_materialized_state cr (prune_node ps) \<and>
    load_node_trust cr (prune_node ps') cluster = load_node_trust cr (prune_node ps) cluster \<and>
    load_operations cr (prune_node ps') expected = load_operations cr (prune_node ps) expected \<and>
    read_active cr (checkpoints (prune_node ps')) = read_active cr (checkpoints (prune_node ps)) \<and>
    journal_ok ps' \<and> chain_ok cr (checkpoints (prune_node ps'))"
  using assms(1,2)
proof (cases rule: prune_effect)
  case same
  with assms(2,3) show ?thesis by simp
next
  case (run plan j st)
  let ?st = "checkpoints (prune_node ps)" and ?st' = "checkpoints (prune_node ps')"
  obtain c commit where p: "read_active cr ?st = Inr (Some c)" "active_id plan = get_str c ''checkpoint_id''"
    "read_commit ?st = Inr (Some commit)" "plan_previous plan = get_str commit ''previous_checkpoint_id''"
    "safe_baseline cr ?st = Some (plan_safe plan)" "is_ok (baseline_vector c)"
    using plan_prune_Inr [OF run(1,2)] by metis
  obtain b where b: "baseline_vector c = Inr b" using p(6) by (auto simp: is_ok_iff)
  then have nb: "\<not> moves_back (plan_safe plan) b" using assms(3) p(1,5) by (simp add: chain_ok_def)
  have a: "read_active cr ?st' = Inr (Some c)"
    using run(8) read_active_pruned [OF p(1,3)] p(1,2,4) by auto
  have cl: "local_cluster ?st' = local_cluster ?st" using run(8) by (auto simp: prune_objects_def)
  have id: "read_local_identity (history (prune_node ps')) = read_local_identity (history (prune_node ps))"
    using run(7) deletions_facts(2) [OF run(6)] by (auto simp: remove_empty_dirs_def identity_oplog)
  have "vector_get (plan_safe plan) x \<le> vector_get b x" for x
    using not_back [OF nb] b by (auto simp: baseline_vector_def res_bind_eq_Inr)
  then have tl: "tail_above b (history (prune_node ps')) = tail_above b (history (prune_node ps))"
    using run(7) deletions_facts(1) [OF run(6), of b] by (auto simp: tail_above_empty_dirs)
  have "safe_baseline cr ?st' = safe_baseline cr ?st"
    using run(8) safe_baseline_pruned [OF p(3)] p(4) by auto
  then have "chain_ok cr ?st'" using assms(3) a p(1) by (simp add: chain_ok_def)
  with node_views [OF p(1) a cl id, of cluster expected] tl b read_active_fixed [OF p(1)] run(5) a p(1) show ?thesis by auto
qed

section \<open>A journal that is left behind\<close>

text \<open>
  C30: A run that was interrupted under one checkpoint stops pruning under every other: as long as the journal it left
  names a checkpoint that is not the active one, no run changes anything, and a run that has something to delete raises.
\<close>

theorem stale_journal_blocks:
  assumes "prune_operation_history cr fi now dry ps = (r, ps')" "journal_file ps = Some j" "journal_phase j \<noteq> ''complete''"
    and "read_active cr (checkpoints (prune_node ps)) = Inr (Some c)" "get_str c ''checkpoint_id'' \<noteq> journal_checkpoint j"
  shows "ps' = ps \<and> (\<forall>plan. plan_prune cr fi now (prune_node ps) = Inr plan \<longrightarrow>
    plan_blockers plan \<noteq> [] \<or> plan_candidates plan = [] \<or> dry \<or> (\<exists>e. r = Inl e))"
proof -
  have "active_id plan \<noteq> journal_checkpoint j" if "plan_prune cr fi now (prune_node ps) = Inr plan" for plan
    using that assms(4,5) by (auto simp: plan_prune_def res_bind_eq_Inr active_id_def split: prod.splits)
  then have "open_journal cr now plan (journal_file ps) = checkpoint_error ''incomplete prune journal does not match active checkpoint''"
    if "plan_prune cr fi now (prune_node ps) = Inr plan" for plan
    using that assms(2,3) by (auto simp: open_journal_def reject_checkpoint_def checkpoint_error_def)
  with assms(1) show ?thesis
    by (auto simp: prune_operation_history_def checkpoint_error_def res_bind_eq_Inr split: sum.splits prod.splits if_splits)
qed

end
