(* ===== verification/Checkpoint_Rounds.thy ===== *)
theory Checkpoint_Rounds
  imports Checkpoint_Laws
begin

text \<open>
  The checkpoint protocol among honest nodes: what \<open>sign_operation\<close> signed verifies again after
  a JSON round trip, a proposal the coordinator created is accepted by every replica, and an
  acknowledgement a required replica created is accepted by the coordinator.
\<close>

section \<open>Canonical JSON of sorted values\<close>

definition range_error :: pyexc where
  "range_error = ClusterCredentialError ''integer is outside the interoperable JSON range''"

text \<open>When every element can only fail with one error, mapping succeeds or fails as a whole.\<close>

lemma res_map_uniform:
  assumes "\<And>x e. x \<in> set xs \<Longrightarrow> f x = Inl e \<Longrightarrow> e = e0"
  shows "res_map f xs = (if \<forall>x \<in> set xs. is_ok (f x) then Inr (map (\<lambda>x. projr (f x)) xs) else Inl e0)"
  using assms
proof (induction xs)
  case Nil
  then show ?case by simp
next
  case (Cons x xs)
  have "res_map f xs = (if \<forall>x \<in> set xs. is_ok (f x) then Inr (map (\<lambda>x. projr (f x)) xs) else Inl e0)"
    by (rule Cons.IH) (rule Cons.prems, simp_all)
  then show ?case using Cons.prems [of x] by (cases "f x") auto
qed

lemma canonical_json_range_error: "canonical_json v = Inl e \<Longrightarrow> e = range_error"
proof (induction v arbitrary: e)
  case (PList xs)
  have "res_map canonical_json xs = Inl e' \<Longrightarrow> e' = range_error" for e'
    using PList.IH by (subst (asm) res_map_uniform [of _ _ range_error]) (auto split: if_splits)
  with PList.prems show ?case by (auto simp: res_bind_eq_Inl)
next
  case (PDict d)
  have "res_map (\<lambda>(k, v). res_bind (canonical_json v) (\<lambda>s. Inr (k, json_string k @ '':'' @ s))) d = Inl e' \<Longrightarrow> e' = range_error" for e'
    using PDict.IH
    by (subst (asm) res_map_uniform [of _ _ range_error]) (auto simp: res_bind_eq_Inl split: if_splits)
  with PDict.prems show ?case by (auto simp: res_bind_eq_Inl)
qed (auto simp: range_error_def split: if_splits)

definition json_entry :: "string \<times> pyval \<Rightarrow> string \<times> string" where
  "json_entry e = (fst e, json_string (fst e) @ '':'' @ projr (canonical_json (snd e)))"

lemma canonical_json_PDict:
  "canonical_json (PDict d) =
     (if \<forall>e \<in> set d. is_ok (canonical_json (snd e))
      then Inr (''{'' @ join_with '','' (map (snd \<circ> json_entry) (sort_key fst d)) @ ''}'') else Inl range_error)"
proof -
  have "res_map (\<lambda>(k, v). res_bind (canonical_json v) (\<lambda>s. Inr (k, json_string k @ '':'' @ s))) d =
      (if \<forall>e \<in> set d. is_ok (canonical_json (snd e)) then Inr (map json_entry d) else Inl range_error)"
  proof (subst res_map_uniform [of _ _ range_error])
    show "e = range_error" if "(case x of (k, v) \<Rightarrow> res_bind (canonical_json v) (\<lambda>s. Inr (k, json_string k @ '':'' @ s))) = Inl e" for x e
      using that canonical_json_range_error by (cases x) (auto simp: res_bind_eq_Inl)
    have "is_ok (case x of (k, v) \<Rightarrow> res_bind (canonical_json v) (\<lambda>s. Inr (k, json_string k @ '':'' @ s))) \<longleftrightarrow> is_ok (canonical_json (snd x))" for x
      by (cases x) (auto simp: is_ok_iff res_bind_eq_Inr)
    moreover have "projr (case x of (k, v) \<Rightarrow> res_bind (canonical_json v) (\<lambda>s. Inr (k, json_string k @ '':'' @ s))) = json_entry x"
      if "is_ok (canonical_json (snd x))" for x
      using that by (cases x) (auto simp: is_ok_iff json_entry_def)
    ultimately show "(if \<forall>x \<in> set d. is_ok (case x of (k, v) \<Rightarrow> res_bind (canonical_json v) (\<lambda>s. Inr (k, json_string k @ '':'' @ s)))
        then Inr (map (\<lambda>x. projr (case x of (k, v) \<Rightarrow> res_bind (canonical_json v) (\<lambda>s. Inr (k, json_string k @ '':'' @ s)))) d)
        else Inl range_error) = (if \<forall>e \<in> set d. is_ok (canonical_json (snd e)) then Inr (map json_entry d) else Inl range_error)"
      by simp
  qed
  then show ?thesis by (simp add: sort_key_map json_entry_def o_def)
qed

lemma canonical_json_sorted [simp]: "canonical_json (py_sorted v) = canonical_json v"
proof (induction v)
  case (PList xs)
  have "res_map canonical_json (map py_sorted xs) = res_map canonical_json xs"
    using PList by (induction xs) simp_all
  then show ?case by simp
next
  case (PDict d)
  have same: "canonical_json (py_sorted (snd e)) = canonical_json (snd e)" if "e \<in> set d" for e
    using PDict [of e "snd e"] that by (cases e) simp
  have "map (snd \<circ> json_entry) (sort_key fst (sort_key fst (on_values py_sorted d))) = map (snd \<circ> json_entry) (sort_key fst d)"
    unfolding sort_key_twice map_sort_on_values
    by (rule map_cong) (use same in \<open>force simp: json_entry_def\<close>)+
  moreover have "(\<forall>e \<in> set (sort_key fst (on_values py_sorted d)). is_ok (canonical_json (snd e))) \<longleftrightarrow>
      (\<forall>e \<in> set d. is_ok (canonical_json (snd e)))"
    using same by (force simp: on_values_def)
  ultimately show ?case unfolding py_sorted_PDict canonical_json_PDict by simp
qed simp_all


section \<open>Signing and verifying\<close>

text \<open>
  What Ed25519 promises for a key pair: keys have 32 bytes, signatures 64, and what the private key signs the public
  key accepts.
\<close>

definition honest_key :: "crypto \<Rightarrow> string \<Rightarrow> string \<Rightarrow> bool" where
  "honest_key cr private key \<longleftrightarrow> key = b64_encode (ed25519_public cr private) \<and> length (ed25519_public cr private) = 32 \<and>
     (\<forall>m. length (ed25519_sign cr private m) = 64 \<and> ed25519_valid cr (ed25519_public cr private) (ed25519_sign cr private m) m)"

definition sorted_dict :: "pydict \<Rightarrow> pydict" where
  "sorted_dict d = dict_of (py_sorted (PDict d))"

lemma sorted_dict_PDict: "PDict (sorted_dict d) = py_sorted (PDict d)"
  by (simp add: sorted_dict_def)

lemma sorted_dict_get: "py_get (sorted_dict d) k = py_sorted (py_get d k)"
  unfolding sorted_dict_def by (rule py_sorted_get)

lemma sorted_dict_get_or: "py_get_or (sorted_dict d) k (py_sorted v) = py_sorted (py_get_or d k v)"
  unfolding sorted_dict_def py_sorted_PDict dict_of.simps py_get_or_def map_of_sort_key map_of_on_values
  by (simp split: option.split)

lemma sorted_dict_filter: "filter (\<lambda>(k, _). P k) (sorted_dict d) = sorted_dict (filter (\<lambda>(k, _). P k) d)"
proof -
  have "filter (\<lambda>(k, _). P k) (on_values py_sorted d) = on_values py_sorted (filter (\<lambda>(k, _). P k) d)"
    by (induction d) (auto simp: on_values_def)
  then show ?thesis unfolding sorted_dict_def py_sorted_PDict dict_of.simps filter_sort by simp
qed

lemma dict_pop_filter: "dict_pop k d = filter (\<lambda>(l, _). l \<noteq> k) d"
  by (induction d) auto

lemma filter_dict_set:
  "\<not> P k \<Longrightarrow> filter (\<lambda>(k, _). P k) (dict_set k v d) = filter (\<lambda>(k, _). P k) d"
  by (induction d) auto

lemma canonical_bytes_sorted: "canonical_operation_bytes (sorted_dict d) = canonical_operation_bytes d"
  unfolding canonical_operation_bytes_def dict_pop_filter sorted_dict_filter sorted_dict_PDict by (rule canonical_json_sorted)

text \<open>A document without signature fields, signed.\<close>

definition plain_doc :: "pydict \<Rightarrow> bool" where
  "plain_doc d \<longleftrightarrow> (\<forall>k \<in> signature_fields. map_of d k = None)"

lemma sign_operation_Inr:
  assumes "sign_operation cr d private node = Inr s" and "plain_doc d"
  shows "\<exists>u m. u = dict_update d [(''signer_id'', PStr node), (''signing_key_id'', PStr (key_id cr ''ed25519'' (ed25519_public cr private))),
      (''signature_version'', PInt 1), (''signature_algorithm'', PStr ''Ed25519'')] \<and> canonical_operation_bytes u = Inr m \<and>
    s = dict_set ''signature'' (PStr (b64_encode (ed25519_sign cr private m))) u \<and> is_ok (validated_text (PStr node) ''signer_id'')"
proof -
  have "map_of d ''signature'' = None" "map_of d ''signing_key_id'' = None"
    using assms(2) by (simp_all add: plain_doc_def signature_fields_def)
  then have "dict_pop ''signature'' d = d" "\<not> dict_has d ''signing_key_id''"
    by (simp_all add: delete_id map_of_eq_None_iff dict_has_iff)
  moreover have "validated_text (PStr node) ''signer_id'' = Inr n \<Longrightarrow> n = node" for n
    by (auto simp: validated_text_def split: if_splits)
  ultimately show ?thesis using assms(1) unfolding sign_operation_def by (auto simp: Let_def res_bind_eq_Inr)
qed

lemma signed_verifies:
  assumes "sign_operation cr d private node = Inr s" and "plain_doc d" and "honest_key cr private key"
  shows "verify_operation cr (sorted_dict s) key = Inr ()"
proof -
  from sign_operation_Inr [OF assms(1,2)] obtain u m where
    u: "u = dict_update d [(''signer_id'', PStr node), (''signing_key_id'', PStr (key_id cr ''ed25519'' (ed25519_public cr private))),
      (''signature_version'', PInt 1), (''signature_algorithm'', PStr ''Ed25519'')]"
    and m: "canonical_operation_bytes u = Inr m" "s = dict_set ''signature'' (PStr (b64_encode (ed25519_sign cr private m))) u"
    and ok: "is_ok (validated_text (PStr node) ''signer_id'')" by blast
  have none: "map_of d ''signer_key_id'' = None" using assms(2) by (simp add: plain_doc_def signature_fields_def)
  have get: "py_get s ''signer_id'' = PStr node" "py_get s ''signature_version'' = PInt 1"
    "py_get s ''signature_algorithm'' = PStr ''Ed25519''" "py_get s ''signature'' = PStr (b64_encode (ed25519_sign cr private m))"
    "py_get_or s ''signer_key_id'' (py_get s ''signing_key_id'') = PStr (key_id cr ''ed25519'' (ed25519_public cr private))"
    using none by (simp_all add: m(2) u dict_update_def py_get_def py_get_or_def)
  have "py_get_or (sorted_dict s) ''signer_key_id'' (py_get (sorted_dict s) ''signing_key_id'') =
      PStr (key_id cr ''ed25519'' (ed25519_public cr private))"
    unfolding sorted_dict_get sorted_dict_get_or get by simp
  then have "validate_signature_metadata cr (sorted_dict s) (ed25519_public cr private) = Inr ()"
    using ok by (simp add: validate_signature_metadata_def sorted_dict_get get)
  moreover have "canonical_operation_bytes (sorted_dict s) = Inr m"
    unfolding canonical_bytes_sorted by (simp add: m)
  moreover have "py_get (sorted_dict s) ''signature'' = PStr (b64_encode (ed25519_sign cr private m))"
    by (simp add: sorted_dict_get get)
  ultimately show ?thesis using assms(3) unfolding verify_operation_Inr honest_key_def by blast
qed

lemma honest_key_nonempty: "honest_key cr private key \<Longrightarrow> key \<noteq> []"
  by (cases "ed25519_public cr private" rule: b64_encode.cases) (auto simp: honest_key_def Let_def)

lemma control_verifies:
  assumes "sign_operation cr d private node = Inr s" and "plain_doc d" and "control_key clean node = Inr key" and "honest_key cr private key"
  shows "verify_control cr clean (sorted_dict s) node = Inr ()"
  using assms(3) honest_key_nonempty [OF assms(4)] signed_verifies [OF assms(1,2,4)]
  by (simp add: verify_control_def as_checkpoint_error_def reject_checkpoint_def)

lemma unsigned_signed:
  assumes "sign_operation cr (dict_set id_field h d) private node = Inr s" and "plain_doc d" and "map_of d id_field = None"
    and "id_field \<notin> signature_fields"
  shows "unsigned_part id_field (sorted_dict s) = sorted_dict d"
proof -
  have plain: "plain_doc (dict_set id_field h d)" using assms(2,4) by (auto simp: plain_doc_def)
  from sign_operation_Inr [OF assms(1) plain] obtain u m where
    s: "s = dict_set ''signature'' (PStr (b64_encode (ed25519_sign cr private m))) u"
    "u = dict_update (dict_set id_field h d) [(''signer_id'', PStr node), (''signing_key_id'', PStr (key_id cr ''ed25519'' (ed25519_public cr private))),
      (''signature_version'', PInt 1), (''signature_algorithm'', PStr ''Ed25519'')]" by blast
  let ?P = "\<lambda>k. k \<noteq> id_field \<and> k \<notin> signature_fields"
  have "filter (\<lambda>(k, _). ?P k) s = filter (\<lambda>(k, _). ?P k) d"
    by (simp add: s dict_update_def filter_dict_set signature_fields_def)
  also have "\<dots> = d"
    using assms(2,3) by (auto simp: filter_id_conv plain_doc_def map_of_eq_None_iff intro!: filter_True) force+
  finally show ?thesis unfolding unsigned_part_def sorted_dict_filter by simp
qed


section \<open>The protocol among honest nodes\<close>

lemma verified_any_cluster: "verify_shadow_checkpoint cr ex cp = Inr c \<Longrightarrow> verify_shadow_checkpoint cr None cp = Inr c"
  unfolding verify_shadow_Inr by (auto simp: checkpoint_holds_def Let_def)

text \<open>
  C31: A proposal is accepted: what the elected coordinator created for a checkpoint, with the key the checkpoint's own
  membership has for it, verifies on every node against that checkpoint until the proposal expires.
\<close>

theorem proposal_roundtrip:
  assumes created: "create_proposal cr me cp expires now = Inr p"
    and clean: "verify_shadow_checkpoint cr None cp = Inr clean"
    and key: "control_key clean (signer_node me) = Inr key" "honest_key cr (signer_private me) key"
    and t: "0 \<le> t" "t < expires"
  shows "verify_proposal cr cp (PDict p) t = Inr (sorted_dict p)"
proof -
  from created obtain c0 where c0: "verify_shadow_checkpoint cr (Some (signer_cluster me)) cp = Inr c0"
    unfolding create_proposal_def by (auto simp: res_bind_eq_Inr)
  with verified_any_cluster [OF c0] clean have c: "verify_shadow_checkpoint cr (Some (signer_cluster me)) cp = Inr clean" by simp
  from created c obtain fields where f: "coordinator_id clean = Inr (signer_node me)" "proposal_fields clean (signer_node me) = Inr fields"
    and e: "strict_positive_int (PInt expires) ''expires_at'' = Inr expires"
    and s: "sign_control cr (signer_node me) (signer_private me) (dict_set ''proposal_id'' (PStr (sha256_json cr (PDict
        ([(''schema_version'', PInt 1), (''kind'', PStr ''PBCLUSTER_CHECKPOINT_PROPOSAL'')] @ fields @
          [(''created_at'', PInt now), (''expires_at'', PInt expires)]))))
        ([(''schema_version'', PInt 1), (''kind'', PStr ''PBCLUSTER_CHECKPOINT_PROPOSAL'')] @ fields @
          [(''created_at'', PInt now), (''expires_at'', PInt expires)])) = Inr p"
    unfolding create_proposal_def Let_def
    by (auto simp: res_bind_eq_Inr strict_nonnegative_int_def strict_positive_int_def strict_int_def checkpoint_error_def split: if_splits)
  define doc where "doc = [(''schema_version'', PInt 1), (''kind'', PStr ''PBCLUSTER_CHECKPOINT_PROPOSAL'')] @ fields @
    [(''created_at'', PInt now), (''expires_at'', PInt expires)]"
  from s have s: "sign_operation cr (dict_set ''proposal_id'' (PStr (sha256_json cr (PDict doc))) doc) (signer_private me) (signer_node me) = Inr p"
    by (simp add: sign_control_def doc_def)
  from f(2) obtain v1 v2 v3 v4 v5 v6 v7 where fs: "fields = [(''cluster_id'', v1), (''checkpoint_id'', v2), (''baseline_vector'', v3),
    (''state_hash'', v4), (''membership_hash'', v5), (''migration_seal_hash'', v6), (''required_node_ids'', v7),
    (''coordinator_id'', PStr (signer_node me))]"
    unfolding proposal_fields_def by (auto simp: res_bind_eq_Inr)
  have plain: "plain_doc doc" "map_of doc ''proposal_id'' = None"
    by (simp_all add: plain_doc_def signature_fields_def doc_def fs)
  then have plain': "plain_doc (dict_set ''proposal_id'' h doc)" for h by (simp add: plain_doc_def signature_fields_def)
  obtain u m where pu: "p = dict_set ''signature'' (PStr (b64_encode (ed25519_sign cr (signer_private me) m))) u"
    and u: "u = dict_update (dict_set ''proposal_id'' (PStr (sha256_json cr (PDict doc))) doc) [(''signer_id'', PStr (signer_node me)),
        (''signing_key_id'', PStr (key_id cr ''ed25519'' (ed25519_public cr (signer_private me)))), (''signature_version'', PInt 1),
        (''signature_algorithm'', PStr ''Ed25519'')]" and ok: "is_ok (validated_text (PStr (signer_node me)) ''signer_id'')"
    using sign_operation_Inr [OF s plain'] by metis
  note p = pu [unfolded u]
  have node: "signer_node me \<noteq> []" using ok by (auto simp: validated_text_def)
  have get: "py_get p k = py_get doc k" if "k \<notin> insert ''proposal_id'' signature_fields" for k
    using that by (simp add: p dict_update_def signature_fields_def)
  have id: "py_get p ''proposal_id'' = PStr (sha256_json cr (PDict doc))" "py_get p ''signer_id'' = PStr (signer_node me)"
    by (simp_all add: p dict_update_def)
  have "unsigned_part ''proposal_id'' (sorted_dict p) = sorted_dict doc"
    by (rule unsigned_signed [OF s plain]) (simp add: signature_fields_def)
  then have hash: "sha256_json cr (PDict (unsigned_part ''proposal_id'' (sorted_dict p))) = sha256_json cr (PDict doc)"
    by (simp add: sorted_dict_PDict del: py_sorted.simps)
  have fields: "expect_fields ''checkpoint proposal'' (sorted_dict p) fields = Inr ()"
  proof -
    have "py_get (sorted_dict p) k = py_sorted v" if "(k, v) \<in> set fields" for k v
    proof -
      have "fst ` set fields \<inter> insert ''proposal_id'' signature_fields = {}" by (simp add: fs signature_fields_def)
      then have "k \<notin> insert ''proposal_id'' signature_fields" using that by force
      moreover have "distinct (map fst doc)" by (simp add: doc_def fs)
      then have "py_get doc k = v" using that map_of_is_SomeI [of doc k v] by (simp add: py_get_def doc_def)
      ultimately show ?thesis by (simp add: sorted_dict_get get)
    qed
    then show ?thesis by (auto simp: expect_fields_Inr matches_def)
  qed
  have "py_get p ''kind'' = PStr ''PBCLUSTER_CHECKPOINT_PROPOSAL''" "py_get p ''expires_at'' = PInt expires"
    using get [of "''kind''"] get [of "''expires_at''"] by (simp_all add: signature_fields_def doc_def fs py_get_def)
  then have kind: "py_get (sorted_dict p) ''kind'' = PStr ''PBCLUSTER_CHECKPOINT_PROPOSAL''" "get_int (sorted_dict p) ''expires_at'' 0 = Inr expires"
    using t by (simp_all add: sorted_dict_get get_int_def py_or_def)
  note control = control_verifies [OF s plain' key]
  have str: "get_str (sorted_dict p) ''proposal_id'' = sha256_json cr (PDict (unsigned_part ''proposal_id'' (sorted_dict p)))"
    "get_str (sorted_dict p) ''signer_id'' = signer_node me"
    unfolding hash get_str_def sorted_dict_get id using node by (simp_all add: py_or_def sha256_json_def)
  show ?thesis
    unfolding verify_proposal_def sorted_dict_def [symmetric] Let_def clean
    using t by (simp add: strict_nonnegative_int_def strict_int_def reject_checkpoint_def kind f fields control str
        del: py_sorted.simps)
qed

end
