(* ===== verification/Checkpoint_Demo.thy ===== *)
theory Checkpoint_Demo
  imports Checkpoint_Rounds Demo_Cluster
begin

text \<open>
  A checkpoint of a cluster of one master \<open>m\<close>, whose migration seal is complete, with a proposal,
  an acknowledgement and a commit proof; the properties of checkpoints applied to it.
\<close>

section \<open>The documents\<close>

abbreviation ck_cluster :: string where
  "ck_cluster \<equiv> ''pbgui-cluster-00000000-0000-0000-0000-00000000000c''"

definition zero_id :: string where
  "zero_id = ''sha256:0000000000000000000000000000000000000000000000000000000000000000''"

definition ck_key :: string where
  "ck_key = ''S0tLS0tLS0tLS0tLS0tLS0tLS0tLS0tLS0tLS0tLS0s=''"

definition ck_key_id :: string where
  "ck_key_id = ''ed25519:0000000000000000000000000000000000000000000000000000000000000000''"

definition ck_sig :: string where
  "ck_sig = ''c3Nzc3Nzc3Nzc3Nzc3Nzc3Nzc3Nzc3Nzc3Nzc3Nzc3Nzc3Nzc3Nzc3Nzc3Nzc3Nzc3Nzc3Nzc3Nzc3Nzc3Nzcw==''"

definition ck_crypto :: crypto where
  "ck_crypto = \<lparr>sha256_hex = (\<lambda>s. drop 7 zero_id), ed25519_public = (\<lambda>k. k),
     ed25519_sign = (\<lambda>k m. replicate 64 CHR ''s''), ed25519_valid = (\<lambda>k s m. True)\<rparr>"

definition zero_hash :: pyval where
  "zero_hash = PStr zero_id"

definition ck_ops :: "pyval list" where
  "ck_ops = [
     PDict [(''actor'', PStr ''m''), (''created_at'', PInt 1), (''cutoff_generation'', PInt 1), (''min_protocol'', PInt 2),
       (''obsolete_secret_blob_hashes'', PList []), (''op'', PStr ''CREDENTIAL_CUTOFF''), (''op_id'', PStr ''m:1''),
       (''parent_generation'', PInt 0), (''state_vector'', PDict [])],
     PDict [(''actor'', PStr ''m''), (''created_at'', PInt 2), (''cutoff_generation'', PInt 1), (''node_id'', PStr ''m''),
       (''op'', PStr ''CREDENTIAL_CUTOFF_ACK''), (''op_id'', PStr ''m:2'')],
     PDict [(''actor'', PStr ''m''), (''clean'', PBool True), (''created_at'', PInt 3), (''cutoff_generation'', PInt 1),
       (''freeze_generation'', PInt 1), (''node_id'', PStr ''m''), (''op'', PStr ''CREDENTIAL_SCAN_ACK''),
       (''op_id'', PStr ''m:3''), (''status'', PStr ''clean'')],
     PDict [(''actor'', PStr ''m''), (''created_at'', PInt 4), (''membership_generation'', PInt 1), (''node_id'', PStr ''m''),
       (''op'', PStr ''TRADFI_PROJECTION_ACK''), (''op_id'', PStr ''m:4''), (''projection_status'', PStr ''current'')]]"

definition ck_policy_op :: pyval where
  "ck_policy_op = PDict [(''actor'', PStr ''m''), (''created_at'', PInt 5), (''generation'', PInt 1), (''history_days'', PInt 7),
     (''mode'', PStr ''oplog''), (''op'', PStr ''SET_RETENTION_POLICY''), (''op_id'', PStr ''m:5''), (''parent_generation'', PInt 0)]"

definition ck_migration :: pydict where
  "ck_migration = [
     (''cleanup_acks'', PDict [(''m'', PDict [(''acked_at'', PInt 2), (''acked_by'', PStr ''m''), (''cutoff_generation'', PInt 1),
        (''op_id'', PStr ''m:2''), (''removed_secret_blob_hashes'', PList []), (''state_vector'', PDict [])])]),
     (''cutoff'', PDict [(''conflicted'', PBool False), (''cutoff_generation'', PInt 1), (''min_protocol'', PInt 2),
        (''obsolete_secret_blob_hashes'', PList []), (''op_id'', PStr ''m:1''), (''parent_generation'', PInt 0),
        (''published_at'', PInt 1), (''published_by'', PStr ''m''), (''state_vector'', PDict [])]),
     (''freeze_acks'', PDict []), (''inventory_acks'', PDict []),
     (''scan_acks'', PDict [(''m'', PDict [(''acked_at'', PInt 3), (''acked_by'', PStr ''m''), (''clean'', PBool True),
        (''cutoff_generation'', PInt 1), (''findings'', PList []), (''freeze_generation'', PInt 1), (''op_id'', PStr ''m:3''),
        (''status'', PStr ''clean'')])])]"

definition ck_desired :: pydict where
  "ck_desired = [(''cluster_id'', PStr ck_cluster), (''cmc_pool'', PDict [(''authorities'', PDict []), (''entries'', PDict [])]),
     (''credential_materialization_acks'', PDict []), (''credential_migration'', PDict ck_migration),
     (''generated_at'', PInt 5), (''instances'', PDict []),
     (''retention_policy'', PDict [(''conflicted'', PBool False), (''generation'', PInt 1), (''history_days'', PInt 7), (''mode'', PStr ''oplog''),
        (''op_id'', PStr ''m:5''), (''parent_generation'', PInt 0), (''updated_at'', PInt 5), (''updated_by'', PStr ''m'')]),
     (''secret_tombstones'', PDict []), (''secrets'', PDict []), (''tombstones'', PDict []),
     (''tradfi_active_profiles'', PDict []),
     (''tradfi_projection_acks'', PDict [(''m'', PDict [(''acked_at'', PInt 4), (''acked_by'', PStr ''m''),
        (''active_profile_generations'', PDict []), (''membership_generation'', PInt 1), (''op_id'', PStr ''m:4''),
        (''projection_applied_generation'', PInt 0), (''projection_status'', PStr ''current'')])])]"

definition ck_nodes :: pyval where
  "ck_nodes = PDict [(''m'', PDict [(''credential_capable'', PBool True), (''credential_protocol_version'', PInt 2),
     (''role'', PStr ''master''), (''signing_public_key'', PStr ck_key)])]"

definition ck_materialized :: pydict where
  "ck_materialized = [(''cluster_nodes'', PDict [(''cluster_id'', PStr ck_cluster), (''credential_membership_generation'', PInt 1),
       (''generation'', PInt 1), (''nodes'', ck_nodes)]),
     (''desired_state'', PDict ck_desired), (''state_vector'', PDict [(''m'', PInt 5)])]"

definition ck_seal :: pydict where
  "ck_seal = [(''acceptance_count'', PInt 0), (''active_master_ids'', PList [PStr ''m'']), (''active_node_ids'', PList [PStr ''m'']),
     (''blockers'', PList []), (''candidate_count'', PInt 0), (''cluster_id'', PStr ck_cluster), (''cmc_authority_count'', PInt 0),
     (''cmc_entry_count'', PInt 0), (''cutoff_generation'', PInt 1), (''cutoff_min_protocol'', PInt 2),
     (''membership_generation'', PInt 1), (''obsolete_secret_blob_hashes'', PList []), (''recipient_generations'', PDict []),
     (''schema_version'', PInt 1), (''secret_generations'', PDict []), (''secret_tombstone_count'', PInt 0),
     (''status'', PStr ''sealed''), (''tradfi_profile_count'', PInt 0)]"

definition ck_blobs :: pydict where
  "ck_blobs = [(''config'', PList []), (''sealed'', PList []), (''secret'', PList [])]"

definition ck_reducer :: pydict where
  "ck_reducer = [(''retention_policy_basis_operations'', PList [ck_policy_op]), (''schema_version'', PInt 1), (''v2_basis_operations'', PList ck_ops)]"

definition ck_policy :: pyval where
  "ck_policy = PDict [(''conflicted'', PBool False), (''generation'', PInt 1), (''history_days'', PInt 7), (''mode'', PStr ''oplog''),
     (''op_id'', PStr ''m:5''), (''updated_at'', PInt 5), (''updated_by'', PStr ''m'')]"

definition ck_checkpoint :: pydict where
  "ck_checkpoint = [(''baseline_vector'', PDict [(''m'', PInt 5)]), (''blob_refs'', PDict ck_blobs), (''checkpoint_id'', zero_hash),
     (''cluster_id'', PStr ck_cluster), (''created_at'', PInt 100), (''history_cutoff'', PInt 40), (''history_seconds'', PInt 60),
     (''kind'', PStr ''shadow''), (''materialized'', PDict ck_materialized), (''membership_hash'', zero_hash),
     (''membership_trust'', PDict [(''nodes'', ck_nodes)]), (''migration_seal'', PDict ck_seal), (''migration_seal_hash'', zero_hash),
     (''operation_count'', PInt 5), (''reducer_hash'', zero_hash), (''reducer_state'', PDict ck_reducer),
     (''retention_policy'', ck_policy), (''schema_version'', PInt 2), (''state_hash'', zero_hash)]"

text \<open>As verified: the blob references are listed by kind.\<close>

definition ck_clean :: pydict where
  "ck_clean = dict_set ''blob_refs'' (PDict [(''config'', PList []), (''secret'', PList []), (''sealed'', PList [])]) ck_checkpoint"

definition ck_signature :: pydict where
  "ck_signature = [(''schema_version'', PInt 1), (''signature'', PStr ck_sig), (''signature_algorithm'', PStr ''Ed25519''), (''signature_version'', PInt 1),
     (''signer_id'', PStr ''m''), (''signing_key_id'', PStr ck_key_id)]"

definition ck_proposal :: pydict where
  "ck_proposal = [(''baseline_vector'', PDict [(''m'', PInt 5)]), (''checkpoint_id'', zero_hash), (''cluster_id'', PStr ck_cluster),
     (''coordinator_id'', PStr ''m''), (''created_at'', PInt 110), (''expires_at'', PInt 200),
     (''kind'', PStr ''PBCLUSTER_CHECKPOINT_PROPOSAL''), (''membership_hash'', zero_hash), (''migration_seal_hash'', zero_hash),
     (''proposal_id'', zero_hash), (''required_node_ids'', PList [PStr ''m''])] @ ck_signature @ [(''state_hash'', zero_hash)]"

definition ck_ack :: pydict where
  "ck_ack = [(''baseline_vector'', PDict [(''m'', PInt 5)]), (''checkpoint_id'', zero_hash), (''cluster_id'', PStr ck_cluster),
     (''created_at'', PInt 120), (''expires_at'', PInt 200), (''kind'', PStr ''PBCLUSTER_CHECKPOINT_ACK''),
     (''node_id'', PStr ''m''), (''proposal_id'', zero_hash)] @ ck_signature"

definition ck_commit :: pydict where
  "ck_commit = [(''acknowledgements'', PList [PDict ck_ack]), (''baseline_vector'', PDict [(''m'', PInt 5)]),
     (''checkpoint_id'', zero_hash), (''cluster_id'', PStr ck_cluster), (''commit_proof_id'', zero_hash), (''coordinator_id'', PStr ''m''),
     (''created_at'', PInt 130), (''kind'', PStr ''PBCLUSTER_CHECKPOINT_COMMIT''), (''proposal'', PDict ck_proposal),
     (''proposal_id'', zero_hash), (''required_node_ids'', PList [PStr ''m''])] @ ck_signature"

section \<open>The checkpoint verifies\<close>

lemma ck_hash [simp]: "sha256_json ck_crypto v = zero_id"
  by (simp add: sha256_json_def ck_crypto_def) code_simp

lemma ck_seal_built: "\<exists>s. build_migration_seal (PDict ck_materialized) = Inr s \<and> py_eq (PDict ck_seal) (PDict s)"
proof -
  have "case build_migration_seal (PDict ck_materialized) of Inl _ \<Rightarrow> False | Inr s \<Rightarrow> py_eq (PDict ck_seal) (PDict s)"
    by code_simp
  then show ?thesis by (auto split: sum.splits)
qed

lemma ck_reducer_ok: "verify_reducer_state ck_reducer (PDict ck_materialized) = Inr ()"
  by code_simp

lemma ck_policy_ok: "\<exists>p. retention_policy (PDict ck_materialized) = Inr p \<and> py_eq ck_policy (PDict p)"
proof -
  have "case retention_policy (PDict ck_materialized) of Inl _ \<Rightarrow> False | Inr s \<Rightarrow> py_eq ck_policy (PDict s)"
    by code_simp
  then show ?thesis by (auto split: sum.splits)
qed

text \<open>Dictionaries whose keys are in order, at every level.\<close>

fun tidy :: "pyval \<Rightarrow> bool" where
  "tidy (PDict d) = (successively (\<le>) (map fst d) \<and> list_all (\<lambda>(_, v). tidy v) d)"
| "tidy (PList xs) = list_all tidy xs"
| "tidy v = True"

lemma tidy_sorted: "tidy v \<Longrightarrow> py_sorted v = v"
proof (induction v rule: tidy.induct)
  case (1 d)
  then have "sorted (map fst d)" by (simp add: successively_conv_sorted_wrt)
  moreover have "on_values py_sorted d = on_values id d" by (rule on_values_cong) (use 1 in \<open>auto simp: list_all_iff\<close>)
  ultimately show ?case unfolding py_sorted_PDict by (simp add: on_values_def sort_key_sorted)
next
  case (2 xs)
  then show ?case by (simp add: list_all_iff map_idI)
qed simp_all

lemma ck_sorted: "py_sorted (PDict ck_checkpoint) = PDict ck_checkpoint"
  by (rule tidy_sorted) code_simp

lemma ck_zero [simp]: "zero_hash \<noteq> PNone" "truthy zero_hash" "py_str zero_hash = zero_id" "zero_id \<noteq> []"
  by (simp_all add: zero_hash_def zero_id_def)

lemmas ck_get = py_get_def py_get_or_def py_or_def get_str_def ck_checkpoint_def

lemma ck_hashes: "verify_hashes ck_crypto ck_cluster [(''m'', 5)] [(''config'', PList []), (''secret'', PList []), (''sealed'', PList [])] ck_checkpoint = Inr ()"
proof -
  from ck_seal_built obtain s where "build_migration_seal (PDict ck_materialized) = Inr s" "py_eq (PDict ck_seal) (PDict s)" by blast
  moreover from ck_policy_ok obtain p where "retention_policy (PDict ck_materialized) = Inr p" "py_eq ck_policy (PDict p)" by blast
  ultimately show ?thesis
    using ck_reducer_ok unfolding verify_hashes_def Let_def ck_hash
    by (simp add: ck_get reject_checkpoint_def all_ok_iff zero_hash_def)
qed

lemma ck_verifies: "verify_shadow_checkpoint ck_crypto None (PDict ck_checkpoint) = Inr ck_clean"
  "verify_shadow_checkpoint ck_crypto (Some ck_cluster) (PDict ck_checkpoint) = Inr ck_clean"
proof -
  have n: "normalized_vector (PDict [(''m'', PInt 5)]) = Inr [(''m'', 5)]" by code_simp
  have b: "normalized_blob_refs (PDict ck_blobs) = Inr [(''config'', PList []), (''secret'', PList []), (''sealed'', PList [])]" by code_simp
  have t: "verify_times ck_checkpoint = Inr ()" by code_simp
  have c: "section_cluster ck_materialized ''cluster_nodes'' = Inr ck_cluster" "section_cluster ck_materialized ''desired_state'' = Inr ck_cluster"
    by code_simp+
  have v: "py_get ck_materialized ''state_vector'' = PDict [(''m'', PInt 5)]" by code_simp
  have get: "get_str ck_checkpoint ''cluster_id'' = ck_cluster" "py_get ck_checkpoint ''schema_version'' = PInt 2" "py_get ck_checkpoint ''kind'' = PStr ''shadow''"
    "py_get ck_checkpoint ''baseline_vector'' = PDict [(''m'', PInt 5)]" "py_get ck_checkpoint ''blob_refs'' = PDict ck_blobs"
    "py_get ck_checkpoint ''materialized'' = PDict ck_materialized" "is_dict (py_get ck_checkpoint ''membership_trust'')"
    "is_dict (py_get ck_checkpoint ''migration_seal'')" "is_dict (py_get ck_checkpoint ''reducer_state'')"
    by (simp_all add: ck_get)
  have set: "dict_set ''baseline_vector'' (vector_val [(''m'', 5)]) ck_checkpoint = ck_checkpoint"
    by (simp add: ck_checkpoint_def vector_val_def)
  show "verify_shadow_checkpoint ck_crypto None (PDict ck_checkpoint) = Inr ck_clean"
    "verify_shadow_checkpoint ck_crypto (Some ck_cluster) (PDict ck_checkpoint) = Inr ck_clean"
    by (simp_all add: verify_shadow_checkpoint_def ck_sorted Let_def get n b t c v set ck_hashes reject_checkpoint_def ck_clean_def [symmetric]
        del: py_sorted.simps)
qed

lemma ck_clean_verifies: "verify_shadow_checkpoint ck_crypto None (PDict ck_clean) = Inr ck_clean"
  "verify_shadow_checkpoint ck_crypto (Some ck_cluster) (PDict ck_clean) = Inr ck_clean"
  by (rule verified_checkpoint_fixed(1) [OF ck_verifies(1)], rule verified_checkpoint_fixed(1) [OF ck_verifies(2)])

section \<open>The protocol documents verify\<close>

lemma ck_key_b64: "ck_key = b64_encode (replicate 32 CHR ''K'')"
  by code_simp

lemma ck_key_id_eq: "ck_key_id = ''ed25519:'' @ drop 7 zero_id"
  by code_simp

lemma ck_sig_b64: "ck_sig = b64_encode (replicate 64 CHR ''s'')"
  by code_simp

lemma ck_signed:
  assumes "py_get d ''signature'' = PStr ck_sig" "py_get d ''signature_version'' = PInt 1" "py_get d ''signature_algorithm'' = PStr ''Ed25519''"
    "py_get_or d ''signer_key_id'' (py_get d ''signing_key_id'') = PStr ck_key_id"
    "py_get d ''signer_id'' = PStr ''m''" "json_safe (PDict (dict_pop ''signature'' d))"
  shows "verify_control ck_crypto ck_clean d ''m'' = Inr ()"
proof -
  from canonical_json_ok [OF assms(6)] obtain m where m: "canonical_operation_bytes d = Inr m"
    by (auto simp: is_ok_iff canonical_operation_bytes_def)
  have l: "length (replicate 32 CHR ''K'') = 32" "length (replicate 64 CHR ''s'') = 64" by simp_all
  have "is_ok (validated_text (PStr ''m'') ''signer_id'')" by code_simp
  then have "validate_signature_metadata ck_crypto d (replicate 32 CHR ''K'') = Inr ()"
    using assms by (simp add: validate_signature_metadata_def key_id_def ck_key_id_eq ck_crypto_def py_eq_def)
  moreover have "ed25519_valid ck_crypto (replicate 32 CHR ''K'') (replicate 64 CHR ''s'') m"
    by (simp add: ck_crypto_def)
  ultimately have "verify_operation ck_crypto d ck_key = Inr ()"
    unfolding verify_operation_Inr ck_key_b64 using assms(1) m ck_sig_b64 l by metis
  moreover have "control_key ck_clean ''m'' = Inr (ck_key)" "ck_key \<noteq> []"
    by code_simp+
  ultimately show ?thesis by (simp add: verify_control_def as_checkpoint_error_def reject_checkpoint_def)
qed

lemma ck_proposal_verifies: "verify_proposal ck_crypto (PDict ck_clean) (PDict ck_proposal) t = Inr ck_proposal" if "0 \<le> t" "t < 200"
proof -
  have "py_sorted (PDict ck_proposal) = PDict ck_proposal" by code_simp
  moreover have "coordinator_id ck_clean = Inr ''m''" by code_simp
  moreover have "case proposal_fields ck_clean ''m'' of Inl _ \<Rightarrow> False | Inr f \<Rightarrow> expect_fields ''checkpoint proposal'' ck_proposal f = Inr ()"
    by code_simp
  moreover have "verify_control ck_crypto ck_clean ck_proposal ''m'' = Inr ()"
    by (rule ck_signed) (simp_all add: ck_proposal_def ck_signature_def ck_get zero_hash_def max_safe_integer_def)
  moreover have "py_get ck_proposal ''kind'' = PStr ''PBCLUSTER_CHECKPOINT_PROPOSAL''" "get_int ck_proposal ''expires_at'' 0 = Inr 200"
    "get_str ck_proposal ''proposal_id'' = zero_id" "get_str ck_proposal ''signer_id'' = ''m''"
    by (simp_all add: ck_proposal_def ck_signature_def ck_get get_int_def)
  ultimately show ?thesis
    using that by (simp add: verify_proposal_def ck_clean_verifies Let_def reject_checkpoint_def strict_nonnegative_int_def strict_int_def
        del: py_sorted.simps split: sum.splits)
qed

lemma ck_ack_verifies: "verify_ack ck_crypto (PDict ck_clean) (PDict ck_proposal) t (PDict ck_ack) = Inr ck_ack" if "0 \<le> t" "t < 200"
proof -
  have "py_sorted (PDict ck_ack) = PDict ck_ack" by code_simp
  moreover have "is_required ck_proposal ''m''" by code_simp
  moreover have "item_int ck_proposal ''expires_at'' = Inr 200" by code_simp
  moreover have "case ack_fields ck_clean ck_proposal 200 of Inl _ \<Rightarrow> False
      | Inr f \<Rightarrow> expect_fields ''checkpoint ACK'' ck_ack (f @ [(''signer_id'', PStr ''m'')]) = Inr ()" by code_simp
  moreover have "verify_control ck_crypto ck_clean ck_ack ''m'' = Inr ()"
    by (rule ck_signed) (simp_all add: ck_ack_def ck_signature_def ck_get zero_hash_def max_safe_integer_def)
  moreover have "py_get ck_ack ''kind'' = PStr ''PBCLUSTER_CHECKPOINT_ACK''" "get_str ck_ack ''node_id'' = ''m''"
    by (simp_all add: ck_ack_def ck_signature_def ck_get)
  ultimately show ?thesis
    by (simp add: verify_ack_def ck_clean_verifies ck_proposal_verifies [OF that] Let_def reject_checkpoint_def
        del: py_sorted.simps split: sum.splits)
qed

lemma ck_commit_verifies: "verify_commit_proof ck_crypto None (PDict ck_clean) (PDict ck_commit) = Inr ck_commit"
proof -
  have "py_sorted (PDict ck_commit) = PDict ck_commit" by code_simp
  moreover have "coordinator_id ck_clean = Inr ''m''" by code_simp
  moreover have "get_int ck_commit ''created_at'' 0 = Inr 130" "item_str ck_proposal ''proposal_id'' = Inr zero_id"
    "item_str ck_clean ''checkpoint_id'' = Inr zero_id" by code_simp+
  moreover have "py_eq (py_get ck_commit ''baseline_vector'') (py_get ck_clean ''baseline_vector'')"
    "py_eq (py_get ck_commit ''required_node_ids'') (py_get ck_proposal ''required_node_ids'')"
    by (simp_all add: py_eq_def ck_clean_def ck_commit_def ck_proposal_def ck_get)
  moreover have "verify_control ck_crypto ck_clean ck_commit ''m'' = Inr ()"
    by (rule ck_signed) (simp_all add: ck_commit_def ck_proposal_def ck_ack_def ck_signature_def ck_get zero_hash_def max_safe_integer_def)
  moreover have "py_get ck_commit ''kind'' = PStr ''PBCLUSTER_CHECKPOINT_COMMIT''" "get_str ck_commit ''coordinator_id'' = ''m''"
    "get_str ck_commit ''signer_id'' = ''m''" "py_or (py_get ck_commit ''proposal'') (PDict []) = PDict ck_proposal"
    "get_str ck_commit ''commit_proof_id'' = zero_id"
    "get_str ck_commit ''proposal_id'' = zero_id"
    "get_str ck_commit ''checkpoint_id'' = zero_id"
    "py_get ck_commit ''acknowledgements'' = PList [PDict ck_ack]"
    by (simp_all add: ck_commit_def ck_signature_def ck_get ck_proposal_def)
  moreover have "acknowledging_nodes ck_crypto ck_clean ck_proposal 130 (PList [PDict ck_ack]) = Inr [''m'']"
    by (simp add: acknowledging_nodes_def ck_ack_verifies) (simp add: ck_ack_def item_str_def py_item_def)
  moreover have "list_of (py_get ck_proposal ''required_node_ids'') = [PStr ''m'']" by code_simp
  ultimately show ?thesis
    by (simp add: verify_commit_proof_def ck_clean_verifies ck_proposal_verifies Let_def reject_checkpoint_def
        del: py_sorted.simps)
qed

section \<open>A store that holds the checkpoint\<close>

definition ck_pointer :: pydict where
  "ck_pointer = pointer_record ck_crypto ck_cluster 1 zero_id zero_id
     (PDict ck_commit) [(''m'', 5)] 140 ck_commit"

definition ck_empty :: checkpoint_store where
  "ck_empty = \<lparr>local_cluster = ck_cluster, checkpoint_objects = [], commit_file = None\<rparr>"

definition ck_store :: checkpoint_store where
  "ck_store = \<lparr>local_cluster = ck_cluster, checkpoint_objects = [(replicate 64 CHR ''0'', Json (PDict ck_clean))],
     commit_file = Some (Json (PDict ck_pointer))\<rparr>"

lemma ck_store_commit: "read_commit ck_store = Inr (Some ck_pointer)"
  by (simp add: read_commit_def ck_store_def ck_pointer_def pointer_record_get py_eq_def)

lemma ck_active: "read_active ck_crypto ck_store = Inr (Some ck_clean)"
proof -
  have i: "is_sha256 zero_id" "get_str ck_clean ''checkpoint_id'' = zero_id"
    "object_stem zero_id = replicate 64 CHR ''0''" by code_simp+
  have "read_checkpoint_object ck_crypto ck_store zero_id = Inr ck_clean"
    unfolding read_checkpoint_object_def i(3) by (simp add: i ck_store_def ck_clean_verifies reject_checkpoint_def)
  moreover have "get_str ck_pointer ''current_checkpoint_id'' = zero_id"
    "py_get ck_pointer ''baseline_vector'' = vector_val [(''m'', 5)]" "py_or (py_get ck_pointer ''commit_proof'') (PDict []) = PDict ck_commit"
    by (simp_all add: ck_pointer_def pointer_record_def Let_def ck_get ck_commit_def)
  moreover have "normalized_vector (vector_val [(''m'', 5)]) = Inr [(''m'', 5)]"
    "py_eq (vector_val [(''m'', 5)]) (py_get ck_clean ''baseline_vector'')" by code_simp+
  ultimately have "read_current ck_crypto ck_store ck_pointer = Inr ck_clean"
    by (simp add: read_current_def reject_checkpoint_def ck_commit_verifies)
  moreover note ck_store_commit
  moreover have "get_str ck_pointer ''cluster_id'' = ck_cluster" "get_str ck_pointer ''commit_id'' = zero_id"
    by (simp_all add: ck_pointer_def pointer_record_def Let_def ck_get)
  ultimately show ?thesis by (simp add: read_active_def read_committed_def reject_checkpoint_def ck_store_def)
qed

section \<open>The properties applied\<close>

lemma ck_active_ids: "active_ids ck_clean = [''m'']"
  by code_simp

theorem verified_checkpoint_wf_witness:
  "verify_shadow_checkpoint ck_crypto (Some ck_cluster) (PDict ck_checkpoint) = Inr ck_clean \<and> checkpoint_wf ck_crypto ck_clean \<and>
   verify_shadow_checkpoint ck_crypto (Some ck_cluster) (PDict ck_clean) = Inr ck_clean"
  using verified_checkpoint_wf [OF ck_verifies(2)] ck_verifies(2) by blast

theorem active_checkpoint_acknowledged_witness:
  "read_active ck_crypto ck_store = Inr (Some ck_clean) \<and> (\<exists>proof. fully_acknowledged ck_crypto ck_clean proof)"
  using active_checkpoint_acknowledged [OF ck_active] ck_active by (simp add: ck_active_ids)

lemma ck_pointer_values:
  "get_int ck_pointer ''epoch'' 0 = Inr 1"
  "normalized_vector (py_or (py_get ck_pointer ''baseline_vector'') (PDict [])) = Inr [(''m'', 5)]"
proof -
  have "normalized_vector (vector_val [(''m'', 5)]) = Inr [(''m'', 5)]" by code_simp
  then show "get_int ck_pointer ''epoch'' 0 = Inr 1"
    "normalized_vector (py_or (py_get ck_pointer ''baseline_vector'') (PDict [])) = Inr [(''m'', 5)]"
    by (simp_all add: ck_pointer_def pointer_record_get get_int_def py_or_def vector_val_def)
qed

lemma empty_values: "get_int [] ''epoch'' 0 = Inr 0" "normalized_vector (py_or (py_get [] ''baseline_vector'') (PDict [])) = Inr []"
  by code_simp+

lemma ck_prepared:
  assumes "local_cluster st = ck_cluster" "read_commit st = Inr current" "current = None \<or> current = Some ck_pointer"
  shows "\<exists>commit. prepare_activation ck_crypto (PDict ck_checkpoint) (PDict ck_commit) 140 False st = Inr (commit, ck_clean)"
proof -
  have s: "seal_checked ck_clean = Inr ()" by code_simp
  have e: "res_bind (or_empty (py_get ck_commit ''proposal'')) (\<lambda>p. get_int p ''expires_at'' 0) = Inr 200" by code_simp
  have b: "res_bind (py_item ck_clean ''baseline_vector'') normalized_vector = Inr [(''m'', 5)]" by code_simp
  have i: "item_str ck_clean ''checkpoint_id'' = Inr zero_id" by code_simp
  have old: "get_int (case current of None \<Rightarrow> [] | Some c \<Rightarrow> c) ''epoch'' 0 = Inr (case current of None \<Rightarrow> 0 | Some c \<Rightarrow> 1)"
    "normalized_vector (py_or (py_get (case current of None \<Rightarrow> [] | Some c \<Rightarrow> c) ''baseline_vector'') (PDict [])) =
      Inr (case current of None \<Rightarrow> [] | Some c \<Rightarrow> [(''m'', 5)])"
    using assms(3) ck_pointer_values by (auto simp: empty_values)
  have "\<not> moves_back (case current of None \<Rightarrow> [] | Some c \<Rightarrow> [(''m'', 5)]) [(''m'', 5)]"
    by (auto simp: moves_back_def vector_get_def split: option.splits)
  then show ?thesis
    by (simp add: prepare_activation_def assms(1,2) ck_verifies s ck_commit_verifies e b i old Let_def reject_checkpoint_def
        strict_nonnegative_int_def strict_int_def)
qed

theorem activation_publishes_witness:
  "\<exists>commit st'. activate_checkpoint ck_crypto (PDict ck_checkpoint) (PDict ck_commit) 140 False ck_empty = (Inr commit, st') \<and>
     read_active ck_crypto st' = Inr (Some ck_clean)"
proof -
  obtain commit where p: "prepare_activation ck_crypto (PDict ck_checkpoint) (PDict ck_commit) 140 False ck_empty = Inr (commit, ck_clean)"
    using ck_prepared [of ck_empty None] by (auto simp: ck_empty_def read_commit_def)
  have "sha256_hex_ok ck_crypto"
  proof -
    have "length (drop 7 zero_id) = 64 \<and> set (drop 7 zero_id) \<subseteq> set ''0123456789abcdef''" by code_simp
    then show ?thesis by (simp add: sha256_hex_ok_def ck_crypto_def)
  qed
  moreover have "item_str ck_clean ''checkpoint_id'' = Inr zero_id" by code_simp
  moreover have "checkpoint_objects ck_empty = []" by (simp add: ck_empty_def)
  ultimately show ?thesis using activation_publishes [OF _ p, of zero_id] by auto
qed

theorem activation_monotone_witness:
  "\<exists>r st' e' b'. activate_checkpoint ck_crypto (PDict ck_checkpoint) (PDict ck_commit) 140 False ck_store = (r, st') \<and>
     pointer st' = Some (e', b') \<and> 1 \<le> e' \<and> 5 \<le> vector_get b' ''m''"
proof -
  obtain r st' where a: "activate_checkpoint ck_crypto (PDict ck_checkpoint) (PDict ck_commit) 140 False ck_store = (r, st')"
    by (metis prod.exhaust)
  have p: "pointer ck_store = Some (1, [(''m'', 5)])"
    by (simp add: pointer_def ck_store_commit ck_pointer_values)
  from activation_monotone [OF activations_step [OF activations_refl a] p] a show ?thesis
    by (fastforce simp: vector_get_def dest: spec [of _ "''m''"])
qed

definition ck_signer :: signer where
  "ck_signer = \<lparr>signer_cluster = ck_cluster, signer_node = ''m'', signer_private = replicate 32 CHR ''K''\<rparr>"

theorem proposal_roundtrip_witness:
  "\<exists>p. create_proposal ck_crypto ck_signer (PDict ck_checkpoint) 200 110 = Inr p \<and>
     verify_proposal ck_crypto (PDict ck_checkpoint) (PDict p) 150 = Inr (sorted_dict p)"
proof -
  have s: "seal_checked ck_clean = Inr ()" "coordinator_id ck_clean = Inr ''m''" by code_simp+
  define fields where "fields = [(''cluster_id'', PStr ck_cluster), (''checkpoint_id'', zero_hash), (''baseline_vector'', PDict [(''m'', PInt 5)]),
    (''state_hash'', zero_hash), (''membership_hash'', zero_hash), (''migration_seal_hash'', zero_hash), (''required_node_ids'', PList [PStr ''m'']),
    (''coordinator_id'', PStr ''m'')]"
  have f: "proposal_fields ck_clean ''m'' = Inr fields" unfolding fields_def by code_simp
  have n: "is_ok (validated_text (PStr ''m'') ''signer_id'')" by code_simp
  have "is_ok (create_proposal ck_crypto ck_signer (PDict ck_checkpoint) 200 110)"
    using n
    by (auto simp: create_proposal_def ck_signer_def ck_verifies s f fields_def reject_checkpoint_def strict_nonnegative_int_def strict_positive_int_def
        strict_int_def sign_control_def as_checkpoint_error_def sign_operation_def Let_def is_ok_iff dict_update_def dict_has_def
        canonical_operation_bytes_def zero_hash_def max_safe_integer_def)
  then obtain p where p: "create_proposal ck_crypto ck_signer (PDict ck_checkpoint) 200 110 = Inr p" by (auto simp: is_ok_iff)
  have k: "control_key ck_clean (signer_node ck_signer) = Inr ck_key" unfolding ck_signer_def by code_simp
  have h: "honest_key ck_crypto (signer_private ck_signer) ck_key"
    by (simp add: honest_key_def ck_signer_def ck_crypto_def ck_key_b64)
  from proposal_roundtrip [OF p ck_verifies(1) k h, of 150] p show ?thesis by auto
qed

end
