(* ===== verification/Prune_Demo.thy ===== *)
theory Prune_Demo
  imports Prune_Laws Checkpoint_Demo
begin

text \<open>
  The master of the checkpoint's cluster prunes its log: the file of its first operation is older
  than the seven days of the policy and below the baseline, so it goes.
\<close>

definition pr_log :: "(string, (string, pyval) dict) dict" where
  "pr_log = [(''m'', [(''00000001.json'', PDict [(''actor'', PStr ''m''), (''created_at'', PInt 1), (''op'', PStr ''CREDENTIAL_CUTOFF''),
     (''op_id'', PStr ''m:1''), (''seq'', PInt 1)])])]"

definition pr_history :: cluster_store where
  "pr_history = \<lparr>cluster_id_file = Some ck_cluster, node_id_file = Some node_a, node_identity = [], oplog = pr_log,
     desired_state_file = None, active_checkpoint = None, store_keys = \<lparr>signing_private = [], encryption_public_raw = []\<rparr>, sync_requested = False\<rparr>"

definition pr_node :: node_state where
  "pr_node = \<lparr>history = pr_history, checkpoints = ck_store\<rparr>"

definition pr_state :: "prune_journal option \<Rightarrow> prune_state" where
  "pr_state j = \<lparr>prune_node = pr_node, journal_file = j, quarantines = []\<rparr>"

definition pr_files :: file_info where
  "pr_files = \<lparr>modified_at = (\<lambda>_ _. 1), file_size = (\<lambda>_ _. 10), object_size = (\<lambda>_. 10)\<rparr>"

section \<open>What the node rebuilds\<close>

definition pr_tail :: "pydict res" where
  "pr_tail = res_bind (tail_start ck_clean ck_desired) (\<lambda>s.
     res_bind (tail_desired ck_clean ck_desired s) (\<lambda>d.
     res_bind (tail_nodes (dict_of (py_get ck_materialized ''cluster_nodes'')) 0 s) (\<lambda>n.
     Inr [(''cluster_nodes'', PDict n), (''desired_state'', PDict d), (''state_vector'', vector_val (dict_sorted (tail_seqs s)))])))"

definition pr_materialized :: pydict where
  "pr_materialized = (case pr_tail of Inl _ \<Rightarrow> [] | Inr m \<Rightarrow> m)"

lemma pr_tail_ok: "is_ok pr_tail \<and> py_eq (PDict pr_materialized) (PDict ck_materialized)"
  by code_simp

lemma pr_tail_value: "pr_tail = Inr pr_materialized"
proof -
  from pr_tail_ok obtain m where m: "pr_tail = Inr m" unfolding is_ok_iff by blast
  show ?thesis unfolding pr_materialized_def m by simp
qed

lemma pr_materialize: "materialize_checkpoint_tail ck_crypto (PDict ck_clean) [] = Inr pr_materialized"
proof -
  have "res_sorted order_key [] = Inr []" by code_simp
  moreover have "dict_of (py_get (dict_of (py_get ck_clean ''materialized'')) ''desired_state'') = ck_desired"
    "dict_of (py_get (dict_of (py_get ck_clean ''materialized'')) ''cluster_nodes'') = dict_of (py_get ck_materialized ''cluster_nodes'')"
    by (simp_all add: ck_clean_def ck_get ck_materialized_def)
  ultimately show ?thesis
    using pr_tail_value by (simp add: materialize_checkpoint_tail_def ck_clean_verifies pr_tail_def)
qed

lemma pr_rebuild: "rebuild_materialized_state ck_crypto \<lparr>history = pr_history\<lparr>oplog := l\<rparr>, checkpoints = ck_store\<rparr> = Inr pr_materialized"
  if "l = pr_log \<or> l = []"
proof -
  have "is_ok (read_local_identity pr_history)" by code_simp
  then have "is_ok (read_local_identity (pr_history\<lparr>oplog := l\<rparr>))" by (simp add: identity_oplog)
  moreover have "baseline_vector ck_clean = Inr [(''m'', 5)]" by code_simp
  moreover have "tail_above [(''m'', 5)] (pr_history\<lparr>oplog := pr_log\<rparr>) = Inr []" "tail_above [(''m'', 5)] (pr_history\<lparr>oplog := []\<rparr>) = Inr []"
    by code_simp+
  ultimately show ?thesis
    using that by (auto simp: rebuild_materialized_state_def ck_active load_checkpoint_tail_def ck_clean_verifies pr_materialize is_ok_iff)
      (simp_all add: ck_store_def ck_clean_verifies pr_materialize)
qed

section \<open>The run\<close>

definition pr_policy :: pydict where
  "pr_policy = (case retention_policy (PDict pr_materialized) of Inr p \<Rightarrow> p | Inl _ \<Rightarrow> [])"

definition pr_candidate :: prune_candidate where
  "pr_candidate = \<lparr>cand_actor = ''m'', cand_seq = 1, cand_op_id = ''m:1'', cand_op = ''CREDENTIAL_CUTOFF'', cand_created = 1, cand_seen = 1,
     cand_size = 10, cand_file = ''00000001.json''\<rparr>"

definition pr_plan :: prune_plan where
  "pr_plan = \<lparr>plan_policy = pr_policy, plan_active = Some ck_clean, plan_blockers = [], plan_previous = zero_id, plan_safe = [(''m'', 5)],
     plan_cutoff = 1000000 - 7 * 24 * 60 * 60, plan_candidates = [pr_candidate]\<rparr>"

lemma pr_policy_value: "retention_policy (PDict pr_materialized) = Inr pr_policy" "policy_blockers pr_policy = []"
  "get_int pr_policy ''history_days'' 7 = Inr 7" "active_blockers pr_policy pr_materialized ck_clean = Inr []"
proof -
  have "case retention_policy (PDict pr_materialized) of Inl _ \<Rightarrow> False | Inr p \<Rightarrow>
      policy_blockers p = [] \<and> get_int p ''history_days'' 7 = Inr 7 \<and> active_blockers p pr_materialized ck_clean = Inr []"
    by code_simp
  then show "retention_policy (PDict pr_materialized) = Inr pr_policy" "policy_blockers pr_policy = []"
    "get_int pr_policy ''history_days'' 7 = Inr 7" "active_blockers pr_policy pr_materialized ck_clean = Inr []"
    by (auto simp: pr_policy_def split: sum.splits)
qed

lemma pr_predecessor: "predecessor ck_crypto ck_store = Inr (zero_id, [(''m'', 5)], [])"
proof -
  have i: "is_sha256 zero_id" "get_str ck_clean ''checkpoint_id'' = zero_id"
    "object_stem zero_id = replicate 64 CHR ''0''" by code_simp+
  have "read_checkpoint_object ck_crypto ck_store zero_id = Inr ck_clean"
    unfolding read_checkpoint_object_def i(3) by (simp add: i ck_store_def ck_clean_verifies reject_checkpoint_def)
  moreover have "get_str ck_pointer ''previous_checkpoint_id'' = zero_id"
    by (simp add: ck_pointer_def pointer_record_def Let_def ck_get)
  moreover have "baseline_vector ck_clean = Inr [(''m'', 5)]" by code_simp
  ultimately show ?thesis by (simp add: predecessor_def ck_store_commit)
qed

lemma pr_planned: "plan_prune ck_crypto pr_files 1000000 pr_node = Inr pr_plan"
proof -
  have "rebuild_materialized_state ck_crypto pr_node = Inr pr_materialized"
    using pr_rebuild [of pr_log] by (simp add: pr_node_def pr_history_def)
  moreover have "prune_candidates pr_files False [(''m'', 5)] (1000000 - 7 * 24 * 60 * 60) pr_history = Inr [pr_candidate]" by code_simp
  ultimately show ?thesis
    by (simp add: plan_prune_def pr_policy_value pr_predecessor pr_node_def ck_active pr_plan_def)
qed

definition pr_deleted :: "prune_journal option \<Rightarrow> prune_state" where
  "pr_deleted j = \<lparr>prune_node = \<lparr>history = pr_history\<lparr>oplog := []\<rparr>, checkpoints = ck_store\<rparr>, journal_file = j, quarantines = []\<rparr>"

lemma ck_objects_kept: "prune_objects [zero_id, zero_id] ck_store = ck_store"
proof -
  have "object_digest (replicate 64 CHR ''0'') \<in> set (keep_digests [zero_id, zero_id])" by code_simp
  then show ?thesis by (simp add: prune_objects_def ck_store_def)
qed

lemma pr_plan_fields: "plan_blockers pr_plan = []" "plan_candidates pr_plan = [pr_candidate]" "plan_safe pr_plan = [(''m'', 5)]"
  "plan_previous pr_plan = zero_id" "plan_active pr_plan = Some ck_clean" "active_id pr_plan = zero_id"
  by (simp_all add: pr_plan_def active_id_def) (simp add: ck_clean_def ck_get zero_hash_def)

lemma pr_finish:
  "\<exists>report' j'. finish_prune ck_crypto pr_files pr_plan report j completed n (pr_deleted jf) = (Inr report', pr_deleted (Some j'))"
proof -
  have "py_eq (PDict pr_materialized) (py_get ck_clean ''materialized'')"
    using pr_tail_ok by (simp add: ck_clean_def ck_get)
  then show ?thesis
    using pr_rebuild [of "[]"]
    by (simp add: finish_prune_def pr_deleted_def Let_def pr_plan_fields ck_objects_kept reject_checkpoint_def prune_quarantines_def)
qed

lemma pr_run:
  assumes "case old of None \<Rightarrow> True | Some i \<Rightarrow> journal_phase i = ''complete''"
  shows "\<exists>report j. prune_operation_history ck_crypto pr_files 1000000 False (pr_state old) = (Inr report, pr_deleted (Some j))"
proof -
  obtain report where report: "prune_report ck_crypto pr_files 1000000 False pr_history pr_plan = Inr report"
    using pr_policy_value(3) by (auto simp: prune_report_def pr_plan_def Let_def)
  have p: "file_present pr_history pr_candidate" "remove_empty_dirs (delete_file pr_candidate pr_history) = pr_history\<lparr>oplog := []\<rparr>"
    by (code_simp, simp add: pr_history_def remove_empty_dirs_def delete_file_def pr_log_def pr_candidate_def)
  have v: "vector_get [(''m'', 5)] (cand_actor pr_candidate) = 5" "cand_seq pr_candidate = 1" "cand_size pr_candidate = 10"
    by (simp_all add: pr_candidate_def vector_get_def)
  have l: "prune_loop [(''m'', 5)] 1 [pr_candidate] j {} 0 pr_history =
      (Inr (), j, {cand_path pr_candidate}, 10, delete_file pr_candidate pr_history)" for j
    by (simp add: p v)
  define j where "j = (new_journal ck_crypto 1000000 pr_plan)\<lparr>journal_phase := ''pruning''\<rparr>"
  have j: "journal_candidates j = [pr_candidate]" "journal_completed j = {}" by (simp_all add: j_def new_journal_def pr_plan_fields)
  obtain report' j' where f: "finish_prune ck_crypto pr_files pr_plan report j {cand_path pr_candidate} 10
      (pr_deleted (Some (j\<lparr>journal_phase := ''pruned'', journal_completed := {cand_path pr_candidate}\<rparr>))) = (Inr report', pr_deleted (Some j'))"
    using pr_finish by blast
  have "run_prune ck_crypto pr_files pr_plan report (new_journal ck_crypto 1000000 pr_plan) (pr_state old) = (Inr report', pr_deleted (Some j'))"
    using f by (simp add: run_prune_def Let_def j_def [symmetric] j l pr_plan_fields pr_state_def pr_node_def p del: prune_loop.simps)
      (simp add: pr_deleted_def)
  moreover have "open_journal ck_crypto 1000000 pr_plan old = Inr (new_journal ck_crypto 1000000 pr_plan)"
    using assms by (simp add: open_journal_def split: option.splits)
  ultimately have "prune_operation_history ck_crypto pr_files 1000000 False (pr_state old) = (Inr report', pr_deleted (Some j'))"
    by (simp add: prune_operation_history_def pr_state_def pr_node_def pr_planned [unfolded pr_node_def] report pr_plan_fields
        strict_nonnegative_int_def strict_int_def void_def)
  then show ?thesis by blast
qed

section \<open>The properties applied\<close>

lemma pr_wf: "store_wf pr_history" "journal_ok (pr_state None)" "prune_node (pr_state None) = pr_node"
  by (simp_all add: store_wf_def pr_history_def pr_log_def journal_ok_def pr_state_def)

text \<open>The journal of an earlier run is complete, so this run is a new one.\<close>

definition pr_earlier :: prune_journal where
  "pr_earlier = (new_journal ck_crypto 900000 (pr_plan\<lparr>plan_candidates := []\<rparr>))\<lparr>journal_phase := ''complete''\<rparr>"

theorem prune_safe_witness:
  "\<exists>report ps'. prune_operation_history ck_crypto pr_files 1000000 False (pr_state (Some pr_earlier)) = (Inr report, ps') \<and>
     stored pr_history ''m'' ''00000001.json'' \<noteq> None \<and> stored (history (prune_node ps')) ''m'' ''00000001.json'' = None \<and>
     (\<exists>plan d t. plan_prune ck_crypto pr_files 1000000 pr_node = Inr plan \<and> safe_baseline ck_crypto ck_store = Some (plan_safe plan) \<and>
        stored pr_history ''m'' ''00000001.json'' = Some (PDict d) \<and> get_int d ''created_at'' 0 = Inr t \<and> t < plan_cutoff plan)"
proof -
  let ?ps = "pr_state (Some pr_earlier)"
  obtain report j where r: "prune_operation_history ck_crypto pr_files 1000000 False ?ps = (Inr report, pr_deleted (Some j))"
    using pr_run [of "Some pr_earlier"] by (auto simp: pr_earlier_def)
  have s: "stored pr_history ''m'' ''00000001.json'' \<noteq> None" by code_simp
  have n: "prune_node ?ps = pr_node" "journal_ok ?ps" "resumed_journal ?ps = None"
    by (simp_all add: pr_state_def journal_ok_def resumed_journal_def pr_earlier_def new_journal_def well_named_def)
  have g: "stored (history (prune_node (pr_deleted (Some j)))) ''m'' ''00000001.json'' = None"
    by (simp add: pr_deleted_def stored_def dir_files_def)
  from prune_safe [OF r n(2), of "''m''" "''00000001.json''"] s g pr_wf(1) r show ?thesis
    by (auto simp: n pr_node_def)
qed

theorem prune_invisible_witness:
  "\<exists>report ps'. prune_operation_history ck_crypto pr_files 1000000 False (pr_state None) = (Inr report, ps') \<and>
     stored (history (prune_node ps')) ''m'' ''00000001.json'' = None \<and> rebuild_materialized_state ck_crypto (prune_node ps') = Inr pr_materialized"
proof -
  obtain report j where r: "prune_operation_history ck_crypto pr_files 1000000 False (pr_state None) = (Inr report, pr_deleted (Some j))"
    using pr_run [of None] by auto
  have "safe_baseline ck_crypto ck_store = Some [(''m'', 5)]"
    using plan_prune_Inr [OF pr_planned] pr_plan_fields by (metis node_state.select_convs(2) pr_node_def)
  moreover have "baseline_vector ck_clean = Inr [(''m'', 5)]" "\<not> moves_back [(''m'', 5)] [(''m'', 5)]" by code_simp+
  ultimately have "chain_ok ck_crypto (checkpoints (prune_node (pr_state None)))"
    by (simp add: chain_ok_def ck_active pr_wf pr_node_def)
  note prune_invisible [OF r pr_wf(2) this]
  moreover have "rebuild_materialized_state ck_crypto pr_node = Inr pr_materialized"
    using pr_rebuild [of pr_log] by (simp add: pr_node_def pr_history_def)
  moreover have "stored (history (prune_node (pr_deleted (Some j)))) ''m'' ''00000001.json'' = None"
    by (simp add: pr_deleted_def stored_def dir_files_def)
  ultimately show ?thesis using r pr_wf(3) by auto
qed

definition pr_stale :: prune_journal where
  "pr_stale = (new_journal ck_crypto 900000 pr_plan)\<lparr>journal_phase := ''pruning'', journal_checkpoint := ''sha256:1''\<rparr>"

theorem stale_journal_blocks_witness:
  "\<exists>e. prune_operation_history ck_crypto pr_files 1000000 False (pr_state (Some pr_stale)) = (Inl e, pr_state (Some pr_stale))"
proof -
  obtain r ps' where r: "prune_operation_history ck_crypto pr_files 1000000 False (pr_state (Some pr_stale)) = (r, ps')" by fastforce
  have "get_str ck_clean ''checkpoint_id'' \<noteq> journal_checkpoint pr_stale"
    by (simp add: pr_stale_def ck_clean_def ck_get zero_hash_def zero_id_def)
  moreover have "journal_phase pr_stale \<noteq> ''complete''" by (simp add: pr_stale_def)
  ultimately show ?thesis
    using stale_journal_blocks [OF r, of pr_stale ck_clean] pr_planned pr_plan_fields r by (auto simp: pr_state_def pr_node_def ck_active)
qed

end
