(* ===== verification/Cmc_Provider.thy ===== *)
theory Cmc_Provider
  imports Cluster_Mailbox
begin

text \<open>
  \<open>CmcLeaseProvider\<close> (cmc_leases.py): a node asks the authority of a quota domain for a lease, over
  the mailbox or in its own process, and reports what became of it. The state file is the state the
  provider wrote. An operation returns its result or exception with the world it leaves, because it
  may raise after it has changed files. Each reading of the clock, each new identifier and each load
  of the snapshot is a function of the number of readings made before it. A candidate of a message that
  is no object raises before the authority is called rather than when its turn comes. Amounts and limits are
  whole numbers.
\<close>

section \<open>State\<close>

record route =
  route_domain :: string
  route_node :: string
  route_epoch :: int

record grant_record =
  grant_lease :: pyval
  consumed :: bool
  consumed_at :: "int option"

record provider_files =
  pending :: "(string, string \<times> pydict) dict"
  grants :: "(string, grant_record) dict"
  settlements :: "(string, pydict) dict"
  outbox :: "(string, pydict) dict"

record provider_world =
  mail :: mailbox
  provider_file :: provider_files
  own_authority :: "(authority_config \<times> journal) option"
  authority_routes :: "(string, route) dict"
  default_node :: string
  default_epoch :: int
  readings :: nat

text \<open>What does not change: the node, its key, its membership and what it reads from outside.\<close>

record provider_env =
  env_crypto :: crypto
  env_members :: pydict
  local_node :: string
  local_key :: string
  own_domain :: "string option"
  clock_at :: "nat \<Rightarrow> int"
  uuid_at :: "nat \<Rightarrow> string"
  snapshot_at :: "(nat \<Rightarrow> pyval res) option"

type_synonym 'a action = "provider_world \<Rightarrow> 'a res \<times> provider_world"

definition act :: "'a res \<Rightarrow> 'a action" where
  "act r w = (r, w)"

definition act_bind :: "'a action \<Rightarrow> ('a \<Rightarrow> 'b action) \<Rightarrow> 'b action" where
  "act_bind m f w = (case m w of (Inl e, w') \<Rightarrow> (Inl e, w') | (Inr x, w') \<Rightarrow> f x w')"

fun act_fold :: "('x \<Rightarrow> 's \<Rightarrow> 's action) \<Rightarrow> 'x list \<Rightarrow> 's \<Rightarrow> 's action" where
  "act_fold f [] s = act (Inr s)"
| "act_fold f (x # xs) s = act_bind (f x s) (act_fold f xs)"

text \<open>\<open>try: ... except Exception: return x\<close>.\<close>

definition or_else :: "'a action \<Rightarrow> 'a \<Rightarrow> 'a action" where
  "or_else m x w = (case m w of (Inl _, w') \<Rightarrow> (Inr x, w') | r \<Rightarrow> r)"

definition read_clock :: "provider_env \<Rightarrow> int action" where
  "read_clock env w = (Inr (clock_at env (readings w)), w\<lparr>readings := readings w + 1\<rparr>)"

definition new_uuid :: "provider_env \<Rightarrow> string action" where
  "new_uuid env w = (Inr (uuid_at env (readings w)), w\<lparr>readings := readings w + 1\<rparr>)"

definition files_now :: "provider_files action" where
  "files_now w = (Inr (provider_file w), w)"

definition write_files :: "provider_files \<Rightarrow> unit action" where
  "write_files fs w = (Inr (), w\<lparr>provider_file := fs\<rparr>)"

text \<open>An operation of the mailbox, with the two readings of the clock it takes.\<close>

definition mail_op :: "provider_env \<Rightarrow> (crypto \<Rightarrow> pydict \<Rightarrow> int \<Rightarrow> int \<Rightarrow> mailbox \<Rightarrow> 'a outcome) \<Rightarrow> 'a action" where
  "mail_op env f =
     act_bind (read_clock env) (\<lambda>t1. act_bind (read_clock env) (\<lambda>t2. (\<lambda>w.
       case f (env_crypto env) (env_members env) t1 t2 (mail w) of (r, box) \<Rightarrow> (r, w\<lparr>mail := box\<rparr>))))"

definition put_mail :: "provider_env \<Rightarrow> pydict \<Rightarrow> bool action" where
  "put_mail env m = mail_op env (\<lambda>cr ns t1 t2. put_message cr ns t1 t2 (PDict m))"

definition get_mail :: "provider_env \<Rightarrow> string \<Rightarrow> pydict action" where
  "get_mail env i = mail_op env (\<lambda>cr ns t1 t2. get_message cr ns t1 t2 i)"

definition ack_mail :: "provider_env \<Rightarrow> string \<Rightarrow> string \<Rightarrow> bool action" where
  "ack_mail env i node = mail_op env (\<lambda>cr ns t1 t2. ack_message cr ns t1 t2 i node)"

definition new_mail :: "provider_env \<Rightarrow> string \<Rightarrow> string \<Rightarrow> pyval \<Rightarrow> string option \<Rightarrow> int option \<Rightarrow> pydict action" where
  "new_mail env kind to payload i expires =
     act_bind (read_clock env) (\<lambda>t1. act_bind (new_uuid env) (\<lambda>u. act_bind (read_clock env) (\<lambda>t2.
       act (create_message (env_crypto env) (env_members env) (local_node env) (local_key env) u t1 t2 kind to payload i
         None expires default_message_ttl))))"

section \<open>Rows, counters and outcomes\<close>

definition lease_doc :: "lease \<Rightarrow> pyval" where
  "lease_doc l = PDict [(''lease_id'', PStr (lease_id l)), (''request_id'', PStr (lease_request l)),
     (''credential_id'', PStr (credential_id l)), (''secret_generation'', PInt (secret_generation l)),
     (''quota_domain_id'', PStr (lease_domain l)), (''authority_epoch'', PInt (lease_epoch l)), (''recipient'', PStr (recipient l)),
     (''credits_micros'', PInt (credits_micros l)), (''request_count'', PInt (request_count l)), (''granted_at'', PInt (granted_at l)),
     (''expires_at'', PInt (expires_at l))]"

definition credits_to_nonnegative_micros :: "int \<Rightarrow> int res" where
  "credits_to_nonnegative_micros v =
     (if v < 0 then Inl (CmcLeaseError ''actual credits must be a nonnegative finite number'')
      else Inr (int (round53 (round53 (nat v) * microcredits))))"

definition text_fields :: "string list" where
  "text_fields = [''quota_domain_id'', ''origin'', ''provider_plan'']"

definition limit_fields :: "string list" where
  "limit_fields = [''minute_limit'', ''daily_limit'', ''monthly_limit'', ''concurrent_limit'']"

definition optional_field :: "pydict \<Rightarrow> string \<Rightarrow> pydict res" where
  "optional_field d k = (let v = py_get d k in
     if \<not> hashable v then Inl TypeError
     else if v = PNone \<or> v = PStr [] then Inr []
     else if k \<in> set limit_fields then res_bind (cmc_positive_int v k) (\<lambda>i. Inr [(k, PInt i)])
     else res_bind (cmc_bounded_text 512 v k) (\<lambda>s. Inr [(k, PStr s)]))"

definition safe_candidate :: "pyval \<Rightarrow> pydict list res" where
  "safe_candidate v = (case v of
     PDict d \<Rightarrow>
       res_bind (cmc_identifier (py_or (py_get d ''id'') (py_get d ''credential_id'')) ''credential_id'') (\<lambda>i.
       res_bind (cmc_positive_int (py_get d ''generation'') ''generation'') (\<lambda>g.
       res_bind (res_map (optional_field d) (text_fields @ limit_fields)) (\<lambda>fs.
       Inr [[(''id'', PStr i), (''generation'', PInt g)] @ concat fs
         @ (if dict_has d ''shared'' then [(''shared'', PBool (truthy (py_get d ''shared'')))] else [])])))
   | _ \<Rightarrow> Inr [])"

definition safe_candidates :: "pyval list \<Rightarrow> pydict list res" where
  "safe_candidates vs = res_bind (res_map safe_candidate vs) (\<lambda>rs. Inr (concat rs))"

text \<open>
  A row as \<open>grant\<close> uses it: an identifier is any value as a text, a generation or a domain that fails its check is one that
  fails it in \<open>grant\<close> too, and a limit that is no number is no limit.
\<close>

definition limit_of :: "pydict \<Rightarrow> string \<Rightarrow> int option" where
  "limit_of d k = (case py_int (py_get d k) of Inr i \<Rightarrow> Some i | Inl _ \<Rightarrow> None)"

definition read_candidate :: "pyval \<Rightarrow> candidate res" where
  "read_candidate v = (case v of
     PDict d \<Rightarrow> Inr \<lparr>candidate_id = py_str (py_or (py_get d ''id'') (py_or (py_get d ''credential_id'') (PStr []))),
       candidate_generation = (case cmc_positive_int (py_get d ''generation'') ''generation'' of Inr g \<Rightarrow> g | Inl _ \<Rightarrow> 0),
       candidate_domain = (case py_get d ''quota_domain_id'' of PStr q \<Rightarrow> Some q | q \<Rightarrow> if truthy q then Some ''/'' else None),
       candidate_epoch = None, minute_limit = limit_of d ''minute_limit'', daily_limit = limit_of d ''daily_limit'',
       monthly_limit = limit_of d ''monthly_limit'', candidate_concurrent = limit_of d ''concurrent_limit''\<rparr>
   | _ \<Rightarrow> Inl AttributeError)"

text \<open>\<open>round(number * 1000000)\<close> of a whole number, through the nearest doubles.\<close>

definition signed_micros :: "int \<Rightarrow> int" where
  "signed_micros n = sgn n * int (round53 (round53 (nat \<bar>n\<bar>) * microcredits))"

definition safe_provider_entry :: "pydict \<Rightarrow> string \<Rightarrow> pydict res" where
  "safe_provider_entry d k = (case py_get d k of
     PNone \<Rightarrow> Inr []
   | v \<Rightarrow>
       if k = ''status'' then res_bind (cmc_bounded_text 512 (PStr (py_str v)) k) (\<lambda>s. Inr [(k, PStr s)])
       else if k = ''error_code'' then (case py_int v of Inl _ \<Rightarrow> Inr [] | Inr i \<Rightarrow> Inr [(k, PInt i)])
       else (case py_int v of
           Inl _ \<Rightarrow> Inr []
         | Inr i \<Rightarrow> Inr [if k = ''reset_at'' then (k, PInt i) else (k @ ''_micros'', PInt (signed_micros i))]))"

definition safe_provider_status :: "pydict \<Rightarrow> pydict res" where
  "safe_provider_status d =
     res_bind (res_map (safe_provider_entry d) [''remaining'', ''limit'', ''used'', ''reset_at'', ''status'', ''error_code'']) (\<lambda>es.
     Inr (concat es))"

text \<open>The integer counters of the snapshot that a settlement records.\<close>

definition counter_fields :: "string list" where
  "counter_fields = [''remaining_micros'', ''limit_micros'', ''used_micros'', ''reset_at'']"

definition status_counters :: "pyval \<Rightarrow> (string, int) dict res" where
  "status_counters v = (case v of
     PDict d \<Rightarrow>
       if dict_has d ''remaining_micros'' \<or> dict_has d ''limit_micros'' \<or> dict_has d ''used_micros''
       then res_map (\<lambda>k. res_bind (py_int (py_get d k)) (\<lambda>i. Inr (k, i))) (filter (\<lambda>k. py_get d k \<noteq> PNone) counter_fields)
       else res_bind (safe_provider_status d) (\<lambda>s.
         res_map (\<lambda>k. res_bind (py_int (py_get s k)) (\<lambda>i. Inr (k, i))) (filter (\<lambda>k. py_get s k \<noteq> PNone) counter_fields))
   | _ \<Rightarrow> Inr [])"

definition has_text :: "string \<Rightarrow> string \<Rightarrow> bool" where
  "has_text part s \<longleftrightarrow> (\<exists>n \<in> set [0..<Suc (length s)]. startswith (drop n s) part)"

definition settlement_outcome :: "int option \<Rightarrow> bool \<Rightarrow> pydict \<Rightarrow> string" where
  "settlement_outcome code failed status =
     (let text = str_lower (get_str status ''status'');
          err = (case py_int (py_get status ''error_code'') of Inr i \<Rightarrow> i | Inl _ \<Rightarrow> 0)
      in if code = Some 429 \<or> err \<in> {1008, 1011} then ''rate_limited''
         else if err \<in> {1001, 1002, 1003, 1004, 1005, 1006, 1007} then ''provider_disabled''
         else if err \<in> {1009, 1010} then ''exhausted''
         else if code \<in> {Some 401, Some 403} \<or> has_text ''invalid'' text then ''invalid''
         else if text \<in> {''rate_limited'', ''rate-limited'', ''cooldown''} then ''rate_limited''
         else if code = Some 402 \<or> text \<in> {''exhausted'', ''credit_exhausted''} then ''exhausted''
         else if failed \<or> (case code of None \<Rightarrow> False | Some c \<Rightarrow> 500 \<le> c) then ''error''
         else ''success'')"

section \<open>Routes\<close>

definition normalized_route :: "string \<Rightarrow> pydict \<Rightarrow> route res" where
  "normalized_route key raw =
     res_bind (cmc_identifier (py_or (py_get raw ''quota_domain_id'') (PStr key)) ''quota_domain_id'') (\<lambda>d.
     res_bind (cmc_identifier (py_get raw ''authority_node_id'') ''authority_node_id'') (\<lambda>n.
     res_bind (cmc_positive_int (py_get raw ''authority_epoch'') ''authority_epoch'') (\<lambda>e.
     Inr \<lparr>route_domain = d, route_node = n, route_epoch = e\<rparr>)))"

definition normalized_routes :: "pydict \<Rightarrow> (string, route) dict res" where
  "normalized_routes raws = res_fold (\<lambda>(key, v) rs. case v of
     PDict raw \<Rightarrow>
       if truthy (py_get raw ''conflicted'') then Inr rs
       else (case normalized_route key raw of
           Inr r \<Rightarrow> Inr (dict_set (route_domain r) r rs)
         | Inl (CmcLeaseError _) \<Rightarrow> Inr rs
         | Inl e \<Rightarrow> Inl e)
   | _ \<Rightarrow> Inr rs) raws []"

definition snapshot_routes :: "pyval \<Rightarrow> pydict option" where
  "snapshot_routes snapshot =
     (let inner = py_get (dict_of snapshot) ''desired_state'';
          desired = (if is_dict inner then inner else snapshot);
          routes = py_get (dict_of (py_get (dict_of desired) ''cmc_pool'')) ''authorities''
      in if is_dict routes then Some (dict_of routes) else None)"

definition use_routes :: "(string, route) dict \<Rightarrow> provider_world \<Rightarrow> provider_world" where
  "use_routes rs w = (case dict_sorted rs of
     [] \<Rightarrow> w
   | (_, first) # _ \<Rightarrow> w\<lparr>authority_routes := rs, default_node := route_node first, default_epoch := route_epoch first\<rparr>)"

definition refresh_routes :: "provider_env \<Rightarrow> unit action" where
  "refresh_routes env w = (case snapshot_at env of
     None \<Rightarrow> (Inr (), w)
   | Some load \<Rightarrow>
       let w = w\<lparr>readings := readings w + 1\<rparr> in
       (case load (readings w - 1) of
          Inl e \<Rightarrow> (Inl e, w)
        | Inr snapshot \<Rightarrow> (case snapshot_routes snapshot of
            None \<Rightarrow> (Inr (), w)
          | Some raws \<Rightarrow> (case normalized_routes raws of
              Inl e \<Rightarrow> (Inl e, w)
            | Inr rs \<Rightarrow>
                let w' = use_routes rs w in
                (case own_authority w' of
                   None \<Rightarrow> (Inr (), w')
                 | Some (cfg, j) \<Rightarrow> (case update_authority_epochs (map (\<lambda>(d, r). (d, route_epoch r)) rs) cfg of
                     Inl e \<Rightarrow> (Inl e, w')
                   | Inr cfg' \<Rightarrow> (Inr (), w'\<lparr>own_authority := Some (cfg', j)\<rparr>)))))))"

definition route_for_domain :: "provider_world \<Rightarrow> string \<Rightarrow> route option" where
  "route_for_domain w d = (case map_of (authority_routes w) d of
     Some r \<Rightarrow> Some r
   | None \<Rightarrow> if authority_routes w \<noteq> [] then None
       else Some \<lparr>route_domain = d, route_node = default_node w, route_epoch = default_epoch w\<rparr>)"

text \<open>The first domain, in order, that has a route, with its candidates.\<close>

definition row_domain :: "provider_env \<Rightarrow> pydict \<Rightarrow> string" where
  "row_domain env row = py_str (py_or (py_get row ''quota_domain_id'') (PStr (or_text (own_domain env) (get_str row ''id''))))"

definition group_candidates :: "provider_env \<Rightarrow> pydict list \<Rightarrow> (string, pydict list) dict" where
  "group_candidates env rows = fold (\<lambda>row gs. let d = row_domain env row
     in group_append d (dict_set ''quota_domain_id'' (PStr d) row) gs) rows []"

definition route_candidates :: "provider_env \<Rightarrow> provider_world \<Rightarrow> pydict list \<Rightarrow> (route \<times> pydict list) option" where
  "route_candidates env w rows =
     (case [(r, members). (d, members) \<leftarrow> dict_sorted (group_candidates env rows), r \<leftarrow> (case route_for_domain w d of None \<Rightarrow> [] | Some r \<Rightarrow> [r])] of
        [] \<Rightarrow> None | x # _ \<Rightarrow> Some x)"

section \<open>Calls of the authority in this process\<close>

definition own_grant :: "provider_env \<Rightarrow> string \<Rightarrow> candidate list \<Rightarrow> string \<Rightarrow> int \<Rightarrow> int \<Rightarrow> string \<Rightarrow> int \<Rightarrow> lease option action" where
  "own_grant env request cs to cost n d epoch =
     act_bind (read_clock env) (\<lambda>now. act_bind (new_uuid env) (\<lambda>u. (\<lambda>w. case own_authority w of
       None \<Rightarrow> (Inl AttributeError, w)
     | Some (cfg, j) \<Rightarrow> (case grant cfg u request cs to cost n (Some d) (Some epoch) now j of
         Inl e \<Rightarrow> (Inl e, w)
       | Inr (l, j') \<Rightarrow> (Inr l, w\<lparr>own_authority := Some (cfg, j')\<rparr>)))))"

text \<open>The status code and the counters of \<open>provider_status\<close> are read last, and only for a lease that is not settled yet.\<close>

definition already_settled :: "string \<Rightarrow> int \<Rightarrow> journal \<Rightarrow> bool" where
  "already_settled i now j = (case expire_leases now j of
     Inr j1 \<Rightarrow> (case map_of (leases j1) i of Some ls \<Rightarrow> lease_settlement ls \<noteq> None | None \<Rightarrow> False)
   | Inl _ \<Rightarrow> False)"

definition optional_int :: "pyval \<Rightarrow> int option res" where
  "optional_int v = (if v = PNone then Inr None else res_bind (py_int v) (\<lambda>i. Inr (Some i)))"

definition settle_status :: "authority_config \<Rightarrow> string \<Rightarrow> string \<Rightarrow> pyval \<Rightarrow> string option \<Rightarrow> int option \<Rightarrow> pyval \<Rightarrow> int \<Rightarrow> journal
    \<Rightarrow> (settlement \<times> journal) res" where
  "settle_status cfg i result code d epoch status now j =
     (case res_bind (optional_int code) (\<lambda>c. res_bind (status_counters status) (\<lambda>ks. Inr (c, ks))) of
        Inr (c, counters) \<Rightarrow> settle cfg i result None c d epoch counters now j
      | Inl e \<Rightarrow> res_bind (settle cfg i result None None d epoch [] now j) (\<lambda>r. if already_settled i now j then Inr r else Inl e))"

definition own_settle :: "provider_env \<Rightarrow> string \<Rightarrow> string \<Rightarrow> pyval \<Rightarrow> string option \<Rightarrow> int option \<Rightarrow> pyval \<Rightarrow> settlement action" where
  "own_settle env i result code d epoch status =
     act_bind (read_clock env) (\<lambda>now. (\<lambda>w. case own_authority w of
       None \<Rightarrow> (Inl AttributeError, w)
     | Some (cfg, j) \<Rightarrow> (case settle_status cfg i result code d epoch status now j of
         Inl e \<Rightarrow> (Inl e, w)
       | Inr (s, j') \<Rightarrow> (Inr s, w\<lparr>own_authority := Some (cfg, j')\<rparr>))))"

definition own_event :: "provider_env \<Rightarrow> string \<Rightarrow> pyval \<Rightarrow> unit action" where
  "own_event env i payload = act_bind (read_clock env) (\<lambda>now. (\<lambda>w. case own_authority w of
     None \<Rightarrow> (Inl AttributeError, w)
   | Some (cfg, j) \<Rightarrow> (case record_provider_event i payload now j of
       Inl e \<Rightarrow> (Inl e, w)
     | Inr (_, j') \<Rightarrow> (Inr (), w\<lparr>own_authority := Some (cfg, j')\<rparr>))))"

section \<open>The outbox\<close>

text \<open>A message is signed once and sent again as it was.\<close>

definition outbox_message :: "provider_env \<Rightarrow> string \<Rightarrow> string \<Rightarrow> string \<Rightarrow> pyval \<Rightarrow> int option \<Rightarrow> pydict action" where
  "outbox_message env outbox_id kind to payload expires =
     (let key = sha256_hex (env_crypto env) outbox_id in
      act_bind files_now (\<lambda>fs. case map_of (outbox fs) key of
        Some m \<Rightarrow> act (Inr m)
      | None \<Rightarrow>
          act_bind (new_mail env kind to payload (Some key) expires) (\<lambda>m.
          act_bind (write_files (fs\<lparr>outbox := dict_set key m (outbox fs)\<rparr>)) (\<lambda>_. act (Inr m)))))"

section \<open>The inbox\<close>

record inbox_counts =
  processed :: nat
  granted :: nat
  settled :: nat
  events :: nat
  acked :: nat

definition as_mapping :: "pyval \<Rightarrow> pydict res" where
  "as_mapping v = (case v of PDict d \<Rightarrow> Inr d | _ \<Rightarrow> Inl AttributeError)"

text \<open>Whether the route of a domain leads to \<open>node\<close> in the epoch that \<open>d\<close> states.\<close>

definition route_agrees :: "route option \<Rightarrow> string \<Rightarrow> pydict \<Rightarrow> bool res" where
  "route_agrees route node d = (case route of
     None \<Rightarrow> Inr False
   | Some r \<Rightarrow> if route_node r \<noteq> node then Inr False
       else res_bind (get_int d ''authority_epoch'' 0) (\<lambda>e. Inr (route_epoch r = e)))"

text \<open>The handlers return whether the message is dealt with, and the new counts.\<close>

definition handle_request :: "provider_env \<Rightarrow> string \<Rightarrow> string \<Rightarrow> pydict \<Rightarrow> inbox_counts \<Rightarrow> (bool \<times> inbox_counts) action" where
  "handle_request env i sender payload c w =
     (let d = get_str payload ''quota_domain_id'' in
      act_bind (act (route_agrees (route_for_domain w d) (local_node env) payload)) (\<lambda>ok.
        if \<not> ok then act (Inr (False, c))
        else
          act_bind (act (res_bind (get_list payload ''candidates'') (res_map read_candidate))) (\<lambda>cs.
          act_bind (act (get_int payload ''credits_micros'' 0)) (\<lambda>cost.
          act_bind (act (get_int payload ''request_count'' 1)) (\<lambda>n.
          act_bind (act (get_int payload ''authority_epoch'' 0)) (\<lambda>epoch.
          act_bind (own_grant env (get_str payload ''request_id'') cs sender cost n d epoch) (\<lambda>l. case l of
            None \<Rightarrow> act (Inr (False, c))
          | Some l \<Rightarrow>
              act_bind (act (item_str payload ''request_id'')) (\<lambda>r.
              act_bind (outbox_message env (''grant:'' @ i) ''CMC_LEASE_GRANT'' sender
                (PDict [(''request_id'', PStr r), (''lease'', lease_doc l)]) (Some (expires_at l))) (\<lambda>m.
              act_bind (put_mail env m) (\<lambda>_. act (Inr (True, c\<lparr>granted := granted c + 1\<rparr>)))))))))))
      w)"

definition handle_grant :: "provider_env \<Rightarrow> string \<Rightarrow> pydict \<Rightarrow> inbox_counts \<Rightarrow> (bool \<times> inbox_counts) action" where
  "handle_grant env sender payload c w =
     (let v = py_get payload ''lease'' in
      act_bind (act (if truthy v then as_mapping v else Inr [])) (\<lambda>l.
      let route = route_for_domain w (get_str l ''quota_domain_id'') in
      act_bind (act (if is_dict v then route_agrees route sender l else Inr False)) (\<lambda>ok.
        if \<not> ok then act (Inr (False, c))
        else
          act_bind files_now (\<lambda>fs.
          act_bind (write_files (fs\<lparr>grants := dict_setdefault (get_str payload ''request_id'')
            \<lparr>grant_lease = v, consumed = False, consumed_at = None\<rparr> (grants fs)\<rparr>)) (\<lambda>_.
          act (Inr (True, c))))))
      w)"

definition handle_settlement :: "provider_env \<Rightarrow> pydict \<Rightarrow> inbox_counts \<Rightarrow> (bool \<times> inbox_counts) action" where
  "handle_settlement env payload c =
     act_bind (act (get_int payload ''authority_epoch'' 0)) (\<lambda>epoch.
     act_bind (own_settle env (get_str payload ''lease_id'') (py_str (py_or (py_get payload ''outcome'') (PStr ''unknown'')))
       (py_get payload ''status_code'') (Some (get_str payload ''quota_domain_id'')) (Some epoch) (py_get payload ''provider_status'')) (\<lambda>_.
     act (Inr (True, c\<lparr>settled := settled c + 1\<rparr>))))"

definition handle_event :: "provider_env \<Rightarrow> pydict \<Rightarrow> inbox_counts \<Rightarrow> (bool \<times> inbox_counts) action" where
  "handle_event env payload c =
     act_bind (own_event env (get_str payload ''event_id'') (PDict payload)) (\<lambda>_. act (Inr (True, c\<lparr>events := events c + 1\<rparr>)))"

text \<open>Only the recipient of a message sent from here may acknowledge it.\<close>

definition handle_ack :: "provider_env \<Rightarrow> string \<Rightarrow> pydict \<Rightarrow> inbox_counts \<Rightarrow> (bool \<times> inbox_counts) action" where
  "handle_ack env sender payload c w =
     (let i = get_str payload ''message_id''; done = act (Inr (True, c\<lparr>acked := acked c + 1\<rparr>)) in
      case get_mail env i w of
        (Inl (CmcLeaseError _), w') \<Rightarrow> done w'
      | (Inl e, w') \<Rightarrow> (Inl e, w')
      | (Inr m, w') \<Rightarrow>
          if get_str m ''sender'' = local_node env \<and> get_str m ''recipient'' = sender
          then act_bind (ack_mail env i sender) (\<lambda>_. done) w' else done w')"

definition handle_message :: "provider_env \<Rightarrow> string \<Rightarrow> string \<Rightarrow> string \<Rightarrow> pyval \<Rightarrow> inbox_counts \<Rightarrow> (bool \<times> inbox_counts) action" where
  "handle_message env kind i sender payload c w =
     (let on_mapping = (\<lambda>f. act_bind (act (as_mapping payload)) f); mine = own_authority w \<noteq> None in
      (if kind = ''CMC_LEASE_REQUEST'' \<and> mine then on_mapping (\<lambda>p. handle_request env i sender p c)
       else if kind = ''CMC_LEASE_GRANT'' then on_mapping (\<lambda>p. handle_grant env sender p c)
       else if kind = ''CMC_LEASE_SETTLEMENT'' \<and> mine then on_mapping (\<lambda>p. handle_settlement env p c)
       else if kind = ''CMC_PROVIDER_EVENT'' \<and> mine then on_mapping (\<lambda>p. handle_event env p c)
       else if kind = ''CMC_LEASE_ACK'' then on_mapping (\<lambda>p. handle_ack env sender p c)
       else act (Inr (False, c))) w)"

text \<open>After its handler a message is answered, unless it is an acknowledgement, and acknowledged.\<close>

definition finish_message :: "provider_env \<Rightarrow> string \<Rightarrow> string \<Rightarrow> string \<Rightarrow> inbox_counts \<Rightarrow> inbox_counts action" where
  "finish_message env kind i sender c =
     act_bind (if kind = ''CMC_LEASE_ACK'' then act (Inr ())
       else act_bind (outbox_message env (''ack:'' @ i) ''CMC_LEASE_ACK'' sender
           (PDict [(''message_id'', PStr i), (''message_type'', PStr kind), (''status'', PStr ''processed'')]) None)
         (\<lambda>m. act_bind (put_mail env m) (\<lambda>_. act (Inr ())))) (\<lambda>_.
     act_bind (ack_mail env i (local_node env)) (\<lambda>_. act (Inr (c\<lparr>processed := processed c + 1\<rparr>))))"

definition inbox_message :: "provider_env \<Rightarrow> pydict \<Rightarrow> inbox_counts \<Rightarrow> inbox_counts action" where
  "inbox_message env item c =
     (if get_str item ''recipient'' \<noteq> local_node env then act (Inr c)
      else
        act_bind (act (item_str item ''message_id'')) (\<lambda>i.
        act_bind (get_mail env i) (\<lambda>m.
        act_bind (act (item_str m ''message_type'')) (\<lambda>kind.
        act_bind (act (py_item m ''payload'')) (\<lambda>payload.
        act_bind (act (item_str m ''sender'')) (\<lambda>sender.
        act_bind (act (item_str m ''message_id'')) (\<lambda>i.
        act_bind (handle_message env kind i sender payload c) (\<lambda>(ok, c).
        if ok then finish_message env kind i sender c else act (Inr c)))))))))"

definition process_inbox :: "provider_env \<Rightarrow> bool \<Rightarrow> inbox_counts action" where
  "process_inbox env refresh =
     act_bind (if refresh then refresh_routes env else act (Inr ())) (\<lambda>_.
     act_bind (mail_op env (\<lambda>cr ns t1 t2. index_messages cr ns t1 t2)) (\<lambda>items.
     act_fold (inbox_message env) items \<lparr>processed = 0, granted = 0, settled = 0, events = 0, acked = 0\<rparr>))"

section \<open>Acquiring a lease\<close>

definition lease_usable :: "pyval \<Rightarrow> pydict list \<Rightarrow> int \<Rightarrow> string \<Rightarrow> int \<Rightarrow> bool res" where
  "lease_usable v rows now d epoch = (case v of
     PDict l \<Rightarrow>
       res_bind (get_int l ''expires_at'' 0) (\<lambda>expires.
       if expires \<le> now then Inr False
       else if get_str l ''quota_domain_id'' \<noteq> d then Inr False
       else res_bind (get_int l ''authority_epoch'' 0) (\<lambda>e.
         if e \<noteq> epoch then Inr False
         else res_fold (\<lambda>row found.
           if found then Inr True
           else if get_str row ''id'' \<noteq> get_str l ''credential_id'' then Inr False
           else res_bind (item_int row ''generation'') (\<lambda>g. res_bind (get_int l ''secret_generation'' 0) (\<lambda>s. Inr (g = s))))
         rows False))
   | _ \<Rightarrow> Inr False)"

text \<open>The credential and the token that the pool client works with.\<close>

definition pool_lease :: "pyval \<Rightarrow> (string \<times> string) option res" where
  "pool_lease v = (case v of
     PDict l \<Rightarrow> res_bind (item_str l ''credential_id'') (\<lambda>c. res_bind (item_str l ''lease_id'') (\<lambda>t. Inr (Some (c, t))))
   | _ \<Rightarrow> Inr None)"

definition send_request :: "provider_env \<Rightarrow> string \<Rightarrow> string \<Rightarrow> string \<Rightarrow> pydict \<Rightarrow> provider_files \<Rightarrow> (string \<times> string) option action" where
  "send_request env fp request node payload fs =
     act_bind (new_mail env ''CMC_LEASE_REQUEST'' node (PDict ((''request_id'', PStr request) # payload)) None None) (\<lambda>m.
     act_bind (write_files (fs\<lparr>pending := dict_set fp (request, m) (pending fs)\<rparr>)) (\<lambda>_.
     act_bind (put_mail env m) (\<lambda>_. act (Inr None))))"

text \<open>A delivered grant is consumed, usable or not; a request without one is sent again as it was.\<close>

definition acquire_remote :: "provider_env \<Rightarrow> string \<Rightarrow> string \<Rightarrow> route \<Rightarrow> pydict list \<Rightarrow> pydict \<Rightarrow> (string \<times> string) option action" where
  "acquire_remote env fp request route rows payload =
     act_bind files_now (\<lambda>fs. case map_of (pending fs) fp of
       None \<Rightarrow> send_request env fp request (route_node route) payload fs
     | Some (r, m) \<Rightarrow> (case map_of (grants fs) r of
         Some g \<Rightarrow>
           if consumed g then act_bind (put_mail env m) (\<lambda>_. act (Inr None))
           else
             act_bind (read_clock env) (\<lambda>now.
             act_bind (act (lease_usable (grant_lease g) rows now (route_domain route) (route_epoch route))) (\<lambda>usable.
             act_bind (read_clock env) (\<lambda>at.
             let fs' = fs\<lparr>grants := dict_set r (g\<lparr>consumed := True, consumed_at := Some at\<rparr>) (grants fs),
                   pending := dict_pop fp (pending fs)\<rparr>
             in if usable then act_bind (write_files fs') (\<lambda>_. act (pool_lease (grant_lease g)))
                else send_request env fp request (route_node route) payload fs')))
       | None \<Rightarrow> act_bind (put_mail env m) (\<lambda>_. act (Inr None))))"

definition request_payload :: "string \<Rightarrow> int \<Rightarrow> route \<Rightarrow> pydict list \<Rightarrow> pydict" where
  "request_payload endpoint cost route rows = [(''endpoint'', PStr endpoint), (''credits_micros'', PInt cost), (''request_count'', PInt 1),
     (''quota_domain_id'', PStr (route_domain route)), (''authority_epoch'', PInt (route_epoch route)), (''candidates'', PList (map PDict rows))]"

text \<open>What \<open>acquire\<close> does before it asks: no route, or an exception, is no lease.\<close>

definition choose_route :: "provider_env \<Rightarrow> pyval list \<Rightarrow> int \<Rightarrow> (route \<times> pydict list \<times> int) option action" where
  "choose_route env candidates credits =
     or_else (
       act_bind (refresh_routes env) (\<lambda>_.
       act_bind (process_inbox env False) (\<lambda>_.
       act_bind (act (safe_candidates candidates)) (\<lambda>rows. (\<lambda>w.
       (case route_candidates env w rows of
          None \<Rightarrow> act (Inr None)
        | Some (route, rows) \<Rightarrow>
            act_bind (act (credits_to_nonnegative_micros credits)) (\<lambda>cost. act (Inr (Some (route, rows, cost))))) w)))))
       None"

definition acquire :: "provider_env \<Rightarrow> pyval list \<Rightarrow> string \<Rightarrow> int \<Rightarrow> (string \<times> string) option action" where
  "acquire env candidates endpoint credits =
     act_bind (choose_route env candidates credits) (\<lambda>choice. case choice of
       None \<Rightarrow> act (Inr None)
     | Some (route, rows, cost) \<Rightarrow>
         act_bind (act (cmc_bounded_text 512 (PStr (takeWhile (\<lambda>c. c \<noteq> CHR ''?'') endpoint)) ''endpoint'')) (\<lambda>path.
         let payload = request_payload path cost route rows; fp = sha256_hex (env_crypto env) (json_dumps (PDict payload)) in
         act_bind (new_uuid env) (\<lambda>request. (\<lambda>w.
         (if route_node route = local_node env \<and> own_authority w \<noteq> None
          then act_bind (act (res_map (\<lambda>row. read_candidate (PDict row)) rows)) (\<lambda>cs.
            act_bind (own_grant env request cs (local_node env) cost 1 (route_domain route) (route_epoch route)) (\<lambda>l.
            act (case l of None \<Rightarrow> Inr None | Some l \<Rightarrow> pool_lease (lease_doc l))))
          else or_else (acquire_remote env fp request route rows payload) None) w))))"

section \<open>Settling a lease\<close>

datatype settle_result = Settled settlement | Queued string | Not_settled

text \<open>\<open>str(grant["lease"].get("lease_id") or "") == lease_id\<close> for the first grant, in the order of the written file, that
holds a lease of this name.\<close>

definition granted_lease :: "provider_files \<Rightarrow> string \<Rightarrow> pydict option" where
  "granted_lease fs i = (case [l. (_, g) \<leftarrow> dict_sorted (grants fs), PDict l \<leftarrow> [grant_lease g], get_str l ''lease_id'' = i] of
     [] \<Rightarrow> None | l # _ \<Rightarrow> Some l)"

definition code_val :: "int option \<Rightarrow> pyval" where
  "code_val c = (case c of None \<Rightarrow> PNone | Some i \<Rightarrow> PInt i)"

definition queue_settlement :: "provider_env \<Rightarrow> string \<Rightarrow> string \<Rightarrow> int option \<Rightarrow> pydict \<Rightarrow> settle_result action" where
  "queue_settlement env i result code status =
     act_bind files_now (\<lambda>fs. case map_of (settlements fs) i of
       Some m \<Rightarrow> act_bind (put_mail env m) (\<lambda>_. act (Inr (Queued i)))
     | None \<Rightarrow> (case granted_lease fs i of
         None \<Rightarrow> act (Inr Not_settled)
       | Some l \<Rightarrow> (\<lambda>w.
           let d = get_str l ''quota_domain_id'' in
           act_bind (act (get_int l ''authority_epoch'' 0)) (\<lambda>epoch. case route_for_domain w d of
             None \<Rightarrow> act (Inr Not_settled)
           | Some r \<Rightarrow>
               if route_epoch r \<noteq> epoch then act (Inr Not_settled)
               else
                 act_bind (act (safe_provider_status status)) (\<lambda>safe.
                 act_bind (new_mail env ''CMC_LEASE_SETTLEMENT'' (route_node r) (PDict [(''lease_id'', PStr i),
                   (''settlement_id'', PStr (sha256_hex (env_crypto env) (''settlement:'' @ i))), (''quota_domain_id'', PStr d),
                   (''authority_epoch'', PInt epoch), (''outcome'', PStr result),
                   (''status_code'', code_val code), (''provider_status'', PDict safe)]) None None) (\<lambda>m.
                 act_bind (write_files (fs\<lparr>settlements := dict_set i m (settlements fs)\<rparr>)) (\<lambda>_.
                 act_bind (put_mail env m) (\<lambda>_. act (Inr (Queued i))))))) w)))"

definition settle_lease :: "provider_env \<Rightarrow> string \<Rightarrow> int option \<Rightarrow> bool \<Rightarrow> pydict \<Rightarrow> settle_result action" where
  "settle_lease env token code failed status =
     act_bind (act (cmc_identifier (PStr token) ''lease_token'')) (\<lambda>i.
     let result = settlement_outcome code failed status;
         remote = or_else (act_bind (process_inbox env True) (\<lambda>_. queue_settlement env i result code status)) Not_settled in
     act_bind (or_else (refresh_routes env) ()) (\<lambda>_. (\<lambda>w.
       if own_authority w = None then remote w
       else (case own_settle env i result (code_val code) None None (PDict status) w of
           (Inr s, w') \<Rightarrow> (Inr (Settled s), w')
         | (Inl (CmcLeaseError t), w') \<Rightarrow> if has_text ''unknown CMC lease'' t then remote w' else (Inr Not_settled, w')
         | (Inl e, w') \<Rightarrow> (Inl e, w')))))"

end
