(* ===== verification/Provider_Laws.thy ===== *)
theory Provider_Laws
  imports Cmc_Provider Mailbox_Laws Cmc_Laws
begin

text \<open>
  What the operations of a lease provider leave alone, as a relation between the worlds before and after;
  leases are used once, and settlements and answers are never signed twice.
\<close>

section \<open>Relations between worlds\<close>

lemma dict_set_new: "map_of d k = None \<Longrightarrow> dict_set k v d = d @ [(k, v)]"
  by (induction d) auto

definition keeps :: "(provider_world \<Rightarrow> provider_world \<Rightarrow> bool) \<Rightarrow> 'a action \<Rightarrow> bool" where
  "keeps R m \<longleftrightarrow> (\<forall>w. R w (snd (m w)))"

lemma keepsD: "keeps R m \<Longrightarrow> m w = (r, w') \<Longrightarrow> R w w'"
  by (metis keeps_def snd_conv)

locale world_relation =
  fixes R :: "provider_world \<Rightarrow> provider_world \<Rightarrow> bool"
  assumes same: "R w w"
    and chain: "R w1 w2 \<Longrightarrow> R w2 w3 \<Longrightarrow> R w1 w3"
begin

lemma keeps_act: "keeps R (act r)"
  by (simp add: keeps_def act_def same)

lemma keeps_bind: "keeps R m \<Longrightarrow> (\<And>x. keeps R (f x)) \<Longrightarrow> keeps R (act_bind m f)"
  unfolding keeps_def act_bind_def by (auto split: prod.split sum.split) (metis chain snd_conv)+

lemma keeps_fold: "(\<And>x s. keeps R (f x s)) \<Longrightarrow> keeps R (act_fold f xs s)"
  by (induction xs arbitrary: s) (simp_all add: keeps_act keeps_bind)

lemma keeps_or_else: "keeps R m \<Longrightarrow> keeps R (or_else m x)"
  unfolding keeps_def or_else_def by (auto split: prod.split sum.split) (metis snd_conv)+

lemma keeps_world: "(\<And>w0. keeps R (f w0)) \<Longrightarrow> keeps R (\<lambda>w. f w w)"
  by (simp add: keeps_def)

lemma keeps_files: "(\<And>fs. (\<And>w. provider_file w = fs \<Longrightarrow> R w (snd (f fs w)))) \<Longrightarrow> keeps R (act_bind files_now f)"
  by (simp add: keeps_def act_bind_def files_now_def)

end

text \<open>The changes that the inbox makes.\<close>

locale inbox_relation = world_relation +
  assumes mail_changes: "R w (w\<lparr>mail := b\<rparr>)"
    and reading_changes: "R w (w\<lparr>readings := n\<rparr>)"
    and routes_change: "R w (w\<lparr>authority_routes := rs, default_node := nd, default_epoch := e\<rparr>)"
    and authority_changes: "own_authority w \<noteq> None \<Longrightarrow> R w (w\<lparr>own_authority := Some a\<rparr>)"
    and outbox_grows: "map_of (outbox (provider_file w)) k = None \<Longrightarrow>
      R w (w\<lparr>provider_file := provider_file w\<lparr>outbox := dict_set k m (outbox (provider_file w))\<rparr>\<rparr>)"
    and grants_grow: "map_of (grants (provider_file w)) r = None \<Longrightarrow> R w (w\<lparr>provider_file := provider_file w\<lparr>grants :=
      dict_set r \<lparr>grant_lease = v, consumed = False, consumed_at = None\<rparr> (grants (provider_file w))\<rparr>\<rparr>)"
begin

lemma keeps_clock: "keeps R (read_clock env)" and keeps_uuid: "keeps R (new_uuid env)"
  by (simp_all add: keeps_def read_clock_def new_uuid_def reading_changes)

lemma keeps_mail: "keeps R (mail_op env f)"
  unfolding mail_op_def by (intro keeps_bind keeps_clock) (auto simp: keeps_def mail_changes split: prod.split)

lemma keeps_mail_ops: "keeps R (put_mail env m)" "keeps R (get_mail env i)" "keeps R (ack_mail env i node)"
  by (simp_all add: put_mail_def get_mail_def ack_mail_def keeps_mail)

lemma keeps_new_mail: "keeps R (new_mail env kind to payload i expires)"
  unfolding new_mail_def by (intro keeps_bind keeps_clock keeps_uuid keeps_act)

lemma keeps_own_grant: "keeps R (own_grant env request cs to cost n d epoch)"
  unfolding own_grant_def by (intro keeps_bind keeps_clock keeps_uuid)
    (auto simp: keeps_def same authority_changes split: option.split sum.split prod.split)

lemma keeps_own_settle: "keeps R (own_settle env i result code d epoch status)"
  unfolding own_settle_def by (intro keeps_bind keeps_clock)
    (auto simp: keeps_def same authority_changes split: option.split sum.split prod.split)

lemma keeps_own_event: "keeps R (own_event env i payload)"
  unfolding own_event_def by (intro keeps_bind keeps_clock)
    (auto simp: keeps_def same authority_changes split: option.split sum.split prod.split)

text \<open>Signing a message changes no file, so what follows writes to the files read before.\<close>

lemma after_new_mail:
  assumes "\<And>m w1. provider_file w1 = provider_file w \<Longrightarrow> R w1 (snd (f m w1))"
  shows "R w (snd (act_bind (new_mail env kind to payload i expires) f w))"
proof -
  obtain r w1 where n: "new_mail env kind to payload i expires w = (r, w1)" by fastforce
  then have "provider_file w1 = provider_file w"
    by (auto simp: new_mail_def act_bind_def read_clock_def new_uuid_def act_def)
  with keepsD [OF keeps_new_mail n] assms show ?thesis by (cases r) (auto simp: act_bind_def n intro: chain)
qed

lemma after_write:
  assumes "R w (w\<lparr>provider_file := fs\<rparr>)" "\<And>x. keeps R (f x)"
  shows "R w (snd (act_bind (write_files fs) f w))"
  using assms chain by (auto simp: act_bind_def write_files_def keeps_def)

lemma keeps_outbox: "keeps R (outbox_message env oid kind to payload expires)"
proof -
  have "R w (w\<lparr>provider_file := fs\<lparr>outbox := dict_set k m (outbox fs)\<rparr>\<rparr>)"
    if "provider_file w = fs" "map_of (outbox fs) k = None" for w fs k m using outbox_grows [of w] that by simp
  then show ?thesis unfolding outbox_message_def Let_def
    by (intro keeps_files)
      (auto simp: act_def same split: option.split intro!: after_new_mail after_write keeps_act)
qed

lemma keeps_refresh: "keeps R (refresh_routes env)"
proof -
  have u: "R w (use_routes rs w)" for w rs by (auto simp: use_routes_def same routes_change split: list.split prod.split)
  have "R w (snd (refresh_routes env w))" for w
    using u [THEN chain, OF authority_changes] chain [OF reading_changes u] chain [OF reading_changes chain [OF u authority_changes]]
    by (auto simp: refresh_routes_def Let_def same reading_changes split: option.split sum.split)
  then show ?thesis by (simp add: keeps_def)
qed

lemmas keeps_steps = keeps_act keeps_bind keeps_clock keeps_mail_ops keeps_own_grant keeps_own_settle keeps_own_event keeps_outbox
  keeps_new_mail keeps_refresh

lemma keeps_handle_grant: "keeps R (handle_grant env sender payload c)"
proof -
  have "R w (snd (write_files ((provider_file w)\<lparr>grants := dict_setdefault r \<lparr>grant_lease = v, consumed = False, consumed_at = None\<rparr>
      (grants (provider_file w))\<rparr>) w))" for w r v
    using grants_grow [of w r v] same [of w] dict_set_new [of "grants (provider_file w)" r]
    by (auto simp: write_files_def dict_setdefault_def dict_has_def dict_keys_def map_of_eq_None_iff)
  then have g: "R w (snd (act_bind (write_files ((provider_file w)\<lparr>grants := dict_setdefault r \<lparr>grant_lease = v, consumed = False, consumed_at = None\<rparr>
      (grants (provider_file w))\<rparr>)) (\<lambda>_. act x) w))" for w r v and x :: "(bool \<times> inbox_counts) res"
    by (simp add: act_bind_def write_files_def act_def)
  show ?thesis unfolding handle_grant_def Let_def
    by (rule keeps_world, intro keeps_bind keeps_act) (auto intro!: keeps_act keeps_files g split: if_splits)
qed

lemma keeps_handle_ack: "keeps R (handle_ack env sender payload c)"
proof -
  have k: "keeps R (act_bind (ack_mail env i sender) (\<lambda>_. act r))" for i and r :: "(bool \<times> inbox_counts) res" by (intro keeps_steps)
  have "R w (snd (handle_ack env sender payload c w))" for w
    using keepsD [OF keeps_mail_ops(2), of env "get_str payload ''message_id''" w] chain k [unfolded keeps_def]
    by (auto simp: handle_ack_def Let_def act_def split: prod.split sum.split pyexc.split)
  then show ?thesis by (simp add: keeps_def)
qed

lemma keeps_inbox: "keeps R (process_inbox env refresh)"
proof -
  have r: "keeps R (handle_request env i sender payload c)" for i sender payload c
    unfolding handle_request_def Let_def by (rule keeps_world) (auto intro!: keeps_steps split: option.split)
  have s: "keeps R (handle_settlement env payload c)" "keeps R (handle_event env payload c)" for payload c
    unfolding handle_settlement_def handle_event_def by (auto intro!: keeps_steps)
  have "keeps R (handle_message env kind i sender payload c)" for kind i sender payload c
    unfolding handle_message_def Let_def
    by (rule keeps_world) (simp add: keeps_act keeps_bind r s keeps_handle_grant keeps_handle_ack)
  moreover have "keeps R (finish_message env kind i sender c)" for kind i sender c
    unfolding finish_message_def by (auto intro!: keeps_steps)
  ultimately have "keeps R (inbox_message env item c)" for item c
    unfolding inbox_message_def by (auto intro!: keeps_steps split: prod.split)
  then show ?thesis unfolding process_inbox_def by (auto intro!: keeps_steps keeps_fold keeps_mail)
qed

lemma keeps_choose_route: "keeps R (choose_route env candidates credits)"
  unfolding choose_route_def
  by (intro keeps_or_else keeps_bind keeps_refresh keeps_inbox keeps_act) (rule keeps_world, auto intro!: keeps_steps split: option.split)

end

text \<open>The changes that settling adds, and those of acquiring.\<close>

locale settling_relation = inbox_relation +
  assumes settlements_grow: "map_of (settlements (provider_file w)) i = None \<Longrightarrow>
      R w (w\<lparr>provider_file := provider_file w\<lparr>settlements := dict_set i m (settlements (provider_file w))\<rparr>\<rparr>)"
begin

lemma keeps_queue: "keeps R (queue_settlement env i result code status)"
proof -
  have "R w (w\<lparr>provider_file := fs\<lparr>settlements := dict_set i m (settlements fs)\<rparr>\<rparr>)"
    if "provider_file w = fs" "map_of (settlements fs) i = None" for w fs m using settlements_grow [of w] that by simp
  then have n: "R w (snd (act_bind (new_mail env kind to payload j expires)
      (\<lambda>m. act_bind (write_files (fs\<lparr>settlements := dict_set i m (settlements fs)\<rparr>)) (\<lambda>_. act_bind (put_mail env m) (\<lambda>_. act x))) w))"
    if "provider_file w = fs" "map_of (settlements fs) i = None" for w fs kind to payload j expires and x :: "settle_result res"
    using that by (auto intro!: after_new_mail after_write keeps_bind keeps_mail_ops keeps_act)
  have pure: "R w (snd (act_bind (act r) f w))" if "\<And>x. r = Inr x \<Longrightarrow> R w (snd (f x w))" for w and r :: "'x res" and f :: "'x \<Rightarrow> settle_result action"
    using that same by (cases r) (simp_all add: act_bind_def act_def)
  have put: "R w (snd (act_bind (put_mail env m) (\<lambda>_. act x) w))" for w m and x :: "settle_result res"
    using keeps_bind [OF keeps_mail_ops(1) keeps_act, of env m "\<lambda>_. x"] by (simp add: keeps_def)
  show ?thesis unfolding queue_settlement_def Let_def
    by (intro keeps_files) (auto simp: same act_def [of "Inr Not_settled"] split: option.split intro!: pure n put)
qed

lemma keeps_settle: "keeps R (settle_lease env token code failed status)"
proof -
  have q: "keeps R (or_else (act_bind (process_inbox env True) (\<lambda>_. queue_settlement env i result code status)) Not_settled)" for i result
    by (intro keeps_or_else keeps_bind keeps_inbox keeps_queue)
  have "R w (snd (case own_settle env i result (code_val code) None None (PDict status) w of
           (Inr s, w') \<Rightarrow> (Inr (Settled s), w')
         | (Inl (CmcLeaseError t), w') \<Rightarrow> if c t then or_else (act_bind (process_inbox env True) (\<lambda>_. queue_settlement env i result code status)) Not_settled w'
             else (Inr Not_settled, w')
         | (Inl e, w') \<Rightarrow> (Inl e, w')))" for w i result c
    using keepsD [OF keeps_own_settle, of env i result "code_val code" None None "PDict status" w] chain q [unfolded keeps_def]
    by (auto split: prod.split sum.split pyexc.split)
  then show ?thesis unfolding settle_lease_def Let_def
    by (intro keeps_bind keeps_act keeps_or_else keeps_refresh) (use q [unfolded keeps_def] in \<open>auto simp: keeps_def\<close>)
qed

end

locale acquiring_relation = settling_relation +
  assumes consumption: "map_of (pending (provider_file w)) fp = Some (r, m) \<Longrightarrow> map_of (grants (provider_file w)) r = Some g \<Longrightarrow>
      \<not> consumed g \<Longrightarrow> R w (w\<lparr>provider_file := provider_file w\<lparr>grants := dict_set r (g\<lparr>consumed := True, consumed_at := t\<rparr>)
        (grants (provider_file w)), pending := dict_pop fp (pending (provider_file w))\<rparr>\<rparr>)"
    and requests_grow: "map_of (pending (provider_file w)) fp = None \<Longrightarrow>
      R w (w\<lparr>provider_file := provider_file w\<lparr>pending := dict_set fp x (pending (provider_file w))\<rparr>\<rparr>)"
begin

lemma keeps_send:
  assumes "\<And>w1. provider_file w1 = provider_file w \<Longrightarrow> R w1 (w1\<lparr>provider_file := fs'\<rparr>)" and "map_of (pending fs') fp = None"
  shows "R w (snd (send_request env fp request node payload fs' w))"
proof -
  have "R w1 (w1\<lparr>provider_file := fs'\<lparr>pending := dict_set fp x (pending fs')\<rparr>\<rparr>)" if "provider_file w1 = provider_file w" for w1 x
    using chain [OF assms(1) [OF that] requests_grow] assms(2) by simp
  then show ?thesis unfolding send_request_def
    by (auto intro!: after_new_mail after_write keeps_bind keeps_mail_ops keeps_act)
qed

text \<open>What follows a reading of the clock sees the same files.\<close>

lemma after_clock:
  assumes "\<And>t w1. provider_file w1 = provider_file w \<Longrightarrow> R w1 (snd (f t w1))"
  shows "R w (snd (act_bind (read_clock env) f w))"
proof -
  have "R (w\<lparr>readings := readings w + 1\<rparr>) (snd (f t (w\<lparr>readings := readings w + 1\<rparr>)))" for t by (rule assms) simp
  from chain [OF reading_changes this] show ?thesis by (simp add: act_bind_def read_clock_def)
qed

lemma after_act:
  assumes "\<And>x. r = Inr x \<Longrightarrow> R w (snd (f x w))"
  shows "R w (snd (act_bind (act r) f w))"
  using assms same by (cases r) (simp_all add: act_bind_def act_def)

lemma keeps_acquire_remote: "keeps R (acquire_remote env fp request route rows payload)"
proof -
  have put: "R w (snd (act_bind (put_mail env m) (\<lambda>_. act x) w))" for w m and x :: "(string \<times> string) option res"
    using keeps_bind [OF keeps_mail_ops(1) keeps_act, of env m "\<lambda>_. x"] by (simp add: keeps_def)
  have c: "R w (w\<lparr>provider_file := fs\<lparr>grants := dict_set r (g\<lparr>consumed := True, consumed_at := Some t\<rparr>) (grants fs), pending := dict_pop fp (pending fs)\<rparr>\<rparr>)"
    if "provider_file w = fs" "map_of (pending fs) fp = Some (r, m)" "map_of (grants fs) r = Some g" "\<not> consumed g" for w fs r m g t
    using consumption [of w fp r m g "Some t"] that by simp
  have n: "R w (w\<lparr>provider_file := fs\<rparr>)" if "provider_file w = fs" for w fs using same [of w] that by (cases w) simp
  show ?thesis unfolding acquire_remote_def Let_def
    by (intro keeps_files, auto split: option.split intro!: put keeps_send after_clock after_act after_write keeps_act)
      (rule n c, simp_all)+
qed

lemma keeps_acquire: "keeps R (acquire env candidates endpoint credits)"
proof -
  have "keeps R (\<lambda>w. (if c w then m else or_else (acquire_remote env fp request route rows payload) None) w)"
    if "keeps R m" for c m fp request route rows payload
    by (rule keeps_world) (simp add: that keeps_or_else keeps_acquire_remote)
  note this [intro!]
  show ?thesis unfolding acquire_def Let_def
    by (auto intro!: keeps_bind keeps_choose_route keeps_act keeps_uuid keeps_own_grant split: option.split)
qed

end

section \<open>The records of a provider\<close>

text \<open>Answers and settlements stay as they were signed, leases as they were delivered; consumed is final.\<close>

definition same_records :: "provider_world \<Rightarrow> provider_world \<Rightarrow> bool" where
  "same_records w w' \<longleftrightarrow> (let fs = provider_file w; fs' = provider_file w' in
     map_of (outbox fs) \<subseteq>\<^sub>m map_of (outbox fs') \<and> map_of (settlements fs) \<subseteq>\<^sub>m map_of (settlements fs') \<and>
     (\<forall>r g. map_of (grants fs) r = Some g \<longrightarrow>
       (\<exists>g'. map_of (grants fs') r = Some g' \<and> grant_lease g' = grant_lease g \<and> (consumed g \<longrightarrow> g' = g))))"

lemma map_le_set_new: "map_of d k = None \<Longrightarrow> map_of d \<subseteq>\<^sub>m map_of (dict_set k v d)"
  by (auto simp: map_le_def)

lemma same_records_trans: "same_records w1 w2 \<Longrightarrow> same_records w2 w3 \<Longrightarrow> same_records w1 w3"
  unfolding same_records_def Let_def by (metis map_le_trans)

interpretation records: acquiring_relation same_records
proof (unfold_locales, goal_cases)
  case (2 w1 w2 w3)
  then show ?case by (rule same_records_trans)
qed (auto simp: same_records_def map_le_set_new)

text \<open>A node without an authority of its own stays one.\<close>

definition stays_client :: "provider_world \<Rightarrow> provider_world \<Rightarrow> bool" where
  "stays_client w w' \<longleftrightarrow> (own_authority w = None \<longrightarrow> own_authority w' = None)"

interpretation client: acquiring_relation stays_client
  by unfold_locales (auto simp: stays_client_def)

text \<open>The tokens of the consumed grants; the inbox and the settlements leave them alone.\<close>

definition token_of :: "grant_record \<Rightarrow> (string \<times> string) list" where
  "token_of g = (if consumed g then (case pool_lease (grant_lease g) of Inr (Some t) \<Rightarrow> [t] | _ \<Rightarrow> []) else [])"

definition spent_tokens :: "provider_world \<Rightarrow> (string \<times> string) multiset" where
  "spent_tokens w = mset (concat (map (\<lambda>(_, g). token_of g) (grants (provider_file w))))"

definition spends_nothing :: "provider_world \<Rightarrow> provider_world \<Rightarrow> bool" where
  "spends_nothing w w' \<longleftrightarrow> spent_tokens w' = spent_tokens w"

interpretation spending: settling_relation spends_nothing
  by unfold_locales (auto simp: spends_nothing_def spent_tokens_def dict_set_new token_of_def)

text \<open>Over the operations of acquiring, tokens are only added.\<close>

definition spends_more :: "provider_world \<Rightarrow> provider_world \<Rightarrow> bool" where
  "spends_more w w' \<longleftrightarrow> spent_tokens w \<subseteq># spent_tokens w'"

lemma spent_consume:
  assumes "map_of gs r = Some g" "\<not> consumed g"
  shows "mset (concat (map (\<lambda>(_, g). token_of g) (dict_set r (g\<lparr>consumed := True, consumed_at := t\<rparr>) gs))) =
    mset (concat (map (\<lambda>(_, g). token_of g) gs)) + mset (case pool_lease (grant_lease g) of Inr (Some t) \<Rightarrow> [t] | _ \<Rightarrow> [])"
  using assms by (induction gs) (auto simp: token_of_def)

interpretation growing: acquiring_relation spends_more
  by unfold_locales (auto simp: spends_more_def spent_tokens_def dict_set_new token_of_def spent_consume [unfolded token_of_def])

lemma acquire_remote_spends:
  assumes "acquire_remote env fp request route rows payload w = (Inr (Some t), w')"
  shows "spent_tokens w' = add_mset t (spent_tokens w)"
proof -
  have put: "act_bind (put_mail env m) (\<lambda>_. act (Inr None)) w1 \<noteq> (Inr (Some t), w')" for m w1
    by (auto simp: act_bind_def act_def split: prod.split sum.split)
  have send: "send_request env fp request node payload fs w1 \<noteq> (Inr (Some t), w')" for node fs w1
    by (auto simp: send_request_def act_bind_def act_def split: prod.split sum.split)
  from assms obtain r m g at where g: "map_of (grants (provider_file w)) r = Some g" "\<not> consumed g"
    and t: "pool_lease (grant_lease g) = Inr (Some t)"
    and w': "provider_file w' = (provider_file w)\<lparr>grants := dict_set r (g\<lparr>consumed := True, consumed_at := Some at\<rparr>) (grants (provider_file w)),
      pending := dict_pop fp (pending (provider_file w))\<rparr>"
    using put send
    by (auto simp: acquire_remote_def act_bind_def [of files_now] files_now_def act_bind_def [of "read_clock env"] read_clock_def
        act_bind_def [of "act r" for r] act_bind_def [of "write_files fs" for fs] write_files_def act_def Let_def
        split: option.splits if_splits sum.splits)
  show ?thesis by (simp add: spent_tokens_def w' spent_consume [OF g] t)
qed

section \<open>Runs of a provider\<close>

text \<open>
  Any sequence of calls of a provider, between which other nodes may change its mailbox, with the leases
  that \<open>acquire\<close> returned.
\<close>

inductive provider_run :: "provider_env \<Rightarrow> provider_world \<Rightarrow> (string \<times> string) list \<Rightarrow> provider_world \<Rightarrow> bool" for env w where
  run_start: "provider_run env w [] w"
| run_mail: "provider_run env w ts w1 \<Longrightarrow> provider_run env w ts (w1\<lparr>mail := box\<rparr>)"
| run_inbox: "provider_run env w ts w1 \<Longrightarrow> process_inbox env refresh w1 = (r, w2) \<Longrightarrow> provider_run env w ts w2"
| run_settle: "provider_run env w ts w1 \<Longrightarrow> settle_lease env token code failed status w1 = (s, w2) \<Longrightarrow> provider_run env w ts w2"
| run_acquire: "provider_run env w ts w1 \<Longrightarrow> acquire env candidates endpoint credits w1 = (a, w2)
    \<Longrightarrow> provider_run env w (ts @ (case a of Inr (Some t) \<Rightarrow> [t] | _ \<Rightarrow> [])) w2"

lemma acquire_spends:
  assumes "acquire env candidates endpoint credits w = (a, w')" "own_authority w = None"
  shows "spent_tokens w + mset (case a of Inr (Some t) \<Rightarrow> [t] | _ \<Rightarrow> []) \<subseteq># spent_tokens w'"
proof (cases "\<exists>t. a = Inr (Some t)")
  case False
  with growing.keeps_acquire [THEN keepsD, OF assms(1)] show ?thesis
    by (auto simp: spends_more_def split: sum.split option.split)
next
  case True
  then obtain t where a: "a = Inr (Some t)" by blast
  obtain c w1 where c: "choose_route env candidates credits w = (c, w1)" by fastforce
  then have w1: "spent_tokens w1 = spent_tokens w" "own_authority w1 = None"
    using spending.keeps_choose_route [THEN keepsD, OF c] client.keeps_choose_route [THEN keepsD, OF c] assms(2)
    by (auto simp: spends_nothing_def stays_client_def)
  obtain fp request route rows payload n where
    "or_else (acquire_remote env fp request route rows payload) None (w1\<lparr>readings := n\<rparr>) = (Inr (Some t), w')"
    using assms(1) w1(2)
    by (auto simp: acquire_def a c act_bind_def [of "choose_route env candidates credits"] act_bind_def [of "act r" for r] act_bind_def [of "new_uuid env"]
        new_uuid_def act_def Let_def split: sum.splits option.splits prod.splits)
  then have "acquire_remote env fp request route rows payload (w1\<lparr>readings := n\<rparr>) = (Inr (Some t), w')"
    by (auto simp: or_else_def split: prod.splits sum.splits)
  from acquire_remote_spends [OF this] show ?thesis by (simp add: a w1 spent_tokens_def) (simp add: w1 [unfolded spent_tokens_def])
qed

text \<open>
  C33: A lease that the authority delivered is used once: on a node without an authority of its own, whatever is called in
  whatever order and whatever arrives in the mailbox, the leases that \<open>acquire\<close> returned belong to different delivered
  grants, all of which are marked consumed.
\<close>

theorem grant_used_once:
  assumes "provider_run env w ts w'" "own_authority w = None"
  shows "spent_tokens w + mset ts \<subseteq># spent_tokens w'"
proof -
  from assms(1) have "own_authority w' = None \<and> spent_tokens w + mset ts \<subseteq># spent_tokens w'"
  proof induction
    case (run_acquire ts w1 candidates endpoint credits a w2)
    then have w1: "own_authority w1 = None" "spent_tokens w + mset ts \<subseteq># spent_tokens w1" by simp_all
    have "own_authority w2 = None"
      using client.keeps_acquire [THEN keepsD, OF run_acquire.hyps(2)] w1 by (simp add: stays_client_def)
    with acquire_spends [OF run_acquire.hyps(2) w1(1)] w1(2) show ?case
      by (auto intro: subset_mset.trans [OF mset_subset_eq_mono_add] simp: add.assoc [symmetric])
  next
    case (run_inbox ts w1 refresh r w2)
    with client.keeps_inbox [THEN keepsD, OF run_inbox.hyps(2)] spending.keeps_inbox [THEN keepsD, OF run_inbox.hyps(2)]
    show ?case by (simp add: stays_client_def spends_nothing_def)
  next
    case (run_settle ts w1 token code failed status s w2)
    with client.keeps_settle [THEN keepsD, OF run_settle.hyps(2)] spending.keeps_settle [THEN keepsD, OF run_settle.hyps(2)]
    show ?case by (simp add: stays_client_def spends_nothing_def)
  qed (simp_all add: assms(2) spent_tokens_def)
  then show ?thesis ..
qed

text \<open>
  C34: What a provider wrote stays: through any run an answer or a settlement is the message that was signed first, so a
  repeated settlement of a lease sends the same message again, a delivered lease never changes, and a consumed grant
  stays consumed.
\<close>

theorem provider_records_final:
  assumes "provider_run env w ts w'"
  shows "map_of (outbox (provider_file w)) \<subseteq>\<^sub>m map_of (outbox (provider_file w')) \<and>
    map_of (settlements (provider_file w)) \<subseteq>\<^sub>m map_of (settlements (provider_file w')) \<and>
    (\<forall>r g. map_of (grants (provider_file w)) r = Some g \<longrightarrow>
       (\<exists>g'. map_of (grants (provider_file w')) r = Some g' \<and> grant_lease g' = grant_lease g \<and> (consumed g \<longrightarrow> g' = g)))"
proof -
  from assms have "same_records w w'"
  proof induction
    case (run_inbox ts w1 refresh r w2)
    from same_records_trans [OF run_inbox.IH records.keeps_inbox [THEN keepsD, OF run_inbox.hyps(2)]] show ?case .
  next
    case (run_settle ts w1 token code failed status s w2)
    from same_records_trans [OF run_settle.IH records.keeps_settle [THEN keepsD, OF run_settle.hyps(2)]] show ?case .
  next
    case (run_acquire ts w1 candidates endpoint credits a w2)
    from same_records_trans [OF run_acquire.IH records.keeps_acquire [THEN keepsD, OF run_acquire.hyps(2)]] show ?case .
  qed (simp_all add: same_records_def)
  then show ?thesis by (simp add: same_records_def Let_def)
qed

section \<open>Requests that are never answered\<close>

text \<open>A remembered request stays the one that is remembered until a grant for it is recorded.\<close>

definition awaits :: "string \<Rightarrow> string \<times> pydict \<Rightarrow> provider_world \<Rightarrow> provider_world \<Rightarrow> bool" where
  "awaits fp x w w' \<longleftrightarrow>
     (map_of (pending (provider_file w)) fp = Some x \<longrightarrow> map_of (grants (provider_file w')) (fst x) = None \<longrightarrow>
        map_of (pending (provider_file w')) fp = Some x) \<and>
     (map_of (grants (provider_file w')) (fst x) = None \<longrightarrow> map_of (grants (provider_file w)) (fst x) = None)"

interpretation waiting: acquiring_relation "awaits fp x" for fp x
  by unfold_locales (auto simp: awaits_def map_of_dict_pop split: if_splits)

lemma run_awaits:
  assumes "provider_run env w ts w'"
  shows "awaits fp x w w' \<and> stays_client w w'"
  using assms
proof induction
  case (run_inbox ts w1 refresh r w2)
  then show ?case
    using waiting.keeps_inbox [THEN keepsD, OF run_inbox.hyps(2)] client.keeps_inbox [THEN keepsD, OF run_inbox.hyps(2)]
      waiting.chain client.chain by blast
next
  case (run_settle ts w1 token code failed status s w2)
  then show ?case
    using waiting.keeps_settle [THEN keepsD, OF run_settle.hyps(2)] client.keeps_settle [THEN keepsD, OF run_settle.hyps(2)]
      waiting.chain client.chain by blast
next
  case (run_acquire ts w1 candidates endpoint credits a w2)
  then show ?case
    using waiting.keeps_acquire [THEN keepsD, OF run_acquire.hyps(2)] client.keeps_acquire [THEN keepsD, OF run_acquire.hyps(2)]
      waiting.chain client.chain by blast
qed (simp_all add: awaits_def stays_client_def)

lemma expired_put: "message_expiry m \<le> t1 \<Longrightarrow> \<exists>e. put_message cr nodes t1 t2 (PDict m) box = (Inl e, box)"
  using validate_message_Inr [of cr nodes "Some t1" "PDict m"]
  by (cases "validate_message cr nodes (Some t1) (PDict m)") (auto simp: put_message_def)

text \<open>A request without a grant is only sent again.\<close>

lemma acquire_remote_waits:
  assumes "map_of (pending (provider_file w)) fp = Some (r, m)" "map_of (grants (provider_file w)) r = None"
    and "put_message (env_crypto env) (env_members env) (clock_at env (readings w)) (clock_at env (readings w + 1)) (PDict m) (mail w) = (x, box)"
  shows "or_else (acquire_remote env fp request route rows payload) None w = (Inr None, w\<lparr>readings := readings w + 2, mail := box\<rparr>)"
  using assms by (auto simp: act_bind_def act_def or_else_def acquire_remote_def files_now_def put_mail_def mail_op_def read_clock_def
      numeral_eq_Suc split: sum.splits)

text \<open>The key under which \<open>acquire\<close> remembers its request.\<close>

definition request_key :: "provider_env \<Rightarrow> string \<Rightarrow> int \<Rightarrow> route \<Rightarrow> pydict list \<Rightarrow> string" where
  "request_key env path cost route rows = sha256_hex (env_crypto env) (json_dumps (PDict (request_payload path cost route rows)))"

lemma acquire_chosen:
  assumes "choose_route env candidates credits w = (Inr (Some (route, rows, cost)), w1)" "own_authority w1 = None"
    and "cmc_bounded_text 512 (PStr (takeWhile (\<lambda>c. c \<noteq> CHR ''?'') endpoint)) ''endpoint'' = Inr path"
  shows "acquire env candidates endpoint credits w =
    or_else (acquire_remote env (request_key env path cost route rows) (uuid_at env (readings w1)) route rows
      (request_payload path cost route rows)) None (w1\<lparr>readings := readings w1 + 1\<rparr>)"
  using assms by (simp add: acquire_def act_bind_def act_def new_uuid_def Let_def request_key_def del: json_dumps.simps)

text \<open>
  C35: A request that expires unanswered blocks its like. On a node without an authority of its own, whatever is called and
  whatever arrives, a remembered request stays as it is until a grant for it is recorded. Until then an \<open>acquire\<close> of the
  same request gets no lease and makes no new request; and once the remembered message has expired it sends nothing either.
\<close>

theorem expired_request_wedges:
  assumes "provider_run env w ts w1" "own_authority w = None" "map_of (pending (provider_file w)) fp = Some (r, m)"
    and "choose_route env candidates credits w1 = (Inr (Some (route, rows, cost)), w2)"
    and "cmc_bounded_text 512 (PStr (takeWhile (\<lambda>c. c \<noteq> CHR ''?'') endpoint)) ''endpoint'' = Inr path"
    and "request_key env path cost route rows = fp"
    and "acquire env candidates endpoint credits w1 = (a, w3)" "map_of (grants (provider_file w3)) r = None"
  shows "a = Inr None \<and> provider_file w3 = provider_file w2 \<and> map_of (pending (provider_file w3)) fp = Some (r, m) \<and>
    ((\<forall>n \<ge> readings w2. message_expiry m \<le> clock_at env n) \<longrightarrow> mail w3 = mail w2)"
proof -
  have "own_authority w2 = None" "awaits fp (r, m) w w2"
    using run_awaits [OF assms(1), of fp "(r, m)"] client.keeps_choose_route [THEN keepsD, OF assms(4)]
      waiting.keeps_choose_route [THEN keepsD, OF assms(4)] assms(2) waiting.chain
    by (auto simp: stays_client_def)
  note acq = assms(7) [unfolded acquire_chosen [OF assms(4) this(1) assms(5)] assms(6)]
  have "awaits fp (r, m) (w2\<lparr>readings := readings w2 + 1\<rparr>) w3"
    using waiting.keeps_or_else [OF waiting.keeps_acquire_remote, THEN keepsD, OF acq] .
  then have g: "map_of (grants (provider_file w2)) r = None" using assms(8) by (simp add: awaits_def)
  with \<open>awaits fp (r, m) w w2\<close> assms(3) have p: "map_of (pending (provider_file w2)) fp = Some (r, m)" by (simp add: awaits_def)
  obtain x box where put: "put_message (env_crypto env) (env_members env) (clock_at env (readings w2 + 1)) (clock_at env (readings w2 + 2)) (PDict m) (mail w2) = (x, box)"
    by fastforce
  have "box = mail w2" if "\<forall>n \<ge> readings w2. message_expiry m \<le> clock_at env n"
  proof -
    have "message_expiry m \<le> clock_at env (readings w2 + 1)" using that by simp
    from expired_put [OF this] put show ?thesis by (metis Pair_inject)
  qed
  moreover have "a = Inr None" "w3 = w2\<lparr>readings := readings w2 + 3, mail := box\<rparr>"
    using acq acquire_remote_waits [of "w2\<lparr>readings := readings w2 + 1\<rparr>"] p g put by (simp_all add: numeral_eq_Suc)
  ultimately show ?thesis using p by simp
qed

section \<open>A message that stops the inbox\<close>

lemma expire_keeps_unknown:
  assumes "expire_leases now j = Inr j'" "map_of (leases j) i = None"
  shows "map_of (leases j') i = None"
proof -
  have "map_of (leases v) i = None" if "res_fold (expire_lease now) ls u = Inr v" "map_of (leases u) i = None" for ls u v
    using that
  proof (induction ls arbitrary: u)
    case (Cons x ls)
    then obtain u1 where "expire_lease now x u = Inr u1" "res_fold (expire_lease now) ls u1 = Inr v" by (auto simp: res_bind_eq_Inr)
    moreover from this(1) Cons.prems(2) have "map_of (leases u1) i = None"
      by (auto simp: expire_lease_def apply_terminal_def split: prod.splits if_splits option.splits)
    ultimately show ?case using Cons.IH by blast
  qed simp
  from this [OF assms(1) [unfolded expire_leases_def] assms(2)] show ?thesis .
qed

lemma unknown_settlement:
  assumes "map_of (leases j) i = None"
  shows "\<exists>e. settle_status cfg i result code d epoch status now j = Inl e"
proof -
  have "\<exists>e. settle cfg i result None c d epoch counters now j = Inl e" for c counters
  proof (cases "settle cfg i result None c d epoch counters now j")
    case (Inr x)
    then obtain i' j1 where "cmc_identifier (PStr i) ''lease_id'' = Inr i'" "expire_leases now j = Inr j1" "map_of (leases j1) i' \<noteq> None"
      by (auto simp: settle_def res_bind_eq_Inr split: option.splits)
    with expire_keeps_unknown assms show ?thesis by (auto dest: cmc_identifier_PStr)
  qed simp
  then show ?thesis by (auto simp: settle_status_def res_bind_def split: sum.splits) (metis Inl_Inr_False)+
qed

text \<open>An action that raises in a world with the property \<open>P\<close>.\<close>

definition stops :: "(provider_world \<Rightarrow> bool) \<Rightarrow> 'a action \<Rightarrow> provider_world \<Rightarrow> bool" where
  "stops P m u \<longleftrightarrow> (\<exists>e v. m u = (Inl e, v) \<and> P v)"

lemma stops_bind: "stops P m u \<Longrightarrow> stops P (act_bind m f) u"
  by (auto simp: stops_def act_bind_def)

lemma act_bind_Inr: "act_bind (act (Inr x)) f = f x"
  by (simp add: fun_eq_iff act_bind_def act_def)

lemma stops_act: "P u \<Longrightarrow> (\<And>x. r = Inr x \<Longrightarrow> stops P (f x) u) \<Longrightarrow> stops P (act_bind (act r) f) u"
  by (cases r) (simp_all add: stops_def act_bind_def act_def)

lemma skip_mail:
  "\<forall>x \<in> set pre. get_str x ''recipient'' \<noteq> local_node env \<Longrightarrow>
    act_fold (inbox_message env) (pre @ xs) c = act_fold (inbox_message env) xs c"
  by (induction pre) (simp_all add: inbox_message_def [of env] act_bind_Inr)

text \<open>Loading the routes changes neither the mail nor a record, and of the authority only its epochs.\<close>

lemma refresh_routes_frame:
  assumes "refresh_routes env w = (r, w')"
  shows "mail w' = mail w \<and> provider_file w' = provider_file w \<and> map_option snd (own_authority w') = map_option snd (own_authority w)"
  using assms
  by (auto simp: refresh_routes_def Let_def use_routes_def split: option.splits sum.splits list.splits prod.splits)

text \<open>
  C36: One settlement for a lease the authority does not know stops its whole inbox: while the first message for the node is such a
  settlement, an \<open>acquire\<close> that has loaded its routes returns no lease, for whatever domain and whether or not the node
  has budget, and it deals with no message: neither the journal of leases nor the record of the provider changes, and the
  settlement stays in the mailbox.
\<close>

theorem unknown_settlement_stops_inbox:
  assumes "own_authority w = Some (cfg, j)" "refresh_routes env w = (Inr (), w0)"
    and "index_messages (env_crypto env) (env_members env) (clock_at env (readings w0)) (clock_at env (readings w0 + 1)) (mail w0)
      = (Inr (others @ item # items), box)"
    and "\<forall>x \<in> set others. get_str x ''recipient'' \<noteq> local_node env"
    and "get_str item ''recipient'' = local_node env" "item_str item ''message_id'' = Inr i"
    and "get_message (env_crypto env) (env_members env) (clock_at env (readings w0 + 2)) (clock_at env (readings w0 + 3)) i box = (Inr m, box')"
    and "item_str m ''message_type'' = Inr ''CMC_LEASE_SETTLEMENT''" "py_item m ''payload'' = Inr (PDict p)"
    and "map_of (leases j) (get_str p ''lease_id'') = None"
  shows "\<exists>w' cfg'. acquire env candidates endpoint credits w = (Inr None, w') \<and> own_authority w' = Some (cfg', j) \<and>
    provider_file w' = provider_file w \<and> mail w' = box' \<and> map_of (mail_files box') i = Some (Json (PDict m))"
proof -
  obtain cfg' where w0: "own_authority w0 = Some (cfg', j)" "provider_file w0 = provider_file w"
    using refresh_routes_frame [OF assms(2)] assms(1) by auto
  let ?same = "\<lambda>v. own_authority v = Some (cfg', j) \<and> provider_file v = provider_file w0 \<and> mail v = box'"
  obtain f where f: "settle_status cfg' (get_str p ''lease_id'') result code d epoch status now j = Inl (f result code d epoch status now)"
    for result code d epoch status now
    using unknown_settlement [OF assms(10)] by metis
  have s: "stops ?same (handle_message env ''CMC_LEASE_SETTLEMENT'' i' sender (PDict p) c) u" if "?same u" for i' sender c u
    using that by (simp add: stops_def handle_message_def handle_settlement_def as_mapping_def own_settle_def act_bind_def act_def read_clock_def f
        split: sum.split)
  have g: "get_mail env i (w0\<lparr>readings := readings w0 + 2, mail := box\<rparr>) = (Inr m, w0\<lparr>readings := readings w0 + 4, mail := box'\<rparr>)"
    using assms(7) by (simp add: get_mail_def mail_op_def act_bind_def read_clock_def numeral_eq_Suc)
  have m: "stops ?same (inbox_message env item c) (w0\<lparr>readings := readings w0 + 2, mail := box\<rparr>)" for c
  proof -
    have "stops ?same (act_bind (act (item_str m ''message_type'')) (\<lambda>kind. act_bind (act (py_item m ''payload'')) (\<lambda>payload.
        act_bind (act (item_str m ''sender'')) (\<lambda>sender. act_bind (act (item_str m ''message_id'')) (\<lambda>i.
        act_bind (handle_message env kind i sender payload c) (\<lambda>(ok, c).
        if ok then finish_message env kind i sender c else act (Inr c))))))) (w0\<lparr>readings := readings w0 + 4, mail := box'\<rparr>)"
      unfolding assms(8,9) act_bind_Inr by (intro stops_act stops_bind s) (simp_all add: w0(1))
    then show ?thesis using assms(5,6) g by (simp add: inbox_message_def stops_def act_bind_def [of "act (Inr i)"] act_bind_def [of "get_mail env i"] act_def)
  qed
  have "mail_op env (\<lambda>cr ns t1 t2. index_messages cr ns t1 t2) w0 = (Inr (others @ item # items), w0\<lparr>readings := readings w0 + 2, mail := box\<rparr>)"
    using assms(3) by (simp add: mail_op_def act_bind_def read_clock_def numeral_eq_Suc)
  then have "process_inbox env False w0 = act_fold (inbox_message env) (item # items)
      \<lparr>processed = 0, granted = 0, settled = 0, events = 0, acked = 0\<rparr> (w0\<lparr>readings := readings w0 + 2, mail := box\<rparr>)"
    using skip_mail [OF assms(4)] by (simp add: process_inbox_def act_bind_Inr act_bind_def [of "mail_op env g" for g] del: act_fold.simps)
  with stops_bind [OF m] have "stops ?same (process_inbox env False) w0" by (simp add: stops_def)
  then have "\<exists>v. acquire env candidates endpoint credits w = (Inr None, v) \<and> ?same v"
    by (auto simp: stops_def acquire_def choose_route_def or_else_def act_bind_def act_def assms(2) split: prod.split)
  moreover have "map_of (mail_files box') i = Some (Json (PDict m))"
    using assms(7) by (auto simp: get_message_def dest!: read_message_Inr cmc_identifier_PStr split: sum.splits prod.splits option.splits)
  ultimately show ?thesis using w0(2) by auto
qed

end
