(* ===== verification/Provider_Demo.thy ===== *)
theory Provider_Demo
  imports Provider_Laws Mailbox_Demo
begin

text \<open>
  A node \<open>b\<close> that asks the authority \<open>a\<close> for leases: once with a delivered grant, once with a request that
  expired, and an authority \<open>b\<close> with a settlement of an unknown lease in its inbox.
\<close>

definition pd_env :: "int \<Rightarrow> provider_env" where
  "pd_env t = \<lparr>env_crypto = demo_crypto, env_members = demo_members, local_node = ''b'', local_key = replicate 32 CHR ''L'',
     own_domain = None, clock_at = (\<lambda>_. t), uuid_at = (\<lambda>_. ''u''), snapshot_at = Some (\<lambda>_. Inr (PDict []))\<rparr>"

definition pd_candidates :: "pyval list" where
  "pd_candidates = [PDict [(''id'', PStr ''k''), (''generation'', PInt 1), (''quota_domain_id'', PStr ''d'')]]"

definition pd_grant :: grant_record where
  "pd_grant = \<lparr>grant_lease = lease_doc (demo_lease ''A'' 10), consumed = False, consumed_at = None\<rparr>"

definition pd_world :: "(string, grant_record) dict \<Rightarrow> provider_world" where
  "pd_world gs = \<lparr>mail = no_mail, provider_file = \<lparr>pending = [(''{'', (''r'', demo_mail))], grants = gs, settlements = [], outbox = []\<rparr>,
     own_authority = None, authority_routes = [], default_node = ''a'', default_epoch = 1, readings = 0\<rparr>"

definition pd_row :: pydict where
  "pd_row = [(''id'', PStr ''k''), (''generation'', PInt 1), (''quota_domain_id'', PStr ''d'')]"

definition pd_route :: route where
  "pd_route = \<lparr>route_domain = ''d'', route_node = ''a'', route_epoch = 1\<rparr>"

lemma pd_request:
  "safe_candidates pd_candidates = Inr [pd_row]" "credits_to_nonnegative_micros 1 = Inr 1000000"
  "cmc_bounded_text 512 (PStr (takeWhile (\<lambda>c. c \<noteq> CHR ''?'') ''quotes?x=1'')) ''endpoint'' = Inr ''quotes''"
  "route_candidates (pd_env 200) (pd_world gs) [pd_row] = Some (pd_route, [pd_row])"
  "sha256_hex (env_crypto (pd_env 200)) (json_dumps (PDict d)) = ''{''"
proof -
  have "group_candidates (pd_env 200) [pd_row] = [(''d'', [pd_row])]" by code_simp
  then show "route_candidates (pd_env 200) (pd_world gs) [pd_row] = Some (pd_route, [pd_row])"
    by (simp add: route_candidates_def dict_sorted_def route_for_domain_def pd_world_def pd_route_def)
qed (code_simp, simp add: credits_to_nonnegative_micros_def round53_def halvings.simps microcredits_def, code_simp,
  simp add: pd_env_def demo_crypto_def)

lemma pd_endpoint: "cmc_bounded_text 512 (PStr ''quotes'') ''endpoint'' = Inr ''quotes''"
  by code_simp

lemma pd_fp: "request_key (pd_env 200) path cost route rows = ''{''"
  by (simp add: request_key_def pd_request del: json_dumps.simps)

text \<open>The snapshot of the node has no routes, and its mailbox is empty.\<close>

lemma pd_refresh: "refresh_routes (pd_env t) w = (Inr (), w\<lparr>readings := readings w + 1\<rparr>)"
  by (simp add: refresh_routes_def pd_env_def snapshot_routes_def py_get_def Let_def)

lemma empty_index:
  assumes "mail_files box = []" "read_acks box = Inr as"
  shows "index_messages cr ns t1 t2 box = (Inr [], write_acks [] box)"
  using assms by (cases box) (simp add: index_messages_def collect_mail_def)

lemma pd_choose:
  "choose_route (pd_env 200) pd_candidates 1 (pd_world gs) =
     (Inr (Some (pd_route, [pd_row], 1000000)), pd_world gs\<lparr>mail := write_acks [] no_mail, readings := 3\<rparr>)"
proof -
  have "index_messages cr ns t1 t2 (mail (pd_world gs)) = (Inr [], write_acks [] (mail (pd_world gs)))" for cr ns t1 t2
    by (rule empty_index) (simp_all add: pd_world_def no_mail_def read_acks_def)
  moreover have "route_candidates (pd_env 200) (pd_world gs\<lparr>readings := n, mail := b\<rparr>) rows = route_candidates (pd_env 200) (pd_world gs) rows"
    for n b rows
  proof -
    have "route_for_domain (pd_world gs\<lparr>readings := n, mail := b\<rparr>) = route_for_domain (pd_world gs)"
      by (simp add: fun_eq_iff route_for_domain_def split: option.split)
    then show ?thesis by (simp add: route_candidates_def)
  qed
  ultimately show ?thesis
    by (simp add: choose_route_def or_else_def act_bind_def act_def pd_refresh process_inbox_def mail_op_def read_clock_def pd_request)
      (simp add: pd_world_def)
qed

theorem expired_request_wedges_witness:
  "fst (acquire (pd_env 200) pd_candidates ''quotes?x=1'' 1 (pd_world [])) = Inr None \<and>
   provider_file (snd (acquire (pd_env 200) pd_candidates ''quotes?x=1'' 1 (pd_world []))) = provider_file (pd_world [])"
proof -
  obtain a w3 where a: "acquire (pd_env 200) pd_candidates ''quotes?x=1'' 1 (pd_world []) = (a, w3)" by fastforce
  have "own_authority (pd_world []) = None" "map_of (pending (provider_file (pd_world []))) ''{'' = Some (''r'', demo_mail)"
    by (simp_all add: pd_world_def)
  note asks = expired_request_wedges [OF run_start this pd_choose pd_request(3) pd_fp a]
  let ?w = "pd_world []\<lparr>mail := write_acks [] no_mail, readings := 4\<rparr>"
  obtain x box where put: "put_message (env_crypto (pd_env 200)) (env_members (pd_env 200)) (clock_at (pd_env 200) (readings ?w))
      (clock_at (pd_env 200) (readings ?w + 1)) (PDict demo_mail) (mail ?w) = (x, box)" by fastforce
  have "or_else (acquire_remote (pd_env 200) ''{'' request route rows payload) None ?w = (Inr None, ?w\<lparr>readings := readings ?w + 2, mail := box\<rparr>)"
    for request route rows payload
    by (rule acquire_remote_waits [OF _ _ put, where r = "''r''"]) (simp_all add: pd_world_def)
  then have "w3 = ?w\<lparr>readings := 6, mail := box\<rparr>"
    using a acquire_chosen [OF pd_choose _ pd_request(3), of "[]"] by (simp add: pd_fp) (simp add: pd_world_def)
  then have "map_of (grants (provider_file w3)) ''r'' = None" by (simp add: pd_world_def)
  from asks [OF this] a show ?thesis by (simp add: pd_world_def)
qed

text \<open>A delivered grant that is usable is returned.\<close>

lemma delivered_grant:
  assumes "map_of (pending (provider_file w)) fp = Some (r, m)" "map_of (grants (provider_file w)) r = Some g" "\<not> consumed g"
    "\<And>now. lease_usable (grant_lease g) rows (clock_at env now) (route_domain route) (route_epoch route) = Inr True" "pool_lease (grant_lease g) = Inr a"
  shows "\<exists>w'. or_else (acquire_remote env fp request route rows payload) None w = (Inr a, w')"
proof -
  obtain fs' where "acquire_remote env fp request route rows payload w = (Inr a, w\<lparr>readings := readings w + 2, provider_file := fs'\<rparr>)"
    using assms by (simp add: acquire_remote_def act_bind_def act_def files_now_def read_clock_def write_files_def Let_def)
  then show ?thesis by (simp add: or_else_def)
qed

lemma pd_acquires: "\<exists>w'. acquire (pd_env 200) pd_candidates ''quotes?x=1'' 1 (pd_world [(''r'', pd_grant)]) = (Inr (Some (''k'', ''A'')), w')"
proof -
  have "lease_usable (grant_lease pd_grant) [pd_row] (clock_at (pd_env 200) n) (route_domain pd_route) (route_epoch pd_route) = Inr True" for n
    by (simp add: lease_usable_def pd_grant_def lease_doc_def demo_lease_def pd_row_def pd_route_def pd_env_def get_int_def get_str_def
        item_int_def py_item_def py_get_def py_or_def)
  moreover have "pool_lease (grant_lease pd_grant) = Inr (Some (''k'', ''A''))"
    by (simp add: pool_lease_def pd_grant_def lease_doc_def demo_lease_def item_str_def py_item_def)
  moreover have s: "own_authority (pd_world gs\<lparr>mail := b, readings := n\<rparr>) = None"
    "map_of (pending (provider_file (pd_world gs))) ''{'' = Some (''r'', demo_mail)" "grants (provider_file (pd_world gs)) = gs" for gs b n
    by (simp_all add: pd_world_def)
  moreover have "\<not> consumed pd_grant" by (simp add: pd_grant_def)
  ultimately have "\<exists>w'. or_else (acquire_remote (pd_env 200) ''{'' r pd_route [pd_row] payload) None
      (pd_world [(''r'', pd_grant)]\<lparr>mail := b, readings := n\<rparr>) = (Inr (Some (''k'', ''A'')), w')" for r payload b n
    by (intro delivered_grant) simp_all
  then show ?thesis
    unfolding acquire_chosen [OF pd_choose s(1) pd_request(3)] pd_fp by simp
qed

theorem grant_used_once_witness:
  "\<exists>w'. provider_run (pd_env 200) (pd_world [(''r'', pd_grant)]) [(''k'', ''A'')] w' \<and> (''k'', ''A'') \<in># spent_tokens w'"
proof -
  from pd_acquires obtain w' where
    "acquire (pd_env 200) pd_candidates ''quotes?x=1'' 1 (pd_world [(''r'', pd_grant)]) = (Inr (Some (''k'', ''A'')), w')" ..
  from run_acquire [OF run_start this] have r: "provider_run (pd_env 200) (pd_world [(''r'', pd_grant)]) [(''k'', ''A'')] w'" by simp
  have "own_authority (pd_world [(''r'', pd_grant)]) = None" by (simp add: pd_world_def)
  from grant_used_once [OF r this] have "mset [(''k'', ''A'')] \<subseteq># spent_tokens w'"
    by (rule subset_mset.dual_order.trans) simp
  then have "(''k'', ''A'') \<in># spent_tokens w'" by (rule mset_subset_eqD) simp
  with r show ?thesis by blast
qed

theorem provider_records_final_witness:
  "\<exists>w' g'. provider_run (pd_env 200) (pd_world [(''r'', pd_grant)]) [(''k'', ''A'')] w' \<and> map_of (grants (provider_file w')) ''r'' = Some g' \<and>
     grant_lease g' = lease_doc (demo_lease ''A'' 10)"
proof -
  from pd_acquires obtain w' where
    "acquire (pd_env 200) pd_candidates ''quotes?x=1'' 1 (pd_world [(''r'', pd_grant)]) = (Inr (Some (''k'', ''A'')), w')" ..
  from run_acquire [OF run_start this] have r: "provider_run (pd_env 200) (pd_world [(''r'', pd_grant)]) [(''k'', ''A'')] w'" by simp
  have "map_of (grants (provider_file (pd_world [(''r'', pd_grant)]))) ''r'' = Some pd_grant" by (simp add: pd_world_def)
  with provider_records_final [OF r] r show ?thesis by (fastforce simp: pd_grant_def)
qed

section \<open>An unknown lease\<close>

definition pd_poison :: pydict where
  "pd_poison = dict_set ''message_type'' (PStr ''CMC_LEASE_SETTLEMENT'') (dict_set ''payload'' (PDict [(''lease_id'', PStr ''lost'')]) demo_mail)"

lemma pd_poison_fields: "pd_poison = [(''sender'', PStr ''a''), (''recipient'', PStr ''b''), (''message_id'', PStr ''m''),
     (''message_type'', PStr ''CMC_LEASE_SETTLEMENT''), (''created_at'', PInt 10), (''expires_at'', PInt 100),
     (''payload'', PDict [(''lease_id'', PStr ''lost'')]), (''signer_id'', PStr ''a''),
     (''signing_key_id'', PStr ''ed25519:K''), (''signature_version'', PInt 1),
     (''signature_algorithm'', PStr ''Ed25519''), (''signature'', PStr demo_sig)]"
  by (simp add: pd_poison_def demo_mail_def)

lemma pd_poison_valid: "validate_message demo_crypto demo_members (Some 30) (PDict pd_poison) = Inr pd_poison"
proof -
  have "verify_operation demo_crypto pd_poison (demo_pk CHR ''K'') = Inr ()"
  proof (rule demo_verify)
    show "is_ok (validated_text (py_get pd_poison ''signer_id'') ''signer_id'')" unfolding pd_poison_fields by code_simp
  qed (simp_all add: pd_poison_fields demo_simps max_safe_integer_def)
  moreover have "length (json_dumps (PDict pd_poison)) \<le> max_message_bytes"
  proof -
    have "length (int_str 10) = 2" "length (int_str 100) = 3" "length (int_str 1) = 1" by code_simp+
    then have "json_bound (PDict pd_poison) \<le> 6000" using demo_sig_length by (simp add: pd_poison_fields)
    with json_dumps_bound [of "PDict pd_poison"] show ?thesis by (simp add: max_message_bytes_def del: json_dumps.simps json_bound.simps)
  qed
  moreover have "is_ok (validated_public_payload ''payload'' (PDict [(''lease_id'', PStr ''lost'')]))"
    "validate_message_type ''CMC_LEASE_SETTLEMENT'' = Inr ''CMC_LEASE_SETTLEMENT''" by code_simp+
  ultimately show ?thesis
    using demo_mail_checks(1-7,10,11)
    by (simp add: validate_message_def pd_poison_fields required_fields_def dict_has_def py_get_def get_str_def py_or_def
      res_bind_eq_Inr as_cmc_error_Inr del: json_dumps.simps)
qed

definition pd_box :: mailbox where
  "pd_box = \<lparr>mail_files = [(''m'', Json (PDict pd_poison))], ack_file = Some (Json (PDict []))\<rparr>"

lemma pd_message: "message_id pd_poison = ''m''" "message_expiry pd_poison = 100" "message_recipient pd_poison = ''b''"
  by (simp_all add: pd_poison_fields message_id_def message_expiry_def message_recipient_def py_get_def)

lemma pd_read: "read_message demo_crypto demo_members now (''m'', Json (PDict pd_poison)) = Inr pd_poison" if "now = None \<or> now = Some 30"
proof -
  have "validate_message demo_crypto demo_members now (PDict pd_poison) = Inr pd_poison"
    by (rule validate_message_time [OF pd_poison_valid]) (use that in \<open>auto simp: pd_message\<close>)
  from read_message_valid [OF this] show ?thesis by (simp add: pd_message)
qed

lemma pd_collect: "collect_mail demo_crypto demo_members 30 pd_box = (Inr (0, 0, 0), pd_box)"
proof -
  have "item_str pd_poison ''message_id'' = Inr ''m''" "item_int pd_poison ''expires_at'' = Inr 100" "item_str pd_poison ''recipient'' = Inr ''b''"
    by (simp_all add: pd_poison_fields item_str_def item_int_def py_item_def)
  then show ?thesis
    by (simp add: collect_mail_def pd_box_def read_acks_def write_acks_def collect_file_def pd_read ack_nodes_def)
qed

theorem unknown_settlement_stops_inbox_witness:
  "\<exists>w'. acquire (pd_env 30) pd_candidates ''quotes'' 1
       (pd_world [] \<lparr>mail := pd_box, own_authority := Some (demo_authority, empty_journal)\<rparr>) = (Inr None, w') \<and> mail w' = pd_box"
proof -
  let ?w = "pd_world [] \<lparr>mail := pd_box, own_authority := Some (demo_authority, empty_journal)\<rparr>"
  obtain item where item: "index_entry pd_poison = Inr item" "get_str item ''recipient'' = ''b''" "item_str item ''message_id'' = Inr ''m''"
    by (simp add: index_entry_def index_fields_def pd_poison_fields py_item_def get_str_def py_get_def py_or_def item_str_def)
  have i: "index_messages demo_crypto demo_members 30 30 pd_box = (Inr [item], pd_box)"
    using pd_collect item(1) by (simp add: index_messages_def pd_box_def) (simp add: pd_read)
  have "cmc_identifier (PStr ''m'') ''message_id'' = Inr ''m''" by code_simp
  then have g: "get_message demo_crypto demo_members 30 30 ''m'' pd_box = (Inr pd_poison, pd_box)"
    using pd_collect by (simp add: get_message_def) (simp add: pd_box_def pd_read)
  have f: "item_str pd_poison ''message_type'' = Inr ''CMC_LEASE_SETTLEMENT''"
    "py_item pd_poison ''payload'' = Inr (PDict [(''lease_id'', PStr ''lost'')])"
    by (simp_all add: pd_poison_fields item_str_def py_item_def)
  show ?thesis
    using unknown_settlement_stops_inbox [of ?w demo_authority empty_journal "pd_env 30" "?w\<lparr>readings := 1\<rparr>" "[]" item "[]" pd_box "''m''" pd_poison pd_box
      "[(''lease_id'', PStr ''lost'')]" pd_candidates "''quotes''" 1] item i g f pd_refresh [of 30 ?w]
    by (auto simp: pd_env_def pd_world_def empty_journal_def)
qed

end
