(* ===== verification/Spec2Isabelle.thy ===== *)
theory Spec2Isabelle
  imports Trust_Laws Instance_Laws Cluster_Payloads Credential_Laws Convergence_Laws Cmc_Laws Mailbox_Demo Task_Demo Prune_Demo Provider_Demo
begin

text \<open>
  PBGui runs trading bots on a cluster of hosts. This development models the parts of it that
  decide on their own: the replicated cluster state, the CoinMarketCap lease protocol and the
  job queue of the market-data worker.

  \<^bold>\<open>Cluster state\<close> (master/cluster_state.py, signatures from cluster_credentials.py). Every node
  appends signed operations to its own immutable files, exchanges files with its peers, and
  rebuilds one materialized state from all of them.
  \<^item> \<^verbatim>\<open>Cluster_Crypto\<close>: base64, canonical JSON, \<open>sign_operation\<close>, \<open>verify_operation\<close>.
  \<^item> \<^verbatim>\<open>Cluster_Validate\<close>, \<^verbatim>\<open>Cluster_Payloads\<close>: the payload validators, one definition per operation name.
  \<^item> \<^verbatim>\<open>Cluster_Trust\<close>: \<open>MembershipTrust\<close> and \<open>_accept_membership_operation\<close>; \<^verbatim>\<open>Trust_Laws\<close> shows who may
    change a role, that removal is final, and which key signs which sequence number.
  \<^item> \<^verbatim>\<open>Cluster_Instances\<close>: \<open>_apply_v7\<close>, \<open>_apply_pb8\<close>, \<open>_mark_conflicts\<close>; \<^verbatim>\<open>Instance_Laws\<close> shows that tombstones
    hold, conflicts are exact, and the two variants agree.
  \<^item> \<^verbatim>\<open>Cluster_Credentials\<close>, \<^verbatim>\<open>Cluster_Materialize\<close>: elections among generations and each section of
    \<open>_materialize_v2_credentials\<close>; \<^verbatim>\<open>Credential_Laws\<close> shows that winners depend on the set of operations only.
  \<^item> \<^verbatim>\<open>Cluster_Oplog\<close>, \<^verbatim>\<open>Cluster_History\<close>, \<^verbatim>\<open>Cluster_Rebuild\<close>: validation against the log, writing, appending,
    loading and rebuilding the log of a node without an active checkpoint (\<open>load_log_operations\<close>, \<open>load_log_trust\<close>, \<open>rebuild_log\<close>);
    the functions of the source with both branches, \<open>load_operations\<close>, \<open>load_node_trust\<close> and \<open>rebuild_materialized_state\<close>, are in
    \<^verbatim>\<open>Checkpoint_Tail\<close>. \<^verbatim>\<open>History_Laws\<close> and \<^verbatim>\<open>Load_Laws\<close> show that files are append-only and that the operations loaded from
    such a log are authenticated, \<^verbatim>\<open>Convergence_Laws\<close> that equal files give equal documents on both branches. \<^verbatim>\<open>Replay_Log\<close> is the contract
    (a locale) behind replaying a history twice; membership replay interprets it.

  \<^bold>\<open>Checkpoints\<close> (master/cluster_checkpoint.py). A checkpoint is a document with the materialized state at a state
  vector; the elected master proposes it, every active replica acknowledges it, and a node that activates it names it in
  one pointer file. \<^verbatim>\<open>Checkpoint_Seal\<close> models the retention policy and the migration seal, \<^verbatim>\<open>Cluster_Checkpoint\<close> the
  verification of the document, proposals and acknowledgements, \<^verbatim>\<open>Checkpoint_Commit\<close> commit proofs and the store of a
  node. \<^verbatim>\<open>Checkpoint_Facts\<close> and \<^verbatim>\<open>Checkpoint_Laws\<close> show that verified checkpoints are well-formed, that what a node reads
  as active was acknowledged by every active replica, and that activation only moves forward; \<^verbatim>\<open>Checkpoint_Rounds\<close> that a
  proposal verifies everywhere; \<^verbatim>\<open>Checkpoint_Demo\<close> applies them to a cluster of one master.
  \<^verbatim>\<open>Checkpoint_Tail\<close> models the operations above a checkpoint and what a node loads and rebuilds from both,
  \<^verbatim>\<open>Checkpoint_Prune\<close> the deletion of the log below one with its journal, candidate by candidate, so that a run may stop
  between two deletions. \<^verbatim>\<open>Prune_Laws\<close> shows that only old operations below the predecessor's baseline go and that the node
  rebuilds and loads the same before and after; \<^verbatim>\<open>Prune_Demo\<close> prunes the log of the master of \<^verbatim>\<open>Checkpoint_Demo\<close>.

  \<^bold>\<open>Lease protocol\<close> (cmc_leases.py). \<^verbatim>\<open>Cmc_Authority\<close> models the authority's journal: \<open>grant\<close>, \<open>settle\<close>, expiry and
  the daily and monthly accounting of quota domains. \<^verbatim>\<open>Cmc_Books\<close> and \<^verbatim>\<open>Cmc_Ops\<close> prove that every operation keeps
  the books balanced, \<^verbatim>\<open>Cmc_Laws\<close> the guarantees to the members; \<^verbatim>\<open>Bind_Once\<close> is the contract of operations that may
  be repeated, interpreted for settlements and provider events. \<^verbatim>\<open>Cluster_Mailbox\<close> models the store of signed messages
  between members, \<^verbatim>\<open>Mailbox_Laws\<close> and \<^verbatim>\<open>Mailbox_Demo\<close> its properties and their instances. \<^verbatim>\<open>Cmc_Errors\<close> holds the rules
  for code that raises only \<open>CmcLeaseError\<close>. \<^verbatim>\<open>Cmc_Provider\<close> models \<open>CmcLeaseProvider\<close>, the node that asks: its operations
  are actions on the mailbox, its record file, the authority of the same process and its routes, and keep what they changed when
  they raise. \<^verbatim>\<open>Provider_Laws\<close> shows, through a family of locales on what every operation may change, that a
  delivered lease is used once and that records are final, and how a request or an inbox can get stuck; \<^verbatim>\<open>Provider_Demo\<close> has the
  instances.

  \<^bold>\<open>Job queue\<close> (task_queue.py, task_worker.py). \<^verbatim>\<open>Task_Queue\<close> models the four job directories and every queue operation,
  \<^verbatim>\<open>Task_Worker\<close> the recovery of abandoned jobs, the scheduling pass and the transitions of a run. The code of the worker holds
  the lock of the queue only for single recoveries, updates and moves; \<open>worker_pass\<close>, \<open>start_pending_job\<close>, \<open>begin_run\<close>, \<open>fail_run\<close> and
  \<open>end_run\<close> are what they do undisturbed, so \<^verbatim>\<open>Task_Slots\<close> and the cancellation property speak of undisturbed passes and
  runs. \<^verbatim>\<open>Task_Laws\<close> shows that the directories implement a map of jobs, and that no job is lost however the sections of all
  processes interleave; \<^verbatim>\<open>Task_Demo\<close> has cancellation, deduplication and instances.

  \<^bold>\<open>Conventions\<close>. JSON documents are \<open>pyval\<close> (\<^verbatim>\<open>Py_Value\<close>), Python dictionaries association lists in insertion order,
  Python's string functions are in \<^verbatim>\<open>Py_Text\<close>; a text is a list of characters up to U+00FF. A function that may raise
  returns \<open>pyexc + 'a\<close> (\<^verbatim>\<open>Pb_Prelude\<close>). Clock readings, random identifiers, SHA-256, Ed25519 and the process table are
  arguments. An operation under a lock is one function of the state. A file that is no JSON and a file that is no UTF-8 are
  different values (\<open>json_file\<close>), because the code catches the exception of the first only. No definition uses fuel: every loop is structural
  or has a measure. An operation of the cluster store that raises returns no store, although a membership
  operation that \<open>append_operation\<close> published before stays on disk.

  \<^bold>\<open>Not modelled\<close>. Floating-point numbers, also those a JSON text may hold (signed documents reject them; credit amounts enter
  as integers; a creation time 1e999 makes the mailbox raise OverflowError), texts with surrogates that UTF-8 cannot encode, \<open>dict()\<close> of a
  list of pairs (\<open>py_dict\<close> raises there), file permissions, symbolic links, paths that leave their directory and failing
  deletions (the checks and exceptions of \<open>prune_operation_history\<close> for these are left out of \<open>prune_loop\<close>), a membership that cannot be
  read (the mailbox takes it as an argument), building a checkpoint from the log, key generation and the encryption of secrets, the upgrade of
  version 1 journals, threads and the work of the worker's jobs, and the parts of the repository that are
  network, process or user-interface code; the manifest lists them with reasons.
\<close>

end
